(* ===== verification/Py_Prelude.thy ===== *)
theory Py_Prelude
  imports Main "HOL-Library.Sublist"
begin

text \<open>
  Shared vocabulary of the development: Python 3 strings as lists of Unicode code points,
  the \<open>str\<close> methods the program calls (\<open>strip\<close>, \<open>lower\<close>, \<open>split\<close>, \<open>join\<close>,
  \<open>startswith\<close>, the \<open>in\<close> operator), and the lemmas about them that the component
  theories share. The collection \<open>pystr_simps\<close> gathers the equations that evaluate these
  operations on concrete strings, so witnesses can be closed by \<open>simp add: pystr_simps\<close>.
\<close>

named_theorems pystr_simps "equations evaluating the Python string operations on literals"

type_synonym uchar = nat
type_synonym pystr = "uchar list"

text \<open>An ASCII literal as a Python string: each byte is its own code point.\<close>

definition asc :: "string \<Rightarrow> pystr" where
  "asc s = map of_char s"

text \<open>
  \<open>str.isspace\<close> on one code point: the characters with bidirectional class WS, B or S or
  general category Zs, the fixed set Python 3 strips.
\<close>

definition py_isspace :: "uchar \<Rightarrow> bool" where
  "py_isspace c \<longleftrightarrow>
     (9 \<le> c \<and> c \<le> 13) \<or> (28 \<le> c \<and> c \<le> 32) \<or> c = 0x85 \<or> c = 0xA0 \<or> c = 0x1680 \<or>
     (0x2000 \<le> c \<and> c \<le> 0x200A) \<or> c = 0x2028 \<or> c = 0x2029 \<or> c = 0x202F \<or>
     c = 0x205F \<or> c = 0x3000"

definition py_lstrip :: "pystr \<Rightarrow> pystr" where
  "py_lstrip s = dropWhile py_isspace s"

definition py_rstrip :: "pystr \<Rightarrow> pystr" where
  "py_rstrip s = rev (dropWhile py_isspace (rev s))"

definition py_strip :: "pystr \<Rightarrow> pystr" where
  "py_strip s = py_rstrip (py_lstrip s)"

text \<open>
  \<open>str.lower\<close> on the characters the program compares: ASCII capitals are mapped to small
  letters, every other code point is kept. The strings compared after \<open>lower()\<close> are
  ASCII words and Japanese words, whose membership tests this mapping decides exactly as
  Python's full case mapping does.
\<close>

definition py_lower_char :: "uchar \<Rightarrow> uchar" where
  "py_lower_char c = (if 65 \<le> c \<and> c \<le> 90 then c + 32 else c)"

definition py_lower :: "pystr \<Rightarrow> pystr" where
  "py_lower s = map py_lower_char s"

text \<open>\<open>needle in hay\<close> for strings is substring search; \<open>s.startswith(p)\<close> is prefix.\<close>

definition py_in :: "pystr \<Rightarrow> pystr \<Rightarrow> bool" where
  "py_in needle hay \<longleftrightarrow> sublist needle hay"

definition py_startswith :: "pystr \<Rightarrow> pystr \<Rightarrow> bool" where
  "py_startswith s p \<longleftrightarrow> prefix p s"

text \<open>
  \<open>s.split(sep)\<close> for a non-empty separator scans left to right, cutting at each
  occurrence of \<open>sep\<close> that does not overlap the previous one. \<open>acc\<close> is the current
  piece, reversed. Python raises \<open>ValueError\<close> for an empty separator; every call of the
  program passes a non-empty literal, and the empty separator is mapped to the unsplit string.
\<close>

fun split_acc :: "pystr \<Rightarrow> pystr \<Rightarrow> pystr \<Rightarrow> pystr list" where
  "split_acc sep acc [] = [rev acc]"
| "split_acc sep acc (c # cs) =
     (if sep \<noteq> [] \<and> prefix sep (c # cs)
      then rev acc # split_acc sep [] (drop (length sep - 1) cs)
      else split_acc sep (c # acc) cs)"

definition py_split :: "pystr \<Rightarrow> pystr \<Rightarrow> pystr list" where
  "py_split s sep = split_acc sep [] s"

text \<open>\<open>sep.join(xs)\<close>.\<close>

fun py_join :: "pystr \<Rightarrow> pystr list \<Rightarrow> pystr" where
  "py_join sep [] = []"
| "py_join sep [x] = x"
| "py_join sep (x # y # zs) = x @ sep @ py_join sep (y # zs)"

text \<open>The newline character, the separator of lines.\<close>

definition nl :: pystr where
  "nl = [10]"

text \<open>
  The Unicode character database as the regular-expression engine and \<open>repr\<close> consult it:
  \<open>\w\<close> (alphanumeric or underscore), \<open>\d\<close> (decimal digit), \<open>str.isprintable\<close>, and
  the characters \<open>re.IGNORECASE\<close> treats as case variants of a character. The table is a
  parameter of the model; \<open>ucd_ok\<close> states the facts about ASCII punctuation that the
  proofs use, which CPython's table satisfies.
\<close>

record ucd =
  ucd_word :: "uchar \<Rightarrow> bool"
  ucd_digit :: "uchar \<Rightarrow> bool"
  ucd_printable :: "uchar \<Rightarrow> bool"
  ucd_casevar :: "uchar \<Rightarrow> uchar list"

text \<open>Decimal digits of a natural number, most significant first.\<close>

fun dec_digits :: "nat \<Rightarrow> pystr" where
  "dec_digits n = (if n < 10 then [48 + n] else dec_digits (n div 10) @ [48 + n mod 10])"

declare dec_digits.simps [simp del]

text \<open>\<open>str(i)\<close> for a Python \<open>int\<close>.\<close>

definition py_str_int :: "int \<Rightarrow> pystr" where
  "py_str_int i = (if i < 0 then 45 # dec_digits (nat (- i)) else dec_digits (nat i))"

subsection \<open>Evaluation on literals\<close>

lemma asc_simps [pystr_simps]:
  "asc [] = []" "asc (c # s) = of_char c # asc s"
  by (simp_all add: asc_def)

lemma sublist_eval [pystr_simps]:
  "sublist [] ys = True"
  "sublist (x # xs) [] = False"
  "sublist (x # xs) (y # ys) = (prefix (x # xs) (y # ys) \<or> sublist (x # xs) ys)"
  by (simp_all add: sublist_code)

lemmas prefix_eval [pystr_simps] = prefix_code

declare py_in_def [pystr_simps] py_startswith_def [pystr_simps] py_split_def [pystr_simps]
  py_strip_def [pystr_simps] py_lstrip_def [pystr_simps] py_rstrip_def [pystr_simps]
  py_isspace_def [pystr_simps] py_lower_def [pystr_simps] py_lower_char_def [pystr_simps]
  nl_def [pystr_simps]

subsection \<open>Strip\<close>

lemma py_isspace_ascii_letter: "97 \<le> c \<and> c \<le> 122 \<Longrightarrow> \<not> py_isspace c"
  by (simp add: py_isspace_def)

lemma py_strip_id:
  assumes "t = [] \<or> \<not> py_isspace (hd t) \<and> \<not> py_isspace (last t)"
  shows "py_strip t = t"
proof (cases "t = []")
  case False
  with assms have "dropWhile py_isspace t = t"
    by (simp add: dropWhile_eq_self_iff)
  moreover from False assms have "dropWhile py_isspace (rev t) = rev t"
    by (simp add: dropWhile_eq_self_iff hd_rev)
  ultimately show ?thesis
    by (simp add: py_strip_def py_rstrip_def py_lstrip_def)
qed (simp add: py_strip_def py_rstrip_def py_lstrip_def)

lemma py_strip_ends:
  "py_strip s = [] \<or> \<not> py_isspace (hd (py_strip s)) \<and> \<not> py_isspace (last (py_strip s))"
proof -
  let ?d1 = "dropWhile py_isspace s"
  let ?d2 = "dropWhile py_isspace (rev ?d1)"
  have r: "py_strip s = rev ?d2"
    by (simp add: py_strip_def py_rstrip_def py_lstrip_def)
  show ?thesis
  proof (cases "?d2 = []")
    case True
    then show ?thesis using r by simp
  next
    case False
    then have "\<not> py_isspace (hd ?d2)" by (rule hd_dropWhile)
    with False have l: "\<not> py_isspace (last (rev ?d2))" by (simp add: last_rev)
    have "suffix ?d2 (rev ?d1)" by (rule suffix_dropWhile)
    with False have "last ?d2 = last (rev ?d1)"
      by (metis last_appendR suffix_def)
    moreover from False have "?d1 \<noteq> []" by (metis dropWhile.simps(1) rev.simps(1))
    then have "\<not> py_isspace (hd ?d1)" by (rule hd_dropWhile)
    ultimately have "\<not> py_isspace (hd (rev ?d2))"
      using False by (simp add: hd_rev last_rev)
    with l r show ?thesis by simp
  qed
qed

lemma py_strip_idem [simp]: "py_strip (py_strip s) = py_strip s"
  by (rule py_strip_id [OF py_strip_ends])

lemma py_strip_Nil [simp]: "py_strip [] = []"
  by (simp add: py_strip_def py_rstrip_def py_lstrip_def)

lemma dropWhile_all_iff: "(\<forall>c\<in>set (dropWhile P s). P c) \<longleftrightarrow> dropWhile P s = []"
proof
  assume all: "\<forall>c\<in>set (dropWhile P s). P c"
  show "dropWhile P s = []"
  proof (rule ccontr)
    assume ne: "dropWhile P s \<noteq> []"
    then have "\<not> P (hd (dropWhile P s))" by (rule hd_dropWhile)
    moreover from ne have "hd (dropWhile P s) \<in> set (dropWhile P s)" by simp
    ultimately show False using all by blast
  qed
qed (auto dest: set_dropWhileD)

lemma set_dropWhile_subset: "set (dropWhile P xs) \<subseteq> set xs"
  by (auto dest: set_dropWhileD)

lemma py_strip_eq_Nil: "py_strip s = [] \<longleftrightarrow> (\<forall>c\<in>set s. py_isspace c)"
proof -
  let ?d = "dropWhile py_isspace s"
  have "py_strip s = [] \<longleftrightarrow> (\<forall>c\<in>set ?d. py_isspace c)"
    by (simp add: py_strip_def py_rstrip_def py_lstrip_def dropWhile_eq_Nil_conv)
  also have "\<dots> \<longleftrightarrow> ?d = []"
    by (rule dropWhile_all_iff)
  finally show ?thesis
    by (simp add: dropWhile_eq_Nil_conv)
qed

lemma set_py_strip: "set (py_strip s) \<subseteq> set s"
  using set_dropWhile_subset unfolding py_strip_def py_rstrip_def py_lstrip_def
  by (metis order_trans set_rev)

lemma sublist_py_strip: "sublist (py_strip s) s"
proof -
  have "suffix (dropWhile py_isspace s) s"
    by (metis suffix_dropWhile)
  moreover have "prefix (rev (dropWhile py_isspace (rev t))) t" for t :: pystr
    by (metis prefix_def rev_append rev_rev_ident takeWhile_dropWhile_id)
  ultimately show ?thesis
    by (metis py_lstrip_def py_rstrip_def py_strip_def sublist_order.dual_order.trans
        prefix_imp_sublist suffix_imp_sublist)
qed

subsection \<open>Split and join\<close>

lemma split_acc_nonempty [simp]: "split_acc sep acc s \<noteq> []"
  by (induction sep acc s rule: split_acc.induct) auto

lemma py_join_Cons: "ys \<noteq> [] \<Longrightarrow> py_join sep (x # ys) = x @ sep @ py_join sep ys"
  by (cases ys) auto

lemma prefix_sep_drop:
  assumes "sep \<noteq> []" and "prefix sep (c # cs)"
  shows "sep @ drop (length sep - 1) cs = c # cs"
proof -
  from assms(2) obtain zs where zs: "c # cs = sep @ zs"
    by (auto simp: prefix_def)
  with assms(1) show ?thesis
    by (cases sep) auto
qed

lemma join_split_acc: "py_join sep (split_acc sep acc s) = rev acc @ s"
proof (induction sep acc s rule: split_acc.induct)
  case (1 sep acc)
  show ?case by simp
next
  case (2 sep acc c cs)
  show ?case
  proof (cases "sep \<noteq> [] \<and> prefix sep (c # cs)")
    case True
    have "py_join sep (split_acc sep acc (c # cs)) =
          rev acc @ sep @ py_join sep (split_acc sep [] (drop (length sep - 1) cs))"
      using True by (simp add: py_join_Cons)
    also have "\<dots> = rev acc @ sep @ drop (length sep - 1) cs"
      using True "2.IH"(1) by simp
    also have "\<dots> = rev acc @ c # cs"
    proof -
      from True have a: "sep \<noteq> []" and b: "prefix sep (c # cs)" by simp_all
      show ?thesis by (simp only: prefix_sep_drop [OF a b])
    qed
    finally show ?thesis .
  next
    case False
    then have "split_acc sep acc (c # cs) = split_acc sep (c # acc) cs"
      by (simp only: split_acc.simps(2) if_not_P if_False)
    moreover have "py_join sep (split_acc sep (c # acc) cs) = rev (c # acc) @ cs"
      using False by (rule "2.IH"(2))
    ultimately show ?thesis by simp
  qed
qed

theorem py_join_split: "py_join sep (py_split s sep) = s"
  by (simp add: py_split_def join_split_acc)

lemma split_acc_no_sep: "\<not> sublist sep s \<Longrightarrow> split_acc sep acc s = [rev acc @ s]"
  by (induction sep acc s rule: split_acc.induct) (auto simp: sublist_Cons_right)

lemma prefix_append_short: "prefix xs (ys @ zs) \<Longrightarrow> length xs \<le> length ys \<Longrightarrow> prefix xs ys"
  by (auto simp: prefix_append)

lemma split_acc_at_sep:
  assumes sep: "sep \<noteq> []" and nos: "\<not> sublist sep (x @ butlast sep)"
  shows "split_acc sep acc (x @ sep @ rest) = (rev acc @ x) # split_acc sep [] rest"
  using nos
proof (induction x arbitrary: acc)
  case Nil
  from sep obtain c sep' where "sep = c # sep'" by (cases sep) auto
  then show ?case by simp
next
  case (Cons c x)
  have split_sep: "sep = butlast sep @ [last sep]"
    using sep by simp
  have "\<not> prefix sep ((c # x) @ sep @ rest)"
  proof
    assume "prefix sep ((c # x) @ sep @ rest)"
    then have "prefix sep (((c # x) @ butlast sep) @ last sep # rest)"
      by (metis append.assoc append_Cons append_Nil split_sep)
    moreover have "length sep \<le> length ((c # x) @ butlast sep)"
      by simp
    ultimately have "prefix sep ((c # x) @ butlast sep)"
      by (rule prefix_append_short)
    then show False
      using Cons.prems by (simp add: prefix_imp_sublist)
  qed
  moreover have "\<not> sublist sep (x @ butlast sep)"
    using Cons.prems by (metis append_Cons sublist_Cons_right)
  ultimately show ?case
    using Cons.IH by simp
qed

theorem py_split_join:
  assumes "sep \<noteq> []" and "xs \<noteq> []"
    and "\<forall>x\<in>set (butlast xs). \<not> sublist sep (x @ butlast sep)"
    and "\<not> sublist sep (last xs)"
  shows "py_split (py_join sep xs) sep = xs"
  using assms unfolding py_split_def
proof (induction sep xs rule: py_join.induct)
  case (2 sep x)
  then show ?case by (simp add: split_acc_no_sep)
next
  case (3 sep x y zs)
  then show ?case by (simp add: split_acc_at_sep)
qed simp_all

lemma sublist_drop_prefix: "sublist xs ys \<longleftrightarrow> (\<exists>j\<le>length ys. prefix xs (drop j ys))"
proof
  assume "sublist xs ys"
  then obtain a b where "ys = a @ xs @ b" by (auto simp: sublist_def)
  then show "\<exists>j\<le>length ys. prefix xs (drop j ys)"
    by (intro exI [of _ "length a"]) simp
next
  assume "\<exists>j\<le>length ys. prefix xs (drop j ys)"
  then obtain j where "prefix xs (drop j ys)" by blast
  then show "sublist xs ys"
    by (metis prefix_imp_sublist sublist_order.dual_order.trans suffix_drop suffix_imp_sublist)
qed

lemma sublist_at:
  assumes "sublist xs ys" and "xs \<noteq> []"
  shows "\<exists>j<length ys. prefix xs (drop j ys @ t)"
proof -
  from assms(1) obtain j where j: "j \<le> length ys" and p: "prefix xs (drop j ys)"
    by (auto simp: sublist_drop_prefix)
  from p assms(2) have "j \<noteq> length ys"
    by auto
  with j have "j < length ys" by simp
  moreover from p have "prefix xs (drop j ys @ t)"
    by (simp add: prefix_append)
  ultimately show ?thesis by blast
qed

lemma split_acc_pieces:
  assumes "sep \<noteq> []" and "\<forall>j<length acc. \<not> prefix sep (drop j (rev acc) @ s)"
  shows "\<forall>p\<in>set (split_acc sep acc s). \<not> sublist sep p"
  using assms
proof (induction sep acc s rule: split_acc.induct)
  case (1 sep acc)
  have "\<not> sublist sep (rev acc)"
  proof
    assume "sublist sep (rev acc)"
    then obtain j where "j < length (rev acc)" and "prefix sep (drop j (rev acc) @ [])"
      using sublist_at [OF _ "1.prems"(1)] by blast
    with "1.prems"(2) show False by simp
  qed
  then show ?case by simp
next
  case (2 sep acc c cs)
  show ?case
  proof (cases "prefix sep (c # cs)")
    case True
    have "\<not> sublist sep (rev acc)"
    proof
      assume "sublist sep (rev acc)"
      then obtain j where "j < length (rev acc)" and "prefix sep (drop j (rev acc) @ c # cs)"
        using sublist_at [OF _ "2.prems"(1)] by blast
      with "2.prems"(2) show False by simp
    qed
    then show ?thesis
      using True "2.prems"(1) "2.IH"(1) by simp
  next
    case False
    have "\<forall>j<length (c # acc). \<not> prefix sep (drop j (rev (c # acc)) @ cs)"
    proof (intro allI impI)
      fix j
      assume "j < length (c # acc)"
      then consider "j < length acc" | "j = length acc" by fastforce
      then show "\<not> prefix sep (drop j (rev (c # acc)) @ cs)"
      proof cases
        case 1
        then show ?thesis using "2.prems"(2) by simp
      next
        case 2
        then show ?thesis using False by simp
      qed
    qed
    then show ?thesis
      using False "2.prems"(1) "2.IH"(2) by simp
  qed
qed

theorem py_split_pieces: "sep \<noteq> [] \<Longrightarrow> p \<in> set (py_split s sep) \<Longrightarrow> \<not> sublist sep p"
  using split_acc_pieces [of sep "[]" s] by (simp add: py_split_def)

lemma sublist_appendL: "sublist x z \<Longrightarrow> sublist x (a @ z)"
  by (auto simp: sublist_def) (metis append.assoc)

lemma sublist_py_join: "x \<in> set xs \<Longrightarrow> sublist x (py_join sep xs)"
proof (induction sep xs rule: py_join.induct)
  case (3 sep a b zs)
  show ?case
  proof (cases "x = a")
    case False
    with "3" have "sublist x (py_join sep (b # zs))" by simp
    then have "sublist x ((a @ sep) @ py_join sep (b # zs))" by (rule sublist_appendL)
    then show ?thesis by simp
  qed simp
qed simp_all

lemma sublist_across:
  assumes "c \<notin> set u" and "sublist u (x @ c # y)"
  shows "sublist u x \<or> sublist u y"
proof (cases "u = []")
  case False
  from assms(2) consider "sublist u x" | "sublist u (c # y)"
    | u1 u2 where "u = u1 @ u2" "suffix u1 x" "prefix u2 (c # y)"
    by (auto simp: sublist_append)
  then show ?thesis
  proof cases
    case 2
    with False assms(1) show ?thesis
      by (auto simp: sublist_Cons_right prefix_Cons neq_Nil_conv)
  next
    case 3
    with assms(1) show ?thesis
      by (cases u2) (auto simp: prefix_Cons suffix_imp_sublist)
  qed simp
qed simp

theorem no_sublist_join:
  assumes "c \<notin> set u" and "\<forall>x\<in>set xs. \<not> sublist u x" and "u \<noteq> []"
  shows "\<not> sublist u (py_join [c] xs)"
  using assms(2)
proof (induction xs rule: induct_list012)
  case (3 x y zs)
  show ?case
  proof
    assume "sublist u (py_join [c] (x # y # zs))"
    then have "sublist u (x @ c # py_join [c] (y # zs))" by simp
    then have "sublist u x \<or> sublist u (py_join [c] (y # zs))"
      by (rule sublist_across [OF assms(1)])
    with "3.IH"(2) "3.prems" show False by simp
  qed
qed (use assms(3) in simp_all)

text \<open>A congruence rule for evaluating \<open>map\<close> on a concrete list without first rewriting the
  mapped function symbolically.\<close>

lemma map_cong_eval: "xs = ys \<Longrightarrow> map f xs = map f ys"
  by simp

end
