(* ===== verification/Segmenter.thy ===== *)
theory Segmenter
  imports Py_Prelude
begin

text \<open>
  The response segmenter, \<open>split_response_into_chunks\<close> of
  \<open>src/lambda_deployment/temp_v17/lambda_function.py\<close>: the generated answer is cut at the
  section delimiter \<open>---\<close>, each piece is stripped, lines that start with the section label
  (U+3010 and the katakana word for "section") are removed, and empty pieces are dropped; when
  nothing survives, or when the text holds no delimiter, the whole stripped text is the one
  chunk. The lemmas show the output is never empty, every chunk is stripped, chunks cut at
  delimiters hold no delimiter, and joining well-formed chunks with the delimiter and segmenting
  again gives the chunks back.
\<close>

definition section_delim :: pystr where
  "section_delim = asc ''---''"

text \<open>The label prefix of the source, as code points: U+3010 U+30BB U+30AF U+30B7 U+30E7 U+30F3.\<close>

definition section_label :: pystr where
  "section_label = [0x3010, 0x30BB, 0x30AF, 0x30B7, 0x30E7, 0x30F3]"

definition is_label_line :: "pystr \<Rightarrow> bool" where
  "is_label_line line \<longleftrightarrow> py_startswith (py_strip line) section_label"

definition clean_chunk :: "pystr \<Rightarrow> pystr" where
  "clean_chunk chunk =
     py_strip (py_join nl [line \<leftarrow> py_split chunk nl. \<not> is_label_line line])"

definition split_response_into_chunks :: "pystr \<Rightarrow> pystr list" where
  "split_response_into_chunks response_text =
     (if py_in section_delim response_text then
        (let chunks = [py_strip chunk. chunk \<leftarrow> py_split response_text section_delim,
                                        py_strip chunk \<noteq> []];
             cleaned_chunks = [c \<leftarrow> map clean_chunk chunks. c \<noteq> []]
         in if cleaned_chunks \<noteq> [] then cleaned_chunks else [py_strip response_text])
      else [py_strip response_text])"

text \<open>A chunk that survives segmentation unchanged.\<close>

definition chunk_ok :: "pystr \<Rightarrow> bool" where
  "chunk_ok c \<longleftrightarrow>
     c \<noteq> [] \<and> py_strip c = c \<and> \<not> sublist section_delim (c @ asc ''--'') \<and>
     (\<forall>line\<in>set (py_split c nl). \<not> is_label_line line)"

subsection \<open>Shared facts\<close>

lemma section_delim_ne [simp]: "section_delim \<noteq> []"
  by (simp add: section_delim_def asc_def)

lemma nl_not_in_delim [simp]: "10 \<notin> set section_delim"
  by (simp add: section_delim_def asc_def)

lemma butlast_section_delim: "butlast section_delim = asc ''--''"
  by (simp add: section_delim_def asc_def)

lemma no_sublist_strip: "\<not> sublist u s \<Longrightarrow> \<not> sublist u (py_strip s)"
  using sublist_py_strip sublist_order.dual_order.trans by blast

lemma sublist_split_piece: "p \<in> set (py_split s sep) \<Longrightarrow> sublist p s"
  by (metis py_join_split sublist_py_join)

text \<open>Stripping keeps every occurrence of a string without whitespace.\<close>

lemma sublist_dropWhile:
  assumes "sublist u s" "u \<noteq> []" "\<not> P (hd u)"
  shows "sublist u (dropWhile P s)"
proof -
  from assms(1) obtain a b where s: "s = a @ u @ b" by (auto simp: sublist_def)
  from assms(2,3) have "dropWhile P (u @ b) = u @ b" by (cases u) simp_all
  then show ?thesis
    by (auto simp: s dropWhile_append)
qed

lemma sublist_py_strip_keep:
  assumes "sublist u s" "\<forall>c\<in>set u. \<not> py_isspace c" "u \<noteq> []"
  shows "sublist u (py_strip s)"
proof -
  have "sublist u (dropWhile py_isspace s)"
    using assms by (intro sublist_dropWhile) auto
  then have "sublist (rev u) (dropWhile py_isspace (rev (dropWhile py_isspace s)))"
    using assms by (intro sublist_dropWhile) (auto simp: hd_rev)
  then show ?thesis
    by (metis py_lstrip_def py_rstrip_def py_strip_def rev_rev_ident sublist_rev)
qed

lemma clean_chunk_stripped [simp]: "py_strip (clean_chunk c) = clean_chunk c"
  by (simp add: clean_chunk_def)

text \<open>Cleaning keeps a chunk free of the delimiter: its lines are pieces of it, and the newline
  that joins them is not a character of the delimiter.\<close>

lemma clean_chunk_no_delim:
  assumes "\<not> sublist section_delim c"
  shows "\<not> sublist section_delim (clean_chunk c)"
proof -
  have "\<forall>l\<in>set [line \<leftarrow> py_split c nl. \<not> is_label_line line]. \<not> sublist section_delim l"
  proof
    fix l
    assume "l \<in> set [line \<leftarrow> py_split c nl. \<not> is_label_line line]"
    then have "sublist l c" by (auto intro: sublist_split_piece)
    then show "\<not> sublist section_delim l"
      using assms sublist_order.dual_order.trans by blast
  qed
  then have "\<not> sublist section_delim (py_join [10] [line \<leftarrow> py_split c nl. \<not> is_label_line line])"
    by (intro no_sublist_join) simp_all
  then show ?thesis
    by (simp add: clean_chunk_def nl_def no_sublist_strip)
qed

lemma clean_chunk_ok: "chunk_ok c \<Longrightarrow> clean_chunk c = c"
  by (simp add: chunk_ok_def clean_chunk_def py_join_split)

lemma split_response_cases:
  "split_response_into_chunks t = [py_strip t] \<or>
   (py_in section_delim t \<and> split_response_into_chunks t =
      [c \<leftarrow> map clean_chunk [py_strip p. p \<leftarrow> py_split t section_delim, py_strip p \<noteq> []]. c \<noteq> []])"
  by (auto simp: split_response_into_chunks_def Let_def)

lemma chunks_ok_identity:
  "\<forall>c\<in>set cs. chunk_ok c \<Longrightarrow>
   [c \<leftarrow> map clean_chunk [py_strip p. p \<leftarrow> cs, py_strip p \<noteq> []]. c \<noteq> []] = cs"
proof (induction cs)
  case (Cons a cs)
  then have ok: "chunk_ok a" by simp
  then have "py_strip a = a" and "a \<noteq> []" by (simp_all add: chunk_ok_def)
  with ok Cons show ?case by (simp add: clean_chunk_ok)
qed simp

lemma chunk_ok_no_delim: "chunk_ok c \<Longrightarrow> \<not> sublist section_delim c"
  unfolding chunk_ok_def by (meson sublist_append_rightI sublist_order.dual_order.trans)

subsection \<open>Properties of the segmenter\<close>

text \<open>The segmenter is total and never returns an empty list of chunks.\<close>

theorem segment_nonempty: "split_response_into_chunks t \<noteq> []"
  by (auto simp: split_response_into_chunks_def Let_def)

lemmas segment_eval = split_response_into_chunks_def clean_chunk_def is_label_line_def
  section_label_def section_delim_def Let_def

text \<open>Every chunk is stripped: it neither starts nor ends with Python whitespace.\<close>

theorem segment_chunks_stripped: "\<forall>c\<in>set (split_response_into_chunks t). py_strip c = c"
  by (auto simp: split_response_into_chunks_def Let_def)

theorem segment_chunks_stripped_witness:
  "split_response_into_chunks (asc '' A --- B '') = [asc ''A'', asc ''B''] \<and>
   py_strip (asc ''A'') = asc ''A'' \<and> py_strip (asc ''B'') = asc ''B''"
proof -
  have e: "split_response_into_chunks (asc '' A --- B '') = [asc ''A'', asc ''B'']"
    by (simp add: segment_eval pystr_simps)
  from segment_chunks_stripped [of "asc '' A --- B ''"] e
  have "py_strip (asc ''A'') = asc ''A''" and "py_strip (asc ''B'') = asc ''B''"
    by auto
  with e show ?thesis by blast
qed

text \<open>For input that is not all whitespace, no chunk is empty.\<close>

theorem segment_chunks_nonempty:
  "py_strip t \<noteq> [] \<Longrightarrow> \<forall>c\<in>set (split_response_into_chunks t). c \<noteq> []"
  by (auto simp: split_response_into_chunks_def Let_def)

theorem segment_chunks_nonempty_witness:
  "py_strip (asc ''A---'') \<noteq> [] \<and> split_response_into_chunks (asc ''A---'') = [asc ''A''] \<and>
   asc ''A'' \<noteq> []"
proof -
  have ne: "py_strip (asc ''A---'') \<noteq> []" by (simp add: pystr_simps)
  have e: "split_response_into_chunks (asc ''A---'') = [asc ''A'']"
    by (simp add: segment_eval pystr_simps)
  from segment_chunks_nonempty [OF ne] e have "asc ''A'' \<noteq> []"
    by auto
  with ne e show ?thesis by blast
qed

text \<open>C25: Unless the segmenter fell back to the whole text, no chunk contains the delimiter
  \<open>---\<close>.\<close>

theorem segment_chunks_no_delim:
  assumes "split_response_into_chunks t \<noteq> [py_strip t]"
  shows "\<forall>c\<in>set (split_response_into_chunks t). \<not> py_in section_delim c"
proof -
  from assms split_response_cases [of t] have eq: "split_response_into_chunks t =
      [c \<leftarrow> map clean_chunk [py_strip p. p \<leftarrow> py_split t section_delim, py_strip p \<noteq> []]. c \<noteq> []]"
    by auto
  have "\<forall>p\<in>set (py_split t section_delim). \<not> sublist section_delim (py_strip p)"
    using py_split_pieces no_sublist_strip section_delim_ne by blast
  then show ?thesis
    unfolding eq py_in_def by (auto simp: clean_chunk_no_delim)
qed

theorem segment_chunks_no_delim_witness:
  "split_response_into_chunks (asc ''A---B'') = [asc ''A'', asc ''B''] \<and>
   split_response_into_chunks (asc ''A---B'') \<noteq> [py_strip (asc ''A---B'')] \<and>
   \<not> py_in section_delim (asc ''A'') \<and> \<not> py_in section_delim (asc ''B'')"
proof -
  have r: "split_response_into_chunks (asc ''A---B'') = [asc ''A'', asc ''B'']"
    by (simp add: segment_eval pystr_simps)
  have ne: "split_response_into_chunks (asc ''A---B'') \<noteq> [py_strip (asc ''A---B'')]"
    by (simp only: r) (simp add: pystr_simps)
  from segment_chunks_no_delim [OF ne] r
  have "\<not> py_in section_delim (asc ''A'')" and "\<not> py_in section_delim (asc ''B'')"
    by auto
  with r ne show ?thesis by blast
qed

text \<open>C9: Joining well-formed chunks (non-empty, stripped, no delimiter, not ending in \<open>-\<close>, no
  label line) with \<open>---\<close> and segmenting the result gives the same chunks back, in order.\<close>

theorem segment_roundtrip:
  assumes "cs \<noteq> []" and "\<forall>c\<in>set cs. chunk_ok c"
  shows "split_response_into_chunks (py_join section_delim cs) = cs"
proof (cases "tl cs = []")
  case True
  with assms(1) obtain c where cs: "cs = [c]" by (cases cs) auto
  with assms(2) have "chunk_ok c" by simp
  then have "\<not> py_in section_delim c" and "py_strip c = c"
    by (simp_all add: py_in_def chunk_ok_no_delim, simp add: chunk_ok_def)
  then show ?thesis
    by (simp add: cs split_response_into_chunks_def)
next
  case False
  with assms(1) obtain c d ds where cs: "cs = c # d # ds"
    by (metis list.collapse)
  then have "py_in section_delim (py_join section_delim cs)"
    by (simp add: py_in_def)
  moreover have "py_split (py_join section_delim cs) section_delim = cs"
  proof (rule py_split_join)
    show "\<forall>x\<in>set (butlast cs). \<not> sublist section_delim (x @ butlast section_delim)"
      using assms(2) by (auto simp: chunk_ok_def butlast_section_delim dest: in_set_butlastD)
    show "\<not> sublist section_delim (last cs)"
      using assms chunk_ok_no_delim by simp
  qed (use assms(1) in simp_all)
  ultimately show ?thesis
    using chunks_ok_identity [OF assms(2)] assms(1)
    by (simp add: split_response_into_chunks_def Let_def)
qed

theorem segment_roundtrip_witness:
  "chunk_ok (asc ''A'') \<and> chunk_ok (asc ''B'') \<and> chunk_ok (asc ''C'') \<and>
   split_response_into_chunks (asc ''A---B---C'') = [asc ''A'', asc ''B'', asc ''C'']"
proof -
  have ok: "\<forall>c\<in>set [asc ''A'', asc ''B'', asc ''C'']. chunk_ok c"
    by (simp add: chunk_ok_def is_label_line_def section_label_def section_delim_def pystr_simps)
  have j: "py_join section_delim [asc ''A'', asc ''B'', asc ''C''] = asc ''A---B---C''"
    by (simp add: section_delim_def asc_def)
  have "split_response_into_chunks (asc ''A---B---C'') = [asc ''A'', asc ''B'', asc ''C'']"
    using segment_roundtrip [OF _ ok] j by simp
  with ok show ?thesis by simp
qed

text \<open>When the text holds the delimiter but every piece between delimiters is blank or only
  label lines, the segmenter falls back to the whole stripped text, and that one chunk still
  contains the delimiter \<open>---\<close>.\<close>

theorem segment_fallback_keeps_delimiter:
  assumes "py_in section_delim t"
    and "\<forall>p\<in>set (py_split t section_delim). clean_chunk (py_strip p) = []"
  shows "split_response_into_chunks t = [py_strip t] \<and> py_in section_delim (py_strip t)"
proof
  show "split_response_into_chunks t = [py_strip t]"
    using assms by (auto simp: split_response_into_chunks_def Let_def filter_empty_conv)
  have "\<forall>c\<in>set section_delim. \<not> py_isspace c"
    by (simp add: section_delim_def asc_def py_isspace_def)
  then show "py_in section_delim (py_strip t)"
    using assms(1) by (simp add: py_in_def sublist_py_strip_keep)
qed

theorem segment_fallback_keeps_delimiter_witness:
  "split_response_into_chunks (asc ''---'') = [asc ''---''] \<and> py_in section_delim (asc ''---'')"
proof -
  have i: "py_in section_delim (asc ''---'')"
    by (simp add: py_in_def section_delim_def)
  have p: "\<forall>p\<in>set (py_split (asc ''---'') section_delim). clean_chunk (py_strip p) = []"
    by (simp add: segment_eval pystr_simps)
  have s: "py_strip (asc ''---'') = asc ''---''"
    by (simp add: pystr_simps)
  show ?thesis
    using segment_fallback_keeps_delimiter [OF i p] s by simp
qed

end
