(* ===== verification/Invoker.thy ===== *)
theory Invoker
  imports Py_Prelude
begin

text \<open>
  The resilient invoker, \<open>call_openai\<close> of \<open>src/lambda_deployment/temp_v17/lambda_function.py\<close>.
  The generation service is an external collaborator: the model sees it as a function
  \<open>'m client\<close> that gives, for the message list and the number of the attempt, what the call
  \<open>client.chat.completions.create\<close> does on that attempt (returns the message content, or
  raises an exception, seen through \<open>str(e)\<close>). The message type is a parameter \<open>'m\<close>, the
  interface with the context builder. The loop is a recursive function over the attempt number
  that returns the observable effects (one request per attempt, one sleep per rate-limit
  retry) and the result, an error (\<open>Inl\<close>) or the generated text (\<open>Inr\<close>). It is a
  \<open>function\<close> whose termination measure is \<open>max_retries - attempt\<close>, the Python \<open>range\<close>.
\<close>

datatype api_result = Completion pystr | ApiError pystr

type_synonym 'm client = "'m \<Rightarrow> nat \<Rightarrow> api_result"

datatype invoke_effect = Request nat | Sleep nat

text \<open>\<open>raise last_error\<close> re-raises the provider's exception; with \<open>max_retries = 0\<close> the loop
  never runs and \<open>raise None\<close> raises \<open>TypeError\<close> instead.\<close>

datatype invoke_error = ProviderError pystr | RaiseNoneTypeError

definition is_rate_limit :: "pystr \<Rightarrow> bool" where
  "is_rate_limit e \<longleftrightarrow>
     py_in (asc ''rate_limit'') (py_lower e) \<or> py_in (asc ''429'') e \<or>
     py_in (asc ''rate limit'') (py_lower e)"

definition backoff :: "nat \<Rightarrow> nat" where
  "backoff attempt = 2 ^ attempt + 1"

function call_loop ::
  "'m client \<Rightarrow> 'm \<Rightarrow> nat \<Rightarrow> nat \<Rightarrow> pystr option \<Rightarrow> invoke_effect list \<times> (invoke_error + pystr)"
where
  "call_loop client messages max_retries attempt last_error =
     (if attempt < max_retries then
        (case client messages attempt of
           Completion assistant_message \<Rightarrow> ([Request attempt], Inr assistant_message)
         | ApiError e \<Rightarrow>
             (if is_rate_limit e
              then apfst (\<lambda>tr. Request attempt # Sleep (backoff attempt) # tr)
                     (call_loop client messages max_retries (Suc attempt) (Some e))
              else ([Request attempt], Inl (ProviderError e))))
      else ([], (case last_error of
                   None \<Rightarrow> Inl RaiseNoneTypeError
                 | Some e \<Rightarrow> Inl (ProviderError e))))"
  by pat_completeness auto
termination
  by (relation "measure (\<lambda>(client, messages, max_retries, attempt, last_error). max_retries - attempt)")
    auto

declare call_loop.simps [simp del]

definition call_openai ::
  "'m client \<Rightarrow> 'm \<Rightarrow> nat \<Rightarrow> invoke_effect list \<times> (invoke_error + pystr)" where
  "call_openai client messages max_retries = call_loop client messages max_retries 0 None"

text \<open>The call site in \<open>lambda_handler\<close> relies on the default \<open>max_retries = 3\<close>.\<close>

definition default_max_retries :: nat where
  "default_max_retries = 3"

text \<open>The effects that are outbound calls, by attempt number.\<close>

definition requests :: "invoke_effect list \<Rightarrow> nat list" where
  "requests tr = [i. Request i \<leftarrow> tr]"

definition retry_trace :: "nat \<Rightarrow> nat \<Rightarrow> invoke_effect list" where
  "retry_trace a k = concat (map (\<lambda>i. [Request i, Sleep (backoff i)]) [a..<k])"

subsection \<open>Characteristic equations of the loop\<close>

lemma call_loop_exhausted:
  "\<not> attempt < max_retries \<Longrightarrow> call_loop client messages max_retries attempt l =
     ([], (case l of None \<Rightarrow> Inl RaiseNoneTypeError | Some e \<Rightarrow> Inl (ProviderError e)))"
  by (simp add: call_loop.simps)

lemma call_loop_success:
  "attempt < max_retries \<Longrightarrow> client messages attempt = Completion t \<Longrightarrow>
   call_loop client messages max_retries attempt l = ([Request attempt], Inr t)"
  by (simp add: call_loop.simps)

lemma call_loop_rate_limited:
  "attempt < max_retries \<Longrightarrow> client messages attempt = ApiError e \<Longrightarrow> is_rate_limit e \<Longrightarrow>
   call_loop client messages max_retries attempt l =
     apfst (\<lambda>tr. Request attempt # Sleep (backoff attempt) # tr)
       (call_loop client messages max_retries (Suc attempt) (Some e))"
  by (simp add: call_loop.simps)

lemma call_loop_fatal:
  "attempt < max_retries \<Longrightarrow> client messages attempt = ApiError e \<Longrightarrow> \<not> is_rate_limit e \<Longrightarrow>
   call_loop client messages max_retries attempt l = ([Request attempt], Inl (ProviderError e))"
  by (simp add: call_loop.simps)

lemmas call_loop_eqs = call_loop_exhausted call_loop_success call_loop_rate_limited call_loop_fatal

lemma retry_trace_Suc: "a \<le> k \<Longrightarrow> retry_trace a (Suc k) = retry_trace a k @ [Request k, Sleep (backoff k)]"
  by (simp add: retry_trace_def)

lemma requests_append [simp]: "requests (xs @ ys) = requests xs @ requests ys"
  by (simp add: requests_def)

lemma requests_simps [simp]:
  "requests [] = []" "requests (Request i # tr) = i # requests tr"
  "requests (Sleep w # tr) = requests tr"
  by (simp_all add: requests_def)

text \<open>A run of rate-limited attempts \<open>a, \<dots>, k - 1\<close> is skipped over: the loop requests and
  sleeps once for each of them, and continues at attempt \<open>k\<close> with the last error.\<close>

lemma call_loop_skip:
  assumes "a \<le> k" and "k \<le> max_retries"
    and "\<forall>i. a \<le> i \<and> i < k \<longrightarrow> client messages i = ApiError (errs i) \<and> is_rate_limit (errs i)"
  shows "call_loop client messages max_retries a l =
    apfst (\<lambda>tr. retry_trace a k @ tr)
      (call_loop client messages max_retries k (if a < k then Some (errs (k - 1)) else l))"
  using assms
proof (induction k)
  case 0
  then show ?case by (simp add: retry_trace_def apfst_def map_prod_def split_def)
next
  case (Suc k)
  show ?case
  proof (cases "a = Suc k")
    case True
    then show ?thesis by (simp add: retry_trace_def apfst_def map_prod_def split_def)
  next
    case False
    with Suc.prems have ak: "a \<le> k" by simp
    with Suc.prems have rl: "client messages k = ApiError (errs k)" "is_rate_limit (errs k)"
      by auto
    from Suc.IH ak Suc.prems have "call_loop client messages max_retries a l =
      apfst (\<lambda>tr. retry_trace a k @ tr)
        (call_loop client messages max_retries k (if a < k then Some (errs (k - 1)) else l))"
      by simp
    also have "\<dots> = apfst (\<lambda>tr. retry_trace a k @ Request k # Sleep (backoff k) # tr)
        (call_loop client messages max_retries (Suc k) (Some (errs k)))"
      using Suc.prems(2) rl by (simp add: call_loop_rate_limited apfst_compose comp_def)
    finally show ?thesis
      using ak by (simp add: retry_trace_Suc)
  qed
qed

lemma requests_retry_trace [simp]: "requests (retry_trace a k) = [a..<k]"
  by (induction k) (simp_all add: retry_trace_def)

lemma call_loop_requests:
  "\<exists>k. a \<le> k \<and> k \<le> max a max_retries \<and>
     requests (fst (call_loop client messages max_retries a l)) = [a..<k]"
proof (induction client messages max_retries a l rule: call_loop.induct)
  case (1 client messages max_retries a l)
  show ?case
  proof (cases "a < max_retries")
    case True
    show ?thesis
    proof (cases "client messages a")
      case (Completion t)
      with True show ?thesis
        by (intro exI [of _ "Suc a"]) (simp add: call_loop_success)
    next
      case (ApiError e)
      show ?thesis
      proof (cases "is_rate_limit e")
        case rl: True
        with "1.IH" [OF True ApiError rl] obtain k where
          k: "Suc a \<le> k" "k \<le> max (Suc a) max_retries"
             "requests (fst (call_loop client messages max_retries (Suc a) (Some e))) = [Suc a..<k]"
          by blast
        with True ApiError rl show ?thesis
          by (intro exI [of _ k]) (simp add: call_loop_rate_limited upt_conv_Cons)
      next
        case False
        with True ApiError show ?thesis
          by (intro exI [of _ "Suc a"]) (simp add: call_loop_fatal)
      qed
    qed
  next
    case False
    then show ?thesis
      by (intro exI [of _ a]) (simp add: call_loop_exhausted)
  qed
qed

subsection \<open>Properties of the invoker\<close>

text \<open>C10: When every attempt is rate-limited, the invoker makes exactly \<open>max_retries\<close>
  requests, sleeps \<open>2^n + 1\<close> seconds after each of them (the last included), and raises the
  last error.\<close>

theorem call_openai_exhausts_retries:
  assumes "0 < max_retries"
    and "\<forall>i<max_retries. client messages i = ApiError (errs i) \<and> is_rate_limit (errs i)"
  shows "call_openai client messages max_retries =
           (concat (map (\<lambda>i. [Request i, Sleep (2 ^ i + 1)]) [0..<max_retries]),
            Inl (ProviderError (errs (max_retries - 1))))"
proof -
  have "call_loop client messages max_retries 0 None =
        apfst (\<lambda>tr. retry_trace 0 max_retries @ tr)
          (call_loop client messages max_retries max_retries (Some (errs (max_retries - 1))))"
    using call_loop_skip [of 0 max_retries max_retries client messages errs None] assms by simp
  then show ?thesis
    by (simp add: call_openai_def call_loop_exhausted retry_trace_def backoff_def)
qed

theorem call_openai_exhausts_retries_witness:
  "call_openai (\<lambda>m i. ApiError (asc ''Error code: 429''))  () default_max_retries =
     ([Request 0, Sleep 2, Request 1, Sleep 3, Request 2, Sleep 5],
      Inl (ProviderError (asc ''Error code: 429'')))"
proof -
  have rl: "is_rate_limit (asc ''Error code: 429'')"
    by (simp add: is_rate_limit_def pystr_simps)
  have "call_openai (\<lambda>m i. ApiError (asc ''Error code: 429'')) () 3 =
        (concat (map (\<lambda>i. [Request i, Sleep (2 ^ i + 1)]) [0..<3]),
         Inl (ProviderError ((\<lambda>i. asc ''Error code: 429'') (3 - 1))))"
    by (rule call_openai_exhausts_retries) (simp_all add: rl)
  then show ?thesis
    by (simp add: default_max_retries_def upt_rec)
qed

text \<open>C26: A non-rate-limit error at attempt \<open>k\<close> after \<open>k\<close> rate-limited attempts is raised at
  once: no further request and no sleep follow it.\<close>

theorem call_openai_fatal_error:
  assumes "k < max_retries"
    and "\<forall>i<k. client messages i = ApiError (errs i) \<and> is_rate_limit (errs i)"
    and "client messages k = ApiError e" and "\<not> is_rate_limit e"
  shows "call_openai client messages max_retries = (retry_trace 0 k @ [Request k], Inl (ProviderError e))"
proof -
  have "call_loop client messages max_retries 0 None =
        apfst (\<lambda>tr. retry_trace 0 k @ tr)
          (call_loop client messages max_retries k (if 0 < k then Some (errs (k - 1)) else None))"
    using call_loop_skip [of 0 k max_retries client messages errs None] assms(1,2) by simp
  then show ?thesis
    using assms(1,3,4) by (simp add: call_openai_def call_loop_fatal)
qed

theorem call_openai_fatal_error_witness:
  "call_openai (\<lambda>m i. if i = 0 then ApiError (asc ''429'') else ApiError (asc ''invalid key'')) () 3 =
     ([Request 0, Sleep 2, Request 1], Inl (ProviderError (asc ''invalid key'')))"
proof -
  have rl: "is_rate_limit (asc ''429'')" and nrl: "\<not> is_rate_limit (asc ''invalid key'')"
    by (simp_all add: is_rate_limit_def pystr_simps)
  have "call_openai (\<lambda>m i. if i = 0 then ApiError (asc ''429'') else ApiError (asc ''invalid key'')) () 3 =
        (retry_trace 0 1 @ [Request 1], Inl (ProviderError (asc ''invalid key'')))"
    by (rule call_openai_fatal_error [where errs = "\<lambda>i. asc ''429''"]) (simp_all add: rl nrl)
  then show ?thesis by (simp add: retry_trace_def backoff_def)
qed

text \<open>C27: A completion at attempt \<open>k\<close> after \<open>k\<close> rate-limited attempts is returned, after exactly
  \<open>k + 1\<close> requests.\<close>

theorem call_openai_success:
  assumes "k < max_retries"
    and "\<forall>i<k. client messages i = ApiError (errs i) \<and> is_rate_limit (errs i)"
    and "client messages k = Completion t"
  shows "call_openai client messages max_retries = (retry_trace 0 k @ [Request k], Inr t)"
proof -
  have "call_loop client messages max_retries 0 None =
        apfst (\<lambda>tr. retry_trace 0 k @ tr)
          (call_loop client messages max_retries k (if 0 < k then Some (errs (k - 1)) else None))"
    using call_loop_skip [of 0 k max_retries client messages errs None] assms(1,2) by simp
  then show ?thesis
    using assms(1,3) by (simp add: call_openai_def call_loop_success)
qed

theorem call_openai_success_witness:
  "call_openai (\<lambda>m i. if i < 2 then ApiError (asc ''rate_limit_exceeded'') else Completion (asc ''ok'')) () 3 =
     ([Request 0, Sleep 2, Request 1, Sleep 3, Request 2], Inr (asc ''ok''))"
proof -
  have rl: "is_rate_limit (asc ''rate_limit_exceeded'')"
    by (simp add: is_rate_limit_def pystr_simps)
  have "call_openai (\<lambda>m i. if i < 2 then ApiError (asc ''rate_limit_exceeded'') else Completion (asc ''ok'')) () 3 =
        (retry_trace 0 2 @ [Request 2], Inr (asc ''ok''))"
    by (rule call_openai_success [where errs = "\<lambda>i. asc ''rate_limit_exceeded''"]) (simp_all add: rl)
  then show ?thesis by (simp add: retry_trace_def backoff_def upt_rec)
qed

text \<open>C28: Whatever the service answers, the requests made are attempts \<open>0, \<dots>, k - 1\<close> in order,
  for some \<open>k \<le> max_retries\<close>: at most \<open>max_retries\<close> outbound calls.\<close>

theorem call_openai_requests_bounded:
  "\<exists>k\<le>max_retries. requests (fst (call_openai client messages max_retries)) = [0..<k]"
  using call_loop_requests [of 0 max_retries client messages None]
  by (auto simp: call_openai_def)

text \<open>With \<open>max_retries = 0\<close> no request is made and the invoker raises \<open>TypeError\<close>
  (\<open>raise None\<close>) instead of a provider error.\<close>

theorem call_openai_zero_retries: "call_openai client messages 0 = ([], Inl RaiseNoneTypeError)"
  by (simp add: call_openai_def call_loop_exhausted)

end
