(* ===== verification/Regex.thy ===== *)
theory Regex
  imports Py_Prelude
begin

text \<open>
  The part of Python's \<open>re\<close> module the sanitizer uses: patterns built from word
  boundaries \<open>\b\<close> and greedy repetitions \<open>{lo,hi}\<close> of one character class (a
  literal is a one-character class repeated once, \<open>+\<close> is \<open>{1,}\<close>, \<open>?\<close> is
  \<open>{0,1}\<close>), matched with \<open>re.IGNORECASE\<close> over the character table \<open>ucd\<close>.
  \<open>rx_ends\<close> lists the lengths a pattern can match at a position in the order CPython's
  backtracking tries them, so its head is the match \<open>re\<close> reports; \<open>re_sub\<close> scans
  left to right and replaces each match, as \<open>re.sub\<close> does for patterns that cannot match
  the empty string. A position is a zipper: the characters before it, nearest first, and the
  rest of the text. The lemmas characterise \<open>rx_ends\<close> by a declarative acceptance
  relation \<open>acc\<close>, decompose a \<open>re_sub\<close> scan at its first match, and show that every
  match in the output of \<open>re_sub\<close> with a bracketed replacement comes from a match of the
  input at a position the scan left unreplaced.
\<close>

datatype cset = CRanges "(uchar \<times> uchar) list" | CDigit

datatype rx = WordB | Chars cset nat "nat option"

type_synonym regex = "rx list"

definition in_ranges :: "(uchar \<times> uchar) list \<Rightarrow> uchar \<Rightarrow> bool" where
  "in_ranges rs c \<longleftrightarrow> (\<exists>(lo, hi)\<in>set rs. lo \<le> c \<and> c \<le> hi)"

text \<open>Class membership under \<open>re.IGNORECASE\<close>: the character or one of its case variants is in
  the class; \<open>\d\<close> is a Unicode decimal digit.\<close>

fun cs_match :: "ucd \<Rightarrow> cset \<Rightarrow> uchar \<Rightarrow> bool" where
  "cs_match db (CRanges rs) c \<longleftrightarrow> (\<exists>c'\<in>set (c # ucd_casevar db c). in_ranges rs c')"
| "cs_match db CDigit c \<longleftrightarrow> ucd_digit db c"

definition word_before :: "ucd \<Rightarrow> pystr \<Rightarrow> bool" where
  "word_before db pre \<longleftrightarrow> pre \<noteq> [] \<and> ucd_word db (hd pre)"

definition word_after :: "ucd \<Rightarrow> pystr \<Rightarrow> bool" where
  "word_after db suf \<longleftrightarrow> suf \<noteq> [] \<and> ucd_word db (hd suf)"

definition is_boundary :: "ucd \<Rightarrow> pystr \<Rightarrow> pystr \<Rightarrow> bool" where
  "is_boundary db pre suf \<longleftrightarrow> word_before db pre \<noteq> word_after db suf"

text \<open>How many characters a greedy repetition can take: the run of class characters, capped.\<close>

definition rep_max :: "ucd \<Rightarrow> cset \<Rightarrow> nat option \<Rightarrow> pystr \<Rightarrow> nat" where
  "rep_max db cs hi suf =
     (let run = length (takeWhile (cs_match db cs) suf)
      in case hi of None \<Rightarrow> run | Some h \<Rightarrow> min h run)"

fun rx_ends :: "ucd \<Rightarrow> regex \<Rightarrow> pystr \<Rightarrow> pystr \<Rightarrow> nat list" where
  "rx_ends db [] pre suf = [0]"
| "rx_ends db (WordB # r) pre suf = (if is_boundary db pre suf then rx_ends db r pre suf else [])"
| "rx_ends db (Chars cs lo hi # r) pre suf =
     concat (map (\<lambda>j. map (\<lambda>n. j + n) (rx_ends db r (rev (take j suf) @ pre) (drop j suf)))
                 (rev [lo..<Suc (rep_max db cs hi suf)]))"

text \<open>\<open>re.sub(pattern, repl, text)\<close>: at each position the first match in backtracking order
  is replaced and the scan goes on after it; where nothing matches the character is kept.\<close>

function re_sub :: "ucd \<Rightarrow> regex \<Rightarrow> pystr \<Rightarrow> pystr \<Rightarrow> pystr \<Rightarrow> pystr" where
  "re_sub db r repl pre [] = []"
| "re_sub db r repl pre (c # cs) =
     (case rx_ends db r pre (c # cs) of
        n # _ \<Rightarrow>
          (if 0 < n then repl @ re_sub db r repl (rev (take n (c # cs)) @ pre) (drop n (c # cs))
           else c # re_sub db r repl (c # pre) cs)
      | [] \<Rightarrow> c # re_sub db r repl (c # pre) cs)"
  by pat_completeness auto
termination
  by (relation "measure (\<lambda>(db, r, repl, pre, suf). length suf)") auto

text \<open>\<open>re.search(pattern, text)\<close> succeeds: some position of the text starts a match.\<close>

definition re_search :: "ucd \<Rightarrow> regex \<Rightarrow> pystr \<Rightarrow> bool" where
  "re_search db r s \<longleftrightarrow> (\<exists>i\<in>{0..length s}. rx_ends db r (rev (take i s)) (drop i s) \<noteq> [])"

text \<open>Declarative acceptance: the pattern matches exactly \<open>w\<close>, between a character before
  of word-ness \<open>pw\<close> and one after of word-ness \<open>nw\<close>.\<close>

fun acc :: "ucd \<Rightarrow> regex \<Rightarrow> bool \<Rightarrow> pystr \<Rightarrow> bool \<Rightarrow> bool" where
  "acc db [] pw w nw \<longleftrightarrow> w = []"
| "acc db (WordB # r) pw w nw \<longleftrightarrow>
     pw \<noteq> (if w = [] then nw else ucd_word db (hd w)) \<and> acc db r pw w nw"
| "acc db (Chars cs lo hi # r) pw w nw \<longleftrightarrow>
     (\<exists>j\<le>length w. lo \<le> j \<and> (case hi of None \<Rightarrow> True | Some h \<Rightarrow> j \<le> h) \<and>
        (\<forall>c\<in>set (take j w). cs_match db cs c) \<and>
        acc db r (if j = 0 then pw else ucd_word db (w ! (j - 1))) (drop j w) nw)"

text \<open>A character some repetition of the pattern can consume.\<close>

definition class_char :: "ucd \<Rightarrow> regex \<Rightarrow> uchar \<Rightarrow> bool" where
  "class_char db r c \<longleftrightarrow> (\<exists>cs lo hi. Chars cs lo hi \<in> set r \<and> cs_match db cs c)"

text \<open>A pattern that starts and ends with \<open>\b\<close>, and one with a repetition of at least one
  character from a class that contains no character of \<open>S\<close>.\<close>

definition rx_bounded :: "regex \<Rightarrow> bool" where
  "rx_bounded r \<longleftrightarrow> (\<exists>r'. r = WordB # r' @ [WordB])"

definition rx_needs :: "ucd \<Rightarrow> regex \<Rightarrow> uchar set \<Rightarrow> bool" where
  "rx_needs db r S \<longleftrightarrow> (\<exists>cs lo hi. Chars cs lo hi \<in> set r \<and> 0 < lo \<and> (\<forall>c\<in>S. \<not> cs_match db cs c))"


subsection \<open>Acceptance\<close>

lemma word_before_rev_take:
  "j \<le> length suf \<Longrightarrow>
   word_before db (rev (take j suf) @ pre) = (if j = 0 then word_before db pre else ucd_word db (suf ! (j - 1)))"
  by (auto simp: word_before_def hd_append last_conv_nth hd_rev min_def)

lemma le_length_takeWhile:
  "j \<le> length (takeWhile P xs) \<longleftrightarrow> j \<le> length xs \<and> (\<forall>c\<in>set (take j xs). P c)"
proof (induction xs arbitrary: j)
  case (Cons x xs)
  then show ?case by (cases j) auto
qed simp

lemma le_rep_max:
  "j \<le> rep_max db cs hi suf \<longleftrightarrow>
   j \<le> length suf \<and> (\<forall>c\<in>set (take j suf). cs_match db cs c) \<and> (case hi of None \<Rightarrow> True | Some h \<Rightarrow> j \<le> h)"
  by (auto simp: rep_max_def Let_def le_length_takeWhile split: option.splits)

lemma boundary_take:
  "(if take n suf = [] then word_after db (drop n suf) else ucd_word db (hd (take n suf))) =
   word_after db suf"
  by (cases suf; cases n) (auto simp: word_after_def)

lemma rx_ends_iff:
  "n \<in> set (rx_ends db r pre suf) \<longleftrightarrow>
   n \<le> length suf \<and> acc db r (word_before db pre) (take n suf) (word_after db (drop n suf))"
proof (induction r arbitrary: pre suf n)
  case Nil
  then show ?case by (cases suf) auto
next
  case (Cons a r)
  show ?case
  proof (cases a)
    case WordB
    then show ?thesis
      using Cons.IH boundary_take [of n suf db]
      by (auto simp: is_boundary_def)
  next
    case (Chars cs lo hi)
    let ?hb = "\<lambda>j. (case hi of None \<Rightarrow> True | Some h \<Rightarrow> j \<le> h)"
    show ?thesis
    proof
      assume "n \<in> set (rx_ends db (a # r) pre suf)"
      then obtain j n' where j: "lo \<le> j" "j \<le> rep_max db cs hi suf" and n: "n = j + n'"
        and n': "n' \<in> set (rx_ends db r (rev (take j suf) @ pre) (drop j suf))"
        using Chars by auto
      from j(2) have jl: "j \<le> length suf" and cls: "\<forall>c\<in>set (take j suf). cs_match db cs c"
        and hb: "?hb j"
        by (simp_all add: le_rep_max)
      from n' Cons.IH have n'l: "n' \<le> length (drop j suf)"
        and ac: "acc db r (word_before db (rev (take j suf) @ pre)) (take n' (drop j suf))
                   (word_after db (drop n' (drop j suf)))"
        by blast+
      have nl: "n \<le> length suf" using n n'l jl by simp
      have t1: "take j (take n suf) = take j suf" using n by (simp add: min_def)
      have t2: "drop j (take n suf) = take n' (drop j suf)" using n by (simp add: drop_take)
      have t3: "drop n suf = drop n' (drop j suf)" using n by (simp add: add.commute)
      have t4: "j \<noteq> 0 \<Longrightarrow> take n suf ! (j - 1) = suf ! (j - 1)" using n by simp
      have "acc db (a # r) (word_before db pre) (take n suf) (word_after db (drop n suf))"
        unfolding Chars acc.simps
      proof (intro exI [of _ j] conjI)
        show "j \<le> length (take n suf)" using n nl by simp
      next
        show "\<forall>c\<in>set (take j (take n suf)). cs_match db cs c" using t1 cls by simp
      next
        show "acc db r (if j = 0 then word_before db pre else ucd_word db (take n suf ! (j - 1)))
                (drop j (take n suf)) (word_after db (drop n suf))"
          using ac t2 t3 t4 jl by (simp add: word_before_rev_take split: if_splits)
      qed (use j hb in simp_all)
      with nl show "n \<le> length suf \<and> acc db (a # r) (word_before db pre) (take n suf) (word_after db (drop n suf))"
        by simp
    next
      assume A: "n \<le> length suf \<and> acc db (a # r) (word_before db pre) (take n suf) (word_after db (drop n suf))"
      then have nl: "n \<le> length suf" by simp
      from A have "acc db (Chars cs lo hi # r) (word_before db pre) (take n suf) (word_after db (drop n suf))"
        using Chars by (simp del: acc.simps)
      then obtain j where jt: "j \<le> length (take n suf)" and j: "lo \<le> j" "?hb j"
        and cls0: "\<forall>c\<in>set (take j (take n suf)). cs_match db cs c"
        and ac: "acc db r (if j = 0 then word_before db pre else ucd_word db (take n suf ! (j - 1)))
                   (drop j (take n suf)) (word_after db (drop n suf))"
        unfolding acc.simps by blast
      from jt have jn: "j \<le> n" by simp
      from cls0 jn have cls: "\<forall>c\<in>set (take j suf). cs_match db cs c"
        by (simp add: min_def)
      define n' where "n' = n - j"
      have n: "n = j + n'" using jn by (simp add: n'_def)
      have jl: "j \<le> length suf" using jn nl by simp
      have "j \<le> rep_max db cs hi suf" using jl cls j(2) by (simp add: le_rep_max)
      moreover have "n' \<in> set (rx_ends db r (rev (take j suf) @ pre) (drop j suf))"
      proof -
        have "drop j (take n suf) = take n' (drop j suf)" using n by (simp add: drop_take)
        moreover have "drop n suf = drop n' (drop j suf)" using n by (simp add: add.commute)
        moreover have "j \<noteq> 0 \<Longrightarrow> take n suf ! (j - 1) = suf ! (j - 1)" using n by simp
        ultimately show ?thesis
          using Cons.IH ac nl n jl by (simp add: word_before_rev_take split: if_splits)
      qed
      ultimately show "n \<in> set (rx_ends db (a # r) pre suf)"
        using Chars j(1) n by force
    qed
  qed
qed

lemma acc_class_chars: "acc db r pw w nw \<Longrightarrow> c \<in> set w \<Longrightarrow> class_char db r c"
proof (induction r arbitrary: pw w)
  case Nil
  then show ?case by simp
next
  case (Cons a r)
  show ?case
  proof (cases a)
    case WordB
    with Cons show ?thesis by (auto simp: class_char_def)
  next
    case (Chars cs lo hi)
    with Cons.prems(1) obtain j where j: "j \<le> length w" and cls: "\<forall>c\<in>set (take j w). cs_match db cs c"
      and ac: "acc db r (if j = 0 then pw else ucd_word db (w ! (j - 1))) (drop j w) nw"
      by auto
    from Cons.prems(2) consider "c \<in> set (take j w)" | "c \<in> set (drop j w)"
      by (metis Un_iff append_take_drop_id set_append)
    then show ?thesis
    proof cases
      case 1
      with cls Chars show ?thesis by (auto simp: class_char_def)
    next
      case 2
      with Cons.IH [OF ac] show ?thesis by (auto simp: class_char_def)
    qed
  qed
qed

lemma acc_required:
  "acc db r pw w nw \<Longrightarrow> Chars cs lo hi \<in> set r \<Longrightarrow> 0 < lo \<Longrightarrow> \<exists>c\<in>set w. cs_match db cs c"
proof (induction r arbitrary: pw w)
  case Nil
  then show ?case by simp
next
  case (Cons a r)
  show ?case
  proof (cases a)
    case WordB
    with Cons show ?thesis by auto
  next
    case (Chars cs' lo' hi')
    with Cons.prems(1) obtain j where j: "j \<le> length w" "lo' \<le> j" and cls: "\<forall>c\<in>set (take j w). cs_match db cs' c"
      and ac: "acc db r (if j = 0 then pw else ucd_word db (w ! (j - 1))) (drop j w) nw"
      by auto
    show ?thesis
    proof (cases "a = Chars cs lo hi")
      case True
      with Chars Cons.prems(3) j have "take j w \<noteq> []" by auto
      with cls True Chars show ?thesis
        by (metis hd_in_set in_set_takeD rx.inject)
    next
      case False
      with Cons.prems(2) have "Chars cs lo hi \<in> set r" by simp
      from Cons.IH [OF ac this Cons.prems(3)] show ?thesis
        by (meson in_set_dropD)
    qed
  qed
qed

lemma acc_final_wb:
  "acc db (r @ [WordB]) pw w nw \<Longrightarrow> (if w = [] then pw else ucd_word db (last w)) \<noteq> nw"
proof (induction r arbitrary: pw w)
  case Nil
  then show ?case by auto
next
  case (Cons a r)
  show ?case
  proof (cases a)
    case WordB
    from Cons.prems have "acc db (r @ [WordB]) pw w nw"
      unfolding WordB append_Cons acc.simps(2) by (rule conjunct2)
    from Cons.IH [OF this] show ?thesis .
  next
    case (Chars cs lo hi)
    with Cons.prems obtain j where j: "j \<le> length w"
      and ac: "acc db (r @ [WordB]) (if j = 0 then pw else ucd_word db (w ! (j - 1))) (drop j w) nw"
      by auto
    from Cons.IH [OF ac] have ih: "(if drop j w = [] then (if j = 0 then pw else ucd_word db (w ! (j - 1)))
        else ucd_word db (last (drop j w))) \<noteq> nw" .
    show ?thesis
    proof (cases "drop j w = []")
      case True
      with j have "j = length w" by simp
      with True ih show ?thesis
        by (cases "w = []") (auto simp: last_conv_nth)
    next
      case False
      then have "last (drop j w) = last w" and "w \<noteq> []" by auto
      with False ih show ?thesis by simp
    qed
  qed
qed

subsection \<open>Bounded patterns and the scan of re_sub\<close>

lemma rx_ends_ne_iff:
  "rx_ends db r pre suf \<noteq> [] \<longleftrightarrow>
     (\<exists>n\<le>length suf. acc db r (word_before db pre) (take n suf) (word_after db (drop n suf)))"
  by (metis all_not_in_conv list.set_sel(1) rx_ends_iff set_empty)

lemma rx_ends_le: "n \<in> set (rx_ends db r pre suf) \<Longrightarrow> n \<le> length suf"
  by (simp add: rx_ends_iff)

lemma acc_needs_nonempty: "acc db r pw w nw \<Longrightarrow> rx_needs db r S \<Longrightarrow> w \<noteq> []"
  unfolding rx_needs_def by (auto dest: acc_required)

lemma rx_ends_pos: "rx_needs db r S \<Longrightarrow> n \<in> set (rx_ends db r pre suf) \<Longrightarrow> 0 < n"
  by (auto simp: rx_ends_iff dest: acc_needs_nonempty)

lemma rx_ends_Nil_suf: "rx_needs db r S \<Longrightarrow> rx_ends db r pre [] = []"
  by (metis le_zero_eq list.set_sel(1) not_less_zero rx_ends_le rx_ends_pos list.size(3))

lemma bounded_acc:
  assumes "rx_bounded r" "rx_needs db r S" "acc db r pw w nw"
  shows "w \<noteq> [] \<and> pw \<noteq> ucd_word db (hd w) \<and> ucd_word db (last w) \<noteq> nw"
proof -
  from assms(1) obtain r' where r: "r = WordB # r' @ [WordB]" by (auto simp: rx_bounded_def)
  have ne: "w \<noteq> []" using assms(2,3) by (rule acc_needs_nonempty [rotated])
  from assms(3) r ne have "pw \<noteq> ucd_word db (hd w)" by simp
  moreover from assms(3) have "acc db (r' @ [WordB]) pw w nw"
    unfolding r append_Cons acc.simps(2) by (rule conjunct2)
  from acc_final_wb [OF this] ne have "ucd_word db (last w) \<noteq> nw" by simp
  ultimately show ?thesis using ne by blast
qed

lemma bounded_match:
  assumes "rx_bounded r" "rx_needs db r S" "rx_ends db r pre suf \<noteq> []"
  shows "suf \<noteq> [] \<and> word_before db pre \<noteq> word_after db suf"
proof -
  from assms(3) obtain n where n: "n \<le> length suf"
    and a: "acc db r (word_before db pre) (take n suf) (word_after db (drop n suf))"
    by (auto simp: rx_ends_ne_iff)
  from bounded_acc [OF assms(1,2) a] have "take n suf \<noteq> []"
    and "word_before db pre \<noteq> ucd_word db (hd (take n suf))" by auto
  then show ?thesis by (auto simp: word_after_def)
qed

lemma word_before_app: "xs \<noteq> [] \<Longrightarrow> word_before db (xs @ p1) = word_before db (xs @ p2)"
  by (simp add: word_before_def)

lemma rx_ends_ctx:
  "word_before db p1 = word_before db p2 \<Longrightarrow> (rx_ends db r p1 suf \<noteq> []) = (rx_ends db r p2 suf \<noteq> [])"
  by (simp add: rx_ends_ne_iff)

text \<open>The scan of \<open>re_sub\<close>: either no position matches and the text is copied, or a
  copied stretch \<open>u\<close> without match is followed by the first match \<open>m\<close>.\<close>

lemma re_sub_decomp:
  assumes ne: "rx_needs db P S"
  shows "(re_sub db P repl pre s = s \<and> (\<forall>i\<le>length s. rx_ends db P (rev (take i s) @ pre) (drop i s) = [])) \<or>
    (\<exists>u m rest ns. s = u @ m @ rest \<and> m \<noteq> [] \<and>
       (\<forall>i<length u. rx_ends db P (rev (take i s) @ pre) (drop i s) = []) \<and>
       rx_ends db P (rev u @ pre) (m @ rest) = length m # ns \<and>
       re_sub db P repl pre s = u @ repl @ re_sub db P repl (rev m @ rev u @ pre) rest)"
proof (induction s arbitrary: pre)
  case Nil
  show ?case using rx_ends_Nil_suf [OF ne] by simp
next
  case (Cons c cs)
  show ?case
  proof (cases "rx_ends db P pre (c # cs)")
    case Nil
    then have out: "re_sub db P repl pre (c # cs) = c # re_sub db P repl (c # pre) cs" by simp
    have shift: "\<And>k. rev (take (Suc k) (c # cs)) @ pre = rev (take k cs) @ c # pre" by simp
    from Cons.IH [of "c # pre"] show ?thesis
    proof
      assume l: "re_sub db P repl (c # pre) cs = cs \<and>
          (\<forall>i\<le>length cs. rx_ends db P (rev (take i cs) @ c # pre) (drop i cs) = [])"
      have "\<forall>i\<le>length (c # cs). rx_ends db P (rev (take i (c # cs)) @ pre) (drop i (c # cs)) = []"
      proof (intro allI impI)
        fix i assume "i \<le> length (c # cs)"
        with l Nil show "rx_ends db P (rev (take i (c # cs)) @ pre) (drop i (c # cs)) = []"
          by (cases i) (simp_all only: shift, auto)
      qed
      with l out show ?thesis by simp
    next
      assume "\<exists>u m rest ns. cs = u @ m @ rest \<and> m \<noteq> [] \<and>
          (\<forall>i<length u. rx_ends db P (rev (take i cs) @ c # pre) (drop i cs) = []) \<and>
          rx_ends db P (rev u @ c # pre) (m @ rest) = length m # ns \<and>
          re_sub db P repl (c # pre) cs = u @ repl @ re_sub db P repl (rev m @ rev u @ c # pre) rest"
      then obtain u m rest ns where d: "cs = u @ m @ rest" "m \<noteq> []"
        and free: "\<forall>i<length u. rx_ends db P (rev (take i cs) @ c # pre) (drop i cs) = []"
        and hit: "rx_ends db P (rev u @ c # pre) (m @ rest) = length m # ns"
        and o: "re_sub db P repl (c # pre) cs = u @ repl @ re_sub db P repl (rev m @ rev u @ c # pre) rest"
        by blast
      have "\<forall>i<length (c # u). rx_ends db P (rev (take i (c # cs)) @ pre) (drop i (c # cs)) = []"
      proof (intro allI impI)
        fix i assume "i < length (c # u)"
        with free Nil show "rx_ends db P (rev (take i (c # cs)) @ pre) (drop i (c # cs)) = []"
          by (cases i) (simp_all only: shift, auto)
      qed
      with d hit o out show ?thesis
        by (intro disjI2 exI [of _ "c # u"] exI [of _ m] exI [of _ rest] exI [of _ ns]) simp
    qed
  next
    case (Cons n ns)
    note hit = Cons
    have "0 < n" using rx_ends_pos [OF ne, of n pre "c # cs"] hit by simp
    moreover have "n \<le> length (c # cs)" using rx_ends_le [of n db P pre "c # cs"] hit by simp
    ultimately show ?thesis using hit
      by (intro disjI2 exI [of _ "[]"] exI [of _ "take n (c # cs)"] exI [of _ "drop n (c # cs)"]
          exI [of _ ns]) (simp add: min_def)
  qed
qed

lemma take_before_sep:
  "b \<notin> set (take n (A @ b # x)) \<Longrightarrow> take n (A @ b # x) = take n A \<and> n \<le> length A"
proof (cases "n \<le> length A")
  case False
  then obtain k where "n - length A = Suc k" by (metis Suc_diff_Suc not_le)
  then have "b \<in> set (take n (A @ b # x))" by (simp add: take_append)
  then show ?thesis if "b \<notin> set (take n (A @ b # x))" using that by blast
qed simp

lemma token_no_match:
  assumes "\<not> class_char db Q 91" "\<not> class_char db Q 93" "rx_needs db Q (set L)"
    and "j < length L + 2"
  shows "rx_ends db Q pre (drop j (91 # L @ [93]) @ x) = []"
proof (rule ccontr)
  let ?s = "drop j (91 # L @ [93]) @ x"
  assume "rx_ends db Q pre ?s \<noteq> []"
  then obtain n where a: "acc db Q (word_before db pre) (take n ?s) (word_after db (drop n ?s))"
    by (auto simp: rx_ends_ne_iff)
  have ne: "take n ?s \<noteq> []" using a assms(3) by (rule acc_needs_nonempty)
  have cls: "\<And>c. c \<in> set (take n ?s) \<Longrightarrow> class_char db Q c" using a by (rule acc_class_chars)
  show False
  proof (cases j)
    case 0
    with ne have "hd (take n ?s) = 91" by simp
    with cls [of 91] ne assms(1) show False by (metis list.set_sel(1))
  next
    case (Suc k)
    with assms(4) have s: "?s = drop k L @ 93 # x" by simp
    have "93 \<notin> set (take n ?s)" using cls assms(2) by blast
    with s take_before_sep [of 93 n "drop k L" x]
    have sub: "set (take n ?s) \<subseteq> set L" by (metis in_set_dropD in_set_takeD subsetI)
    from assms(3) obtain cs lo hi where "Chars cs lo hi \<in> set Q" "0 < lo"
      and no: "\<forall>c\<in>set L. \<not> cs_match db cs c" by (auto simp: rx_needs_def)
    from acc_required [OF a this(1,2)] sub no show False by blast
  qed
qed

lemma prefix_match_transfer:
  assumes Q: "rx_bounded Q" "rx_needs db Q S" "\<not> class_char db Q b" "\<not> ucd_word db b"
    and i: "i < length u"
    and m: "rx_ends db Q (rev (take i u) @ opre) (drop i u @ b # x) \<noteq> []"
    and bd: "word_before db (rev u @ pre) \<noteq> word_after db y"
    and ctx: "word_before db (rev (take i u) @ opre) = word_before db (rev (take i u) @ pre)"
  shows "rx_ends db Q (rev (take i u) @ pre) (drop i u @ y) \<noteq> []"
proof -
  let ?d = "drop i u"
  from i have dne: "?d \<noteq> []" by simp
  from m obtain n where
    a: "acc db Q (word_before db (rev (take i u) @ opre)) (take n (?d @ b # x))
          (word_after db (drop n (?d @ b # x)))"
    by (auto simp: rx_ends_ne_iff)
  have "b \<notin> set (take n (?d @ b # x))" using acc_class_chars [OF a] Q(3) by blast
  from take_before_sep [OF this] have tk: "take n (?d @ b # x) = take n ?d" and nl: "n \<le> length ?d"
    by auto
  have wa: "word_after db (drop n (?d @ b # x)) = word_after db (drop n (?d @ y))"
  proof (cases "n < length ?d")
    case True
    then have "drop n ?d \<noteq> []" by simp
    then show ?thesis by (simp add: word_after_def)
  next
    case False
    with nl have n: "n = length ?d" by simp
    show ?thesis
    proof (rule ccontr)
      assume "word_after db (drop n (?d @ b # x)) \<noteq> word_after db (drop n (?d @ y))"
      with n Q(4) have "word_after db y" by (simp add: word_after_def)
      moreover from i have "u \<noteq> []" by auto
      ultimately have "\<not> ucd_word db (last u)" using bd
        by (simp add: word_before_def hd_append hd_rev)
      moreover from bounded_acc [OF Q(1,2) a]
      have "ucd_word db (last (take n (?d @ b # x))) \<noteq> word_after db (drop n (?d @ b # x))"
        by blast
      then have "ucd_word db (last ?d)" using n tk Q(4) by (simp add: word_after_def)
      moreover have "last ?d = last u" using i by (simp add: last_drop)
      ultimately show False by simp
    qed
  qed
  from a tk wa ctx nl show ?thesis
    by (auto simp: rx_ends_ne_iff take_append intro!: exI [of _ n])
qed

lemma match_ctx:
  assumes Q: "rx_bounded Q" "rx_needs db Q S"
    and ctx: "word_before db opre = word_before db pre \<or> (\<not> word_before db opre \<and> \<not> word_after db s)"
    and m: "rx_ends db Q (rev (take i out) @ opre) (drop i out) \<noteq> []"
    and same: "take i out = take i s" and hd0: "i = 0 \<Longrightarrow> out \<noteq> [] \<Longrightarrow> s \<noteq> [] \<and> hd out = hd s"
  shows "word_before db (rev (take i out) @ opre) = word_before db (rev (take i s) @ pre)"
proof (cases i)
  case 0
  from bounded_match [OF Q m] 0 have "out \<noteq> []" "word_before db opre \<noteq> word_after db out" by auto
  with hd0 [OF 0] ctx 0 show ?thesis by (auto simp: word_after_def)
next
  case (Suc k)
  from bounded_match [OF Q m] have "drop i out \<noteq> []" by blast
  with Suc have "take i out \<noteq> []" by auto
  with same show ?thesis by (metis Nil_is_rev_conv word_before_app)
qed

lemma match_ctx_token:
  assumes P: "rx_bounded P" "rx_needs db P S" and t: "\<not> ucd_word db 93"
    and hit: "rx_ends db P pre (m @ rest) = length m # ns" and mne: "m \<noteq> []"
  shows "word_before db (rev (91 # L @ [93]) @ opre) = word_before db (rev m @ pre) \<or>
    (\<not> word_before db (rev (91 # L @ [93]) @ opre) \<and> \<not> word_after db rest)"
proof -
  have "length m \<in> set (rx_ends db P pre (m @ rest))" using hit by simp
  then have "acc db P (word_before db pre) m (word_after db rest)" by (simp add: rx_ends_iff)
  from bounded_acc [OF P this] have "ucd_word db (last m) \<noteq> word_after db rest" by blast
  with t mne show ?thesis by (auto simp: word_before_def hd_rev)
qed

lemma re_sub_match_origin:
  assumes P: "rx_bounded P" "rx_needs db P S"
    and Q: "rx_bounded Q" "rx_needs db Q (set L)" "\<not> class_char db Q 91" "\<not> class_char db Q 93"
    and br: "\<not> ucd_word db 91" "\<not> ucd_word db 93"
  shows "word_before db opre = word_before db pre \<or> (\<not> word_before db opre \<and> \<not> word_after db s) \<Longrightarrow>
    rx_ends db Q (rev (take i (re_sub db P (91 # L @ [93]) pre s)) @ opre)
                 (drop i (re_sub db P (91 # L @ [93]) pre s)) \<noteq> [] \<Longrightarrow>
    \<exists>i'\<le>length s. rx_ends db Q (rev (take i' s) @ pre) (drop i' s) \<noteq> [] \<and>
                  rx_ends db P (rev (take i' s) @ pre) (drop i' s) = []"
proof (induction "length s" arbitrary: s pre opre i rule: less_induct)
  case less
  let ?t = "91 # L @ [93]"
  let ?out = "re_sub db P ?t pre s"
  from re_sub_decomp [OF P(2), of ?t pre s] show ?case
  proof
    assume A: "?out = s \<and> (\<forall>i\<le>length s. rx_ends db P (rev (take i s) @ pre) (drop i s) = [])"
    with less.prems(2) have m: "rx_ends db Q (rev (take i s) @ opre) (drop i s) \<noteq> []" by simp
    from bounded_match [OF Q(1,2) m] have il: "i \<le> length s" by simp
    from match_ctx [OF Q(1,2) less.prems(1) m] have
      "word_before db (rev (take i s) @ opre) = word_before db (rev (take i s) @ pre)" by simp
    with m rx_ends_ctx have "rx_ends db Q (rev (take i s) @ pre) (drop i s) \<noteq> []" by metis
    with A il show ?thesis by blast
  next
    assume "\<exists>u m rest ns. s = u @ m @ rest \<and> m \<noteq> [] \<and>
       (\<forall>i<length u. rx_ends db P (rev (take i s) @ pre) (drop i s) = []) \<and>
       rx_ends db P (rev u @ pre) (m @ rest) = length m # ns \<and>
       ?out = u @ ?t @ re_sub db P ?t (rev m @ rev u @ pre) rest"
    then obtain u m rest ns where s: "s = u @ m @ rest" and mne: "m \<noteq> []"
      and free: "\<forall>i<length u. rx_ends db P (rev (take i s) @ pre) (drop i s) = []"
      and hit: "rx_ends db P (rev u @ pre) (m @ rest) = length m # ns"
      and out: "?out = u @ ?t @ re_sub db P ?t (rev m @ rev u @ pre) rest"
      by blast
    let ?out' = "re_sub db P ?t (rev m @ rev u @ pre) rest"
    consider (B1) "i < length u" | (B2) "length u \<le> i" "i < length u + length ?t"
      | (B3) "length u + length ?t \<le> i" by linarith
    then show ?thesis
    proof cases
      case B1
      have mo: "rx_ends db Q (rev (take i ?out) @ opre) (drop i ?out) \<noteq> []" by (rule less.prems(2))
      have tk: "take i ?out = take i u" "take i s = take i u" using B1 out s by simp_all
      have dr: "drop i ?out = drop i u @ 91 # (L @ [93] @ ?out')" "drop i s = drop i u @ m @ rest"
        using B1 out s by simp_all
      have "word_before db (rev (take i ?out) @ opre) = word_before db (rev (take i s) @ pre)"
        using B1 out s by (intro match_ctx [OF Q(1,2) less.prems(1) mo]) (simp_all add: hd_append)
      then have ctx: "word_before db (rev (take i u) @ opre) = word_before db (rev (take i u) @ pre)"
        using tk by simp
      have "rx_ends db P (rev u @ pre) (m @ rest) \<noteq> []" using hit by simp
      from bounded_match [OF P this]
      have bd: "word_before db (rev u @ pre) \<noteq> word_after db (m @ rest)" by blast
      have "rx_ends db Q (rev (take i u) @ opre) (drop i u @ 91 # (L @ [93] @ ?out')) \<noteq> []"
        using mo tk dr by simp
      from prefix_match_transfer [OF Q(1,2,3) br(1) B1 this bd ctx]
      have "rx_ends db Q (rev (take i s) @ pre) (drop i s) \<noteq> []" using tk dr by simp
      with free B1 s show ?thesis by (intro exI [of _ i]) simp
    next
      case B2
      have "drop i ?out = drop (i - length u) (?t @ ?out')" using B2 out by simp
      also have "\<dots> = drop (i - length u) ?t @ ?out'" using B2 by (subst drop_append) simp
      finally have "drop i ?out = drop (i - length u) ?t @ ?out'" .
      with token_no_match [OF Q(3,4,2), of "i - length u"] B2 less.prems(2) show ?thesis by simp
    next
      case B3
      define k where "k = i - length u - length ?t"
      have i: "i = length u + length ?t + k" using B3 by (simp add: k_def)
      have tk: "take i ?out = u @ ?t @ take k ?out'" and dr: "drop i ?out = drop k ?out'"
        unfolding i out by simp_all
      have mo: "rx_ends db Q (rev (take k ?out') @ rev ?t @ rev u @ opre) (drop k ?out') \<noteq> []"
        using less.prems(2) tk dr by simp
      have ctx: "word_before db (rev ?t @ rev u @ opre) = word_before db (rev m @ rev u @ pre) \<or>
          (\<not> word_before db (rev ?t @ rev u @ opre) \<and> \<not> word_after db rest)"
        using match_ctx_token [OF P br(2) hit mne] by simp
      have "length rest < length s" using s mne by simp
      from less.hyps [OF this ctx mo] obtain j where j: "j \<le> length rest"
        and qm: "rx_ends db Q (rev (take j rest) @ rev m @ rev u @ pre) (drop j rest) \<noteq> []"
        and pf: "rx_ends db P (rev (take j rest) @ rev m @ rev u @ pre) (drop j rest) = []"
        by blast
      have "take (length u + length m + j) s = u @ m @ take j rest"
        "drop (length u + length m + j) s = drop j rest" using s by simp_all
      with j qm pf s show ?thesis by (intro exI [of _ "length u + length m + j"]) simp
    qed
  qed
qed

lemma rx_needs_mono: "rx_needs db r S \<Longrightarrow> T \<subseteq> S \<Longrightarrow> rx_needs db r T"
  unfolding rx_needs_def by blast

lemma re_sub_clean:
  assumes P: "rx_bounded P" "rx_needs db P S"
    and Q: "rx_bounded Q" "rx_needs db Q (set L)" "\<not> class_char db Q 91" "\<not> class_char db Q 93"
    and br: "\<not> ucd_word db 91" "\<not> ucd_word db 93"
    and clean: "Q = P \<or> \<not> re_search db Q s"
  shows "\<not> re_search db Q (re_sub db P (91 # L @ [93]) [] s)"
proof
  assume "re_search db Q (re_sub db P (91 # L @ [93]) [] s)"
  then obtain i where "rx_ends db Q (rev (take i (re_sub db P (91 # L @ [93]) [] s)))
      (drop i (re_sub db P (91 # L @ [93]) [] s)) \<noteq> []"
    by (auto simp: re_search_def)
  from re_sub_match_origin [OF P Q br, of "[]" "[]" s i] this
  obtain i' where "i' \<le> length s" "rx_ends db Q (rev (take i' s)) (drop i' s) \<noteq> []"
    "rx_ends db P (rev (take i' s)) (drop i' s) = []" by auto
  with clean show False by (auto simp: re_search_def)
qed


lemma re_sub_no_match:
  assumes "rx_needs db P S" "\<not> re_search db P s"
  shows "re_sub db P repl [] s = s"
  using re_sub_decomp [OF assms(1), of repl "[]" s]
proof
  assume "\<exists>u m rest ns. s = u @ m @ rest \<and> m \<noteq> [] \<and>
       (\<forall>i<length u. rx_ends db P (rev (take i s) @ []) (drop i s) = []) \<and>
       rx_ends db P (rev u @ []) (m @ rest) = length m # ns \<and>
       re_sub db P repl [] s = u @ repl @ re_sub db P repl (rev m @ rev u @ []) rest"
  then obtain u m rest ns where "s = u @ m @ rest" "rx_ends db P (rev u) (m @ rest) = length m # ns"
    by auto
  then have "rx_ends db P (rev (take (length u) s)) (drop (length u) s) \<noteq> []" by simp
  moreover have "length u \<in> {0..length s}" using \<open>s = u @ m @ rest\<close> by simp
  ultimately have "re_search db P s" unfolding re_search_def by blast
  with assms(2) show ?thesis by blast
qed simp

end
