(* ===== verification/Pyval.thy ===== *)
theory Pyval
  imports Py_Prelude
begin

text \<open>
  Python values as the program receives them from \<open>json.loads\<close> and passes them between its
  functions: \<open>None\<close>, booleans, integers, floats, strings, lists and dictionaries (an
  association list in insertion order). A float is the decimal \<open>m * 10 ^ e\<close> it was written
  as; for literals of at most 15 significant digits this is exactly how the double it parses to
  compares with integers and how \<open>repr\<close> prints it. The operations are those the program
  applies to request data: truthiness (\<open>if x:\<close>), \<open>dict.get\<close> with its default,
  \<open>x or y\<close>, comparison with a number, \<open>isinstance\<close>, and \<open>str\<close>/\<open>repr\<close> as f-strings
  print them. A Python exception is a value of \<open>py_exc\<close>.
\<close>

datatype pyval =
    PNone
  | PBool bool
  | PInt int
  | PFloat int int
  | PStr pystr
  | PList "pyval list"
  | PDict "(pystr \<times> pyval) list"

text \<open>Exceptions: \<open>ValueError\<close> and \<open>KeyError\<close> carry the message the program gives them;
  for the exceptions raised by the interpreter only the class is kept. \<open>UnicodeEncodeError\<close>
  is raised by \<open>str.encode()\<close> on a lone surrogate; in Python it is a subclass of
  \<open>ValueError\<close>, and \<open>JSONDecodeError\<close> is one too.\<close>

datatype py_exc =
    ValueError pystr | TypeError | AttributeError | KeyError pystr
  | UnicodeEncodeError | JSONDecodeError | OverflowError

fun is_value_error :: "py_exc \<Rightarrow> bool" where
  "is_value_error (ValueError m) = True"
| "is_value_error UnicodeEncodeError = True"
| "is_value_error JSONDecodeError = True"
| "is_value_error e = False"

text \<open>Propagation of exceptions: a computation that may raise is a value of \<open>py_exc + 'a\<close>;
  \<open>ebind\<close> runs the rest only when no exception was raised, and \<open>emap\<close> is a list
  comprehension, which stops at the first element that raises.\<close>

definition ebind :: "'e + 'a \<Rightarrow> ('a \<Rightarrow> 'e + 'b) \<Rightarrow> 'e + 'b" where
  "ebind m f = (case m of Inl e \<Rightarrow> Inl e | Inr a \<Rightarrow> f a)"

fun emap :: "('a \<Rightarrow> 'e + 'b) \<Rightarrow> 'a list \<Rightarrow> 'e + 'b list" where
  "emap f [] = Inr []"
| "emap f (x # xs) = ebind (f x) (\<lambda>y. ebind (emap f xs) (\<lambda>ys. Inr (y # ys)))"

fun py_truthy :: "pyval \<Rightarrow> bool" where
  "py_truthy PNone = False"
| "py_truthy (PBool b) = b"
| "py_truthy (PInt i) = (i \<noteq> 0)"
| "py_truthy (PFloat m e) = (m \<noteq> 0)"
| "py_truthy (PStr s) = (s \<noteq> [])"
| "py_truthy (PList xs) = (xs \<noteq> [])"
| "py_truthy (PDict d) = (d \<noteq> [])"

text \<open>\<open>d.get(k, default)\<close> on a dictionary, and on any other value the \<open>AttributeError\<close>
  that \<open>x.get\<close> raises.\<close>

definition dict_get :: "(pystr \<times> pyval) list \<Rightarrow> pystr \<Rightarrow> pyval \<Rightarrow> pyval" where
  "dict_get d k dflt = (case map_of d k of None \<Rightarrow> dflt | Some v \<Rightarrow> v)"

fun py_get :: "pyval \<Rightarrow> pystr \<Rightarrow> pyval \<Rightarrow> py_exc + pyval" where
  "py_get (PDict d) k dflt = Inr (dict_get d k dflt)"
| "py_get v k dflt = Inl AttributeError"

text \<open>\<open>for x in v\<close>: a list gives its elements, a dictionary its keys, a string its
  characters; other values are not iterable.\<close>

fun py_iter :: "pyval \<Rightarrow> py_exc + pyval list" where
  "py_iter (PList xs) = Inr xs"
| "py_iter (PDict d) = Inr (map (\<lambda>(k, v). PStr k) d)"
| "py_iter (PStr s) = Inr (map (\<lambda>c. PStr [c]) s)"
| "py_iter v = Inl TypeError"

text \<open>\<open>d[k] = v\<close>: an existing key keeps its position.\<close>

fun dict_set :: "(pystr \<times> pyval) list \<Rightarrow> pystr \<Rightarrow> pyval \<Rightarrow> (pystr \<times> pyval) list" where
  "dict_set [] k v = [(k, v)]"
| "dict_set ((k', v') # d) k v = (if k' = k then (k, v) # d else (k', v') # dict_set d k v)"

text \<open>\<open>len(v)\<close>; numbers, booleans and \<open>None\<close> have no length.\<close>

fun py_len :: "pyval \<Rightarrow> py_exc + nat" where
  "py_len (PStr s) = Inr (length s)"
| "py_len (PList xs) = Inr (length xs)"
| "py_len (PDict d) = Inr (length d)"
| "py_len v = Inl TypeError"

definition is_surrogate :: "uchar \<Rightarrow> bool" where
  "is_surrogate c \<longleftrightarrow> 0xD800 \<le> c \<and> c \<le> 0xDFFF"

definition py_or :: "pyval \<Rightarrow> pyval \<Rightarrow> pyval" where
  "py_or a b = (if py_truthy a then a else b)"

fun is_dict :: "pyval \<Rightarrow> bool" where
  "is_dict (PDict d) = True"
| "is_dict v = False"

fun is_list :: "pyval \<Rightarrow> bool" where
  "is_list (PList xs) = True"
| "is_list v = False"

text \<open>Numbers as \<open>(m, e)\<close> for \<open>m * 10 ^ e\<close>; \<open>bool\<close> is a subclass of \<open>int\<close>.\<close>

fun py_num :: "pyval \<Rightarrow> (int \<times> int) option" where
  "py_num (PBool b) = Some (if b then 1 else 0, 0)"
| "py_num (PInt i) = Some (i, 0)"
| "py_num (PFloat m e) = Some (m, e)"
| "py_num v = None"

definition num_less :: "int \<times> int \<Rightarrow> int \<times> int \<Rightarrow> bool" where
  "num_less x y = (case (x, y) of ((m1, e1), (m2, e2)) \<Rightarrow>
     (let e = min e1 e2 in m1 * 10 ^ nat (e1 - e) < m2 * 10 ^ nat (e2 - e)))"

text \<open>\<open>a < b\<close>: numbers compare by value; any other pair the program compares raises
  \<open>TypeError\<close>.\<close>

definition py_less :: "pyval \<Rightarrow> pyval \<Rightarrow> py_exc + bool" where
  "py_less a b = (case (py_num a, py_num b) of
                    (Some x, Some y) \<Rightarrow> Inr (num_less x y)
                  | _ \<Rightarrow> Inl TypeError)"

subsection \<open>Printing values\<close>

function strip_zeros :: "nat \<Rightarrow> int \<Rightarrow> nat \<times> int" where
  "strip_zeros m e = (if m \<noteq> 0 \<and> m mod 10 = 0 then strip_zeros (m div 10) (e + 1) else (m, e))"
  by pat_completeness auto
termination
  by (relation "measure (\<lambda>(m, e). m)") auto

declare strip_zeros.simps [simp del]

text \<open>
  \<open>repr\<close> of a float (CPython's shortest round-trip form): positional notation when the
  decimal exponent of the first digit is between -4 and 15, with at least one digit after the
  point, and scientific notation with a signed two-digit exponent otherwise.
\<close>

definition py_repr_float :: "int \<Rightarrow> int \<Rightarrow> pystr" where
  "py_repr_float m e =
     (let (a, x) = strip_zeros (nat \<bar>m\<bar>) e;
          d = dec_digits a;
          n = int (length d);
          sci = n - 1 + x;
          sign = (if m < 0 then [45] else [])
      in if a = 0 then asc ''0.0''
         else sign @
           (if -4 \<le> sci \<and> sci \<le> 15 then
              (if 0 \<le> x then d @ replicate (nat x) 48 @ asc ''.0''
               else if 0 < n + x then take (nat (n + x)) d @ [46] @ drop (nat (n + x)) d
               else asc ''0.'' @ replicate (nat (- (n + x))) 48 @ d)
            else take 1 d @ (if 1 < n then 46 # drop 1 d else []) @ [101] @
                 (if sci < 0 then [45] else [43]) @ (if \<bar>sci\<bar> < 10 then [48] else []) @
                 dec_digits (nat \<bar>sci\<bar>)))"

definition hex_digit :: "nat \<Rightarrow> uchar" where
  "hex_digit n = (if n < 10 then 48 + n else 87 + n)"

fun hex_width :: "nat \<Rightarrow> nat \<Rightarrow> pystr" where
  "hex_width 0 n = []"
| "hex_width (Suc w) n = hex_width w (n div 16) @ [hex_digit (n mod 16)]"

text \<open>One character inside the quotes of \<open>repr\<close> of a string.\<close>

definition repr_char :: "ucd \<Rightarrow> uchar \<Rightarrow> uchar \<Rightarrow> pystr" where
  "repr_char db q c =
     (if c = q \<or> c = 92 then [92, c]
      else if c = 9 then [92, 116] else if c = 10 then [92, 110] else if c = 13 then [92, 114]
      else if c < 32 \<or> c = 127 then [92, 120] @ hex_width 2 c
      else if c < 127 then [c]
      else if ucd_printable db c then [c]
      else if c \<le> 0xFF then [92, 120] @ hex_width 2 c
      else if c \<le> 0xFFFF then [92, 117] @ hex_width 4 c
      else [92, 85] @ hex_width 8 c)"

definition py_repr_str :: "ucd \<Rightarrow> pystr \<Rightarrow> pystr" where
  "py_repr_str db s =
     (let q = (if 39 \<in> set s \<and> 34 \<notin> set s then 34 else 39)
      in q # concat (map (repr_char db q) s) @ [q])"

fun py_repr :: "ucd \<Rightarrow> pyval \<Rightarrow> pystr" where
  "py_repr db PNone = asc ''None''"
| "py_repr db (PBool b) = (if b then asc ''True'' else asc ''False'')"
| "py_repr db (PInt i) = py_str_int i"
| "py_repr db (PFloat m e) = py_repr_float m e"
| "py_repr db (PStr s) = py_repr_str db s"
| "py_repr db (PList xs) = 91 # py_join (asc '', '') (map (py_repr db) xs) @ [93]"
| "py_repr db (PDict d) =
     123 # py_join (asc '', '') (map (\<lambda>(k, v). py_repr_str db k @ asc '': '' @ py_repr db v) d) @ [125]"

text \<open>\<open>str(x)\<close>, which an f-string field \<open>{x}\<close> prints.\<close>

fun py_str :: "ucd \<Rightarrow> pyval \<Rightarrow> pystr" where
  "py_str db (PStr s) = s"
| "py_str db v = py_repr db v"

subsection \<open>Exception propagation\<close>

lemma ebind_simps [simp]: "ebind (Inl e) f = Inl e" "ebind (Inr a) f = f a"
  by (simp_all add: ebind_def)

lemma ebind_cong_eval: "m = m' \<Longrightarrow> ebind m f = ebind m' f"
  by simp

lemma ebind_eq_Inr: "ebind m f = Inr b \<longleftrightarrow> (\<exists>a. m = Inr a \<and> f a = Inr b)"
  by (cases m) simp_all

lemma ebind_eq_Inl: "ebind m f = Inl e \<longleftrightarrow> m = Inl e \<or> (\<exists>a. m = Inr a \<and> f a = Inl e)"
  by (cases m) simp_all

lemma emap_eq_Inr: "emap f xs = Inr ys \<longleftrightarrow> list_all2 (\<lambda>x y. f x = Inr y) xs ys"
proof (induction xs arbitrary: ys)
  case (Cons x xs)
  then show ?case by (cases ys) (auto simp: ebind_eq_Inr)
qed auto

lemma emap_map: "emap (\<lambda>x. Inr (f x)) xs = Inr (map f xs)"
  by (induction xs) simp_all

lemma map_of_dict_set: "map_of (dict_set d k v) = (map_of d)(k \<mapsto> v)"
  by (induction d) (auto simp: fun_eq_iff)

lemma keys_dict_set: "fst ` set (dict_set d k v) = insert k (fst ` set d)"
proof (induction d)
  case (Cons kv d)
  then show ?case by (cases kv) (auto simp: image_iff)
qed simp

end
