(* ===== verification/Redaction.thy ===== *)
theory Redaction
  imports Regex Pyval
begin

text \<open>
  Free-text redaction: \<open>PII_PATTERNS\<close> and \<open>PIISanitizer.sanitize_text\<close> of
  \<open>src/lambda_deployment/temp_v17/pii_sanitizer.py\<close>, over the \<open>re\<close> model of
  \<open>Regex\<close>. The five patterns are applied in order, each to the result of the previous one.
  The character table is a parameter; \<open>ucd_ok\<close> states the few facts about it the proofs
  use, all true of Unicode: the brackets of the placeholders are neither word characters nor
  digits and have no case variants, and no capital letter is a digit or a case variant of
  \<open>@\<close>. \<open>ascii_ucd\<close> and \<open>cjk_ucd\<close> are concrete tables for examples, the
  second with the word characters of Japanese text.
\<close>

subsection \<open>The patterns of \<open>PII_PATTERNS\<close>\<close>

abbreviation lit :: "uchar \<Rightarrow> rx" where
  "lit c \<equiv> Chars (CRanges [(c, c)]) 1 (Some 1)"

text \<open>\<open>\b[A-Za-z0-9._%+-]+@[A-Za-z0-9.-]+\.[A-Z|a-z]{2,}\b\<close>\<close>

definition email_rx :: regex where
  "email_rx =
     [WordB,
      Chars (CRanges [(65, 90), (97, 122), (48, 57), (46, 46), (95, 95), (37, 37), (43, 43), (45, 45)]) 1 None,
      lit 64,
      Chars (CRanges [(65, 90), (97, 122), (48, 57), (46, 46), (45, 45)]) 1 None,
      lit 46,
      Chars (CRanges [(65, 90), (124, 124), (97, 122)]) 2 None,
      WordB]"

text \<open>\<open>\b0\d{1,4}[-\<minus>]?\d{1,4}[-\<minus>]?\d{4}\b\<close>, where \<open>\<minus>\<close> is U+2212.\<close>

definition phone_rx :: regex where
  "phone_rx =
     [WordB, lit 48, Chars CDigit 1 (Some 4), Chars (CRanges [(45, 45), (0x2212, 0x2212)]) 0 (Some 1),
      Chars CDigit 1 (Some 4), Chars (CRanges [(45, 45), (0x2212, 0x2212)]) 0 (Some 1),
      Chars CDigit 4 (Some 4), WordB]"

text \<open>\<open>\b\d{3}[-\<minus>]?\d{4}[-\<minus>]?\d{4}\b\<close>\<close>

definition id_rx :: regex where
  "id_rx =
     [WordB, Chars CDigit 3 (Some 3), Chars (CRanges [(45, 45), (0x2212, 0x2212)]) 0 (Some 1),
      Chars CDigit 4 (Some 4), Chars (CRanges [(45, 45), (0x2212, 0x2212)]) 0 (Some 1),
      Chars CDigit 4 (Some 4), WordB]"

text \<open>\<open>\b\d{4}[-/]\d{1,2}[-/]\d{1,2}\b\<close>\<close>

definition date_rx :: regex where
  "date_rx =
     [WordB, Chars CDigit 4 (Some 4), Chars (CRanges [(45, 45), (47, 47)]) 1 (Some 1),
      Chars CDigit 1 (Some 2), Chars (CRanges [(45, 45), (47, 47)]) 1 (Some 1),
      Chars CDigit 1 (Some 2), WordB]"

text \<open>\<open>\brs\d+\b\<close>\<close>

definition snp_rx :: regex where
  "snp_rx = [WordB, lit 114, lit 115, Chars CDigit 1 None, WordB]"

definition pii_patterns :: "(regex \<times> pystr) list" where
  "pii_patterns =
     [(email_rx, asc ''[EMAIL]''), (phone_rx, asc ''[PHONE]''), (id_rx, asc ''[ID]''),
      (date_rx, asc ''[DATE]''), (snp_rx, asc ''[SNP]'')]"

text \<open>\<open>sanitize_text\<close>: a falsy argument gives the empty string; any other non-string makes
  \<open>re.sub\<close> raise \<open>TypeError\<close>; a string goes through the five substitutions in order.\<close>

definition redact :: "ucd \<Rightarrow> pystr \<Rightarrow> pystr" where
  "redact db s = fold (\<lambda>(p, repl) r. re_sub db p repl [] r) pii_patterns s"

fun sanitize_text :: "ucd \<Rightarrow> pyval \<Rightarrow> py_exc + pystr" where
  "sanitize_text db (PStr s) = Inr (if s = [] then [] else redact db s)"
| "sanitize_text db v = (if py_truthy v then Inl TypeError else Inr [])"

text \<open>A text with no match of any of the five patterns.\<close>

definition pii_free :: "ucd \<Rightarrow> pystr \<Rightarrow> bool" where
  "pii_free db s \<longleftrightarrow> (\<forall>(p, t)\<in>set pii_patterns. \<not> re_search db p s)"

definition ucd_ok :: "ucd \<Rightarrow> bool" where
  "ucd_ok db \<longleftrightarrow>
     \<not> ucd_word db 91 \<and> \<not> ucd_word db 93 \<and> \<not> ucd_digit db 91 \<and> \<not> ucd_digit db 93 \<and>
     ucd_casevar db 91 = [] \<and> ucd_casevar db 93 = [] \<and>
     (\<forall>c\<in>{65..90}. \<not> ucd_digit db c \<and> 64 \<notin> set (ucd_casevar db c))"

text \<open>Concrete tables: ASCII letters, digits and underscore as word characters, and the same
  with hiragana, katakana and the CJK ideographs, which Python's \<open>\w\<close> also counts.\<close>

definition ascii_ucd :: ucd where
  "ascii_ucd =
     \<lparr>ucd_word = (\<lambda>c. (48 \<le> c \<and> c \<le> 57) \<or> (65 \<le> c \<and> c \<le> 90) \<or> (97 \<le> c \<and> c \<le> 122) \<or> c = 95),
      ucd_digit = (\<lambda>c. 48 \<le> c \<and> c \<le> 57),
      ucd_printable = (\<lambda>c. 32 \<le> c \<and> c < 127),
      ucd_casevar = (\<lambda>c. if 65 \<le> c \<and> c \<le> 90 then [c + 32] else if 97 \<le> c \<and> c \<le> 122 then [c - 32] else [])\<rparr>"

definition cjk_ucd :: ucd where
  "cjk_ucd = ascii_ucd
     \<lparr>ucd_word := (\<lambda>c. ucd_word ascii_ucd c \<or> (0x3041 \<le> c \<and> c \<le> 0x30FF) \<or> (0x4E00 \<le> c \<and> c \<le> 0x9FFF)),
      ucd_printable := (\<lambda>c. ucd_printable ascii_ucd c \<or> (0x3000 \<le> c \<and> c \<le> 0x9FFF))\<rparr>"

lemmas rx_eval = redact_def pii_patterns_def email_rx_def phone_rx_def id_rx_def date_rx_def snp_rx_def
  asc_def rep_max_def in_ranges_def is_boundary_def word_before_def word_after_def upt_rec

subsection \<open>The patterns against the placeholders\<close>

lemma rx_needs_digit:
  "ucd_ok db \<Longrightarrow> Chars CDigit lo hi \<in> set r \<Longrightarrow> 0 < lo \<Longrightarrow> rx_needs db r {65..90}"
  unfolding rx_needs_def ucd_ok_def by fastforce

lemma rx_needs_at:
  assumes "ucd_ok db" "Chars (CRanges [(64, 64)]) lo hi \<in> set r" "0 < lo"
  shows "rx_needs db r {65..90}"
proof -
  have "\<forall>c\<in>{65..90}. \<not> cs_match db (CRanges [(64, 64)]) c"
    using assms(1) by (auto simp: ucd_ok_def in_ranges_def)
  with assms(2,3) show ?thesis unfolding rx_needs_def by blast
qed

lemma pii_patterns_needs: "ucd_ok db \<Longrightarrow> p \<in> fst ` set pii_patterns \<Longrightarrow> rx_needs db p {65..90}"
  unfolding pii_patterns_def
  by (auto intro: rx_needs_digit rx_needs_at simp: email_rx_def phone_rx_def id_rx_def date_rx_def snp_rx_def)

lemma pii_patterns_bounded: "p \<in> fst ` set pii_patterns \<Longrightarrow> rx_bounded p"
  unfolding pii_patterns_def rx_bounded_def
  by (auto simp: email_rx_def phone_rx_def id_rx_def date_rx_def snp_rx_def)

lemma pii_patterns_brackets:
  "ucd_ok db \<Longrightarrow> p \<in> fst ` set pii_patterns \<Longrightarrow> \<not> class_char db p 91 \<and> \<not> class_char db p 93"
  unfolding pii_patterns_def class_char_def ucd_ok_def
  by (auto simp: email_rx_def phone_rx_def id_rx_def date_rx_def snp_rx_def in_ranges_def)

lemma pii_token_facts:
  "(p, t) \<in> set pii_patterns \<Longrightarrow> \<exists>L. t = 91 # L @ [93] \<and> set L \<subseteq> {65..90}"
  unfolding pii_patterns_def by (auto simp: asc_def)

lemma redact_fold_clean:
  assumes db: "ucd_ok db" and ps: "set ps \<subseteq> set pii_patterns"
    and A: "A \<subseteq> fst ` set pii_patterns" and clean: "\<forall>q\<in>A. \<not> re_search db q s"
  shows "\<forall>q\<in>A \<union> fst ` set ps. \<not> re_search db q (fold (\<lambda>(p, repl) r. re_sub db p repl [] r) ps s)"
  using ps A clean
proof (induction ps arbitrary: A s)
  case Nil
  then show ?case by simp
next
  case (Cons pt ps)
  obtain p t where pt: "pt = (p, t)" by fastforce
  with Cons.prems(1) have pin: "(p, t) \<in> set pii_patterns" by simp
  then have pf: "p \<in> fst ` set pii_patterns" by force
  from pii_token_facts [OF pin] obtain L where t: "t = 91 # L @ [93]" and L: "set L \<subseteq> {65..90}"
    by blast
  have br: "\<not> ucd_word db 91" "\<not> ucd_word db 93" using db by (simp_all add: ucd_ok_def)
  have step: "\<forall>q\<in>insert p A. \<not> re_search db q (re_sub db p t [] s)"
  proof
    fix q assume q: "q \<in> insert p A"
    then have qf: "q \<in> fst ` set pii_patterns" using Cons.prems(2) pf by blast
    show "\<not> re_search db q (re_sub db p t [] s)" unfolding t
    proof (rule re_sub_clean)
      show "rx_bounded p" "rx_needs db p {65..90}"
        using pf db by (simp_all add: pii_patterns_bounded pii_patterns_needs)
      show "rx_bounded q" "\<not> class_char db q 91" "\<not> class_char db q 93"
        using qf db by (simp_all add: pii_patterns_bounded pii_patterns_brackets)
      show "rx_needs db q (set L)" using pii_patterns_needs [OF db qf] L by (rule rx_needs_mono)
      show "\<not> ucd_word db 91" "\<not> ucd_word db 93" by (fact br)+
      show "q = p \<or> \<not> re_search db q s" using q Cons.prems(3) by blast
    qed
  qed
  have "insert p A \<subseteq> fst ` set pii_patterns" using Cons.prems(2) pf by blast
  from Cons.IH [OF _ this step] Cons.prems(1) pt show ?case by auto
qed

subsection \<open>Redaction leaves no personal data\<close>

lemma fold_re_sub_id:
  "\<forall>(p, t)\<in>set ps. (\<exists>S. rx_needs db p S) \<and> \<not> re_search db p s \<Longrightarrow>
   fold (\<lambda>(p, repl) r. re_sub db p repl [] r) ps s = s"
  by (induction ps) (auto simp: re_sub_no_match)

lemma redact_clean:
  "ucd_ok db \<Longrightarrow> p \<in> fst ` set pii_patterns \<Longrightarrow> \<not> re_search db p (redact db s)"
  using redact_fold_clean [of db pii_patterns "{}" s] unfolding redact_def by blast

lemma re_search_Nil: "rx_needs db p S \<Longrightarrow> \<not> re_search db p []"
  by (simp add: re_search_def rx_ends_Nil_suf)

lemma sanitize_text_clean:
  assumes ok: "ucd_ok db" and r: "sanitize_text db v = Inr out"
  shows "pii_free db out"
proof -
  have "\<not> re_search db p out" if "(p, t) \<in> set pii_patterns" for p t
  proof -
    from that have pf: "p \<in> fst ` set pii_patterns" by force
    have nil: "\<not> re_search db p []" by (rule re_search_Nil [OF pii_patterns_needs [OF ok pf]])
    show ?thesis
    proof (cases v)
      case (PStr s)
      with r have "out = (if s = [] then [] else redact db s)" by simp
      with nil redact_clean [OF ok pf] show ?thesis by simp
    qed (use r nil in \<open>auto split: if_splits\<close>)
  qed
  then show ?thesis unfolding pii_free_def by blast
qed

text \<open>C1: Whatever string \<open>sanitize_text\<close> returns contains no match of any of the five
  patterns: no email, phone number, identifier, date or SNP id survives redaction, including
  ones that an earlier substitution could have produced.\<close>

theorem sanitize_text_no_pii:
  assumes "ucd_ok db" "sanitize_text db v = Inr out" "(p, t) \<in> set pii_patterns"
  shows "\<not> re_search db p out"
  using sanitize_text_clean [OF assms(1,2)] assms(3) unfolding pii_free_def by blast

theorem sanitize_text_no_pii_witness:
  "ucd_ok ascii_ucd \<and>
   sanitize_text ascii_ucd (PStr (asc ''mail a@b.com'')) = Inr (asc ''mail [EMAIL]'') \<and>
   (email_rx, asc ''[EMAIL]'') \<in> set pii_patterns \<and>
   \<not> re_search ascii_ucd email_rx (asc ''mail [EMAIL]'')"
proof -
  have ok: "ucd_ok ascii_ucd" by (auto simp: ucd_ok_def ascii_ucd_def)
  have ev: "sanitize_text ascii_ucd (PStr (asc ''mail a@b.com'')) = Inr (asc ''mail [EMAIL]'')"
    by (simp add: rx_eval ascii_ucd_def cong: map_cong_eval)
  have mem: "(email_rx, asc ''[EMAIL]'') \<in> set pii_patterns" by (simp add: pii_patterns_def)
  from sanitize_text_no_pii [OF ok ev mem] ok ev mem show ?thesis by blast
qed

text \<open>C14: Redaction is idempotent: sanitizing already sanitized text changes nothing.\<close>

theorem redact_idempotent:
  assumes ok: "ucd_ok db"
  shows "redact db (redact db s) = redact db s"
proof -
  have "\<forall>(p, t)\<in>set pii_patterns. (\<exists>S. rx_needs db p S) \<and> \<not> re_search db p (redact db s)"
  proof clarify
    fix p t assume "(p, t) \<in> set pii_patterns"
    then have pf: "p \<in> fst ` set pii_patterns" by force
    show "(\<exists>S. rx_needs db p S) \<and> \<not> re_search db p (redact db s)"
      using pii_patterns_needs [OF ok pf] redact_clean [OF ok pf] by blast
  qed
  then show ?thesis unfolding redact_def [of db "redact db s"] by (rule fold_re_sub_id)
qed

theorem redact_idempotent_witness:
  "ucd_ok ascii_ucd \<and>
   redact ascii_ucd (redact ascii_ucd (asc ''rs7 2024-1-2'')) = redact ascii_ucd (asc ''rs7 2024-1-2'')"
proof -
  have ok: "ucd_ok ascii_ucd" by (auto simp: ucd_ok_def ascii_ucd_def)
  from redact_idempotent [OF ok] ok show ?thesis by blast
qed

text \<open>Example, the scenario of the specification: SNP id and email address of the message are
  replaced by their placeholders, the rest of the text is kept.\<close>

theorem sanitize_text_scenario:
  "sanitize_text ascii_ucd (PStr (asc ''rs123 says I'm at risk, email me at a@b.com'')) =
   Inr (asc ''[SNP] says I'm at risk, email me at [EMAIL]'')"
  by (simp add: rx_eval ascii_ucd_def cong: map_cong_eval)

text \<open>Example: \<open>\b\<close> uses Unicode word characters, so a phone number written directly after
  Japanese text (telephone, U+96FB U+8A71) is not redacted; the same number after a space is.\<close>

theorem sanitize_text_cjk_phone:
  "sanitize_text cjk_ucd (PStr ([0x96FB, 0x8A71] @ asc ''090-1234-5678'')) =
     Inr ([0x96FB, 0x8A71] @ asc ''090-1234-5678'') \<and>
   sanitize_text cjk_ucd (PStr ([0x96FB, 0x8A71, 32] @ asc ''090-1234-5678'')) =
     Inr [0x96FB, 0x8A71, 32, 91, 80, 72, 79, 78, 69, 93]"
  by (simp add: rx_eval cjk_ucd_def ascii_ucd_def cong: map_cong_eval)

end
