(* ===== verification/Sanitizer.thy ===== *)
theory Sanitizer
  imports Redaction
begin

text \<open>
  The structured part of the PII sanitizer, class \<open>PIISanitizer\<close> of
  \<open>src/lambda_deployment/temp_v17/pii_sanitizer.py\<close>: the salt from the environment, the
  pseudonymous user token, the allowlisting of the blood, gene and vital data, the redaction of
  the conversation history, and \<open>sanitize_request\<close>, which combines them. Request data are
  the values of \<open>Pyval\<close> as \<open>json.loads\<close> produces them, so every operation is defined on
  every value, and an input of the wrong shape gives the exception Python raises on it. The
  process environment, SHA-256 and the character table are the collaborators of the
  sanitizer; a \<open>runtime\<close> holds them.
\<close>

record runtime =
  rt_ucd :: ucd
  rt_environ :: "pystr \<Rightarrow> pystr option"
  rt_sha256 :: "pystr \<Rightarrow> pystr"

text \<open>\<open>rt_sha256 s\<close> is \<open>hashlib.sha256(s.encode()).hexdigest()\<close> for a string \<open>s\<close> that
  \<open>encode\<close> accepts.\<close>

definition salt_missing_msg :: pystr where
  "salt_missing_msg = asc ''PII_SALT environment variable is required. Set it in Lambda configuration.''"

definition get_salt :: "runtime \<Rightarrow> py_exc + pystr" where
  "get_salt rt =
     (case rt_environ rt (asc ''PII_SALT'') of
        Some salt \<Rightarrow> if salt \<noteq> [] then Inr salt else Inl (ValueError salt_missing_msg)
      | None \<Rightarrow> Inl (ValueError salt_missing_msg))"

text \<open>\<open>anonymize_user_id\<close>: a falsy id is \<open>anonymous\<close> without looking at the salt; otherwise
  the f-string \<open>{salt}:{user_id}\<close> is encoded as UTF-8, which fails on a lone surrogate, and
  hashed.\<close>

definition anonymize_user_id :: "runtime \<Rightarrow> pyval \<Rightarrow> py_exc + pystr" where
  "anonymize_user_id rt user_id =
     (if \<not> py_truthy user_id then Inr (asc ''anonymous'')
      else ebind (get_salt rt) (\<lambda>salt.
        let salted_id = salt @ [58] @ py_str (rt_ucd rt) user_id
        in if \<exists>c\<in>set salted_id. is_surrogate c then Inl UnicodeEncodeError
           else Inr (asc ''user_'' @ take 12 (rt_sha256 rt salted_id))))"

subsection \<open>Blood data\<close>

text \<open>One item of \<open>sanitize_blood_data\<close>: the five kept fields, the name from \<open>nameJp\<close>
  or else \<open>name\<close>; \<open>key\<close> and every other field are dropped. A non-dictionary item has no
  \<open>get\<close>.\<close>

fun blood_item :: "pyval \<Rightarrow> py_exc + pyval" where
  "blood_item (PDict item) =
     Inr (PDict [(asc ''name'', dict_get item (asc ''nameJp'') (dict_get item (asc ''name'') (PStr []))),
                 (asc ''value'', dict_get item (asc ''value'') (PStr [])),
                 (asc ''unit'', dict_get item (asc ''unit'') (PStr [])),
                 (asc ''status'', dict_get item (asc ''status'') (PStr [])),
                 (asc ''reference'', dict_get item (asc ''reference'') (PStr []))])"
| "blood_item v = Inl AttributeError"

definition sanitize_blood_data :: "pyval \<Rightarrow> py_exc + pyval" where
  "sanitize_blood_data blood_data =
     (if \<not> py_truthy blood_data then Inr (PList [])
      else ebind (py_iter blood_data) (\<lambda>items. ebind (emap blood_item items) (\<lambda>xs. Inr (PList xs))))"

subsection \<open>Gene data\<close>

text \<open>\<open>d.get("impact", {}).get(k, dflt) if isinstance(d.get("impact"), dict) else other\<close>.\<close>

definition impact_get :: "(pystr \<times> pyval) list \<Rightarrow> pystr \<Rightarrow> pyval \<Rightarrow> pyval \<Rightarrow> pyval" where
  "impact_get d k dflt other =
     (case dict_get d (asc ''impact'') PNone of PDict imp \<Rightarrow> dict_get imp k dflt | _ \<Rightarrow> other)"

text \<open>A marker of a list of markers.\<close>

fun gene_marker :: "pyval \<Rightarrow> py_exc + pyval" where
  "gene_marker (PDict marker) =
     Inr (PDict [(asc ''title'', dict_get marker (asc ''title'') (PStr [])),
                 (asc ''impact_level'', impact_get marker (asc ''score'') (PInt 0) (PInt 0)),
                 (asc ''score_level'', dict_get marker (asc ''scoreLevel'')
                    (impact_get marker (asc ''scoreLevel'') (PStr []) (PStr [])))])"
| "gene_marker v = Inl AttributeError"

text \<open>A single marker, given as a dictionary.\<close>

definition gene_single :: "(pystr \<times> pyval) list \<Rightarrow> pyval" where
  "gene_single data =
     PDict [(asc ''title'', dict_get data (asc ''title'') (PStr [])),
            (asc ''impact_level'', impact_get data (asc ''score'') (PInt 0) (dict_get data (asc ''score'') (PInt 0))),
            (asc ''score_level'', dict_get data (asc ''scoreLevel'') (PStr []))]"

text \<open>The loop over \<open>gene_data.items()\<close>: \<open>availableCategories\<close> is skipped, a list of
  markers and a single marker are sanitized, a value of any other type is dropped.\<close>

fun gene_loop :: "(pystr \<times> pyval) list \<Rightarrow> (pystr \<times> pyval) list \<Rightarrow> py_exc + (pystr \<times> pyval) list" where
  "gene_loop sanitized [] = Inr sanitized"
| "gene_loop sanitized ((category, data) # rest) =
     (if category = asc ''availableCategories'' then gene_loop sanitized rest
      else case data of
        PList markers \<Rightarrow>
          ebind (emap gene_marker markers) (\<lambda>ms. gene_loop (dict_set sanitized category (PList ms)) rest)
      | PDict d \<Rightarrow> gene_loop (dict_set sanitized category (gene_single d)) rest
      | _ \<Rightarrow> gene_loop sanitized rest)"

fun sanitize_gene_data :: "pyval \<Rightarrow> py_exc + pyval" where
  "sanitize_gene_data (PDict d) =
     (if d = [] then Inr (PDict []) else ebind (gene_loop [] d) (\<lambda>s. Inr (PDict s)))"
| "sanitize_gene_data v = (if py_truthy v then Inl AttributeError else Inr (PDict []))"

subsection \<open>Vital data\<close>

text \<open>\<open>"high" if (v or 0) > 45 else "moderate" if (v or 0) > 35 else "low" if v else None\<close>;
  a comparison of a non-number with a number raises \<open>TypeError\<close>.\<close>

definition vo2max_level :: "pyval \<Rightarrow> py_exc + pyval" where
  "vo2max_level v =
     ebind (py_less (PInt 45) (py_or v (PInt 0))) (\<lambda>high.
       if high then Inr (PStr (asc ''high''))
       else ebind (py_less (PInt 35) (py_or v (PInt 0))) (\<lambda>moderate.
         if moderate then Inr (PStr (asc ''moderate''))
         else Inr (if py_truthy v then PStr (asc ''low'') else PNone)))"

text \<open>\<open>"athlete" if (v or 100) < 55 else "good" if (v or 100) < 70 else "average"\<close>.\<close>

definition resting_hr_level :: "pyval \<Rightarrow> py_exc + pyval" where
  "resting_hr_level v =
     ebind (py_less (py_or v (PInt 100)) (PInt 55)) (\<lambda>athlete.
       if athlete then Inr (PStr (asc ''athlete''))
       else ebind (py_less (py_or v (PInt 100)) (PInt 70)) (\<lambda>good.
         Inr (PStr (if good then asc ''good'' else asc ''average''))))"

fun sanitize_vital_data :: "pyval \<Rightarrow> py_exc + pyval" where
  "sanitize_vital_data (PDict d) =
     (if d = [] then Inr (PDict [])
      else let g = (\<lambda>k. dict_get d (asc k) PNone) in
        ebind (vo2max_level (g ''vo2Max'')) (\<lambda>vo2.
        ebind (resting_hr_level (g ''restingHeartRate'')) (\<lambda>hr.
          Inr (PDict [(asc ''has_body_composition'', PBool (py_truthy (g ''bodyMass''))),
                      (asc ''has_heart_data'', PBool (py_truthy (g ''restingHeartRate'') \<or>
                                                      py_truthy (g ''heartRateVariability''))),
                      (asc ''has_activity_data'', PBool (py_truthy (g ''stepCount'') \<or>
                                                         py_truthy (g ''activeEnergyBurned''))),
                      (asc ''has_vo2max'', PBool (py_truthy (g ''vo2Max''))),
                      (asc ''vo2max_level'', vo2),
                      (asc ''resting_hr_level'', hr)]))))"
| "sanitize_vital_data v = (if py_truthy v then Inl AttributeError else Inr (PDict []))"

subsection \<open>Conversation history and the whole request\<close>

fun history_msg :: "ucd \<Rightarrow> pyval \<Rightarrow> py_exc + pyval" where
  "history_msg db (PDict msg) =
     ebind (sanitize_text db (dict_get msg (asc ''content'') (PStr []))) (\<lambda>content.
       Inr (PDict [(asc ''role'', dict_get msg (asc ''role'') (PStr [])), (asc ''content'', PStr content)]))"
| "history_msg db v = Inl AttributeError"

definition sanitize_conversation_history :: "ucd \<Rightarrow> pyval \<Rightarrow> py_exc + pyval" where
  "sanitize_conversation_history db history =
     (if \<not> py_truthy history then Inr (PList [])
      else ebind (py_iter history) (\<lambda>msgs. ebind (emap (history_msg db) msgs) (\<lambda>xs. Inr (PList xs))))"

text \<open>\<open>if key in request_data and request_data[key]: sanitized[key] = f(request_data[key])\<close>.\<close>

definition add_section ::
  "(pyval \<Rightarrow> py_exc + pyval) \<Rightarrow> pystr \<Rightarrow> (pystr \<times> pyval) list \<Rightarrow> (pystr \<times> pyval) list \<Rightarrow>
   py_exc + (pystr \<times> pyval) list" where
  "add_section f key request sanitized =
     (case map_of request key of
        Some v \<Rightarrow> if py_truthy v then ebind (f v) (\<lambda>v'. Inr (dict_set sanitized key v')) else Inr sanitized
      | None \<Rightarrow> Inr sanitized)"

fun sanitize_request :: "runtime \<Rightarrow> pyval \<Rightarrow> py_exc + pyval" where
  "sanitize_request rt (PDict r) =
     ebind (anonymize_user_id rt (dict_get r (asc ''userId'') (PStr []))) (\<lambda>user_token.
     ebind (sanitize_text (rt_ucd rt) (dict_get r (asc ''message'') (PStr []))) (\<lambda>message.
       let topic = dict_get r (asc ''topic'') (PStr (asc ''general_health''))
       in ebind (add_section sanitize_blood_data (asc ''bloodData'') r
                  [(asc ''user_token'', PStr user_token), (asc ''message'', PStr message),
                   (asc ''topic'', topic)]) (\<lambda>s1.
          ebind (add_section sanitize_gene_data (asc ''geneData'') r s1) (\<lambda>s2.
          ebind (add_section sanitize_vital_data (asc ''vitalData'') r s2) (\<lambda>s3.
          ebind (add_section (sanitize_conversation_history (rt_ucd rt)) (asc ''conversationHistory'') r s3)
            (\<lambda>s4. Inr (PDict s4)))))))"
| "sanitize_request rt v = Inl AttributeError"

definition sanitize_for_openai :: "runtime \<Rightarrow> pyval \<Rightarrow> py_exc + pyval" where
  "sanitize_for_openai rt body = sanitize_request rt body"


subsection \<open>Predicates and views for the properties\<close>

text \<open>The keys \<open>sanitize_request\<close> can produce.\<close>

definition request_keys :: "pystr list" where
  "request_keys = [asc ''user_token'', asc ''message'', asc ''topic'', asc ''bloodData'', asc ''geneData'',
     asc ''vitalData'', asc ''conversationHistory'']"

text \<open>A sanitized history entry: exactly a role and a redacted content.\<close>

fun hist_entry_ok :: "ucd \<Rightarrow> pyval \<Rightarrow> bool" where
  "hist_entry_ok db (PDict [(k1, role), (k2, PStr c)]) \<longleftrightarrow>
     k1 = asc ''role'' \<and> k2 = asc ''content'' \<and> pii_free db c"
| "hist_entry_ok db v \<longleftrightarrow> False"

definition hist_clean :: "ucd \<Rightarrow> pyval \<Rightarrow> bool" where
  "hist_clean db h \<longleftrightarrow> (case h of PList ms \<Rightarrow> list_all (hist_entry_ok db) ms | _ \<Rightarrow> False)"

text \<open>Lower-case hexadecimal digits, the alphabet of \<open>hexdigest()\<close>.\<close>

definition is_hex :: "uchar \<Rightarrow> bool" where
  "is_hex c \<longleftrightarrow> (48 \<le> c \<and> c \<le> 57) \<or> (97 \<le> c \<and> c \<le> 102)"

text \<open>A runtime for examples: the ASCII table, an environment with at most the salt, and a
  stand-in for SHA-256.\<close>

definition example_rt :: "pystr option \<Rightarrow> runtime" where
  "example_rt salt = \<lparr>rt_ucd = ascii_ucd, rt_environ = (\<lambda>k. if k = asc ''PII_SALT'' then salt else None),
     rt_sha256 = (\<lambda>s. replicate 64 48)\<rparr>"

text \<open>Views of the input that keep only the fields the sanitizer reads.\<close>

definition restrict_keys :: "pystr list \<Rightarrow> (pystr \<times> pyval) list \<Rightarrow> (pystr \<times> pyval) list" where
  "restrict_keys ks d = [(k, v) \<leftarrow> d. k \<in> set ks]"

fun marker_view :: "pyval \<Rightarrow> pyval" where
  "marker_view (PDict m) = PDict (restrict_keys [asc ''title'', asc ''impact'', asc ''scoreLevel''] m)"
| "marker_view v = v"

fun gene_entry_view :: "pyval \<Rightarrow> pyval" where
  "gene_entry_view (PList ms) = PList (map marker_view ms)"
| "gene_entry_view (PDict d) =
     PDict (restrict_keys [asc ''title'', asc ''impact'', asc ''scoreLevel'', asc ''score''] d)"
| "gene_entry_view v = v"

fun blood_view :: "pyval \<Rightarrow> pyval" where
  "blood_view (PDict d) = PDict (restrict_keys [asc ''nameJp'', asc ''name'', asc ''value'', asc ''unit'',
     asc ''status'', asc ''reference''] d)"
| "blood_view v = v"

text \<open>The values sanitized vital data may hold: flags, levels and \<open>None\<close>.\<close>

definition is_vital_flag :: "pyval \<Rightarrow> bool" where
  "is_vital_flag x \<longleftrightarrow> (case x of PBool b \<Rightarrow> True | PNone \<Rightarrow> True
     | PStr s \<Rightarrow> s \<in> set [asc ''high'', asc ''moderate'', asc ''low'', asc ''athlete'', asc ''good'', asc ''average'']
     | _ \<Rightarrow> False)"

subsection \<open>Properties of the sanitizer\<close>

lemma add_section_Inr:
  "add_section f k r s = Inr s' \<Longrightarrow>
   s' = s \<or> (\<exists>v v'. map_of r k = Some v \<and> f v = Inr v' \<and> s' = dict_set s k v')"
  by (auto simp: add_section_def ebind_eq_Inr split: option.splits if_splits)

lemma add_section_other:
  "add_section f k r s = Inr s' \<Longrightarrow> k' \<noteq> k \<Longrightarrow> map_of s' k' = map_of s k'"
  by (drule add_section_Inr) (auto simp: map_of_dict_set)

lemma add_section_keys:
  assumes "add_section f k r s = Inr s'"
  shows "fst ` set s' \<subseteq> insert k (fst ` set s)"
proof -
  from add_section_Inr [OF assms] consider "s' = s" | v' where "s' = dict_set s k v'" by blast
  then show ?thesis by cases (auto simp: keys_dict_set)
qed

lemma distinct_dict_set: "distinct (map fst d) \<Longrightarrow> distinct (map fst (dict_set d k v))"
  by (induction d) (auto simp: keys_dict_set)

lemma take_dict_set: "k \<notin> set ks \<Longrightarrow> map fst (take (length ks) d) = ks \<Longrightarrow>
  map fst (take (length ks) (dict_set d k v)) = ks"
proof (induction d arbitrary: ks)
  case (Cons kv d)
  then show ?case by (cases ks; cases kv) auto
qed simp

lemma add_section_shape:
  "add_section f k r s = Inr s' \<Longrightarrow> k \<notin> set ks \<Longrightarrow> map fst (take (length ks) s) = ks \<Longrightarrow>
   distinct (map fst s) \<Longrightarrow> map fst (take (length ks) s') = ks \<and> distinct (map fst s')"
  by (drule add_section_Inr) (auto simp: take_dict_set distinct_dict_set)

lemma sanitize_request_Inr:
  assumes "sanitize_request rt r = Inr out"
  obtains r' tok m s1 s2 s3 s4 where "r = PDict r'" "out = PDict s4"
    "anonymize_user_id rt (dict_get r' (asc ''userId'') (PStr [])) = Inr tok"
    "sanitize_text (rt_ucd rt) (dict_get r' (asc ''message'') (PStr [])) = Inr m"
    "add_section sanitize_blood_data (asc ''bloodData'') r'
       [(asc ''user_token'', PStr tok), (asc ''message'', PStr m),
        (asc ''topic'', dict_get r' (asc ''topic'') (PStr (asc ''general_health'')))] = Inr s1"
    "add_section sanitize_gene_data (asc ''geneData'') r' s1 = Inr s2"
    "add_section sanitize_vital_data (asc ''vitalData'') r' s2 = Inr s3"
    "add_section (sanitize_conversation_history (rt_ucd rt)) (asc ''conversationHistory'') r' s3 = Inr s4"
  using assms by (cases r) (auto simp: ebind_eq_Inr Let_def)

text \<open>C17: A sanitized request is a dictionary whose first keys are user_token, message and topic, whose keys are distinct and among the seven keys the sanitizer writes.\<close>

theorem sanitize_request_shape:
  assumes "sanitize_request rt r = Inr out"
  shows "\<exists>s. out = PDict s \<and> map fst (take 3 s) = [asc ''user_token'', asc ''message'', asc ''topic''] \<and>
     distinct (map fst s) \<and> set (map fst s) \<subseteq> set request_keys"
proof -
  from assms obtain r' tok m s1 s2 s3 s4 where o: "out = PDict s4"
    and a1: "add_section sanitize_blood_data (asc ''bloodData'') r'
       [(asc ''user_token'', PStr tok), (asc ''message'', PStr m),
        (asc ''topic'', dict_get r' (asc ''topic'') (PStr (asc ''general_health'')))] = Inr s1"
    and a2: "add_section sanitize_gene_data (asc ''geneData'') r' s1 = Inr s2"
    and a3: "add_section sanitize_vital_data (asc ''vitalData'') r' s2 = Inr s3"
    and a4: "add_section (sanitize_conversation_history (rt_ucd rt)) (asc ''conversationHistory'') r' s3 = Inr s4"
    by (rule sanitize_request_Inr)
  let ?ks = "[asc ''user_token'', asc ''message'', asc ''topic'']"
  have k: "asc ''bloodData'' \<notin> set ?ks" "asc ''geneData'' \<notin> set ?ks" "asc ''vitalData'' \<notin> set ?ks"
    "asc ''conversationHistory'' \<notin> set ?ks" by (simp_all add: asc_def)
  from add_section_shape [OF a1 k(1)]
  have "map fst (take (length ?ks) s1) = ?ks \<and> distinct (map fst s1)"
    by (simp add: asc_def)
  with add_section_shape [OF a2 k(2)] add_section_shape [OF a3 k(3)] add_section_shape [OF a4 k(4)]
  have "map fst (take (length ?ks) s4) = ?ks \<and> distinct (map fst s4)" by (simp only:)
  then have shape: "map fst (take 3 s4) = ?ks \<and> distinct (map fst s4)" by (simp add: numeral_3_eq_3)
  have ks: "asc ''bloodData'' \<in> set request_keys" "asc ''geneData'' \<in> set request_keys"
    "asc ''vitalData'' \<in> set request_keys" "asc ''conversationHistory'' \<in> set request_keys"
    "fst ` set [(asc ''user_token'', PStr tok), (asc ''message'', PStr m),
        (asc ''topic'', dict_get r' (asc ''topic'') (PStr (asc ''general_health'')))] \<subseteq> set request_keys"
    by (auto simp: request_keys_def)
  have "fst ` set s4 \<subseteq> set request_keys"
    using add_section_keys [OF a1] add_section_keys [OF a2] add_section_keys [OF a3] add_section_keys [OF a4] ks
    by (meson insert_subset subset_trans)
  with o shape show ?thesis by auto
qed

lemma history_msg_clean: "ucd_ok db \<Longrightarrow> history_msg db x = Inr y \<Longrightarrow> hist_entry_ok db y"
  by (cases x) (auto simp: ebind_eq_Inr dest: sanitize_text_clean)

lemma list_all2_rightD: "list_all2 P xs ys \<Longrightarrow> (\<And>x y. P x y \<Longrightarrow> Q y) \<Longrightarrow> list_all Q ys"
  by (induction rule: list_all2_induct) auto

lemma history_clean: "ucd_ok db \<Longrightarrow> sanitize_conversation_history db h = Inr h' \<Longrightarrow> hist_clean db h'"
  unfolding sanitize_conversation_history_def hist_clean_def
  by (auto simp: ebind_eq_Inr emap_eq_Inr split: if_splits
      elim!: list_all2_rightD intro: history_msg_clean)

lemma sanitize_request_parts:
  assumes r: "sanitize_request rt r = Inr (PDict s)"
  obtains r' tok m s3 where "r = PDict r'"
    "sanitize_text (rt_ucd rt) (dict_get r' (asc ''message'') (PStr [])) = Inr m"
    "map_of s (asc ''message'') = Some (PStr m)"
    "map_of s3 (asc ''conversationHistory'') = None"
    "add_section (sanitize_conversation_history (rt_ucd rt)) (asc ''conversationHistory'') r' s3 = Inr s"
proof -
  from r obtain r' tok m s1 s2 s3 where r': "r = PDict r'"
    and t: "sanitize_text (rt_ucd rt) (dict_get r' (asc ''message'') (PStr [])) = Inr m"
    and a1: "add_section sanitize_blood_data (asc ''bloodData'') r'
       [(asc ''user_token'', PStr tok), (asc ''message'', PStr m),
        (asc ''topic'', dict_get r' (asc ''topic'') (PStr (asc ''general_health'')))] = Inr s1"
    and a2: "add_section sanitize_gene_data (asc ''geneData'') r' s1 = Inr s2"
    and a3: "add_section sanitize_vital_data (asc ''vitalData'') r' s2 = Inr s3"
    and a4: "add_section (sanitize_conversation_history (rt_ucd rt)) (asc ''conversationHistory'') r' s3 = Inr s"
    by (rule sanitize_request_Inr) auto
  have ne: "asc ''message'' \<noteq> asc ''bloodData''" "asc ''message'' \<noteq> asc ''geneData''"
    "asc ''message'' \<noteq> asc ''vitalData''" "asc ''message'' \<noteq> asc ''conversationHistory''"
    "asc ''conversationHistory'' \<noteq> asc ''bloodData''" "asc ''conversationHistory'' \<noteq> asc ''geneData''"
    "asc ''conversationHistory'' \<noteq> asc ''vitalData''"
    "asc ''conversationHistory'' \<noteq> asc ''user_token''" "asc ''conversationHistory'' \<noteq> asc ''message''"
    "asc ''conversationHistory'' \<noteq> asc ''topic''"
    by (simp_all add: asc_def)
  have "map_of s (asc ''message'') = Some (PStr m)"
    using add_section_other [OF a1 ne(1)] add_section_other [OF a2 ne(2)] add_section_other [OF a3 ne(3)]
      add_section_other [OF a4 ne(4)] by (simp add: asc_def)
  moreover have "map_of s3 (asc ''conversationHistory'') = None"
    using add_section_other [OF a1 ne(5)] add_section_other [OF a2 ne(6)] add_section_other [OF a3 ne(7)]
      ne(8-10) by simp
  ultimately show ?thesis using that r' t a4 by blast
qed

lemma sanitized_message_clean:
  assumes ok: "ucd_ok (rt_ucd rt)" and r: "sanitize_request rt r = Inr (PDict s)"
  shows "\<exists>m. map_of s (asc ''message'') = Some (PStr m) \<and> pii_free (rt_ucd rt) m"
  using r by (rule sanitize_request_parts) (use sanitize_text_clean [OF ok] in blast)

lemma sanitized_history_clean:
  assumes ok: "ucd_ok (rt_ucd rt)" and r: "sanitize_request rt r = Inr (PDict s)"
  shows "case map_of s (asc ''conversationHistory'') of None \<Rightarrow> True | Some h \<Rightarrow> hist_clean (rt_ucd rt) h"
proof (rule sanitize_request_parts [OF r])
  fix r' s3
  assume "map_of s3 (asc ''conversationHistory'') = None"
    and a4: "add_section (sanitize_conversation_history (rt_ucd rt)) (asc ''conversationHistory'') r' s3 = Inr s"
  with add_section_Inr [OF a4] history_clean [OF ok] show ?thesis
    by (auto simp: map_of_dict_set)
qed

lemma add_section_skip:
  "add_section f k r s = Inr s' \<Longrightarrow> map_of s k = None \<Longrightarrow> map_of s' k = None \<Longrightarrow>
   \<not> py_truthy (dict_get r k (PList []))"
  by (auto simp: add_section_def dict_get_def ebind_eq_Inr map_of_dict_set split: option.splits if_splits)

lemma sanitized_history_absent:
  assumes r: "sanitize_request rt (PDict r) = Inr (PDict s)"
    and none: "map_of s (asc ''conversationHistory'') = None"
  shows "\<not> py_truthy (dict_get r (asc ''conversationHistory'') (PList []))"
proof (rule sanitize_request_parts [OF r])
  fix r' s3
  assume "PDict r = PDict r'" "map_of s3 (asc ''conversationHistory'') = None"
    and a4: "add_section (sanitize_conversation_history (rt_ucd rt)) (asc ''conversationHistory'') r' s3 = Inr s"
  then show ?thesis using add_section_skip [OF a4 _ none] by simp
qed

text \<open>C3: The message and every history content of a sanitized request are free of the five PII patterns, and every history entry is exactly a role and a redacted content.\<close>

theorem sanitize_request_texts_clean:
  assumes ok: "ucd_ok (rt_ucd rt)" and r: "sanitize_request rt r = Inr (PDict s)"
  shows "(\<exists>m. map_of s (asc ''message'') = Some (PStr m) \<and> pii_free (rt_ucd rt) m) \<and>
         (case map_of s (asc ''conversationHistory'') of None \<Rightarrow> True | Some h \<Rightarrow> hist_clean (rt_ucd rt) h)"
  using sanitized_message_clean [OF ok r] sanitized_history_clean [OF ok r] by blast

lemma get_salt_Inl: "get_salt rt = Inl e \<longleftrightarrow>
  e = ValueError salt_missing_msg \<and> rt_environ rt (asc ''PII_SALT'') \<in> {None, Some []}"
  by (auto simp: get_salt_def split: option.splits)

text \<open>C18: The user token is 'anonymous' exactly for a falsy id, and otherwise 'user_' followed by 12 hexadecimal digits, 17 characters, whatever the id.\<close>

theorem anonymize_user_id_shape:
  assumes sha: "\<forall>x. 12 \<le> length (rt_sha256 rt x) \<and> (\<forall>c\<in>set (rt_sha256 rt x). is_hex c)"
    and tok: "anonymize_user_id rt v = Inr tok"
  shows "(tok = asc ''anonymous'' \<longleftrightarrow> \<not> py_truthy v) \<and>
    (py_truthy v \<longrightarrow> length tok = 17 \<and> take 5 tok = asc ''user_'' \<and> (\<forall>c\<in>set (drop 5 tok). is_hex c))"
proof (cases "py_truthy v")
  case True
  with tok obtain x where t: "tok = asc ''user_'' @ take 12 (rt_sha256 rt x)"
    by (auto simp: anonymize_user_id_def ebind_eq_Inr Let_def split: if_splits)
  from sha have "12 \<le> length (rt_sha256 rt x)" "\<forall>c\<in>set (rt_sha256 rt x). is_hex c" by blast+
  with t have "length tok = 17" "take 5 tok = asc ''user_''" "\<forall>c\<in>set (drop 5 tok). is_hex c"
    by (auto simp: asc_def min_def dest: in_set_takeD)
  moreover from this(1) have "tok \<noteq> asc ''anonymous''" by (auto simp: asc_def)
  ultimately show ?thesis using True by blast
next
  case False
  with tok show ?thesis by (simp add: anonymize_user_id_def)
qed

theorem anonymize_user_id_shape_witness:
  "anonymize_user_id (example_rt (Some (asc ''s''))) (PStr (asc ''u1'')) = Inr (asc ''user_'' @ replicate 12 48) \<and>
   length (asc ''user_'' @ replicate 12 (48::nat)) = 17"
proof -
  have sha: "\<forall>x. 12 \<le> length (rt_sha256 (example_rt (Some (asc ''s''))) x) \<and>
      (\<forall>c\<in>set (rt_sha256 (example_rt (Some (asc ''s''))) x). is_hex c)"
    by (simp add: example_rt_def is_hex_def)
  have ev: "anonymize_user_id (example_rt (Some (asc ''s''))) (PStr (asc ''u1'')) = Inr (asc ''user_'' @ replicate 12 48)"
    by (simp add: anonymize_user_id_def get_salt_def example_rt_def is_surrogate_def asc_def)
  from anonymize_user_id_shape [OF sha ev] ev show ?thesis by (simp add: asc_def)
qed

text \<open>C19: With the salt absent or empty and a truthy user id, sanitizing raises ValueError with the configuration message.\<close>

theorem sanitize_request_salt_missing:
  assumes "rt_environ rt (asc ''PII_SALT'') \<in> {None, Some []}"
    and "py_truthy (dict_get r (asc ''userId'') (PStr []))"
  shows "sanitize_request rt (PDict r) = Inl (ValueError salt_missing_msg)"
proof -
  have "get_salt rt = Inl (ValueError salt_missing_msg)" using assms(1) get_salt_Inl by blast
  with assms(2) show ?thesis by (simp add: anonymize_user_id_def)
qed

theorem sanitize_request_salt_missing_witness:
  "sanitize_request (example_rt None) (PDict [(asc ''userId'', PStr (asc ''u1'')), (asc ''message'', PStr (asc ''hi''))])
     = Inl (ValueError salt_missing_msg)"
  by (rule sanitize_request_salt_missing) (simp_all add: example_rt_def asc_def dict_get_def)

text \<open>The salt and the hash are read only for a truthy user id: for a request with a falsy
  or absent userId the result is the same whatever the environment holds, so a missing
  PII_SALT goes unnoticed for anonymous requests.\<close>

theorem sanitize_request_salt_unread:
  assumes "\<not> py_truthy (dict_get r (asc ''userId'') (PStr []))"
  shows "sanitize_request (rt\<lparr>rt_environ := env, rt_sha256 := h\<rparr>) (PDict r) = sanitize_request rt (PDict r)"
  using assms by (simp add: anonymize_user_id_def)

theorem sanitize_request_salt_unread_witness:
  "\<not> py_truthy (dict_get [(asc ''message'', PStr (asc ''hi''))] (asc ''userId'') (PStr [])) \<and>
   sanitize_request ((example_rt (Some (asc ''s'')))\<lparr>rt_environ := (\<lambda>k. None), rt_sha256 := (\<lambda>s. s)\<rparr>)
     (PDict [(asc ''message'', PStr (asc ''hi''))]) =
   sanitize_request (example_rt (Some (asc ''s''))) (PDict [(asc ''message'', PStr (asc ''hi''))])"
proof
  show h: "\<not> py_truthy (dict_get [(asc ''message'', PStr (asc ''hi''))] (asc ''userId'') (PStr []))"
    by (simp add: dict_get_def asc_def)
  show "sanitize_request ((example_rt (Some (asc ''s'')))\<lparr>rt_environ := (\<lambda>k. None), rt_sha256 := (\<lambda>s. s)\<rparr>)
     (PDict [(asc ''message'', PStr (asc ''hi''))]) =
   sanitize_request (example_rt (Some (asc ''s''))) (PDict [(asc ''message'', PStr (asc ''hi''))])"
    by (rule sanitize_request_salt_unread [OF h])
qed

text \<open>A user id with a lone surrogate makes the UTF-8 encoding fail with UnicodeEncodeError.\<close>

theorem anonymize_user_id_surrogate:
  "anonymize_user_id (example_rt (Some (asc ''s''))) (PStr [0xD800]) = Inl UnicodeEncodeError"
  by (simp add: anonymize_user_id_def get_salt_def example_rt_def is_surrogate_def asc_def)

text \<open>C21: The topic of a sanitized request is the topic of the request (or general_health)
  exactly as given: it is not redacted, so an email address in it reaches the provider.\<close>

theorem sanitize_request_topic_verbatim:
  assumes "sanitize_request rt (PDict r) = Inr (PDict s)"
  shows "map_of s (asc ''topic'') = Some (dict_get r (asc ''topic'') (PStr (asc ''general_health'')))"
proof -
  from assms obtain r' tok m s1 s2 s3 s4 where o: "PDict r = PDict r'" "PDict s = PDict s4"
    and a1: "add_section sanitize_blood_data (asc ''bloodData'') r'
       [(asc ''user_token'', PStr tok), (asc ''message'', PStr m),
        (asc ''topic'', dict_get r' (asc ''topic'') (PStr (asc ''general_health'')))] = Inr s1"
    and a2: "add_section sanitize_gene_data (asc ''geneData'') r' s1 = Inr s2"
    and a3: "add_section sanitize_vital_data (asc ''vitalData'') r' s2 = Inr s3"
    and a4: "add_section (sanitize_conversation_history (rt_ucd rt)) (asc ''conversationHistory'') r' s3 = Inr s4"
    by (rule sanitize_request_Inr)
  have k: "asc ''topic'' \<noteq> asc ''bloodData''" "asc ''topic'' \<noteq> asc ''geneData''"
    "asc ''topic'' \<noteq> asc ''vitalData''" "asc ''topic'' \<noteq> asc ''conversationHistory''"
    "asc ''topic'' \<noteq> asc ''user_token''" "asc ''topic'' \<noteq> asc ''message''"
    by (simp_all add: asc_def)
  show ?thesis
    using o add_section_other [OF a1 k(1)] add_section_other [OF a2 k(2)] add_section_other [OF a3 k(3)]
      add_section_other [OF a4 k(4)] k(5,6) by simp
qed

theorem sanitize_request_topic_verbatim_witness:
  "sanitize_request (example_rt None)
     (PDict [(asc ''message'', PStr (asc ''hi'')), (asc ''topic'', PStr (asc ''a@b.com''))]) =
     Inr (PDict [(asc ''user_token'', PStr (asc ''anonymous'')), (asc ''message'', PStr (asc ''hi'')),
                 (asc ''topic'', PStr (asc ''a@b.com''))]) \<and>
   map_of [(asc ''user_token'', PStr (asc ''anonymous'')), (asc ''message'', PStr (asc ''hi'')),
                 (asc ''topic'', PStr (asc ''a@b.com''))] (asc ''topic'') =
   Some (dict_get [(asc ''message'', PStr (asc ''hi'')), (asc ''topic'', PStr (asc ''a@b.com''))]
     (asc ''topic'') (PStr (asc ''general_health'')))"
proof
  show e: "sanitize_request (example_rt None)
     (PDict [(asc ''message'', PStr (asc ''hi'')), (asc ''topic'', PStr (asc ''a@b.com''))]) =
     Inr (PDict [(asc ''user_token'', PStr (asc ''anonymous'')), (asc ''message'', PStr (asc ''hi'')),
                 (asc ''topic'', PStr (asc ''a@b.com''))])"
    by (simp add: example_rt_def anonymize_user_id_def dict_get_def add_section_def rx_eval ascii_ucd_def
        cong: map_cong_eval)
  show "map_of [(asc ''user_token'', PStr (asc ''anonymous'')), (asc ''message'', PStr (asc ''hi'')),
                 (asc ''topic'', PStr (asc ''a@b.com''))] (asc ''topic'') =
   Some (dict_get [(asc ''message'', PStr (asc ''hi'')), (asc ''topic'', PStr (asc ''a@b.com''))]
     (asc ''topic'') (PStr (asc ''general_health'')))"
    by (rule sanitize_request_topic_verbatim [OF e])
qed

lemma map_of_restrict: "k \<in> set ks \<Longrightarrow> map_of (restrict_keys ks d) k = map_of d k"
  by (induction d) (auto simp: restrict_keys_def)

lemma dict_get_restrict [simp]: "k \<in> set ks \<Longrightarrow> dict_get (restrict_keys ks d) k dflt = dict_get d k dflt"
  by (simp add: dict_get_def map_of_restrict)

lemma impact_get_restrict [simp]:
  "asc ''impact'' \<in> set ks \<Longrightarrow> impact_get (restrict_keys ks d) k dflt other = impact_get d k dflt other"
  by (simp add: impact_get_def)

lemma restrict_keys_Nil [simp]: "restrict_keys ks [] = []"
  by (simp add: restrict_keys_def)

lemma emap_map_cong: "(\<And>x. f (g x) = f x) \<Longrightarrow> emap f (map g xs) = emap f xs"
  by (induction xs) simp_all

lemma gene_marker_view: "gene_marker (marker_view x) = gene_marker x"
  by (cases x) (simp_all add: asc_def)

lemma gene_single_view:
  "gene_single (restrict_keys [asc ''title'', asc ''impact'', asc ''scoreLevel'', asc ''score''] d) = gene_single d"
  by (simp add: gene_single_def asc_def)

lemma gene_loop_view: "gene_loop sd (map (\<lambda>(c, v). (c, gene_entry_view v)) d) = gene_loop sd d"
proof (induction d arbitrary: sd)
  case (Cons cv d)
  obtain c v where cv: "cv = (c, v)" by fastforce
  show ?case
    using Cons by (cases v) (simp_all add: cv emap_map_cong gene_marker_view gene_single_view)
qed simp

text \<open>C15: Gene data are allowlisted: fields of a marker other than title, impact, scoreLevel (and score for a single marker) never influence the result, so genotypes and identifiers under other keys never reach it.\<close>

theorem sanitize_gene_data_allowlist:
  "sanitize_gene_data (PDict (map (\<lambda>(c, v). (c, gene_entry_view v)) d)) = sanitize_gene_data (PDict d)"
  by (simp add: gene_loop_view)

lemma blood_item_view: "blood_item (blood_view x) = blood_item x"
  by (cases x) (simp_all add: asc_def)

text \<open>C16: Blood items are allowlisted: only nameJp, name, value, unit, status and reference influence the result; the internal key is dropped.\<close>

theorem sanitize_blood_data_allowlist:
  "sanitize_blood_data (PList (map blood_view items)) = sanitize_blood_data (PList items)"
  by (simp add: sanitize_blood_data_def emap_map_cong blood_item_view)

text \<open>Example: a marker title holding an SNP id (rs7903146) is copied unchanged into sanitized gene data.\<close>

theorem sanitize_gene_data_keeps_rs:
  "sanitize_gene_data (PDict [(asc ''diabetes'', PDict [(asc ''title'', PStr (asc ''rs7903146 TCF7L2'')),
       (asc ''genotype'', PStr (asc ''CT'')), (asc ''impact'', PDict [(asc ''score'', PInt 2)])])]) =
   Inr (PDict [(asc ''diabetes'', PDict [(asc ''title'', PStr (asc ''rs7903146 TCF7L2'')),
       (asc ''impact_level'', PInt 2), (asc ''score_level'', PStr [])])])"
  by (simp add: gene_single_def impact_get_def dict_get_def asc_def)

lemma vo2max_level_flag: "vo2max_level v = Inr x \<Longrightarrow> is_vital_flag x"
  by (auto simp: vo2max_level_def is_vital_flag_def ebind_eq_Inr split: if_splits)

lemma resting_hr_level_flag: "resting_hr_level v = Inr x \<Longrightarrow> is_vital_flag x"
  by (auto simp: resting_hr_level_def is_vital_flag_def ebind_eq_Inr split: if_splits)

text \<open>C23: Sanitized vital data hold only flags, level names and None, never the measured values.\<close>

theorem sanitize_vital_data_flags:
  "sanitize_vital_data v = Inr out \<Longrightarrow> \<exists>s. out = PDict s \<and> list_all is_vital_flag (map snd s)"
  by (cases v) (auto simp: ebind_eq_Inr Let_def is_vital_flag_def split: if_splits
      dest!: vo2max_level_flag resting_hr_level_flag)

text \<open>For integer readings the VO2max level is high above 45, moderate above 35, low for other non-zero values and None for 0; the resting heart rate level is athlete below 55, good below 70, average otherwise, a reading of 0 counting as missing.\<close>

theorem vital_levels_int:
  "vo2max_level (PInt i) = Inr (if 45 < i then PStr (asc ''high'') else if 35 < i then PStr (asc ''moderate'')
      else if i \<noteq> 0 then PStr (asc ''low'') else PNone) \<and>
   resting_hr_level (PInt i) = Inr (PStr (if i \<noteq> 0 \<and> i < 55 then asc ''athlete''
      else if i \<noteq> 0 \<and> i < 70 then asc ''good'' else asc ''average''))"
  by (simp add: vo2max_level_def resting_hr_level_def py_less_def py_or_def num_less_def)

text \<open>A non-empty string as VO2max makes sanitize_vital_data raise TypeError.\<close>

theorem sanitize_vital_data_str_error:
  assumes "dict_get d (asc ''vo2Max'') PNone = PStr s" and "s \<noteq> []"
  shows "sanitize_vital_data (PDict d) = Inl TypeError"
proof -
  have "d \<noteq> []" using assms by (auto simp: dict_get_def)
  with assms show ?thesis by (simp add: vo2max_level_def py_less_def py_or_def)
qed

lemma example_rt_ok: "ucd_ok (rt_ucd (example_rt salt))"
  by (auto simp: example_rt_def ucd_ok_def ascii_ucd_def)

theorem sanitize_request_shape_witness:
  "sanitize_request (example_rt None) (PDict [(asc ''message'', PStr (asc ''hi''))]) =
     Inr (PDict [(asc ''user_token'', PStr (asc ''anonymous'')), (asc ''message'', PStr (asc ''hi'')),
                 (asc ''topic'', PStr (asc ''general_health''))]) \<and>
   distinct (map fst [(asc ''user_token'', PStr (asc ''anonymous'')), (asc ''message'', PStr (asc ''hi'')),
                 (asc ''topic'', PStr (asc ''general_health''))])"
proof -
  have ev: "sanitize_request (example_rt None) (PDict [(asc ''message'', PStr (asc ''hi''))]) =
     Inr (PDict [(asc ''user_token'', PStr (asc ''anonymous'')), (asc ''message'', PStr (asc ''hi'')),
                 (asc ''topic'', PStr (asc ''general_health''))])"
    by (simp add: example_rt_def anonymize_user_id_def dict_get_def add_section_def rx_eval ascii_ucd_def
        cong: map_cong_eval)
  from sanitize_request_shape [OF ev] ev show ?thesis by auto
qed

theorem sanitize_request_texts_clean_witness:
  "ucd_ok (rt_ucd (example_rt None)) \<and>
   sanitize_request (example_rt None) (PDict [(asc ''message'', PStr (asc ''mail a@b.com''))]) =
     Inr (PDict [(asc ''user_token'', PStr (asc ''anonymous'')), (asc ''message'', PStr (asc ''mail [EMAIL]'')),
                 (asc ''topic'', PStr (asc ''general_health''))]) \<and>
   pii_free ascii_ucd (asc ''mail [EMAIL]'')"
proof -
  have ev: "sanitize_request (example_rt None) (PDict [(asc ''message'', PStr (asc ''mail a@b.com''))]) =
     Inr (PDict [(asc ''user_token'', PStr (asc ''anonymous'')), (asc ''message'', PStr (asc ''mail [EMAIL]'')),
                 (asc ''topic'', PStr (asc ''general_health''))])"
    by (simp add: example_rt_def anonymize_user_id_def dict_get_def add_section_def rx_eval ascii_ucd_def
        cong: map_cong_eval)
  from sanitize_request_texts_clean [OF example_rt_ok ev] example_rt_ok ev show ?thesis
    by (simp add: example_rt_def asc_def)
qed

theorem sanitize_vital_data_flags_witness:
  "sanitize_vital_data (PDict [(asc ''vo2Max'', PInt 50), (asc ''restingHeartRate'', PInt 60)]) =
     Inr (PDict [(asc ''has_body_composition'', PBool False), (asc ''has_heart_data'', PBool True),
       (asc ''has_activity_data'', PBool False), (asc ''has_vo2max'', PBool True),
       (asc ''vo2max_level'', PStr (asc ''high'')), (asc ''resting_hr_level'', PStr (asc ''good''))]) \<and>
   is_vital_flag (PStr (asc ''high''))"
proof -
  have ev: "sanitize_vital_data (PDict [(asc ''vo2Max'', PInt 50), (asc ''restingHeartRate'', PInt 60)]) =
     Inr (PDict [(asc ''has_body_composition'', PBool False), (asc ''has_heart_data'', PBool True),
       (asc ''has_activity_data'', PBool False), (asc ''has_vo2max'', PBool True),
       (asc ''vo2max_level'', PStr (asc ''high'')), (asc ''resting_hr_level'', PStr (asc ''good''))])"
    by (simp add: vo2max_level_def resting_hr_level_def py_less_def py_or_def num_less_def dict_get_def asc_def)
  from sanitize_vital_data_flags [OF ev] ev show ?thesis by auto
qed

theorem sanitize_vital_data_str_error_witness:
  "dict_get [(asc ''vo2Max'', PStr (asc ''high''))] (asc ''vo2Max'') PNone = PStr (asc ''high'') \<and>
   asc ''high'' \<noteq> [] \<and>
   sanitize_vital_data (PDict [(asc ''vo2Max'', PStr (asc ''high''))]) = Inl TypeError"
proof -
  have g: "dict_get [(asc ''vo2Max'', PStr (asc ''high''))] (asc ''vo2Max'') PNone = PStr (asc ''high'')"
    by (simp add: dict_get_def)
  have n: "asc ''high'' \<noteq> []" by (simp add: asc_def)
  from sanitize_vital_data_str_error [OF g n] g n show ?thesis by simp
qed

end
