(* ===== verification/Pyfloat.thy ===== *)
theory Pyfloat
  imports Pyval
begin

text \<open>
  Python floats as IEEE-754 doubles, for the f-string formats the context builder uses. A
  number read by \<open>json.loads\<close> is the decimal \<open>m * 10 ^ e\<close> of \<open>PFloat m e\<close> or an integer;
  \<open>float\<close> rounds it to the nearest double (ties to even, subnormals included, \<open>inf\<close> on
  overflow), and \<open>format(x, '.Nf')\<close> rounds that double's exact value to \<open>N\<close> decimals, again
  ties to even. A double \<open>M * 2 ^ E\<close> is itself the decimal \<open>M * 5 ^ -E * 10 ^ E\<close>, so the
  result of a float multiplication is again a \<open>PFloat\<close>, of the exact value of the product.
\<close>

datatype dbl = DFin int int | DInf bool

fun nbits :: "nat \<Rightarrow> nat" where
  "nbits n = (if n = 0 then 0 else Suc (nbits (n div 2)))"

declare nbits.simps [simp del]

text \<open>Division rounding half to even.\<close>

definition rdiv_even :: "nat \<Rightarrow> nat \<Rightarrow> nat" where
  "rdiv_even a b =
     (let d = a div b; r = a mod b
      in if b < 2 * r then d + 1 else if 2 * r < b then d else if even d then d else d + 1)"

text \<open>\<open>a / q \<ge> 2 ^ k\<close> for a possibly negative \<open>k\<close>.\<close>

definition ge_pow2 :: "nat \<Rightarrow> nat \<Rightarrow> int \<Rightarrow> bool" where
  "ge_pow2 a q k = (if 0 \<le> k then q * 2 ^ nat k \<le> a else q \<le> a * 2 ^ nat (- k))"

text \<open>The double nearest to \<open>a / q\<close> for \<open>a, q > 0\<close>: 53 significant bits below the leading
  one, the exponent at least -1074.\<close>

definition round_pos :: "nat \<Rightarrow> nat \<Rightarrow> dbl" where
  "round_pos a q =
     (let k = int (nbits a) - int (nbits q);
          lead = (if ge_pow2 a q k then k else k - 1);
          e = max (lead - 52) (-1074);
          m = (if e \<le> 0 then rdiv_even (a * 2 ^ nat (- e)) q else rdiv_even a (q * 2 ^ nat e))
      in if 1024 < e + int (nbits m) then DInf False else DFin (int m) e)"

definition round_double :: "int \<Rightarrow> nat \<Rightarrow> dbl" where
  "round_double p q =
     (if p = 0 then DFin 0 0
      else case round_pos (nat \<bar>p\<bar>) q of
             DFin m e \<Rightarrow> DFin (if p < 0 then - m else m) e
           | DInf b \<Rightarrow> DInf (p < 0))"

text \<open>\<open>float(x)\<close> of a JSON number; a too large \<open>int\<close> raises \<open>OverflowError\<close>, a too large
  float literal is already \<open>inf\<close>.\<close>

fun py_float :: "pyval \<Rightarrow> py_exc + dbl" where
  "py_float (PInt i) = (case round_double i 1 of DInf b \<Rightarrow> Inl OverflowError | d \<Rightarrow> Inr d)"
| "py_float (PBool b) = Inr (DFin (if b then 1 else 0) 0)"
| "py_float (PFloat m e) =
     Inr (if 0 \<le> e then round_double (m * 10 ^ nat e) 1 else round_double m (10 ^ nat (- e)))"
| "py_float v = Inl TypeError"

text \<open>The digits of \<open>X / 10 ^ n\<close> with exactly \<open>n\<close> decimals.\<close>

definition fixed_digits :: "nat \<Rightarrow> nat \<Rightarrow> pystr" where
  "fixed_digits n x =
     (let ds = dec_digits x;
          ds' = replicate (Suc n - length ds) 48 @ ds
      in if n = 0 then ds' else take (length ds' - n) ds' @ [46] @ drop (length ds' - n) ds')"

definition format_dbl :: "nat \<Rightarrow> dbl \<Rightarrow> pystr" where
  "format_dbl n d =
     (case d of
        DInf neg \<Rightarrow> (if neg then asc ''-inf'' else asc ''inf'')
      | DFin m e \<Rightarrow>
          (if m < 0 then [45] else []) @
          fixed_digits n (if 0 \<le> e then nat \<bar>m\<bar> * 2 ^ nat e * 10 ^ n
                          else rdiv_even (nat \<bar>m\<bar> * 10 ^ n) (2 ^ nat (- e))))"

text \<open>A name in single quotes, as Python's error messages print it.\<close>

definition quoted :: "string \<Rightarrow> pystr" where
  "quoted s = [39] @ asc s @ [39]"

text \<open>\<open>format(v, '.Nf')\<close>: numbers are converted to float first; a string has no \<open>f\<close>
  format code; any other value rejects a non-empty format string.\<close>

fun py_format_fixed :: "nat \<Rightarrow> pyval \<Rightarrow> py_exc + pystr" where
  "py_format_fixed n (PStr s) = Inl (ValueError (asc ''Unknown format code '' @ quoted ''f'' @ asc '' for object of type '' @ quoted ''str''))"
| "py_format_fixed n v = ebind (py_float v) (\<lambda>d. Inr (format_dbl n d))"

text \<open>\<open>format(v, '+d')\<close>: integers (and booleans) with an explicit sign.\<close>

fun py_format_signed :: "pyval \<Rightarrow> py_exc + pystr" where
  "py_format_signed (PInt i) = Inr ((if i < 0 then [45] else [43]) @ dec_digits (nat \<bar>i\<bar>))"
| "py_format_signed (PBool b) = Inr (if b then asc ''+1'' else asc ''+0'')"
| "py_format_signed (PFloat m e) =
     Inl (ValueError (asc ''Unknown format code '' @ quoted ''d'' @ asc '' for object of type '' @ quoted ''float''))"
| "py_format_signed (PStr s) = Inl (ValueError (asc ''Unknown format code '' @ quoted ''d'' @ asc '' for object of type '' @ quoted ''str''))"
| "py_format_signed v = Inl TypeError"

text \<open>The value of a finite double as a decimal \<open>PFloat\<close>.\<close>

definition dbl_val :: "int \<Rightarrow> int \<Rightarrow> pyval" where
  "dbl_val m e = (if 0 \<le> e then PInt (m * 2 ^ nat e) else PFloat (m * 5 ^ nat (- e)) e)"

text \<open>\<open>v * 100\<close>: exact for integers and booleans, rounded to a double for floats (an
  infinite result is the literal \<open>1e400\<close>, which denotes \<open>inf\<close>); a string or list is
  repeated 100 times; other values raise \<open>TypeError\<close>.\<close>

fun py_times100 :: "pyval \<Rightarrow> py_exc + pyval" where
  "py_times100 (PInt i) = Inr (PInt (i * 100))"
| "py_times100 (PBool b) = Inr (PInt (if b then 100 else 0))"
| "py_times100 (PFloat m e) =
     (case py_float (PFloat m e) of
        Inr (DFin m' e') \<Rightarrow>
          Inr (case (if 0 \<le> e' then round_double (m' * 100 * 2 ^ nat e') 1
                     else round_double (m' * 100) (2 ^ nat (- e'))) of
                 DFin m'' e'' \<Rightarrow> dbl_val m'' e''
               | DInf b \<Rightarrow> PFloat (if b then -1 else 1) 400)
      | Inr (DInf b) \<Rightarrow> Inr (PFloat (if b then -1 else 1) 400)
      | Inl x \<Rightarrow> Inl x)"
| "py_times100 (PStr s) = Inr (PStr (concat (replicate 100 s)))"
| "py_times100 (PList xs) = Inr (PList (concat (replicate 100 xs)))"
| "py_times100 v = Inl TypeError"

text \<open>\<open>type(v).__name__\<close>.\<close>

fun py_type_name :: "pyval \<Rightarrow> pystr" where
  "py_type_name PNone = asc ''NoneType''"
| "py_type_name (PBool b) = asc ''bool''"
| "py_type_name (PInt i) = asc ''int''"
| "py_type_name (PFloat m e) = asc ''float''"
| "py_type_name (PStr s) = asc ''str''"
| "py_type_name (PList xs) = asc ''list''"
| "py_type_name (PDict d) = asc ''dict''"

lemma nbits_eval: "nbits 0 = 0" "0 < n \<Longrightarrow> nbits n = Suc (nbits (n div 2))"
  by (simp_all add: nbits.simps)

lemma dec_digits_eval:
  "n < 10 \<Longrightarrow> dec_digits n = [48 + n]"
  "10 \<le> n \<Longrightarrow> dec_digits n = dec_digits (n div 10) @ [48 + n mod 10]"
  by (simp_all add: dec_digits.simps)

lemmas float_eval = round_double_def round_pos_def ge_pow2_def rdiv_even_def format_dbl_def
  fixed_digits_def nbits_eval dec_digits_eval

subsection \<open>Integers below 2 ^ 53\<close>

text \<open>An integer of magnitude below \<open>2 ^ 53\<close> is a double exactly, with 53 significant
  bits and the exponent \<open>nbits a - 53\<close>; printed with \<open>n\<close> decimals it is its decimal digits
  followed by \<open>n\<close> zeros.\<close>

lemma nbits_pos: "0 < a \<Longrightarrow> 2 ^ (nbits a - 1) \<le> a \<and> a < 2 ^ nbits a"
proof (induction a rule: nbits.induct)
  case (1 n)
  show ?case
  proof (cases "n < 2")
    case True
    with "1.prems" have "n = 1" by simp
    then show ?thesis by (simp add: nbits_eval)
  next
    case False
    then have "0 < n div 2" by simp
    with "1.IH" [of] "1.prems" have ih: "2 ^ (nbits (n div 2) - 1) \<le> n div 2 \<and> n div 2 < 2 ^ nbits (n div 2)"
      by simp
    define N where "N = nbits (n div 2)"
    have nb: "nbits n = Suc N" using "1.prems" by (simp add: nbits_eval N_def)
    have "0 < N" using \<open>0 < n div 2\<close> by (simp add: nbits_eval N_def)
    then have p: "2 ^ N = 2 * (2::nat) ^ (N - 1)" by (cases N) simp_all
    have "2 ^ (N - 1) \<le> n div 2" "n div 2 < 2 ^ N" using ih by (simp_all add: N_def)
    then have "2 ^ N \<le> n" "n < 2 * 2 ^ N" using p by linarith+
    then show ?thesis using nb by simp
  qed
qed

lemma nbits_le: "0 < a \<Longrightarrow> a < 2 ^ k \<Longrightarrow> nbits a \<le> k"
proof -
  assume "0 < a" "a < 2 ^ k"
  then have "(2::nat) ^ (nbits a - 1) < 2 ^ k" using nbits_pos [of a] by linarith
  then have "nbits a - 1 < k" by (rule power_less_imp_less_exp [rotated]) simp
  moreover have "0 < nbits a" using \<open>0 < a\<close> by (simp add: nbits_eval)
  ultimately show ?thesis by simp
qed

lemma nbits_eqI: "2 ^ k \<le> a \<Longrightarrow> a < 2 ^ Suc k \<Longrightarrow> nbits a = Suc k"
proof (induction k arbitrary: a)
  case 0
  then have "a = 1" by simp
  then show ?case by (simp add: nbits_eval)
next
  case (Suc k)
  then have "2 ^ k \<le> a div 2" "a div 2 < 2 ^ Suc k" by auto
  with Suc.IH have "nbits (a div 2) = Suc k" by blast
  moreover have "0 < a" using Suc.prems(1) by (metis less_le_trans zero_less_numeral zero_less_power)
  ultimately show ?case by (simp only: nbits_eval(2) [OF \<open>0 < a\<close>])
qed

lemma rdiv_even_exact: "0 < b \<Longrightarrow> rdiv_even (x * b) b = x"
  by (simp add: rdiv_even_def)

lemma rdiv_even_one: "rdiv_even x (Suc 0) = x"
  by (simp add: rdiv_even_def)

lemma dec_digits_times10: "0 < a \<Longrightarrow> dec_digits (a * 10 ^ n) = dec_digits a @ replicate n 48"
proof (induction n)
  case 0 then show ?case by simp
next
  case (Suc n)
  have "10 \<le> a * 10 ^ Suc n" using Suc.prems by (simp add: Suc_le_eq)
  then have "dec_digits (a * 10 ^ Suc n) = dec_digits (a * 10 ^ n) @ [48]"
    using dec_digits_eval(2) [of "a * 10 ^ Suc n"] by (simp add: ac_simps)
  with Suc show ?case by (simp add: replicate_append_same)
qed

lemma dec_digits_ne: "dec_digits a \<noteq> []"
  by (cases "a < 10") (simp_all add: dec_digits_eval)

lemma fixed_digits_int:
  "0 < a \<Longrightarrow> fixed_digits n (a * 10 ^ n) = dec_digits a @ (if n = 0 then [] else 46 # replicate n 48)"
  using dec_digits_ne [of a] by (simp add: fixed_digits_def dec_digits_times10 Suc_le_eq)

lemma fixed_digits_zero: "fixed_digits n 0 = 48 # (if n = 0 then [] else 46 # replicate n 48)"
  by (cases n) (simp_all add: fixed_digits_def dec_digits_eval replicate_append_same [symmetric])

lemma round_pos_int:
  assumes "0 < a" "a < 2 ^ 53"
  shows "round_pos a 1 = DFin (int (a * 2 ^ (53 - nbits a))) (int (nbits a) - 53)"
proof -
  define K where "K = nbits a"
  have b: "2 ^ (K - 1) \<le> a" "a < 2 ^ K" using nbits_pos [OF assms(1)] by (simp_all add: K_def)
  have K1: "1 \<le> K" using b(2) assms(1) by (cases K) simp_all
  have K53: "K \<le> 53" using nbits_le [OF assms] by (simp add: K_def)
  have n1: "nbits 1 = 1" by (simp add: nbits_eval)
  have ge: "ge_pow2 a 1 (int K - 1)"
    using b(1) K1 by (simp add: ge_pow2_def nat_diff_distrib)
  have lo: "2 ^ 52 \<le> a * 2 ^ (53 - K)"
  proof -
    have "(2::nat) ^ 52 = 2 ^ (K - 1) * 2 ^ (53 - K)" using K1 K53 by (simp add: power_add [symmetric])
    then show ?thesis using mult_le_mono1 [OF b(1), of "2 ^ (53 - K)"] by simp
  qed
  have hi: "a * 2 ^ (53 - K) < 2 ^ 53"
  proof -
    have "(2::nat) ^ 53 = 2 ^ K * 2 ^ (53 - K)" using K53 by (simp add: power_add [symmetric])
    then show ?thesis using mult_less_mono1 [OF b(2), of "2 ^ (53 - K)"] by simp
  qed
  have m: "nbits (a * 2 ^ (53 - K)) = 53" using nbits_eqI [OF lo] hi by simp
  have e: "max (int K - 1 - 52) (- 1074) = int K - 53" using K1 by simp
  have ne: "nat (- (int K - 53)) = 53 - K" by simp
  show ?thesis
    unfolding round_pos_def Let_def n1 K_def [symmetric]
    using ge m e ne K53 by (simp add: rdiv_even_one)
qed

lemma format_dbl_round_int:
  assumes "0 < a" "a < 2 ^ 53" and that: "\<bar>s\<bar> = 1"
  shows "format_dbl n (DFin (s * int (a * 2 ^ (53 - nbits a))) (int (nbits a) - 53)) =
           (if s < 0 then [45] else []) @ fixed_digits n (a * 10 ^ n)"
proof -
  have K53: "nbits a \<le> 53" using nbits_le [OF assms(1,2)] .
  have sgn: "(s * int (a * 2 ^ (53 - nbits a)) < 0) = (s < 0)" using that assms(1)
    by (auto simp: mult_less_0_iff)
  have abs: "nat \<bar>s * int (a * 2 ^ (53 - nbits a))\<bar> = a * 2 ^ (53 - nbits a)"
    using that by (simp add: abs_mult nat_mult_distrib)
  show ?thesis
  proof (cases "nbits a = 53")
    case True
    then show ?thesis using sgn abs by (simp add: format_dbl_def)
  next
    case False
    then have "\<not> 0 \<le> int (nbits a) - 53" "nat (- (int (nbits a) - 53)) = 53 - nbits a" using K53 by simp_all
    moreover have "rdiv_even (a * 2 ^ (53 - nbits a) * 10 ^ n) (2 ^ (53 - nbits a)) = a * 10 ^ n"
      using rdiv_even_exact [of "2 ^ (53 - nbits a)" "a * 10 ^ n"] by (simp add: ac_simps)
    ultimately show ?thesis using sgn abs by (simp add: format_dbl_def)
  qed
qed

theorem py_format_fixed_int:
  assumes "\<bar>i\<bar> < 2 ^ 53"
  shows "py_format_fixed n (PInt i) = Inr (py_str_int i @ (if n = 0 then [] else 46 # replicate n 48))"
proof (cases "i = 0")
  case True
  then show ?thesis
    by (simp add: round_double_def format_dbl_def fixed_digits_zero py_str_int_def dec_digits_eval)
next
  case False
  define a where "a = nat \<bar>i\<bar>"
  define s :: int where "s = (if i < 0 then -1 else 1)"
  have a: "0 < a" "a < 2 ^ 53" using False assms by (simp_all add: a_def nat_less_iff)
  have rd: "round_double i 1 = DFin (s * int (a * 2 ^ (53 - nbits a))) (int (nbits a) - 53)"
    using False round_pos_int [OF a] by (simp add: round_double_def s_def a_def [symmetric])
  have "\<bar>s\<bar> = 1" "(s < 0) = (i < 0)" by (simp_all add: s_def)
  then have "format_dbl n (round_double i 1) =
               (if i < 0 then [45] else []) @ dec_digits a @ (if n = 0 then [] else 46 # replicate n 48)"
    using format_dbl_round_int [OF a] fixed_digits_int [OF a(1)] rd by simp
  moreover have "py_str_int i = (if i < 0 then [45] else []) @ dec_digits a"
    by (simp add: py_str_int_def a_def)
  ultimately show ?thesis using rd by simp
qed

end
