(* ===== verification/ContextBuilder.thy ===== *)
theory ContextBuilder
  imports Pyfloat "HOL-Library.Multiset"
begin

text \<open>
  The context builder of \<open>src/lambda_deployment/temp_v17/lambda_function.py\<close>:
  \<open>detect_symptoms_consultation\<close>, the renderers \<open>build_blood_data_context\<close>,
  \<open>build_gene_data_context\<close>, \<open>build_vital_data_context\<close>,
  \<open>build_available_categories_context\<close> and \<open>build_initial_context\<close>, and
  \<open>build_chat_messages\<close>, which assembles the role-tagged message list. The data are the
  Python values of \<open>Pyval\<close>; f-strings print a field with \<open>str\<close>, numbers with the
  formats of \<open>Pyfloat\<close>. The text of \<open>build_system_prompt\<close> (about 570 lines of
  instructions, a constant) is a parameter \<open>system_prompt\<close>. The Japanese literals of the
  code are written as lists of code points.
\<close>

subsection \<open>The texts of the code\<close>

text \<open>The keyword list of \<open>detect_symptoms_consultation\<close> (38 Japanese words for pain,
  symptoms, feeling unwell, illness and skin changes).\<close>

definition symptoms_keywords :: "pystr list" where
  "symptoms_keywords =
     [[0x75DB, 0x3044],
      [0x75DB, 0x307F],
      [0x75DB],
      [0x3044, 0x305F, 0x3044],
      [0x75C7, 0x72B6],
      [0x767A, 0x71B1],
      [0x71B1],
      [0x5410, 0x304D, 0x6C17],
      [0x3081, 0x307E, 0x3044],
      [0x3057, 0x3073, 0x308C],
      [0x982D, 0x75DB],
      [0x8179, 0x75DB],
      [0x80F8, 0x75DB],
      [0x80CC, 0x4E2D, 0x304C, 0x75DB],
      [0x95A2, 0x7BC0, 0x75DB],
      [0x606F, 0x82E6, 0x3057, 0x3044],
      [0x606F, 0x5207, 0x308C],
      [0x54B3],
      [0x9F3B, 0x6C34],
      [0x4E0B, 0x75E2],
      [0x4FBF, 0x79D8],
      [0x4F53, 0x8ABF, 0x4E0D, 0x826F],
      [0x8ABF, 0x5B50, 0x304C, 0x60AA, 0x3044],
      [0x5177, 0x5408, 0x304C, 0x60AA, 0x3044],
      [0x6C17, 0x5206, 0x304C, 0x60AA, 0x3044],
      [0x3060, 0x308B, 0x3044],
      [0x5026, 0x6020, 0x611F],
      [0x75B2, 0x308C],
      [0x7720, 0x308C, 0x306A, 0x3044],
      [0x4E0D, 0x7720],
      [0x75C5, 0x6C17],
      [0x75BE, 0x60A3],
      [0x8A3A, 0x65AD],
      [0x53D7, 0x8A3A],
      [0x533B, 0x8005],
      [0x8D64, 0x3044],
      [0x816B, 0x308C],
      [0x304B, 0x3086, 0x3044],
      [0x767A, 0x75B9],
      [0x3057, 0x3053, 0x308A]]"

text \<open>The hint message of \<open>build_chat_messages\<close>: the user message contains symptom keywords.\<close>

definition hint_text :: pystr where
  "hint_text = [0x3010, 0x30D2, 0x30F3, 0x30C8, 0x3011, 0x30E6, 0x30FC, 0x30B6, 0x30FC, 0x306E, 0x30E1, 0x30C3, 0x30BB, 0x30FC, 0x30B8, 0x306B, 0x75C7, 0x72B6, 0x95A2, 0x9023, 0x306E, 0x30AD, 0x30FC, 0x30EF, 0x30FC, 0x30C9, 0x304C, 0x542B, 0x307E, 0x308C, 0x3066, 0x3044, 0x307E, 0x3059, 0x3002, 0x75C7, 0x72B6, 0x76F8, 0x8AC7, 0x30E2, 0x30FC, 0x30C9, 0x306E, 0x9069, 0x7528, 0x3092, 0x691C, 0x8A0E, 0x3057, 0x3066, 0x304F, 0x3060, 0x3055, 0x3044, 0x3002]"

text \<open>The headings of the blood context: the title, and the abnormal, caution and normal buckets.\<close>

definition blood_header :: pystr where
  "blood_header = [0x3010, 0x30E6, 0x30FC, 0x30B6, 0x30FC, 0x306E, 0x8840, 0x6DB2, 0x691C, 0x67FB, 0x7D50, 0x679C, 0x3011]"

definition abnormal_header :: pystr where
  "abnormal_header = [10, 0x3010, 0x8981, 0x6CE8, 0x610F, 0x3011, 0x4EE5, 0x4E0B, 0x306E, 0x9805, 0x76EE, 0x304C, 0x7570, 0x5E38, 0x5024, 0x3067, 0x3059, 0xFF1A]"

definition attention_header :: pystr where
  "attention_header = [10, 0x3010, 0x6CE8, 0x610F, 0x3011, 0x4EE5, 0x4E0B, 0x306E, 0x9805, 0x76EE, 0x304C, 0x57FA, 0x6E96, 0x5024, 0x5916, 0x3067, 0x3059, 0xFF1A]"

definition normal_header :: pystr where
  "normal_header = [10, 0x3010, 0x6B63, 0x5E38, 0x7BC4, 0x56F2, 0x3011, 0x4EE5, 0x4E0B, 0x306E, 0x9805, 0x76EE, 0x304C, 0x6B63, 0x5E38, 0x7BC4, 0x56F2, 0x5185, 0x3067, 0x3059, 0xFF1A]"

text \<open>The label before the reference range in a blood item line.\<close>

definition reference_label :: pystr where
  "reference_label = asc '' ('' @ [0x57FA, 0x6E96, 0x5024] @ asc '': ''"

definition normal_words :: "pystr list" where
  "normal_words = [[0x6B63, 0x5E38], asc ''normal'']"

definition attention_words :: "pystr list" where
  "attention_words = [[0x6CE8, 0x610F], asc ''caution'', [0x8981, 0x6CE8, 0x610F]]"

text \<open>The count line of \<open>build_initial_context\<close>, around the number of normal items.\<close>

definition initial_normal_prefix :: pystr where
  "initial_normal_prefix = [10, 0x3010, 0x6B63, 0x5E38, 0x7BC4, 0x56F2, 0x3011]"

definition initial_normal_suffix :: pystr where
  "initial_normal_suffix = [0x9805, 0x76EE, 0x304C, 0x6B63, 0x5E38, 0x7BC4, 0x56F2, 0x5185]"

text \<open>The category list: headings and closing request format.\<close>

definition initial_categories_header :: pystr where
  "initial_categories_header = [10, 10, 0x3010, 0x5229, 0x7528, 0x53EF, 0x80FD, 0x306A, 0x907A, 0x4F1D, 0x5B50, 0x30C7, 0x30FC, 0x30BF, 0x30AB, 0x30C6, 0x30B4, 0x30EA, 0x30FC, 0x3011]"

definition categories_intro :: pystr where
  "categories_intro = [0x4EE5, 0x4E0B, 0x306E, 0x30AB, 0x30C6, 0x30B4, 0x30EA, 0x30FC, 0x306E, 0x907A, 0x4F1D, 0x5B50, 0x60C5, 0x5831, 0x3092, 0x8981, 0x6C42, 0x3067, 0x304D, 0x307E, 0x3059, 0xFF1A]"

definition categories_footer :: pystr where
  "categories_footer = [10, 0x5FC5, 0x8981, 0x306B, 0x5FDC, 0x3058, 0x3066, 0x300C, 0x1F9EC] @ asc '' ['' @ [0x30AB, 0x30C6, 0x30B4, 0x30EA, 0x30FC, 0x540D] @ asc '']'' @ [0x306B, 0x95A2, 0x3059, 0x308B, 0x907A, 0x4F1D, 0x5B50, 0x60C5, 0x5831, 0x300D, 0x306E, 0x5F62, 0x5F0F, 0x3067, 0x8981, 0x6C42, 0x3057, 0x3066, 0x304F, 0x3060, 0x3055, 0x3044, 0x3002]"

definition categories_header :: pystr where
  "categories_header = [0x3010, 0x5229, 0x7528, 0x53EF, 0x80FD, 0x306A, 0x907A, 0x4F1D, 0x5B50, 0x30C7, 0x30FC, 0x30BF, 0x30AB, 0x30C6, 0x30B4, 0x30EA, 0x30FC, 0x3011]"

text \<open>The gene context: title, category line, and the texts for an empty category, the impact line, an unknown shape and the case of no data at all.\<close>

definition gene_header :: pystr where
  "gene_header = [0x3010, 0x30E6, 0x30FC, 0x30B6, 0x30FC, 0x306E, 0x907A, 0x4F1D, 0x5B50, 0x30C7, 0x30FC, 0x30BF, 0x3011]"

definition category_prefix :: pystr where
  "category_prefix = [10, 0x25A0] @ asc '' ''"

definition no_data_suffix :: pystr where
  "no_data_suffix = asc '': '' @ [0x30C7, 0x30FC, 0x30BF, 0x304C, 0x898B, 0x3064, 0x304B, 0x308A, 0x307E, 0x305B, 0x3093, 0x3067, 0x3057, 0x305F, 0xFF08, 0x5C0F, 0x30AB, 0x30C6, 0x30B4, 0x30EA, 0x30FC, 0x540D, 0x304C, 0x6B63, 0x3057, 0x3044, 0x304B, 0x78BA, 0x8A8D, 0x3057, 0x3066, 0x304F, 0x3060, 0x3055, 0x3044, 0xFF09]"

definition impact_prefix :: pystr where
  "impact_prefix = asc ''    '' @ [0x5F71, 0x97FF] @ asc '': '' @ [0x4FDD, 0x8B77]"

definition impact_risk :: pystr where
  "impact_risk = asc ''/'' @ [0x30EA, 0x30B9, 0x30AF]"

definition impact_neutral :: pystr where
  "impact_neutral = asc ''/'' @ [0x4E2D, 0x7ACB]"

definition impact_score :: pystr where
  "impact_score = asc '' ('' @ [0x30B9, 0x30B3, 0x30A2] @ asc '': ''"

definition unknown_shape_prefix :: pystr where
  "unknown_shape_prefix = asc ''  - ('' @ [0x4E0D, 0x660E, 0x306A, 0x5F62, 0x5F0F] @ asc '': ''"

definition gene_no_data_msg :: pystr where
  "gene_no_data_msg = [0x3010, 0x30E6, 0x30FC, 0x30B6, 0x30FC, 0x306E, 0x907A, 0x4F1D, 0x5B50, 0x30C7, 0x30FC, 0x30BF, 0x3011, 10, 0x8981, 0x6C42, 0x3055, 0x308C, 0x305F, 0x907A, 0x4F1D, 0x5B50, 0x30C7, 0x30FC, 0x30BF, 0x304C, 0x30B7, 0x30B9, 0x30C6, 0x30E0, 0x304B, 0x3089, 0x8FD4, 0x3055, 0x308C, 0x307E, 0x305B, 0x3093, 0x3067, 0x3057, 0x305F, 0x3002, 0x5C0F, 0x30AB, 0x30C6, 0x30B4, 0x30EA, 0x30FC, 0x540D, 0x306E, 0x5F62, 0x5F0F, 0x304C, 0x6B63, 0x3057, 0x3044, 0x304B, 0x78BA, 0x8A8D, 0x3057, 0x3066, 0x304F, 0x3060, 0x3055, 0x3044, 0x3002, 10, 10, 0x203B, 0x30D2, 0x30F3, 0x30C8] @ asc '': '' @ [0x5C0F, 0x30AB, 0x30C6, 0x30B4, 0x30EA, 0x30FC, 0x306F, 0x534A, 0x89D2, 0x30AB, 0x30F3, 0x30DE, 0x300C] @ asc '','' @ [0x300D, 0x3067, 0x533A, 0x5207, 0x308B, 0x5FC5, 0x8981, 0x304C, 0x3042, 0x308A, 0x307E, 0x3059, 0x3002]"

text \<open>The vital context: title and the four group headings.\<close>

definition vital_header :: pystr where
  "vital_header = [0x3010, 0x30E6, 0x30FC, 0x30B6, 0x30FC, 0x306E, 0x30D0, 0x30A4, 0x30BF, 0x30EB, 0x30C7, 0x30FC, 0x30BF, 0xFF08, 0x6700, 0x65B0] @ asc ''7'' @ [0x65E5, 0x9593, 0xFF09, 0x3011]"

definition body_header :: pystr where
  "body_header = [10, 0x3010, 0x4F53, 0x7D44, 0x6210, 0x3011]"

definition cardiac_header :: pystr where
  "cardiac_header = [10, 0x3010, 0x5FC3, 0x81D3, 0x30FB, 0x5FAA, 0x74B0, 0x5668, 0x3011]"

definition activity_header :: pystr where
  "activity_header = [10, 0x3010, 0x6D3B, 0x52D5, 0x91CF, 0x3011]"

definition distance_header :: pystr where
  "distance_header = [10, 0x3010, 0x79FB, 0x52D5, 0x8DDD, 0x96E2, 0x3011]"

text \<open>The metrics of \<open>build_vital_data_context\<close>, group by group, in the order of the
  code: the key read, the text before the value, the number of decimals, whether the value is
  multiplied by 100 first, and the text after the value.\<close>

definition vital_groups :: "(pystr \<times> (pystr \<times> pystr \<times> nat \<times> bool \<times> pystr) list) list" where
  "vital_groups =
     [(body_header,
       [(asc ''bodyMass'', asc ''- '' @ [0x4F53, 0x91CD] @ asc '': '', 1, False, asc '' kg''),
        (asc ''height'', asc ''- '' @ [0x8EAB, 0x9577] @ asc '': '', 1, False, asc '' cm''),
        (asc ''bodyFatPercentage'', asc ''- '' @ [0x4F53, 0x8102, 0x80AA, 0x7387] @ asc '': '', 1, True, asc ''%''),
        (asc ''leanBodyMass'', asc ''- '' @ [0x9664, 0x8102, 0x80AA, 0x4F53, 0x91CD] @ asc '': '', 1, False, asc '' kg'')]),
      (cardiac_header,
       [(asc ''restingHeartRate'', asc ''- '' @ [0x5B89, 0x9759, 0x6642, 0x5FC3, 0x62CD, 0x6570] @ asc '': '', 0, False, asc '' bpm''),
        (asc ''vo2Max'', asc ''- VO2Max: '', 1, False, asc '' ml/kg/min''),
        (asc ''heartRateVariability'', asc ''- '' @ [0x5FC3, 0x62CD, 0x5909, 0x52D5] @ asc '' (HRV): '', 0, False, asc '' ms''),
        (asc ''heartRate'', asc ''- '' @ [0x5FC3, 0x62CD, 0x6570] @ asc '': '', 0, False, asc '' bpm'')]),
      (activity_header,
       [(asc ''activeEnergyBurned'', asc ''- '' @ [0x30A2, 0x30AF, 0x30C6, 0x30A3, 0x30D6, 0x30AB, 0x30ED, 0x30EA, 0x30FC] @ asc '': '', 0, False, asc '' kcal''),
        (asc ''exerciseTime'', asc ''- '' @ [0x30A8, 0x30AF, 0x30B5, 0x30B5, 0x30A4, 0x30BA, 0x6642, 0x9593] @ asc '': '', 0, False, asc '' '' @ [0x5206]),
        (asc ''stepCount'', asc ''- '' @ [0x6B69, 0x6570] @ asc '': '', 0, False, asc '' steps'')]),
      (distance_header,
       [(asc ''walkingRunningDistance'', asc ''- '' @ [0x6B69, 0x884C, 0x30FB, 0x30E9, 0x30F3, 0x30CB, 0x30F3, 0x30B0, 0x8DDD, 0x96E2] @ asc '': '', 2, False, asc '' km''),
        (asc ''cyclingDistance'', asc ''- '' @ [0x30B5, 0x30A4, 0x30AF, 0x30EA, 0x30F3, 0x30B0, 0x8DDD, 0x96E2] @ asc '': '', 2, False, asc '' km'')])]"



subsection \<open>Symptom keywords\<close>

text \<open>\<open>any(keyword in user_message.lower() for keyword in symptoms_keywords)\<close>; a
  non-string message has no \<open>lower\<close>.\<close>

fun detect_symptoms_consultation :: "pyval \<Rightarrow> py_exc + bool" where
  "detect_symptoms_consultation (PStr s) = Inr (list_ex (\<lambda>kw. py_in kw (py_lower s)) symptoms_keywords)"
| "detect_symptoms_consultation v = Inl AttributeError"

subsection \<open>Blood data\<close>

datatype bucket = Normal | Attention | Abnormal

text \<open>\<open>status in normal_words\<close> and \<open>status in attention_words\<close> after \<open>lower()\<close>:
  the Japanese word for normal or \<open>normal\<close>; the Japanese words for caution and for needs
  caution, or \<open>caution\<close>. Anything else is abnormal.\<close>

definition status_bucket :: "pystr \<Rightarrow> bucket" where
  "status_bucket status =
     (if py_lower status \<in> set normal_words then Normal
      else if py_lower status \<in> set attention_words then Attention else Abnormal)"

text \<open>\<open>f"- {name}: {value} {unit} (reference: {reference})"\<close>, the label in Japanese.\<close>

definition item_text :: "ucd \<Rightarrow> pyval \<Rightarrow> (pystr \<times> pyval) list \<Rightarrow> pystr" where
  "item_text db name item =
     asc ''- '' @ py_str db name @ asc '': '' @ py_str db (dict_get item (asc ''value'') PNone) @ [32] @
     py_str db (dict_get item (asc ''unit'') PNone) @ reference_label @
     py_str db (dict_get item (asc ''reference'') PNone) @ asc '')''"

text \<open>One item of the loop: its bucket and its line. The name is \<open>nameJp\<close>, or else the
  default the function passes; a non-dictionary item has no \<open>get\<close>, a non-string status
  no \<open>lower\<close>.\<close>

fun blood_line :: "ucd \<Rightarrow> ((pystr \<times> pyval) list \<Rightarrow> pyval) \<Rightarrow> pyval \<Rightarrow> py_exc + bucket \<times> pystr" where
  "blood_line db dflt (PDict item) =
     (case dict_get item (asc ''status'') (PStr []) of
        PStr status \<Rightarrow> Inr (status_bucket status, item_text db (dict_get item (asc ''nameJp'') (dflt item)) item)
      | _ \<Rightarrow> Inl AttributeError)"
| "blood_line db dflt v = Inl AttributeError"

definition bucket_items :: "bucket \<Rightarrow> (bucket \<times> pystr) list \<Rightarrow> pystr list" where
  "bucket_items b xs = [t. (b', t) \<leftarrow> xs, b' = b]"

text \<open>\<open>build_blood_data_context\<close>: abnormal, then caution, then normal items, each bucket in
  the order of the data and under its heading when it is not empty.\<close>

definition build_blood_data_context :: "ucd \<Rightarrow> pyval \<Rightarrow> py_exc + pystr" where
  "build_blood_data_context db blood_data =
     ebind (py_iter blood_data) (\<lambda>items.
     ebind (emap (blood_line db (\<lambda>item. dict_get item (asc ''key'') (PStr []))) items) (\<lambda>lines.
       let abnormal = bucket_items Abnormal lines; attention = bucket_items Attention lines;
           normal = bucket_items Normal lines
       in Inr (py_join nl ([blood_header] @
                (if abnormal \<noteq> [] then abnormal_header # abnormal else []) @
                (if attention \<noteq> [] then attention_header # attention else []) @
                (if normal \<noteq> [] then normal_header # normal else [])))))"

text \<open>\<open>build_initial_context\<close>, which no code calls: the same buckets, but normal items only
  counted, followed by the list of gene categories.\<close>

definition build_initial_context :: "ucd \<Rightarrow> pyval \<Rightarrow> pyval \<Rightarrow> py_exc + pystr" where
  "build_initial_context db blood_data categories =
     ebind (if \<not> py_truthy blood_data then Inr []
            else ebind (py_iter blood_data) (\<lambda>items.
                 ebind (emap (blood_line db (\<lambda>item. dict_get item (asc ''key'') PNone)) items) (\<lambda>lines.
                   let abnormal = bucket_items Abnormal lines; attention = bucket_items Attention lines;
                       normal = bucket_items Normal lines
                   in Inr ([blood_header] @
                        (if abnormal \<noteq> [] then abnormal_header # abnormal else []) @
                        (if attention \<noteq> [] then attention_header # attention else []) @
                        (if normal \<noteq> [] then [initial_normal_prefix @ py_str_int (int (length normal)) @
                                               initial_normal_suffix] else [])))))
       (\<lambda>blood_parts.
     ebind (if \<not> py_truthy categories then Inr []
            else ebind (py_iter categories) (\<lambda>cs.
              Inr ([initial_categories_header, categories_intro] @
                   map (\<lambda>c. asc ''- '' @ py_str db c) cs @ [categories_footer])))
       (\<lambda>category_parts. Inr (py_join nl (blood_parts @ category_parts))))"

subsection \<open>Gene data\<close>

text \<open>The lines of one marker: its title, and when it has \<open>genotypes\<close> one line per SNP and,
  for a truthy \<open>impact\<close>, the impact line with the score printed as \<open>{score:+d}\<close>.\<close>

definition impact_line :: "ucd \<Rightarrow> pyval \<Rightarrow> py_exc + pystr list" where
  "impact_line db impact =
     (if \<not> py_truthy impact then Inr []
      else case impact of
        PDict imp \<Rightarrow>
          ebind (py_format_signed (dict_get imp (asc ''score'') (PInt 0))) (\<lambda>score.
            Inr [impact_prefix @ py_str db (dict_get imp (asc ''protective'') (PInt 0)) @ impact_risk @
                 py_str db (dict_get imp (asc ''risk'') (PInt 0)) @ impact_neutral @
                 py_str db (dict_get imp (asc ''neutral'') (PInt 0)) @ impact_score @ score @ asc '')''])
      | _ \<Rightarrow> Inl AttributeError)"

definition marker_lines :: "ucd \<Rightarrow> pyval \<Rightarrow> (pystr \<times> pyval) list \<Rightarrow> py_exc + pystr list" where
  "marker_lines db title marker =
     (if map_of marker (asc ''genotypes'') = None then Inr [asc ''  - '' @ py_str db title]
      else case dict_get marker (asc ''genotypes'') (PDict []) of
        PDict genotypes \<Rightarrow>
          ebind (impact_line db (dict_get marker (asc ''impact'') (PDict []))) (\<lambda>imp.
            Inr ([asc ''  - '' @ py_str db title] @
                 map (\<lambda>(snp_id, genotype). asc ''    '' @ snp_id @ asc '': '' @ py_str db genotype) genotypes @
                 imp))
      | _ \<Rightarrow> Inl AttributeError)"

text \<open>One marker of a list of markers; its title defaults to the empty string.\<close>

fun list_marker_lines :: "ucd \<Rightarrow> pyval \<Rightarrow> py_exc + pystr list" where
  "list_marker_lines db (PDict marker) = marker_lines db (dict_get marker (asc ''title'') (PStr [])) marker"
| "list_marker_lines db v = Inl AttributeError"

text \<open>One category: a falsy value is reported as not found; a single marker's title defaults
  to the category name; a value of another type is named by its type. The flag says whether the
  category had data.\<close>

fun category_lines :: "ucd \<Rightarrow> pystr \<Rightarrow> pyval \<Rightarrow> py_exc + pystr list \<times> bool" where
  "category_lines db category markers =
     (if \<not> py_truthy markers then Inr ([category_prefix @ category @ no_data_suffix], False)
      else ebind (case markers of
          PDict marker \<Rightarrow> marker_lines db (dict_get marker (asc ''title'') (PStr category)) marker
        | PList ms \<Rightarrow> ebind (emap (list_marker_lines db) ms) (\<lambda>ls. Inr (concat ls))
        | v \<Rightarrow> Inr [unknown_shape_prefix @ py_type_name v @ asc '')''])
        (\<lambda>ls. Inr ((category_prefix @ category) # ls, True)))"

fun gene_context_loop :: "ucd \<Rightarrow> (pystr \<times> pyval) list \<Rightarrow> py_exc + pystr list \<times> bool" where
  "gene_context_loop db [] = Inr ([], False)"
| "gene_context_loop db ((category, markers) # rest) =
     ebind (category_lines db category markers) (\<lambda>(ls, has).
       ebind (gene_context_loop db rest) (\<lambda>(ls', has'). Inr (ls @ ls', has \<or> has')))"

fun build_gene_data_context :: "ucd \<Rightarrow> pyval \<Rightarrow> py_exc + pystr" where
  "build_gene_data_context db (PDict d) =
     ebind (gene_context_loop db d) (\<lambda>(ls, has_data).
       Inr (if has_data then py_join nl (gene_header # ls) else gene_no_data_msg))"
| "build_gene_data_context db v = Inl AttributeError"

definition build_available_categories_context :: "ucd \<Rightarrow> pyval \<Rightarrow> py_exc + pystr" where
  "build_available_categories_context db categories =
     ebind (py_iter categories) (\<lambda>cs.
       Inr (py_join nl ([categories_header, categories_intro] @ map (\<lambda>c. asc ''- '' @ py_str db c) cs @
                        [categories_footer])))"

subsection \<open>Vital data\<close>

text \<open>One metric: present when its value is truthy, printed with its format.\<close>

definition metric_line ::
  "(pystr \<times> pyval) list \<Rightarrow> pystr \<times> pystr \<times> nat \<times> bool \<times> pystr \<Rightarrow> py_exc + pystr list" where
  "metric_line vital metric =
     (case metric of (key, pre, n, times100, post) \<Rightarrow>
        let v = dict_get vital key PNone in
        if \<not> py_truthy v then Inr []
        else ebind (if times100 then py_times100 v else Inr v) (\<lambda>x.
             ebind (py_format_fixed n x) (\<lambda>s. Inr [pre @ s @ post])))"

definition group_lines ::
  "(pystr \<times> pyval) list \<Rightarrow> pystr \<times> (pystr \<times> pystr \<times> nat \<times> bool \<times> pystr) list \<Rightarrow> py_exc + pystr list" where
  "group_lines vital grp =
     (case grp of (header, metrics) \<Rightarrow>
        ebind (emap (metric_line vital) metrics) (\<lambda>ls.
          Inr (if concat ls = [] then [] else header # concat ls)))"

fun build_vital_data_context :: "pyval \<Rightarrow> py_exc + pystr" where
  "build_vital_data_context (PDict vital) =
     ebind (emap (group_lines vital) vital_groups) (\<lambda>gs. Inr (py_join nl (vital_header # concat gs)))"
| "build_vital_data_context v = Inl AttributeError"

subsection \<open>The message list\<close>

text \<open>A message \<open>{"role": role, "content": content}\<close>.\<close>

definition mk_msg :: "pyval \<Rightarrow> pyval \<Rightarrow> pyval" where
  "mk_msg role content = PDict [(asc ''role'', role), (asc ''content'', content)]"

text \<open>A message of the conversation history, \<open>{"role": msg.get("role"), "content":
  msg.get("content")}\<close>.\<close>

fun history_message :: "pyval \<Rightarrow> py_exc + pyval" where
  "history_message (PDict m) = Inr (mk_msg (dict_get m (asc ''role'') PNone) (dict_get m (asc ''content'') PNone))"
| "history_message v = Inl AttributeError"

text \<open>The gene block: the category list when \<open>availableCategories\<close> is truthy, else the
  markers.\<close>

definition gene_block :: "ucd \<Rightarrow> pyval \<Rightarrow> py_exc + pystr" where
  "gene_block db gene_data =
     ebind (py_get gene_data (asc ''availableCategories'') PNone) (\<lambda>available.
       if py_truthy available then build_available_categories_context db available
       else build_gene_data_context db gene_data)"

text \<open>An optional system block: rendered and appended when the data are truthy.\<close>

definition opt_block :: "(pyval \<Rightarrow> py_exc + pystr) \<Rightarrow> pyval \<Rightarrow> py_exc + pyval list" where
  "opt_block render data =
     (if py_truthy data then ebind (render data) (\<lambda>c. Inr [mk_msg (PStr (asc ''system'')) (PStr c)]) else Inr [])"

definition build_chat_messages ::
  "ucd \<Rightarrow> pystr \<Rightarrow> pyval \<Rightarrow> pyval \<Rightarrow> pyval \<Rightarrow> pyval \<Rightarrow> pyval \<Rightarrow> py_exc + pyval list" where
  "build_chat_messages db system_prompt user_message conversation_history blood_data vital_data gene_data =
     ebind (detect_symptoms_consultation user_message) (\<lambda>symptoms.
     ebind (opt_block (build_blood_data_context db) blood_data) (\<lambda>blood.
     ebind (opt_block build_vital_data_context vital_data) (\<lambda>vital.
     ebind (opt_block (gene_block db) gene_data) (\<lambda>gene.
     ebind (py_iter conversation_history) (\<lambda>hs.
     ebind (emap history_message hs) (\<lambda>history.
       Inr ([mk_msg (PStr (asc ''system'')) (PStr system_prompt)] @
            (if symptoms then [mk_msg (PStr (asc ''system'')) (PStr hint_text)] else []) @
            blood @ vital @ gene @ history @ [mk_msg (PStr (asc ''user'')) user_message])))))))"

subsection \<open>Views and examples\<close>

text \<open>A system message \<open>{"role": "system", "content": c}\<close> with a string content.\<close>

fun is_system_msg :: "pyval \<Rightarrow> bool" where
  "is_system_msg (PDict [(k1, PStr r), (k2, PStr c)]) \<longleftrightarrow>
     k1 = asc ''role'' \<and> r = asc ''system'' \<and> k2 = asc ''content''"
| "is_system_msg v \<longleftrightarrow> False"

text \<open>A blood panel of three items, one per bucket, in the order normal, abnormal,
  caution.\<close>

definition blood_example :: pyval where
  "blood_example = PList
     [PDict [(asc ''nameJp'', PStr (asc ''A'')), (asc ''value'', PStr (asc ''1'')), (asc ''unit'', PStr (asc ''u'')),
             (asc ''status'', PStr (asc ''normal'')), (asc ''reference'', PStr (asc ''r''))],
      PDict [(asc ''nameJp'', PStr (asc ''B'')), (asc ''value'', PStr (asc ''2'')), (asc ''unit'', PStr (asc ''u'')),
             (asc ''status'', PStr (asc ''abnormal'')), (asc ''reference'', PStr (asc ''r''))],
      PDict [(asc ''nameJp'', PStr (asc ''C'')), (asc ''value'', PStr (asc ''3'')), (asc ''unit'', PStr (asc ''u'')),
             (asc ''status'', PStr (asc ''caution'')), (asc ''reference'', PStr (asc ''r''))]]"

subsection \<open>Properties\<close>

lemma opt_block_Inr:
  "opt_block render data = Inr bs \<Longrightarrow> length bs = (if py_truthy data then 1 else 0) \<and> list_all is_system_msg bs"
  by (auto simp: opt_block_def ebind_eq_Inr mk_msg_def asc_def split: if_splits)

text \<open>C6: The message list \<open>build_chat_messages\<close> returns is the system prompt, the
  symptom hint when the user message contains a symptom keyword, one system message for each of
  the blood, vital and gene data that is truthy, in that order, the conversation history
  message by message, and the user message last.\<close>

theorem build_chat_messages_structure:
  assumes "build_chat_messages db system_prompt user_message history blood_data vital_data gene_data = Inr ms"
  shows "\<exists>symptoms blood vital gene hs hist.
    ms = [mk_msg (PStr (asc ''system'')) (PStr system_prompt)] @
         (if symptoms then [mk_msg (PStr (asc ''system'')) (PStr hint_text)] else []) @
         blood @ vital @ gene @ hist @ [mk_msg (PStr (asc ''user'')) user_message] \<and>
    detect_symptoms_consultation user_message = Inr symptoms \<and>
    length blood = (if py_truthy blood_data then 1 else 0) \<and>
    length vital = (if py_truthy vital_data then 1 else 0) \<and>
    length gene = (if py_truthy gene_data then 1 else 0) \<and>
    list_all is_system_msg (blood @ vital @ gene) \<and>
    py_iter history = Inr hs \<and> emap history_message hs = Inr hist"
proof -
  from assms obtain symptoms blood vital gene hs hist where
    s: "detect_symptoms_consultation user_message = Inr symptoms"
    and b: "opt_block (build_blood_data_context db) blood_data = Inr blood"
    and v: "opt_block build_vital_data_context vital_data = Inr vital"
    and g: "opt_block (gene_block db) gene_data = Inr gene"
    and h: "py_iter history = Inr hs" and e: "emap history_message hs = Inr hist"
    and ms: "ms = [mk_msg (PStr (asc ''system'')) (PStr system_prompt)] @
         (if symptoms then [mk_msg (PStr (asc ''system'')) (PStr hint_text)] else []) @
         blood @ vital @ gene @ hist @ [mk_msg (PStr (asc ''user'')) user_message]"
    unfolding build_chat_messages_def ebind_eq_Inr by blast
  from opt_block_Inr [OF b] opt_block_Inr [OF v] opt_block_Inr [OF g]
  have "length blood = (if py_truthy blood_data then 1 else 0) \<and>
    length vital = (if py_truthy vital_data then 1 else 0) \<and>
    length gene = (if py_truthy gene_data then 1 else 0) \<and>
    list_all is_system_msg (blood @ vital @ gene)" by simp
  with s h e ms show ?thesis by blast
qed


theorem build_chat_messages_structure_witness:
  "\<exists>symptoms blood vital gene hs hist.
    [mk_msg (PStr (asc ''system'')) (PStr (asc ''P'')), mk_msg (PStr (asc ''user'')) (PStr (asc ''hi''))] =
         [mk_msg (PStr (asc ''system'')) (PStr (asc ''P''))] @
         (if symptoms then [mk_msg (PStr (asc ''system'')) (PStr hint_text)] else []) @
         blood @ vital @ gene @ hist @ [mk_msg (PStr (asc ''user'')) (PStr (asc ''hi''))] \<and>
    detect_symptoms_consultation (PStr (asc ''hi'')) = Inr symptoms \<and>
    length blood = (if py_truthy PNone then 1 else 0) \<and>
    length vital = (if py_truthy PNone then 1 else 0) \<and>
    length gene = (if py_truthy PNone then 1 else 0) \<and>
    list_all is_system_msg (blood @ vital @ gene) \<and>
    py_iter (PList []) = Inr hs \<and> emap history_message hs = Inr hist"
proof -
  have d: "list_ex (\<lambda>kw. py_in kw (py_lower (asc ''hi''))) symptoms_keywords = False"
    apply (simp add: symptoms_keywords_def)
    apply (simp add: py_in_def asc_def pystr_simps)
    done
  have "build_chat_messages db (asc ''P'') (PStr (asc ''hi'')) (PList []) PNone PNone PNone =
     Inr [mk_msg (PStr (asc ''system'')) (PStr (asc ''P'')), mk_msg (PStr (asc ''user'')) (PStr (asc ''hi''))]"
    by (simp add: build_chat_messages_def d opt_block_def)
  then show ?thesis by (rule build_chat_messages_structure)
qed


lemma bucket_items_Nil [simp]: "bucket_items b [] = []"
  by (simp add: bucket_items_def)

lemma bucket_items_Cons [simp]:
  "bucket_items b ((b', t) # xs) = (if b' = b then t # bucket_items b xs else bucket_items b xs)"
  by (simp add: bucket_items_def)

lemma mset_bucket_items:
  "mset (bucket_items Abnormal xs @ bucket_items Attention xs @ bucket_items Normal xs) = mset (map snd xs)"
proof (induction xs)
  case (Cons x xs)
  obtain b t where x: "x = (b, t)" by fastforce
  have "mset (map snd xs) =
      mset (bucket_items Abnormal xs @ bucket_items Attention xs @ bucket_items Normal xs)"
    by (rule Cons.IH [symmetric])
  then show ?case
    by (cases b) (simp_all add: x)
qed (simp add: bucket_items_def)

lemma blood_line_text: "blood_line db dflt v = Inr (b, t) \<Longrightarrow> take 2 t = asc ''- ''"
  by (cases "(db, dflt, v)" rule: blood_line.cases)
     (auto simp: item_text_def asc_def split: pyval.splits)

lemma emap_blood_line_texts:
  "emap (blood_line db dflt) items = Inr bls \<Longrightarrow> \<forall>l\<in>set (map snd bls). take 2 l = asc ''- ''"
proof (induction items arbitrary: bls)
  case (Cons v items)
  from Cons.prems obtain b t rest where "blood_line db dflt v = Inr (b, t)"
    and "emap (blood_line db dflt) items = Inr rest" and "bls = (b, t) # rest"
    by (auto simp: ebind_eq_Inr)
  with Cons.IH show ?case by (auto dest: blood_line_text)
qed simp

lemma headers_not_items:
  "take 2 abnormal_header \<noteq> asc ''- ''" "take 2 attention_header \<noteq> asc ''- ''"
  "take 2 normal_header \<noteq> asc ''- ''"
  by (simp_all add: abnormal_header_def attention_header_def normal_header_def asc_def)

lemma bucket_items_subset: "set (bucket_items b xs) \<subseteq> set (map snd xs)"
  by (force simp: bucket_items_def)

text \<open>C38: Whenever every item renders, \<open>build_blood_data_context\<close> lists each item's line exactly
  once, normal items included (the specification only counts them): after the header come the
  abnormal items, then the caution items, then the normal items, each group in the order of the
  data and under its heading.\<close>

theorem blood_context_lists_every_item:
  assumes "emap (blood_line db (\<lambda>item. dict_get item (asc ''key'') (PStr []))) items = Inr bls"
  shows "\<exists>ls. build_blood_data_context db (PList items) = Inr (py_join nl (blood_header # ls)) \<and>
    filter (\<lambda>l. take 2 l = asc ''- '') ls =
      bucket_items Abnormal bls @ bucket_items Attention bls @ bucket_items Normal bls \<and>
    mset (filter (\<lambda>l. take 2 l = asc ''- '') ls) = mset (map snd bls)"
proof -
  let ?A = "bucket_items Abnormal bls" and ?C = "bucket_items Attention bls"
    and ?N = "bucket_items Normal bls"
  let ?ls = "(if ?A \<noteq> [] then abnormal_header # ?A else []) @
             (if ?C \<noteq> [] then attention_header # ?C else []) @
             (if ?N \<noteq> [] then normal_header # ?N else [])"
  have t: "\<forall>l\<in>set (map snd bls). take 2 l = asc ''- ''"
    using emap_blood_line_texts [OF assms] .
  have f: "[l \<leftarrow> xs. take 2 l = asc ''- ''] = xs" if "set xs \<subseteq> set (map snd bls)" for xs
    using that t by (auto simp: filter_id_conv)
  have fl: "[l \<leftarrow> ?ls. take 2 l = asc ''- ''] = ?A @ ?C @ ?N"
    using f [OF bucket_items_subset] headers_not_items by simp
  have bd: "build_blood_data_context db (PList items) = Inr (py_join nl (blood_header # ?ls))"
    using assms by (simp add: build_blood_data_context_def Let_def)
  show ?thesis
    by (intro exI [of _ ?ls] conjI) (simp_all only: bd fl mset_bucket_items)
qed

theorem blood_context_lists_every_item_witness:
  "emap (blood_line (\<lparr>ucd_word = (\<lambda>c. False), ucd_digit = (\<lambda>c. False), ucd_printable = (\<lambda>c. True),
       ucd_casevar = (\<lambda>c. [])\<rparr>) (\<lambda>item. dict_get item (asc ''key'') (PStr []))) (case blood_example of PList xs \<Rightarrow> xs | _ \<Rightarrow> [])
     = Inr [(Normal, asc ''- A: 1 u'' @ reference_label @ asc ''r)''),
            (Abnormal, asc ''- B: 2 u'' @ reference_label @ asc ''r)''),
            (Attention, asc ''- C: 3 u'' @ reference_label @ asc ''r)'')] \<and>
   (\<exists>ls. build_blood_data_context (\<lparr>ucd_word = (\<lambda>c. False), ucd_digit = (\<lambda>c. False), ucd_printable = (\<lambda>c. True),
       ucd_casevar = (\<lambda>c. [])\<rparr>) blood_example = Inr (py_join nl (blood_header # ls)) \<and>
     filter (\<lambda>l. take 2 l = asc ''- '') ls =
       [asc ''- B: 2 u'' @ reference_label @ asc ''r)'', asc ''- C: 3 u'' @ reference_label @ asc ''r)'',
        asc ''- A: 1 u'' @ reference_label @ asc ''r)''])"
proof -
  have e: "emap (blood_line (\<lparr>ucd_word = (\<lambda>c. False), ucd_digit = (\<lambda>c. False), ucd_printable = (\<lambda>c. True),
       ucd_casevar = (\<lambda>c. [])\<rparr>) (\<lambda>item. dict_get item (asc ''key'') (PStr []))) (case blood_example of PList xs \<Rightarrow> xs | _ \<Rightarrow> [])
     = Inr [(Normal, asc ''- A: 1 u'' @ reference_label @ asc ''r)''),
            (Abnormal, asc ''- B: 2 u'' @ reference_label @ asc ''r)''),
            (Attention, asc ''- C: 3 u'' @ reference_label @ asc ''r)'')]"
    by (simp add: blood_example_def item_text_def dict_get_def status_bucket_def normal_words_def
      attention_words_def pystr_simps asc_def)
  have b: "blood_example = PList (case blood_example of PList xs \<Rightarrow> xs | _ \<Rightarrow> [])"
    by (simp add: blood_example_def)
  from blood_context_lists_every_item [OF e] obtain ls where
    l1: "build_blood_data_context (\<lparr>ucd_word = (\<lambda>c. False), ucd_digit = (\<lambda>c. False), ucd_printable = (\<lambda>c. True),
       ucd_casevar = (\<lambda>c. [])\<rparr>) (PList (case blood_example of PList xs \<Rightarrow> xs | _ \<Rightarrow> [])) =
      Inr (py_join nl (blood_header # ls))"
    and l2: "filter (\<lambda>l. take 2 l = asc ''- '') ls =
      bucket_items Abnormal [(Normal, asc ''- A: 1 u'' @ reference_label @ asc ''r)''),
            (Abnormal, asc ''- B: 2 u'' @ reference_label @ asc ''r)''),
            (Attention, asc ''- C: 3 u'' @ reference_label @ asc ''r)'')] @
      bucket_items Attention [(Normal, asc ''- A: 1 u'' @ reference_label @ asc ''r)''),
            (Abnormal, asc ''- B: 2 u'' @ reference_label @ asc ''r)''),
            (Attention, asc ''- C: 3 u'' @ reference_label @ asc ''r)'')] @
      bucket_items Normal [(Normal, asc ''- A: 1 u'' @ reference_label @ asc ''r)''),
            (Abnormal, asc ''- B: 2 u'' @ reference_label @ asc ''r)''),
            (Attention, asc ''- C: 3 u'' @ reference_label @ asc ''r)'')]"
    by blast
  from l1 have l1': "build_blood_data_context (\<lparr>ucd_word = (\<lambda>c. False), ucd_digit = (\<lambda>c. False), ucd_printable = (\<lambda>c. True),
       ucd_casevar = (\<lambda>c. [])\<rparr>) blood_example = Inr (py_join nl (blood_header # ls))"
    unfolding b [symmetric] .
  from l2 have l2': "filter (\<lambda>l. take 2 l = asc ''- '') ls =
       [asc ''- B: 2 u'' @ reference_label @ asc ''r)'', asc ''- C: 3 u'' @ reference_label @ asc ''r)'',
        asc ''- A: 1 u'' @ reference_label @ asc ''r)'']"
    by simp
  show ?thesis
    using e l1' l2' by blast
qed

text \<open>Example: \<open>build_blood_data_context\<close> lists abnormal items, then caution items, then
  every normal item in full; \<open>build_initial_context\<close>, which only counts the normal items as
  the specification describes, is never called.\<close>

theorem blood_context_lists_normal_items:
  "build_blood_data_context db blood_example =
     Inr (py_join nl [blood_header, abnormal_header, asc ''- B: 2 u'' @ reference_label @ asc ''r)'',
                      attention_header, asc ''- C: 3 u'' @ reference_label @ asc ''r)'',
                      normal_header, asc ''- A: 1 u'' @ reference_label @ asc ''r)'']) \<and>
   build_initial_context db blood_example PNone =
     Inr (py_join nl [blood_header, abnormal_header, asc ''- B: 2 u'' @ reference_label @ asc ''r)'',
                      attention_header, asc ''- C: 3 u'' @ reference_label @ asc ''r)'',
                      initial_normal_prefix @ asc ''1'' @ initial_normal_suffix])"
  by (simp add: blood_example_def build_blood_data_context_def build_initial_context_def
      item_text_def bucket_items_def dict_get_def status_bucket_def normal_words_def
      attention_words_def pystr_simps asc_def py_str_int_def dec_digits_eval)

lemma gene_context_loop_empty:
  "\<forall>(c, m)\<in>set d. \<not> py_truthy m \<Longrightarrow> \<exists>ls. gene_context_loop db d = Inr (ls, False)"
  by (induction d) auto

text \<open>C39: When every category of the gene data has an empty (falsy) marker list,
  \<open>build_gene_data_context\<close> returns the fixed message that no gene data came back, instead
  of the per-category lines.\<close>

theorem gene_context_all_empty:
  "\<forall>(c, m)\<in>set d. \<not> py_truthy m \<Longrightarrow> build_gene_data_context db (PDict d) = Inr gene_no_data_msg"
  using gene_context_loop_empty [of d db] by auto

theorem gene_context_all_empty_witness:
  "build_gene_data_context \<lparr>ucd_word = (\<lambda>c. False), ucd_digit = (\<lambda>c. False), ucd_printable = (\<lambda>c. True),
       ucd_casevar = (\<lambda>c. [])\<rparr> (PDict [(asc ''diabetes'', PList [])]) = Inr gene_no_data_msg"
  by (rule gene_context_all_empty) simp


text \<open>C8: A vital metric whose value is an integer of magnitude below \<open>2 ^ 53\<close> is
  printed as that integer (times 100 for the body fat percentage) followed by the format's
  decimals, all zero; a zero value is falsy and gives no line.\<close>

theorem metric_line_int:
  assumes "dict_get vital key PNone = PInt i"
    and "\<bar>if times100 then i * 100 else i\<bar> < 2 ^ 53"
  shows "metric_line vital (key, pre, n, times100, post) =
           Inr (if i = 0 then []
                else [pre @ py_str_int (if times100 then i * 100 else i) @
                      (if n = 0 then [] else 46 # replicate n 48) @ post])"
  using assms py_format_fixed_int [OF assms(2), of n]
  by (cases times100) (simp_all add: metric_line_def)

theorem metric_line_int_witness:
  "metric_line [(asc ''stepCount'', PInt 8000)] (asc ''stepCount'', asc ''- '', 0, False, asc '' steps'') =
     Inr [asc ''- 8000 steps'']"
proof -
  have "metric_line [(asc ''stepCount'', PInt 8000)] (asc ''stepCount'', asc ''- '', 0, False, asc '' steps'') =
     Inr (if (8000::int) = 0 then []
          else [asc ''- '' @ py_str_int (if False then 8000 * 100 else 8000) @
                (if (0::nat) = 0 then [] else 46 # replicate 0 48) @ asc '' steps''])"
    by (rule metric_line_int) (simp_all add: dict_get_def)
  then show ?thesis by (simp add: py_str_int_def dec_digits_eval asc_def)
qed

end
