(* ===== verification/Handler.thy ===== *)
theory Handler
  imports Sanitizer ContextBuilder Invoker Segmenter
begin

text \<open>
  The request handler \<open>lambda_handler\<close> of \<open>src/lambda_deployment/temp_v17/lambda_function.py\<close>
  with \<open>get_openai_api_key\<close> and \<open>cors_headers\<close>. It composes the other components: the
  secret is fetched and the provider client built, the request body parsed and its fields
  logged (the log lines call \<open>len\<close> and \<open>get\<close>, which can raise), the request validated,
  sanitized (\<open>sanitize_for_openai\<close>), turned into messages (\<open>build_chat_messages\<close>), sent
  (\<open>call_openai\<close>) and the reply segmented (\<open>split_response_into_chunks\<close>). The external
  services are fields of an environment record; the handler returns the trace of its external
  effects and the HTTP response, whose JSON body is a datatype with one constructor per
  shape the code builds.
\<close>

subsection \<open>Environment, effects and responses\<close>

text \<open>\<open>he_secret\<close> is \<open>json.loads(get_secret_value(...)['SecretString'])\<close> or the exception
  of that call; \<open>he_client\<close> is \<open>OpenAI(api_key=...)\<close>; \<open>he_loads\<close> is \<open>json.loads\<close> on a
  string; \<open>he_pii\<close> is \<open>PII_SANITIZER_AVAILABLE\<close>; \<open>he_prompt\<close> is \<open>build_system_prompt()\<close>;
  \<open>he_now\<close> is \<open>datetime.now().isoformat()\<close>.\<close>

record handler_env =
  he_secret :: "py_exc + pyval"
  he_client :: "pyval \<Rightarrow> py_exc + pyval list client"
  he_loads :: "pystr \<Rightarrow> py_exc + pyval"
  he_rt :: runtime
  he_pii :: bool
  he_prompt :: pystr
  he_now :: pystr

datatype handler_effect = FetchSecret | Invoke invoke_effect

text \<open>The \<open>details\<close> of an error body is \<open>str(e)\<close> of the exception caught: a Python
  exception of the model, or the provider's exception text.\<close>

datatype err_detail = ExcDetail py_exc | ProviderDetail pystr

datatype resp_body =
    ErrorBody pystr pystr "err_detail option"
  | SuccessBody pystr "pystr list" pystr pystr

record http_response =
  status_code :: nat
  headers :: "(pystr \<times> pystr) list"
  body :: resp_body

definition cors_headers :: "(pystr \<times> pystr) list" where
  "cors_headers =
     [(asc ''Content-Type'', asc ''application/json''),
      (asc ''Access-Control-Allow-Origin'', asc ''*''),
      (asc ''Access-Control-Allow-Headers'', asc ''Content-Type,Authorization''),
      (asc ''Access-Control-Allow-Methods'', asc ''OPTIONS,POST,GET'')]"

definition disclaimer :: pystr where
  "disclaimer = [0x3053, 0x306E, 0x60C5, 0x5831, 0x306F, 0x53C2, 0x8003, 0x60C5, 0x5831, 0x3067,
     0x3059, 0x3002, 0x533B, 0x7642, 0x7684, 0x306A, 0x5224, 0x65AD, 0x306F, 0x533B, 0x5E2B, 0x306B,
     0x3054, 0x76F8, 0x8AC7, 0x304F, 0x3060, 0x3055, 0x3044, 0x3002]"

definition invalid_request :: http_response where
  "invalid_request =
     \<lparr>status_code = 400, headers = cors_headers,
      body = ErrorBody (asc ''userId and message are required'') (asc ''INVALID_REQUEST'') None\<rparr>"

definition pii_salt_missing :: "py_exc \<Rightarrow> http_response" where
  "pii_salt_missing e =
     \<lparr>status_code = 500, headers = cors_headers,
      body = ErrorBody (asc ''Server configuration error'') (asc ''PII_SALT_MISSING'') (Some (ExcDetail e))\<rparr>"

definition internal_error :: "err_detail \<Rightarrow> http_response" where
  "internal_error d =
     \<lparr>status_code = 500, headers = cors_headers,
      body = ErrorBody (asc ''Internal server error'') (asc ''INTERNAL_ERROR'') (Some d)\<rparr>"

definition success :: "pystr \<Rightarrow> pystr \<Rightarrow> http_response" where
  "success now response =
     \<lparr>status_code = 200, headers = cors_headers,
      body = SuccessBody response (split_response_into_chunks response) now disclaimer\<rparr>"

text \<open>An exception escaping the body of the handler is caught by its last \<open>except\<close>.\<close>

definition caught :: "py_exc + 'a \<Rightarrow> http_response + 'a" where
  "caught r = (case r of Inl e \<Rightarrow> Inl (internal_error (ExcDetail e)) | Inr a \<Rightarrow> Inr a)"

subsection \<open>The API key\<close>

text \<open>\<open>get_openai_api_key\<close>: the first of \<open>api_key\<close>, \<open>OPENAI_API_KEY\<close>,
  \<open>openai_api_key\<close> present in the secret; \<open>KeyError\<close> naming the keys found otherwise. A secret
  that is not a JSON object has no \<open>keys\<close>, which the first log line calls.\<close>

definition api_key_names :: "pystr list" where
  "api_key_names = [asc ''api_key'', asc ''OPENAI_API_KEY'', asc ''openai_api_key'']"

definition get_openai_api_key :: "ucd \<Rightarrow> py_exc + pyval \<Rightarrow> py_exc + pyval" where
  "get_openai_api_key db secret_res =
     ebind secret_res (\<lambda>secret.
       case secret of
         PDict d \<Rightarrow>
           (case [k\<leftarrow>api_key_names. k \<in> fst ` set d] of
              k # _ \<Rightarrow> Inr (dict_get d k PNone)
            | [] \<Rightarrow> Inl (KeyError (asc ''No valid API key found in secret. Available keys: '' @
                                  py_repr db (PList (map (\<lambda>(k, v). PStr k) d)))))
       | _ \<Rightarrow> Inl AttributeError)"

subsection \<open>Parsing, logging and validation\<close>

text \<open>\<open>json.loads(event.get('body', '{}'))\<close>: a missing body is the empty object, a
  \<open>null\<close> body is \<open>None\<close>, which \<open>json.loads\<close> rejects with \<open>TypeError\<close>.\<close>

definition parse_body :: "(pystr \<Rightarrow> py_exc + pyval) \<Rightarrow> pyval \<Rightarrow> py_exc + pyval" where
  "parse_body loads event =
     ebind (py_get event (asc ''body'') (PStr (asc ''{}''))) (\<lambda>raw.
       case raw of PStr s \<Rightarrow> loads s | _ \<Rightarrow> Inl TypeError)"

record request_fields =
  rq_user :: pyval
  rq_message :: pyval
  rq_history :: pyval
  rq_blood :: pyval
  rq_vital :: pyval
  rq_gene :: pyval

text \<open>The seven \<open>body.get\<close> calls, in the order of the code (\<open>topic\<close> is read and only
  logged).\<close>

definition read_fields :: "pyval \<Rightarrow> py_exc + request_fields" where
  "read_fields b =
     ebind (py_get b (asc ''userId'') PNone) (\<lambda>user_id.
     ebind (py_get b (asc ''message'') PNone) (\<lambda>message.
     ebind (py_get b (asc ''topic'') (PStr (asc ''general_health''))) (\<lambda>topic.
     ebind (py_get b (asc ''conversationHistory'') (PList [])) (\<lambda>history.
     ebind (py_get b (asc ''bloodData'') PNone) (\<lambda>blood.
     ebind (py_get b (asc ''vitalData'') PNone) (\<lambda>vital.
     ebind (py_get b (asc ''geneData'') PNone) (\<lambda>gene.
       Inr \<lparr>rq_user = user_id, rq_message = message, rq_history = history, rq_blood = blood,
            rq_vital = vital, rq_gene = gene\<rparr>)))))))"

text \<open>The log lines before validation: \<open>len(message)\<close> when the message is truthy,
  \<open>len(conversation_history)\<close>, \<open>len(blood_data)\<close> when truthy, and for truthy gene data
  \<open>gene_data.get('availableCategories', [])\<close> with its length, or \<open>len(gene_data)\<close>. The
  branch for an empty category list sets the gene data to \<open>None\<close>. The result is the gene
  data as the rest of the handler sees it.\<close>

definition log_request :: "request_fields \<Rightarrow> py_exc + pyval" where
  "log_request rq =
     ebind (if py_truthy (rq_message rq) then py_len (rq_message rq) else Inr 0) (\<lambda>_.
     ebind (py_len (rq_history rq)) (\<lambda>_.
     ebind (if py_truthy (rq_blood rq) then py_len (rq_blood rq) else Inr 0) (\<lambda>_.
       if py_truthy (rq_gene rq) then
         ebind (py_get (rq_gene rq) (asc ''availableCategories'') (PList [])) (\<lambda>available_cats.
           if py_truthy available_cats then
             ebind (py_len available_cats) (\<lambda>n. Inr (if 0 < n then rq_gene rq else PNone))
           else ebind (py_len (rq_gene rq)) (\<lambda>_. Inr (rq_gene rq)))
       else Inr (rq_gene rq))))"

definition valid_request :: "request_fields \<Rightarrow> bool" where
  "valid_request rq \<longleftrightarrow> py_truthy (rq_user rq) \<and> py_truthy (rq_message rq)"

subsection \<open>Sanitization and message building\<close>

text \<open>The sanitized message, history and data sections; a section is taken from the
  sanitized request only when the original one is truthy. A \<open>ValueError\<close> (which includes
  \<open>UnicodeEncodeError\<close>) is answered with \<open>PII_SALT_MISSING\<close>; any other exception
  escapes to the handler's last \<open>except\<close>. Without the sanitizer the request is used as it
  is.\<close>

definition sanitize_step ::
  "handler_env \<Rightarrow> pyval \<Rightarrow> request_fields \<Rightarrow> pyval \<Rightarrow> http_response + request_fields" where
  "sanitize_step env b rq gene =
     (if he_pii env then
        (case sanitize_for_openai (he_rt env) b of
           Inl e \<Rightarrow> Inl (if is_value_error e then pii_salt_missing e else internal_error (ExcDetail e))
         | Inr sanitized \<Rightarrow> caught (
             ebind (py_get sanitized (asc ''message'') (rq_message rq)) (\<lambda>m.
             ebind (if py_truthy (rq_blood rq) then py_get sanitized (asc ''bloodData'') PNone else Inr PNone) (\<lambda>bl.
             ebind (if py_truthy (rq_vital rq) then py_get sanitized (asc ''vitalData'') PNone else Inr PNone) (\<lambda>vi.
             ebind (if py_truthy gene then py_get sanitized (asc ''geneData'') PNone else Inr PNone) (\<lambda>ge.
             ebind (py_get sanitized (asc ''conversationHistory'') (rq_history rq)) (\<lambda>h.
               Inr \<lparr>rq_user = rq_user rq, rq_message = m, rq_history = h, rq_blood = bl,
                    rq_vital = vi, rq_gene = ge\<rparr>)))))))
      else Inr (rq\<lparr>rq_gene := gene\<rparr>))"

text \<open>The log loop over the built messages reads \<open>msg['role']\<close> and \<open>len(msg['content'])\<close>.\<close>

fun log_message :: "pyval \<Rightarrow> py_exc + nat" where
  "log_message (PDict m) =
     (case map_of m (asc ''role'') of
        None \<Rightarrow> Inl (KeyError (asc ''role''))
      | Some _ \<Rightarrow> (case map_of m (asc ''content'') of
                    None \<Rightarrow> Inl (KeyError (asc ''content''))
                  | Some c \<Rightarrow> py_len c))"
| "log_message v = Inl TypeError"

text \<open>Everything between the client and the provider call: the messages to send, or the
  response the handler returns without calling the provider.\<close>

definition prepare :: "handler_env \<Rightarrow> pyval \<Rightarrow> http_response + pyval list" where
  "prepare env event =
     ebind (caught (parse_body (he_loads env) event)) (\<lambda>b.
     ebind (caught (read_fields b)) (\<lambda>rq.
     ebind (caught (log_request rq)) (\<lambda>gene.
       if \<not> valid_request rq then Inl invalid_request
       else ebind (sanitize_step env b rq gene) (\<lambda>s.
            ebind (caught (build_chat_messages (rt_ucd (he_rt env)) (he_prompt env) (rq_message s)
                     (rq_history s) (rq_blood s) (rq_vital s) (rq_gene s))) (\<lambda>messages.
            ebind (caught (emap log_message messages)) (\<lambda>_. Inr messages))))))"

subsection \<open>The handler\<close>

text \<open>The provider's exception reaches the caller as \<open>str(e)\<close>; \<open>raise None\<close> (no attempt
  made) raises \<open>TypeError\<close>.\<close>

fun invoke_detail :: "invoke_error \<Rightarrow> err_detail" where
  "invoke_detail (ProviderError e) = ProviderDetail e"
| "invoke_detail RaiseNoneTypeError = ExcDetail TypeError"

definition lambda_handler :: "handler_env \<Rightarrow> pyval \<Rightarrow> handler_effect list \<times> http_response" where
  "lambda_handler env event =
     (case ebind (get_openai_api_key (rt_ucd (he_rt env)) (he_secret env)) (he_client env) of
        Inl e \<Rightarrow> ([FetchSecret], internal_error (ExcDetail e))
      | Inr client \<Rightarrow>
          (case prepare env event of
             Inl resp \<Rightarrow> ([FetchSecret], resp)
           | Inr messages \<Rightarrow>
               (case call_openai client messages default_max_retries of
                  (tr, Inl err) \<Rightarrow> (FetchSecret # map Invoke tr, internal_error (invoke_detail err))
                | (tr, Inr response) \<Rightarrow> (FetchSecret # map Invoke tr, success (he_now env) response))))"

subsection \<open>Views and examples\<close>

text \<open>A message as the provider receives it: a role and a string content, which is free of
  the PII patterns unless the message is a system message.\<close>

fun sent_ok :: "ucd \<Rightarrow> pyval \<Rightarrow> bool" where
  "sent_ok db (PDict [(k1, r), (k2, PStr c)]) \<longleftrightarrow>
     k1 = asc ''role'' \<and> k2 = asc ''content'' \<and> (r = PStr (asc ''system'') \<or> pii_free db c)"
| "sent_ok db v \<longleftrightarrow> False"

text \<open>An environment for examples: a secret with \<open>api_key\<close>, a client \<open>c\<close>, a
  \<open>json.loads\<close> that returns the request \<open>req\<close>, the example runtime with a salt, the
  sanitizer available.\<close>

definition example_env :: "pyval \<Rightarrow> pyval list client \<Rightarrow> handler_env" where
  "example_env req c = \<lparr>he_secret = Inr (PDict [(asc ''api_key'', PStr (asc ''k''))]),
     he_client = (\<lambda>k. Inr c), he_loads = (\<lambda>s. Inr req), he_rt = example_rt (Some (asc ''s'')),
     he_pii = True, he_prompt = asc ''P'', he_now = asc ''T''\<rparr>"

definition example_event :: pyval where
  "example_event = PDict [(asc ''body'', PStr (asc ''{}''))]"

text \<open>A client whose every call returns the text \<open>ok\<close>.\<close>

definition example_client :: "pyval list client" where
  "example_client msgs n = Completion (asc ''ok'')"

subsection \<open>Properties\<close>

lemma emap_list_all:
  "emap f xs = Inr ys \<Longrightarrow> list_all P xs \<Longrightarrow> (\<And>x y. P x \<Longrightarrow> f x = Inr y \<Longrightarrow> Q y) \<Longrightarrow> list_all Q ys"
proof (induction xs arbitrary: ys)
  case (Cons x xs)
  then show ?case by (auto simp: ebind_eq_Inr)
qed simp

lemma caught_simps [simp]: "caught (Inl e) = Inl (internal_error (ExcDetail e))" "caught (Inr a) = Inr a"
  by (simp_all add: caught_def)

lemma caught_Inr [simp]: "caught r = Inr a \<longleftrightarrow> r = Inr a"
  by (cases r) (simp_all add: caught_def)

lemma falsy_iter: "py_len v = Inr n \<Longrightarrow> \<not> py_truthy v \<Longrightarrow> py_iter v = Inr []"
  by (cases v) auto

lemma log_request_history: "log_request rq = Inr g \<Longrightarrow> \<exists>n. py_len (rq_history rq) = Inr n"
  by (auto simp: log_request_def ebind_eq_Inr)

lemma read_fields_Inr:
  "read_fields b = Inr rq \<Longrightarrow> \<exists>d. b = PDict d \<and>
     rq_message rq = dict_get d (asc ''message'') PNone \<and>
     rq_history rq = dict_get d (asc ''conversationHistory'') (PList [])"
  by (cases b) (auto simp: read_fields_def ebind_eq_Inr)

lemma prepare_Inr:
  assumes "prepare env event = Inr messages"
  obtains b rq gene s where "read_fields b = Inr rq" "log_request rq = Inr gene"
    "valid_request rq" "sanitize_step env b rq gene = Inr s"
    "build_chat_messages (rt_ucd (he_rt env)) (he_prompt env) (rq_message s) (rq_history s)
       (rq_blood s) (rq_vital s) (rq_gene s) = Inr messages"
  using assms unfolding prepare_def by (auto simp: ebind_eq_Inr split: if_splits)

lemma sanitize_step_Inr:
  assumes "sanitize_step env b rq gene = Inr s" "he_pii env"
  obtains sd where "sanitize_for_openai (he_rt env) b = Inr (PDict sd)"
    "rq_message s = dict_get sd (asc ''message'') (rq_message rq)"
    "rq_history s = dict_get sd (asc ''conversationHistory'') (rq_history rq)"
proof -
  from assms obtain sanitized where san: "sanitize_for_openai (he_rt env) b = Inr sanitized"
    and rest: "caught (ebind (py_get sanitized (asc ''message'') (rq_message rq)) (\<lambda>m.
             ebind (if py_truthy (rq_blood rq) then py_get sanitized (asc ''bloodData'') PNone else Inr PNone) (\<lambda>bl.
             ebind (if py_truthy (rq_vital rq) then py_get sanitized (asc ''vitalData'') PNone else Inr PNone) (\<lambda>vi.
             ebind (if py_truthy gene then py_get sanitized (asc ''geneData'') PNone else Inr PNone) (\<lambda>ge.
             ebind (py_get sanitized (asc ''conversationHistory'') (rq_history rq)) (\<lambda>h.
               Inr \<lparr>rq_user = rq_user rq, rq_message = m, rq_history = h, rq_blood = bl,
                    rq_vital = vi, rq_gene = ge\<rparr>)))))) = Inr s"
    unfolding sanitize_step_def by (auto split: sum.splits if_splits)
  from san obtain sd where "sanitized = PDict sd"
    unfolding sanitize_for_openai_def by (rule sanitize_request_Inr) simp
  with san rest that show ?thesis by (auto simp: ebind_eq_Inr)
qed

lemma is_system_sent_ok: "is_system_msg m \<Longrightarrow> sent_ok db m"
  by (cases m rule: is_system_msg.cases) auto

lemma history_message_sent_ok: "hist_entry_ok db x \<Longrightarrow> history_message x = Inr y \<Longrightarrow> sent_ok db y"
  by (erule hist_entry_ok.elims) (auto simp: mk_msg_def dict_get_def asc_def)

lemma history_sent_ok:
  assumes "hist_clean db h \<or> (\<exists>n. py_len h = Inr n) \<and> \<not> py_truthy h"
    and "py_iter h = Inr hs" and "emap history_message hs = Inr hist"
  shows "list_all (sent_ok db) hist"
proof -
  have "list_all (hist_entry_ok db) hs"
    using assms(1,2) falsy_iter by (auto simp: hist_clean_def split: pyval.splits)
  then show ?thesis using emap_list_all [OF assms(3), of "hist_entry_ok db" "sent_ok db"] history_message_sent_ok
    by blast
qed

lemma response_codes_differ:
  "internal_error d \<noteq> invalid_request" "internal_error d \<noteq> pii_salt_missing e"
  "success n r \<noteq> invalid_request" "success n r \<noteq> pii_salt_missing e"
  by (simp_all add: internal_error_def invalid_request_def pii_salt_missing_def success_def asc_def)

lemma lambda_handler_cases:
  "lambda_handler env event = (tr, resp) \<Longrightarrow>
   tr = [FetchSecret] \<or> (\<exists>d. resp = internal_error d) \<or> (\<exists>n r. resp = success n r)"
  unfolding lambda_handler_def by (auto split: sum.splits prod.splits)

lemma client_ok: "ebind (get_openai_api_key db (he_secret (example_env r c))) (he_client (example_env r c)) = Inr c"
  by (simp add: example_env_def get_openai_api_key_def api_key_names_def asc_def)

lemma prepare_invalid_example: "prepare (example_env (PDict [(asc ''userId'', PStr (asc ''u1''))]) c) example_event = Inl invalid_request"
  by (simp add: prepare_def example_env_def example_event_def parse_body_def read_fields_def dict_get_def
     log_request_def valid_request_def asc_def)

lemma hi_redact: "sanitize_text ascii_ucd (PStr (asc ''hi'')) = Inr (asc ''hi'')"
  by (simp add: rx_eval ascii_ucd_def cong: map_cong_eval)

lemma anonymize_example: "anonymize_user_id (example_rt (Some (asc ''s''))) (PStr (asc ''u1'')) = Inr (asc ''user_'' @ replicate 12 48)"
  by (simp add: anonymize_user_id_def example_rt_def get_salt_def is_surrogate_def asc_def)

lemma message_example: "sanitize_text (rt_ucd (example_rt (Some (asc ''s'')))) (dict_get [(asc ''userId'', PStr (asc ''u1'')), (asc ''message'', PStr (asc ''hi''))] (asc ''message'') (PStr [])) = Inr (asc ''hi'')"
proof -
  have "dict_get [(asc ''userId'', PStr (asc ''u1'')), (asc ''message'', PStr (asc ''hi''))] (asc ''message'') (PStr []) = PStr (asc ''hi'')"
    by (simp add: dict_get_def asc_def)
  then show ?thesis using hi_redact by (simp add: example_rt_def del: sanitize_text.simps)
qed

lemma sanitize_example: "sanitize_request (example_rt (Some (asc ''s''))) (PDict [(asc ''userId'', PStr (asc ''u1'')), (asc ''message'', PStr (asc ''hi''))])
  = Inr (PDict [(asc ''user_token'', PStr (asc ''user_'' @ replicate 12 48)), (asc ''message'', PStr (asc ''hi'')), (asc ''topic'', PStr (asc ''general_health''))])"
proof -
  have u: "dict_get [(asc ''userId'', PStr (asc ''u1'')), (asc ''message'', PStr (asc ''hi''))] (asc ''userId'') (PStr []) = PStr (asc ''u1'')"
    by (simp add: dict_get_def asc_def)
  show ?thesis
    apply (simp only: sanitize_request.simps u anonymize_example message_example ebind_simps Let_def)
    apply (simp add: add_section_def dict_get_def asc_def)
    done
qed

lemma no_symptom_hi: "list_ex (\<lambda>kw. py_in kw (py_lower (asc ''hi''))) symptoms_keywords = False"
  apply (simp add: symptoms_keywords_def)
  apply (simp add: py_in_def asc_def pystr_simps)
  done

lemma prepare_example: "prepare (example_env (PDict [(asc ''userId'', PStr (asc ''u1'')), (asc ''message'', PStr (asc ''hi''))]) c) example_event =
   Inr [mk_msg (PStr (asc ''system'')) (PStr (asc ''P'')), mk_msg (PStr (asc ''user'')) (PStr (asc ''hi''))]"
proof -
  let ?b = "PDict [(asc ''userId'', PStr (asc ''u1'')), (asc ''message'', PStr (asc ''hi''))]"
  have rf: "read_fields ?b = Inr \<lparr>rq_user = PStr (asc ''u1''), rq_message = PStr (asc ''hi''), rq_history = PList [],
      rq_blood = PNone, rq_vital = PNone, rq_gene = PNone\<rparr>"
    by (simp add: read_fields_def dict_get_def asc_def)
  have st: "sanitize_step (example_env ?b c) ?b \<lparr>rq_user = PStr (asc ''u1''), rq_message = PStr (asc ''hi''), rq_history = PList [],
      rq_blood = PNone, rq_vital = PNone, rq_gene = PNone\<rparr> PNone =
      Inr \<lparr>rq_user = PStr (asc ''u1''), rq_message = PStr (asc ''hi''), rq_history = PList [],
      rq_blood = PNone, rq_vital = PNone, rq_gene = PNone\<rparr>"
    by (simp add: sanitize_step_def example_env_def sanitize_for_openai_def sanitize_example del: sanitize_request.simps)
      (simp add: dict_get_def asc_def)
  show ?thesis
    apply (simp add: prepare_def example_env_def example_event_def parse_body_def dict_get_def rf
      del: sanitize_request.simps)
    apply (simp add: log_request_def valid_request_def)
    apply (simp add: st [unfolded example_env_def] del: sanitize_request.simps)
    apply (simp add: build_chat_messages_def no_symptom_hi opt_block_def mk_msg_def)
    apply (simp add: asc_def)
    done
qed

lemma blood_item_line_nameless:
  assumes "blood_item x = Inr y" and "blood_line db (\<lambda>item. dict_get item (asc ''key'') (PStr [])) y = Inr (b, t)"
  shows "take 4 t = asc ''- : ''"
proof -
  from assms(1) obtain item where y: "y = PDict [(asc ''name'', dict_get item (asc ''nameJp'') (dict_get item (asc ''name'') (PStr []))),
                 (asc ''value'', dict_get item (asc ''value'') (PStr [])),
                 (asc ''unit'', dict_get item (asc ''unit'') (PStr [])),
                 (asc ''status'', dict_get item (asc ''status'') (PStr [])),
                 (asc ''reference'', dict_get item (asc ''reference'') (PStr []))]"
    by (cases x) auto
  have "dict_get [(asc ''name'', dict_get item (asc ''nameJp'') (dict_get item (asc ''name'') (PStr []))),
                 (asc ''value'', dict_get item (asc ''value'') (PStr [])),
                 (asc ''unit'', dict_get item (asc ''unit'') (PStr [])),
                 (asc ''status'', dict_get item (asc ''status'') (PStr [])),
                 (asc ''reference'', dict_get item (asc ''reference'') (PStr []))] (asc ''nameJp'') d = d" for d
    by (simp add: dict_get_def asc_def)
  moreover have "dict_get [(asc ''name'', dict_get item (asc ''nameJp'') (dict_get item (asc ''name'') (PStr []))),
                 (asc ''value'', dict_get item (asc ''value'') (PStr [])),
                 (asc ''unit'', dict_get item (asc ''unit'') (PStr [])),
                 (asc ''status'', dict_get item (asc ''status'') (PStr [])),
                 (asc ''reference'', dict_get item (asc ''reference'') (PStr []))] (asc ''key'') d = d" for d
    by (simp add: dict_get_def asc_def)
  ultimately show ?thesis using assms(2) unfolding y
    by (auto simp: item_text_def asc_def split: pyval.splits)
qed

text \<open>C2: With the sanitizer available, every message the handler passes to the provider is
  a system message (prompt, hint, data contexts) or has a string content free of the five PII
  patterns (the history), and the last one is the user's message with a PII-free text.\<close>

theorem handler_sends_sanitized:
  assumes pii: "he_pii env" and ok: "ucd_ok (rt_ucd (he_rt env))"
    and p: "prepare env event = Inr messages"
  shows "list_all (sent_ok (rt_ucd (he_rt env))) messages \<and>
         (\<exists>m. last messages = mk_msg (PStr (asc ''user'')) (PStr m) \<and> pii_free (rt_ucd (he_rt env)) m)"
proof -
  let ?db = "rt_ucd (he_rt env)"
  from p obtain b rq gene s where rf: "read_fields b = Inr rq" and lg: "log_request rq = Inr gene"
    and st: "sanitize_step env b rq gene = Inr s"
    and bc: "build_chat_messages ?db (he_prompt env) (rq_message s) (rq_history s)
       (rq_blood s) (rq_vital s) (rq_gene s) = Inr messages"
    by (rule prepare_Inr)
  obtain sd where san: "sanitize_request (he_rt env) b = Inr (PDict sd)"
    and sm: "rq_message s = dict_get sd (asc ''message'') (rq_message rq)"
    and sh: "rq_history s = dict_get sd (asc ''conversationHistory'') (rq_history rq)"
    using sanitize_step_Inr [OF st pii] unfolding sanitize_for_openai_def by metis
  from read_fields_Inr [OF rf] obtain d where bd: "b = PDict d"
    and hd: "rq_history rq = dict_get d (asc ''conversationHistory'') (PList [])" by blast
  from sanitized_message_clean [OF ok san] obtain m where
    "map_of sd (asc ''message'') = Some (PStr m)" and mc: "pii_free ?db m" by blast
  then have msg: "rq_message s = PStr m" using sm by (simp add: dict_get_def)
  have hist: "hist_clean ?db (rq_history s) \<or> (\<exists>n. py_len (rq_history s) = Inr n) \<and> \<not> py_truthy (rq_history s)"
  proof (cases "map_of sd (asc ''conversationHistory'')")
    case None
    then show ?thesis using sanitized_history_absent [OF san [unfolded bd] None] sh hd
      log_request_history [OF lg] by (simp add: dict_get_def)
  next
    case (Some h)
    then show ?thesis using sanitized_history_clean [OF ok san] sh by (simp add: dict_get_def)
  qed
  from bc obtain symptoms blood vital gene' hs hl where
    b1: "opt_block (build_blood_data_context ?db) (rq_blood s) = Inr blood"
    and b2: "opt_block build_vital_data_context (rq_vital s) = Inr vital"
    and b3: "opt_block (gene_block ?db) (rq_gene s) = Inr gene'"
    and hi: "py_iter (rq_history s) = Inr hs" and he: "emap history_message hs = Inr hl"
    and ms: "messages = [mk_msg (PStr (asc ''system'')) (PStr (he_prompt env))] @
         (if symptoms then [mk_msg (PStr (asc ''system'')) (PStr hint_text)] else []) @
         blood @ vital @ gene' @ hl @ [mk_msg (PStr (asc ''user'')) (rq_message s)]"
    unfolding build_chat_messages_def ebind_eq_Inr by blast
  have "list_all (sent_ok ?db) (blood @ vital @ gene')"
    using opt_block_Inr [OF b1] opt_block_Inr [OF b2] opt_block_Inr [OF b3]
    by (auto simp: list_all_iff intro: is_system_sent_ok)
  moreover have "list_all (sent_ok ?db) hl" using history_sent_ok [OF hist hi he] .
  ultimately show ?thesis using ms msg mc by (simp add: mk_msg_def asc_def)
qed

theorem handler_sends_sanitized_witness:
  "list_all (sent_ok ascii_ucd) [mk_msg (PStr (asc ''system'')) (PStr (asc ''P'')), mk_msg (PStr (asc ''user'')) (PStr (asc ''hi''))] \<and>
   (\<exists>m. last [mk_msg (PStr (asc ''system'')) (PStr (asc ''P'')), mk_msg (PStr (asc ''user'')) (PStr (asc ''hi''))] =
          mk_msg (PStr (asc ''user'')) (PStr m) \<and> pii_free ascii_ucd m)"
  using handler_sends_sanitized [OF _ _ prepare_example, of c] example_rt_ok [of "Some (asc ''s'')"]
  by (simp add: example_env_def example_rt_def)

text \<open>C4: A request rejected as invalid (400 \<open>INVALID_REQUEST\<close>) or for the salt (500
  \<open>PII_SALT_MISSING\<close>) never reaches the provider; but the handler has always fetched the API
  key from the secret store first, although the specification has validation and configuration
  errors short-circuit before any network call.\<close>

theorem handler_rejects_before_provider:
  assumes "lambda_handler env event = (tr, resp)"
    and "resp = invalid_request \<or> (\<exists>e. resp = pii_salt_missing e)"
  shows "tr = [FetchSecret]"
  using lambda_handler_cases [OF assms(1)] assms(2) response_codes_differ by metis

theorem handler_rejects_before_provider_witness:
  "lambda_handler (example_env (PDict [(asc ''userId'', PStr (asc ''u1''))]) example_client) example_event =
     ([FetchSecret], invalid_request)"
proof -
  have "lambda_handler (example_env (PDict [(asc ''userId'', PStr (asc ''u1''))]) example_client) example_event =
     (fst (lambda_handler (example_env (PDict [(asc ''userId'', PStr (asc ''u1''))]) example_client) example_event), invalid_request)"
    using client_ok prepare_invalid_example by (simp add: lambda_handler_def)
  moreover from this have "fst (lambda_handler (example_env (PDict [(asc ''userId'', PStr (asc ''u1''))]) example_client) example_event) = [FetchSecret]"
    by (rule handler_rejects_before_provider) simp
  ultimately show ?thesis by simp
qed

text \<open>C37: A body that parses to a JSON value other than an object (an array, a string, a
  number, \<open>null\<close>) is answered 500 \<open>INTERNAL_ERROR\<close> with the \<open>AttributeError\<close> of
  \<open>body.get\<close>, not 400 \<open>INVALID_REQUEST\<close>.\<close>

theorem handler_non_object_body:
  assumes "ebind (get_openai_api_key (rt_ucd (he_rt env)) (he_secret env)) (he_client env) = Inr client"
    and "parse_body (he_loads env) event = Inr b" and "\<not> is_dict b"
  shows "lambda_handler env event = ([FetchSecret], internal_error (ExcDetail AttributeError))"
proof -
  have "read_fields b = Inl AttributeError" using assms(3) by (cases b) (simp_all add: read_fields_def)
  then have "prepare env event = Inl (internal_error (ExcDetail AttributeError))"
    using assms(2) by (simp add: prepare_def caught_def)
  then show ?thesis using assms(1) by (simp add: lambda_handler_def)
qed

theorem handler_non_object_body_witness:
  "lambda_handler (example_env (PList []) example_client) example_event = ([FetchSecret], internal_error (ExcDetail AttributeError))"
proof (rule handler_non_object_body [OF client_ok])
  show "parse_body (he_loads (example_env (PList []) example_client)) example_event = Inr (PList [])"
    by (simp add: parse_body_def example_env_def example_event_def dict_get_def asc_def)
qed simp

text \<open>C5: Any \<open>ValueError\<close> of the sanitizer is answered 500 \<open>PII_SALT_MISSING\<close>
  without calling the provider. \<open>UnicodeEncodeError\<close> is a \<open>ValueError\<close>: a user id with a
  lone surrogate is reported as a missing salt although the salt is set.\<close>

theorem handler_value_error_salt:
  assumes "ebind (get_openai_api_key (rt_ucd (he_rt env)) (he_secret env)) (he_client env) = Inr client"
    and "he_pii env" and "parse_body (he_loads env) event = Inr b" and "read_fields b = Inr rq"
    and "log_request rq = Inr g" and "valid_request rq"
    and "sanitize_for_openai (he_rt env) b = Inl e" and "is_value_error e"
  shows "lambda_handler env event = ([FetchSecret], pii_salt_missing e)"
proof -
  have "prepare env event = Inl (pii_salt_missing e)"
    using assms(2-8) by (simp add: prepare_def sanitize_step_def)
  then show ?thesis using assms(1) by (simp add: lambda_handler_def)
qed

theorem handler_value_error_salt_witness:
  "lambda_handler (example_env (PDict [(asc ''userId'', PStr [0xD800]), (asc ''message'', PStr (asc ''hi''))]) example_client)
     example_event = ([FetchSecret], pii_salt_missing UnicodeEncodeError)"
proof (rule handler_value_error_salt [OF client_ok])
  let ?b = "PDict [(asc ''userId'', PStr [0xD800]), (asc ''message'', PStr (asc ''hi''))]"
  show "parse_body (he_loads (example_env ?b example_client)) example_event = Inr ?b"
    by (simp add: parse_body_def example_env_def example_event_def dict_get_def asc_def)
  show "read_fields ?b = Inr \<lparr>rq_user = PStr [0xD800], rq_message = PStr (asc ''hi''), rq_history = PList [],
      rq_blood = PNone, rq_vital = PNone, rq_gene = PNone\<rparr>"
    by (simp add: read_fields_def dict_get_def asc_def)
  show "sanitize_for_openai (he_rt (example_env ?b example_client)) ?b = Inl UnicodeEncodeError"
    by (simp add: sanitize_for_openai_def example_env_def example_rt_def anonymize_user_id_def get_salt_def
        dict_get_def is_surrogate_def asc_def)
qed (simp_all add: example_env_def log_request_def valid_request_def asc_def)

text \<open>C40: The log lines never set the gene data to \<open>None\<close>: the branch for an empty
  \<open>availableCategories\<close> is dead, since a truthy value whose \<open>len\<close> succeeds has a
  positive length.\<close>

theorem log_request_keeps_gene: "log_request rq = Inr g \<Longrightarrow> g = rq_gene rq"
proof -
  have len_pos: "py_truthy v \<Longrightarrow> py_len v = Inr n \<Longrightarrow> 0 < n" for v n by (cases v) auto
  show "log_request rq = Inr g \<Longrightarrow> g = rq_gene rq"
    by (auto simp: log_request_def ebind_eq_Inr split: if_splits dest: len_pos)
qed

theorem log_request_keeps_gene_witness:
  "log_request \<lparr>rq_user = PNone, rq_message = PNone, rq_history = PList [], rq_blood = PNone, rq_vital = PNone,
     rq_gene = PDict [(asc ''availableCategories'', PList [PStr (asc ''a'')])]\<rparr> =
     Inr (PDict [(asc ''availableCategories'', PList [PStr (asc ''a'')])]) \<and>
   PDict [(asc ''availableCategories'', PList [PStr (asc ''a'')])] =
     rq_gene \<lparr>rq_user = PNone, rq_message = PNone, rq_history = PList [], rq_blood = PNone, rq_vital = PNone,
     rq_gene = PDict [(asc ''availableCategories'', PList [PStr (asc ''a'')])]\<rparr>"
proof -
  have "log_request \<lparr>rq_user = PNone, rq_message = PNone, rq_history = PList [], rq_blood = PNone, rq_vital = PNone,
     rq_gene = PDict [(asc ''availableCategories'', PList [PStr (asc ''a'')])]\<rparr> =
     Inr (PDict [(asc ''availableCategories'', PList [PStr (asc ''a'')])])"
    by (simp add: log_request_def dict_get_def asc_def)
  with log_request_keeps_gene show ?thesis by blast
qed

text \<open>C7: Composed as the handler composes them, the sanitizer and the context builder
  lose every blood item's name: the sanitizer renames \<open>nameJp\<close> to \<open>name\<close> and drops
  \<open>key\<close>, and \<open>build_blood_data_context\<close> reads \<open>nameJp\<close> with \<open>key\<close> as default, so each
  item line it builds from sanitized data begins \<open>"- : "\<close>.\<close>

theorem sanitized_blood_context_nameless:
  assumes "sanitize_blood_data v = Inr (PList xs)"
    and "emap (blood_line db (\<lambda>item. dict_get item (asc ''key'') (PStr []))) xs = Inr lines"
  shows "\<forall>(b, t)\<in>set lines. take 4 t = asc ''- : ''"
proof -
  from assms(1) obtain items where "emap blood_item items = Inr xs"
  proof (cases "py_truthy v")
    case False
    with assms(1) have "xs = []" by (simp add: sanitize_blood_data_def)
    then show ?thesis using that [of "[]"] by simp
  qed (use assms(1) that in \<open>auto simp: sanitize_blood_data_def ebind_eq_Inr\<close>)
  then have "list_all2 (\<lambda>x y. blood_item x = Inr y) items xs" by (simp add: emap_eq_Inr)
  moreover have "list_all2 (\<lambda>y l. blood_line db (\<lambda>item. dict_get item (asc ''key'') (PStr [])) y = Inr l) xs lines"
    using assms(2) by (simp add: emap_eq_Inr)
  ultimately show ?thesis
    by (fastforce simp: list_all2_conv_all_nth in_set_conv_nth intro: blood_item_line_nameless)
qed

theorem sanitized_blood_context_nameless_witness:
  "sanitize_blood_data (PList [PDict [(asc ''nameJp'', PStr (asc ''Glucose'')), (asc ''status'', PStr (asc ''normal''))]]) =
     Inr (PList [PDict [(asc ''name'', PStr (asc ''Glucose'')), (asc ''value'', PStr []), (asc ''unit'', PStr []),
                        (asc ''status'', PStr (asc ''normal'')), (asc ''reference'', PStr [])]]) \<and>
   emap (blood_line ascii_ucd (\<lambda>item. dict_get item (asc ''key'') (PStr [])))
     [PDict [(asc ''name'', PStr (asc ''Glucose'')), (asc ''value'', PStr []), (asc ''unit'', PStr []),
             (asc ''status'', PStr (asc ''normal'')), (asc ''reference'', PStr [])]] =
     Inr [(Normal, asc ''- : '' @ [32] @ reference_label @ asc '')'')] \<and>
   take 4 (asc ''- : '' @ [32] @ reference_label @ asc '')'') = asc ''- : ''"
proof -
  have s: "sanitize_blood_data (PList [PDict [(asc ''nameJp'', PStr (asc ''Glucose'')), (asc ''status'', PStr (asc ''normal''))]]) =
     Inr (PList [PDict [(asc ''name'', PStr (asc ''Glucose'')), (asc ''value'', PStr []), (asc ''unit'', PStr []),
                        (asc ''status'', PStr (asc ''normal'')), (asc ''reference'', PStr [])]])"
    by (simp add: sanitize_blood_data_def dict_get_def asc_def)
  have e: "emap (blood_line ascii_ucd (\<lambda>item. dict_get item (asc ''key'') (PStr [])))
     [PDict [(asc ''name'', PStr (asc ''Glucose'')), (asc ''value'', PStr []), (asc ''unit'', PStr []),
             (asc ''status'', PStr (asc ''normal'')), (asc ''reference'', PStr [])]] =
     Inr [(Normal, asc ''- : '' @ [32] @ reference_label @ asc '')'')]"
    by (simp add: item_text_def dict_get_def status_bucket_def normal_words_def pystr_simps asc_def)
  show ?thesis using sanitized_blood_context_nameless [OF s e] s e by simp
qed

end
