(* ===== verification/Profiles.thy ===== *)
theory Profiles
  imports Pyval
begin

text \<open>
  The account Lambdas: \<open>src/lambda_function.py\<close> (profile creation behind API Gateway) and
  \<open>src/lambda_cognito_trigger/lambda_function.py\<close> (the same, also as the Cognito
  PostConfirmation trigger). The two files share \<open>validate_email\<close>,
  \<open>create_user_folders\<close>, \<open>create_user_profile\<close> and \<open>create_response\<close> line for line; they
  are modelled once. The S3 bucket and the DynamoDB table \<open>Users\<close> are an explicit store
  (objects by key, items by \<open>id\<close>); what a call to AWS does on a given request (succeed, or
  raise with a message or a \<open>ClientError\<close>) is a field of the record \<open>aws\<close>, as are
  \<open>json.loads\<close>, the clock and the Unicode lower-case mapping of \<open>str.lower\<close>. A request is a
  step of the store; the reachable stores are an inductive set over both handlers.
\<close>

subsection \<open>Store, environment and effects\<close>

record store =
  st_objects :: "pystr \<rightharpoonup> pystr"
  st_users :: "pystr \<rightharpoonup> (pystr \<times> pyval) list"

record aws =
  aws_s3_error :: "pystr \<Rightarrow> pystr option"
  aws_ddb_error :: "(pystr \<times> pystr) option"
  aws_loads :: "pystr \<Rightarrow> py_exc + pyval"
  aws_lower :: "uchar \<Rightarrow> pystr"
  aws_now :: pystr

datatype aws_effect = S3Put pystr | DdbPut "(pystr \<times> pyval) list"

text \<open>\<open>botocore.exceptions.ClientError\<close> with its error code and message, or a Python
  exception.\<close>

datatype lambda_exc = PyError py_exc | ClientError pystr pystr

record api_response =
  ar_status :: nat
  ar_headers :: "(pystr \<times> pystr) list"
  ar_body :: pyval

subsection \<open>Helpers\<close>

text \<open>\<open>validate_email\<close>: \<open>re.match(r'^[a-zA-Z0-9._%+-]+@[a-zA-Z0-9.-]+\.[a-zA-Z]{2,}$', email)\<close>.
  The classes are ASCII; neither contains \<open>@\<close>, so a match splits the text at its only
  \<open>@\<close> and the domain at some dot followed by two or more letters. \<open>$\<close> also matches
  before a final newline.\<close>

definition is_ascii_alpha :: "uchar \<Rightarrow> bool" where
  "is_ascii_alpha c \<longleftrightarrow> (65 \<le> c \<and> c \<le> 90) \<or> (97 \<le> c \<and> c \<le> 122)"

definition is_ascii_alnum :: "uchar \<Rightarrow> bool" where
  "is_ascii_alnum c \<longleftrightarrow> is_ascii_alpha c \<or> (48 \<le> c \<and> c \<le> 57)"

definition local_char :: "uchar \<Rightarrow> bool" where
  "local_char c \<longleftrightarrow> is_ascii_alnum c \<or> c \<in> set (asc ''._%+-'')"

definition domain_char :: "uchar \<Rightarrow> bool" where
  "domain_char c \<longleftrightarrow> is_ascii_alnum c \<or> c \<in> set (asc ''.-'')"

definition domain_ok :: "pystr \<Rightarrow> bool" where
  "domain_ok r \<longleftrightarrow>
     list_ex (\<lambda>j. r ! j = 46 \<and> 0 < j \<and> list_all domain_char (take j r) \<and>
                  2 \<le> length (drop (Suc j) r) \<and> list_all is_ascii_alpha (drop (Suc j) r)) [0..<length r]"

definition email_match :: "pystr \<Rightarrow> bool" where
  "email_match s \<longleftrightarrow>
     list_ex (\<lambda>i. s ! i = 64 \<and> 0 < i \<and> list_all local_char (take i s) \<and> domain_ok (drop (Suc i) s))
       [0..<length s]"

definition validate_email :: "pystr \<Rightarrow> bool" where
  "validate_email s \<longleftrightarrow> email_match s \<or> (s \<noteq> [] \<and> last s = 10 \<and> email_match (butlast s))"

text \<open>\<open>v.lower().strip()\<close>: a non-string has no \<open>lower\<close>.\<close>

fun normalize_email :: "(uchar \<Rightarrow> pystr) \<Rightarrow> pyval \<Rightarrow> lambda_exc + pystr" where
  "normalize_email lw (PStr s) = Inr (py_strip (concat (map lw s)))"
| "normalize_email lw v = Inl (PyError AttributeError)"

text \<open>\<open>v[k]\<close> with a string key: \<open>KeyError\<close> on a dictionary without it, \<open>TypeError\<close> on
  anything else.\<close>

fun py_getitem :: "pyval \<Rightarrow> pystr \<Rightarrow> lambda_exc + pyval" where
  "py_getitem (PDict d) k = (case map_of d k of Some v \<Rightarrow> Inr v | None \<Rightarrow> Inl (PyError (KeyError k)))"
| "py_getitem v k = Inl (PyError TypeError)"

definition lambda_bind :: "lambda_exc + 'a \<Rightarrow> ('a \<Rightarrow> lambda_exc + 'b) \<Rightarrow> lambda_exc + 'b" where
  "lambda_bind m f = (case m of Inl e \<Rightarrow> Inl e | Inr a \<Rightarrow> f a)"

definition py_loads :: "(pystr \<Rightarrow> py_exc + pyval) \<Rightarrow> pyval \<Rightarrow> lambda_exc + pyval" where
  "py_loads loads raw =
     (case raw of PStr s \<Rightarrow> (case loads s of Inl e \<Rightarrow> Inl (PyError e) | Inr v \<Rightarrow> Inr v)
      | _ \<Rightarrow> Inl (PyError TypeError))"

subsection \<open>S3 folders\<close>

definition gene_desc :: pystr where
  "gene_desc = [0x907A, 0x4F1D, 0x5B50, 0x30C7, 0x30FC, 0x30BF, 0x7528]"

definition blood_desc :: pystr where
  "blood_desc = [0x8840, 0x6DB2, 0x691C, 0x67FB, 0x30C7, 0x30FC, 0x30BF, 0x7528]"

definition readme_desc :: pystr where
  "readme_desc = asc ''README'' @ [0x30D5, 0x30A1, 0x30A4, 0x30EB]"

definition user_folders :: "pystr \<Rightarrow> (pystr \<times> pystr) list" where
  "user_folders email =
     [(asc ''raw-gene/'' @ email @ asc ''/'', gene_desc), (asc ''raw-blood/'' @ email @ asc ''/'', blood_desc)]"

definition readme_key :: "pystr \<Rightarrow> pystr" where
  "readme_key email = asc ''raw-gene/'' @ email @ asc ''/README.md''"

text \<open>The README text, around the address and the creation time.\<close>

definition readme_head :: pystr where
  "readme_head = asc ''# ''"

definition readme_mid :: pystr where
  "readme_mid = asc '' '' @ [0x306E, 0x30C7, 0x30FC, 0x30BF, 0x30D5, 0x30A9, 0x30EB, 0x30C0, 10, 10, 0x4F5C, 0x6210, 0x65E5] @ asc '': ''"

definition readme_tail :: pystr where
  "readme_tail = [10, 10] @ asc ''## '' @ [0x30D5, 0x30A9, 0x30EB, 0x30C0, 0x69CB, 0x6210, 10] @ asc ''- raw-gene/: '' @ [0x907A, 0x4F1D, 0x5B50, 0x30C7, 0x30FC, 0x30BF, 0x3092, 0x30A2, 0x30C3, 0x30D7, 0x30ED, 0x30FC, 0x30C9, 10] @ asc ''- raw-blood/: '' @ [0x8840, 0x6DB2, 0x691C, 0x67FB, 0x30C7, 0x30FC, 0x30BF, 0x3092, 0x30A2, 0x30C3, 0x30D7, 0x30ED, 0x30FC, 0x30C9, 10, 10] @ asc ''## '' @ [0x4F7F, 0x7528, 0x65B9, 0x6CD5, 10, 0x5404, 0x30D5, 0x30A9, 0x30EB, 0x30C0, 0x306B] @ asc ''.txt'' @ [0x30D5, 0x30A1, 0x30A4, 0x30EB, 0x3092, 0x30A2, 0x30C3, 0x30D7, 0x30ED, 0x30FC, 0x30C9, 0x3057, 0x3066, 0x304F, 0x3060, 0x3055, 0x3044, 0x3002, 10, 0x30A2, 0x30C3, 0x30D7, 0x30ED, 0x30FC, 0x30C9, 0x3055, 0x308C, 0x305F, 0x30D5, 0x30A1, 0x30A4, 0x30EB, 0x306F, 0x81EA, 0x52D5, 0x7684, 0x306B, 0x51E6, 0x7406, 0x3055, 0x308C, 0x307E, 0x3059, 0x3002, 10, 10] @ asc ''## '' @ [0x6CE8, 0x610F, 0x4E8B, 0x9805, 10] @ asc ''- '' @ [0x907A, 0x4F1D, 0x5B50, 0x30C7, 0x30FC, 0x30BF, 0x306F] @ asc ''23andMe'' @ [0x5F62, 0x5F0F, 0x306E, 0x30C6, 0x30AD, 0x30B9, 0x30C8, 0x30D5, 0x30A1, 0x30A4, 0x30EB, 0x3092, 0x30A2, 0x30C3, 0x30D7, 0x30ED, 0x30FC, 0x30C9, 10] @ asc ''- '' @ [0x8840, 0x6DB2, 0x691C, 0x67FB, 0x30C7, 0x30FC, 0x30BF, 0x306F, 0x6307, 0x5B9A, 0x30D5, 0x30A9, 0x30FC, 0x30DE, 0x30C3, 0x30C8, 0x306E, 0x30C6, 0x30AD, 0x30B9, 0x30C8, 0x30D5, 0x30A1, 0x30A4, 0x30EB, 0x3092, 0x30A2, 0x30C3, 0x30D7, 0x30ED, 0x30FC, 0x30C9, 10]"

definition readme_content :: "pystr \<Rightarrow> pystr \<Rightarrow> pystr" where
  "readme_content email now = readme_head @ email @ readme_mid @ now @ readme_tail"

text \<open>One folder: an empty object under its key; a failure is recorded in the results with
  \<open>str(e)\<close> and does not stop the function.\<close>

definition put_folder :: "aws \<Rightarrow> pystr \<times> pystr \<Rightarrow> store \<Rightarrow> pyval \<times> store" where
  "put_folder a folder st =
     (case folder of (path, desc) \<Rightarrow>
        case aws_s3_error a path of
          None \<Rightarrow> (PDict [(asc ''path'', PStr path), (asc ''status'', PStr (asc ''created'')),
                         (asc ''description'', PStr desc)],
                   st\<lparr>st_objects := (st_objects st)(path \<mapsto> [])\<rparr>)
        | Some e \<Rightarrow> (PDict [(asc ''path'', PStr path), (asc ''status'', PStr (asc ''failed'')),
                            (asc ''error'', PStr e)], st))"

fun put_folders :: "aws \<Rightarrow> (pystr \<times> pystr) list \<Rightarrow> store \<Rightarrow> pyval list \<times> store" where
  "put_folders a [] st = ([], st)"
| "put_folders a (f # fs) st =
     (case put_folder a f st of (r, st') \<Rightarrow> (case put_folders a fs st' of (rs, st'') \<Rightarrow> (r # rs, st'')))"

text \<open>\<open>create_user_folders\<close>: the two folders, then the README, whose failure is only
  printed. Every \<open>put_object\<close> call is an effect.\<close>

definition create_user_folders :: "aws \<Rightarrow> pystr \<Rightarrow> store \<Rightarrow> aws_effect list \<times> pyval list \<times> store" where
  "create_user_folders a email st =
     (case put_folders a (user_folders email) st of
        (results, st1) \<Rightarrow>
          (map (\<lambda>(path, desc). S3Put path) (user_folders email) @ [S3Put (readme_key email)],
           case aws_s3_error a (readme_key email) of
             None \<Rightarrow> (results @ [PDict [(asc ''path'', PStr (readme_key email)), (asc ''status'', PStr (asc ''created'')),
                                       (asc ''description'', PStr readme_desc)]],
                      st1\<lparr>st_objects := (st_objects st1)(readme_key email \<mapsto> readme_content email (aws_now a))\<rparr>)
           | Some e \<Rightarrow> (results, st1)))"

subsection \<open>The profile\<close>

text \<open>\<open>email.split('@')[0]\<close>.\<close>

definition email_name :: "pystr \<Rightarrow> pystr" where
  "email_name email = hd (py_split email (asc ''@''))"

definition profile_item :: "pystr \<Rightarrow> (pystr \<times> pyval) list" where
  "profile_item email = [(asc ''id'', PStr email), (asc ''name'', PStr (email_name email))]"

text \<open>\<open>create_user_profile\<close>: \<open>put_item\<close> without a condition, which replaces any item with
  the same \<open>id\<close>; a \<open>ClientError\<close> is re-raised.\<close>

definition create_user_profile ::
  "aws \<Rightarrow> pystr \<Rightarrow> store \<Rightarrow> aws_effect list \<times> (lambda_exc + (pystr \<times> pyval) list) \<times> store" where
  "create_user_profile a email st =
     ([DdbPut (profile_item email)],
      case aws_ddb_error a of
        None \<Rightarrow> (Inr (profile_item email), st\<lparr>st_users := (st_users st)(email \<mapsto> profile_item email)\<rparr>)
      | Some (code, msg) \<Rightarrow> (Inl (ClientError code msg), st))"

subsection \<open>Responses\<close>

definition profile_headers :: "(pystr \<times> pystr) list" where
  "profile_headers =
     [(asc ''Content-Type'', asc ''application/json''), (asc ''Access-Control-Allow-Origin'', asc ''*''),
      (asc ''Access-Control-Allow-Headers'', asc ''Content-Type''),
      (asc ''Access-Control-Allow-Methods'', asc ''POST,OPTIONS'')]"

definition create_response :: "nat \<Rightarrow> (pystr \<times> pyval) list \<Rightarrow> api_response" where
  "create_response status b = \<lparr>ar_status = status, ar_headers = profile_headers, ar_body = PDict b\<rparr>"

definition invalid_email_msg :: pystr where
  "invalid_email_msg = [0x7121, 0x52B9, 0x306A, 0x30E1, 0x30FC, 0x30EB, 0x30A2, 0x30C9, 0x30EC, 0x30B9, 0x5F62, 0x5F0F, 0x3067, 0x3059]"

definition created_msg :: pystr where
  "created_msg = [0x30E6, 0x30FC, 0x30B6, 0x30FC, 0x30D7, 0x30ED, 0x30D5, 0x30A1, 0x30A4, 0x30EB, 0x304C, 0x6B63,
     0x5E38, 0x306B, 0x4F5C, 0x6210, 0x3055, 0x308C, 0x307E, 0x3057, 0x305F]"

definition exists_msg :: pystr where
  "exists_msg = [0x3053, 0x306E, 0x30E6, 0x30FC, 0x30B6, 0x30FC, 0x306F, 0x65E2, 0x306B, 0x767B, 0x9332, 0x3055,
     0x308C, 0x3066, 0x3044, 0x307E, 0x3059]"

definition error_prefix :: pystr where
  "error_prefix = [0x30A8, 0x30E9, 0x30FC] @ asc '': ''"

definition unexpected_msg :: pystr where
  "unexpected_msg = [0x4E88, 0x671F, 0x3057, 0x306A, 0x3044, 0x30A8, 0x30E9, 0x30FC, 0x304C, 0x767A, 0x751F, 0x3057,
     0x307E, 0x3057, 0x305F]"

definition error_response :: "nat \<Rightarrow> pystr \<Rightarrow> api_response" where
  "error_response status msg = create_response status [(asc ''error'', PStr msg)]"

definition created_response :: "pystr \<Rightarrow> pyval list \<Rightarrow> (pystr \<times> pyval) list \<Rightarrow> api_response" where
  "created_response email s3_results profile =
     create_response 200 [(asc ''message'', PStr created_msg), (asc ''userId'', PStr email),
                          (asc ''s3Folders'', PList s3_results), (asc ''profile'', PDict profile)]"

subsection \<open>The two handlers\<close>

text \<open>Lines 30--36 of both handlers: the folders, then the profile.\<close>

definition register_user ::
  "aws \<Rightarrow> pystr \<Rightarrow> store \<Rightarrow> aws_effect list \<times> (lambda_exc + pyval list \<times> (pystr \<times> pyval) list) \<times> store" where
  "register_user a email st =
     (case create_user_folders a email st of
        (tr1, s3_results, st1) \<Rightarrow>
          (case create_user_profile a email st1 of
             (tr2, r, st2) \<Rightarrow> (tr1 @ tr2, lambda_bind r (\<lambda>profile. Inr (s3_results, profile)), st2)))"

text \<open>\<open>json.loads(event['body'])['email'].lower().strip()\<close>.\<close>

definition body_email :: "aws \<Rightarrow> pyval \<Rightarrow> lambda_exc + pystr" where
  "body_email a event =
     lambda_bind (py_getitem event (asc ''body'')) (\<lambda>raw.
     lambda_bind (py_loads (aws_loads a) raw) (\<lambda>b.
     lambda_bind (py_getitem b (asc ''email'')) (normalize_email (aws_lower a))))"

definition conditional_check_failed :: pystr where
  "conditional_check_failed = asc ''ConditionalCheckFailedException''"

text \<open>The \<open>except\<close> clauses of \<open>src/lambda_function.py\<close>.\<close>

fun profile_error :: "lambda_exc \<Rightarrow> api_response" where
  "profile_error (ClientError code msg) =
     (if code = conditional_check_failed then error_response 409 exists_msg
      else error_response 500 (error_prefix @ msg))"
| "profile_error (PyError e) = error_response 500 unexpected_msg"

definition profile_lambda_handler :: "aws \<Rightarrow> pyval \<Rightarrow> store \<Rightarrow> aws_effect list \<times> api_response \<times> store" where
  "profile_lambda_handler a event st =
     (case body_email a event of
        Inl e \<Rightarrow> ([], profile_error e, st)
      | Inr email \<Rightarrow>
          if \<not> validate_email email then ([], error_response 400 invalid_email_msg, st)
          else (case register_user a email st of
                  (tr, Inl e, st') \<Rightarrow> (tr, profile_error e, st')
                | (tr, Inr (s3_results, profile), st') \<Rightarrow> (tr, created_response email s3_results profile, st')))"

text \<open>The Cognito trigger returns the event, which lets the sign-up complete, or raises,
  which fails it; called through API Gateway it answers like the profile handler.\<close>

datatype cognito_result = ReturnEvent | Respond api_response | Raise lambda_exc

definition confirm_signup :: pystr where
  "confirm_signup = asc ''PostConfirmation_ConfirmSignUp''"

definition unknown_source_msg :: pystr where
  "unknown_source_msg = asc ''Unknown event source - neither Cognito nor API Gateway''"

definition has_key :: "(pystr \<times> pyval) list \<Rightarrow> pystr \<Rightarrow> bool" where
  "has_key d k \<longleftrightarrow> map_of d k \<noteq> None"

definition trigger_email :: "aws \<Rightarrow> (pystr \<times> pyval) list \<Rightarrow> lambda_exc + pystr" where
  "trigger_email a ev =
     lambda_bind (py_getitem (PDict ev) (asc ''request'')) (\<lambda>r.
     lambda_bind (py_getitem r (asc ''userAttributes'')) (\<lambda>u.
     lambda_bind (py_getitem u (asc ''email'')) (normalize_email (aws_lower a))))"

text \<open>The \<open>except\<close> clauses of the Cognito handler: a duplicate is success for the trigger
  and 409 otherwise; other client errors and every other exception are re-raised for the
  trigger and answered 500 otherwise.\<close>

fun cognito_error :: "bool \<Rightarrow> lambda_exc \<Rightarrow> cognito_result" where
  "cognito_error trig (ClientError code msg) =
     (if code = conditional_check_failed then (if trig then ReturnEvent else Respond (error_response 409 exists_msg))
      else if trig then Raise (ClientError code msg) else Respond (error_response 500 (error_prefix @ msg)))"
| "cognito_error trig (PyError e) = (if trig then Raise (PyError e) else Respond (error_response 500 unexpected_msg))"

definition cognito_lambda_handler ::
  "aws \<Rightarrow> (pystr \<times> pyval) list \<Rightarrow> store \<Rightarrow> aws_effect list \<times> cognito_result \<times> store" where
  "cognito_lambda_handler a ev st =
     (let trig = has_key ev (asc ''triggerSource'') in
      if trig \<and> dict_get ev (asc ''triggerSource'') (PStr []) \<noteq> PStr confirm_signup then ([], ReturnEvent, st)
      else
        (case (if trig then trigger_email a ev
               else if has_key ev (asc ''body'') then body_email a (PDict ev)
               else Inl (PyError (ValueError unknown_source_msg))) of
           Inl e \<Rightarrow> ([], cognito_error trig e, st)
         | Inr email \<Rightarrow>
             if \<not> validate_email email
             then ([], if trig then ReturnEvent else Respond (error_response 400 invalid_email_msg), st)
             else (case register_user a email st of
                     (tr, Inl e, st') \<Rightarrow> (tr, cognito_error trig e, st')
                   | (tr, Inr (s3_results, profile), st') \<Rightarrow>
                       (tr, if trig then ReturnEvent else Respond (created_response email s3_results profile), st'))))"

subsection \<open>Reachable stores\<close>

definition empty_store :: store where
  "empty_store = \<lparr>st_objects = Map.empty, st_users = Map.empty\<rparr>"

inductive reachable :: "store \<Rightarrow> bool" where
  init: "reachable empty_store"
| api: "reachable st \<Longrightarrow> profile_lambda_handler a event st = (tr, r, st') \<Longrightarrow> reachable st'"
| cognito: "reachable st \<Longrightarrow> cognito_lambda_handler a ev st = (tr, c, st') \<Longrightarrow> reachable st'"

text \<open>Every item of the table is the profile of its key, a valid address.\<close>

definition users_ok :: "store \<Rightarrow> bool" where
  "users_ok st \<longleftrightarrow> (\<forall>k item. st_users st k = Some item \<longrightarrow> item = profile_item k \<and> validate_email k)"

subsection \<open>Examples\<close>

text \<open>An environment where every AWS call succeeds and \<open>json.loads\<close> gives an address with
  a capital and a leading space; a PostConfirmation event; the store after one registration.\<close>

definition example_aws :: aws where
  "example_aws = \<lparr>aws_s3_error = (\<lambda>k. None), aws_ddb_error = None,
     aws_loads = (\<lambda>s. Inr (PDict [(asc ''email'', PStr (asc '' A@b.co''))])),
     aws_lower = (\<lambda>c. [py_lower_char c]), aws_now = asc ''T''\<rparr>"

definition example_trigger :: "(pystr \<times> pyval) list" where
  "example_trigger =
     [(asc ''triggerSource'', PStr (asc ''PostConfirmation_ConfirmSignUp'')),
      (asc ''request'', PDict [(asc ''userAttributes'', PDict [(asc ''email'', PStr (asc ''a@b.co''))])])]"

definition example_registered :: store where
  "example_registered =
     \<lparr>st_objects = [asc ''raw-gene/a@b.co/'' \<mapsto> [], asc ''raw-blood/a@b.co/'' \<mapsto> [],
                     asc ''raw-gene/a@b.co/README.md'' \<mapsto> readme_content (asc ''a@b.co'') (asc ''T'')],
      st_users = [asc ''a@b.co'' \<mapsto> profile_item (asc ''a@b.co'')]\<rparr>"


subsection \<open>Properties\<close>

lemma lambda_bind_simps [simp]: "lambda_bind (Inl e) f = Inl e" "lambda_bind (Inr a) f = f a"
  by (simp_all add: lambda_bind_def)

lemma put_folders_Cons_split:
  "put_folders a (f # fs) st =
     (fst (put_folder a f st) # fst (put_folders a fs (snd (put_folder a f st))),
      snd (put_folders a fs (snd (put_folder a f st))))"
  by (simp split: prod.splits)

lemma put_folder_users: "st_users (snd (put_folder a f st)) = st_users st"
  by (simp add: put_folder_def split: prod.splits option.splits)

lemma put_folder_result: "fst (put_folder a f st) = fst (put_folder a f st')"
  by (simp add: put_folder_def split: prod.splits option.splits)

lemma put_folders_users: "st_users (snd (put_folders a fs st)) = st_users st"
  by (induction fs arbitrary: st) (simp_all only: put_folders_Cons_split put_folders.simps(1) snd_conv put_folder_users)

lemma put_folders_results: "fst (put_folders a fs st) = fst (put_folders a fs st')"
  by (induction fs arbitrary: st st') (simp_all only: put_folders_Cons_split put_folders.simps(1) fst_conv,
      metis put_folder_result)

lemma create_user_folders_users: "st_users (snd (snd (create_user_folders a email st))) = st_users st"
  using put_folders_users [of a "user_folders email" st]
  by (auto simp: create_user_folders_def split: prod.splits option.splits)

lemma create_user_folders_out:
  "fst (create_user_folders a email st) = fst (create_user_folders a email st') \<and>
   fst (snd (create_user_folders a email st)) = fst (snd (create_user_folders a email st'))"
  using put_folders_results [of a "user_folders email" st st']
  by (auto simp: create_user_folders_def split: prod.splits option.splits)

lemma register_user_users:
  "st_users (snd (snd (register_user a email st))) \<in> {st_users st, (st_users st)(email \<mapsto> profile_item email)}"
  using create_user_folders_users [of a email st]
  by (auto simp: register_user_def create_user_profile_def split: prod.splits option.splits)

lemma register_user_out:
  "fst (register_user a email st) = fst (register_user a email st') \<and>
   fst (snd (register_user a email st)) = fst (snd (register_user a email st'))"
  using create_user_folders_out [of a email st st']
  by (auto simp: register_user_def create_user_profile_def split: prod.splits option.splits)

lemma register_user_same:
  "register_user a e st1 = (tr1, r1, s1) \<Longrightarrow> register_user a e st2 = (tr2, r2, s2) \<Longrightarrow> tr1 = tr2 \<and> r1 = r2"
  using register_user_out [of a e st1 st2] by simp

lemma users_ok_update: "users_ok st \<Longrightarrow> validate_email email \<Longrightarrow>
  st_users st' \<in> {st_users st, (st_users st)(email \<mapsto> profile_item email)} \<Longrightarrow> users_ok st'"
  by (auto simp: users_ok_def split: if_splits)

lemma register_user_ok:
  "users_ok st \<Longrightarrow> validate_email email \<Longrightarrow> register_user a email st = (tr, r, st') \<Longrightarrow> users_ok st'"
  using register_user_users [of a email st] by (auto intro: users_ok_update)

lemma profile_step_ok:
  "users_ok st \<Longrightarrow> profile_lambda_handler a event st = (tr, r, st') \<Longrightarrow> users_ok st'"
  unfolding profile_lambda_handler_def
  by (auto split: sum.splits if_splits prod.splits intro: register_user_ok)

lemma cognito_step_ok:
  "users_ok st \<Longrightarrow> cognito_lambda_handler a ev st = (tr, c, st') \<Longrightarrow> users_ok st'"
  unfolding cognito_lambda_handler_def Let_def
  by (auto split: sum.splits if_splits prod.splits intro: register_user_ok)

lemma example_aws_fields: "aws_s3_error example_aws = (\<lambda>k. None)" "aws_ddb_error example_aws = None"
  "aws_now example_aws = asc ''T''"
  by (simp_all add: example_aws_def)

lemma validate_example: "validate_email (asc ''a@b.co'')"
  by (simp add: validate_email_def email_match_def domain_ok_def local_char_def domain_char_def
      is_ascii_alnum_def is_ascii_alpha_def asc_def upt_rec)

lemma body_email_example:
  "body_email example_aws (PDict [(asc ''body'', PStr (asc ''{}''))]) = Inr (asc ''a@b.co'')"
  by (simp add: body_email_def example_aws_def py_loads_def asc_def py_lower_char_def py_strip_def pystr_simps)

text \<open>C31: In every store reachable by any sequence of requests to the two handlers, each
  item of the Users table is the profile \<open>{id: k, name: k.split('@')[0]}\<close> of its key, and
  the key is an address \<open>validate_email\<close> accepts.\<close>

theorem reachable_users_ok: "reachable st \<Longrightarrow> users_ok st"
proof (induction rule: reachable.induct)
  case init
  then show ?case by (simp add: users_ok_def empty_store_def)
next
  case (api st a event tr r st')
  then show ?case using profile_step_ok by blast
next
  case (cognito st a ev tr c st')
  then show ?case using cognito_step_ok by blast
qed

theorem reachable_users_ok_witness: "reachable example_registered \<and> users_ok example_registered"
proof -
  have "profile_lambda_handler example_aws (PDict [(asc ''body'', PStr (asc ''{}''))]) empty_store =
        (fst (profile_lambda_handler example_aws (PDict [(asc ''body'', PStr (asc ''{}''))]) empty_store),
         fst (snd (profile_lambda_handler example_aws (PDict [(asc ''body'', PStr (asc ''{}''))]) empty_store)),
         example_registered)"
    by (simp add: profile_lambda_handler_def body_email_example validate_example register_user_def
        create_user_folders_def user_folders_def create_user_profile_def example_registered_def
        empty_store_def readme_key_def example_aws_fields put_folder_def, simp add: asc_def)
  then have r: "reachable example_registered" by (rule reachable.api [OF reachable.init])
  then show ?thesis using reachable_users_ok [OF r] by simp
qed

text \<open>The profile handler never reads the store: its AWS calls and its response are the
  same whatever the table holds.\<close>

theorem profile_handler_ignores_store:
  "fst (profile_lambda_handler a event st1) = fst (profile_lambda_handler a event st2) \<and>
   fst (snd (profile_lambda_handler a event st1)) = fst (snd (profile_lambda_handler a event st2))"
  unfolding profile_lambda_handler_def
  by (auto split: sum.splits prod.splits dest: register_user_same)

lemma created_response_status [simp]: "ar_status (created_response email s p) = 200"
  by (simp add: created_response_def create_response_def)

text \<open>C32: A registration of an address that passes validation, with DynamoDB available, is
  answered 200 and writes the profile of the address, replacing an existing item: the response
  is the one a first registration gets. The 409 branch needs
  \<open>ConditionalCheckFailedException\<close>, which DynamoDB raises only for a conditional write, and
  \<open>put_item\<close> here has no condition.\<close>

theorem profile_duplicate_overwrites:
  assumes "body_email a event = Inr email" "validate_email email" "aws_ddb_error a = None"
    and "profile_lambda_handler a event st = (tr, r, st')"
  shows "ar_status r = 200 \<and> st_users st' = (st_users st)(email \<mapsto> profile_item email) \<and>
    r = fst (snd (profile_lambda_handler a event empty_store))"
proof -
  obtain tr1 s3 st1 where f: "create_user_folders a email st = (tr1, s3, st1)"
    by (metis prod_cases3)
  have u1: "st_users st1 = st_users st"
    using create_user_folders_users [of a email st] f by simp
  have reg: "register_user a email st = (tr1 @ [DdbPut (profile_item email)], Inr (s3, profile_item email),
      st1\<lparr>st_users := (st_users st1)(email \<mapsto> profile_item email)\<rparr>)"
    using assms(3) f by (simp add: register_user_def create_user_profile_def)
  have h: "profile_lambda_handler a event st = (tr1 @ [DdbPut (profile_item email)],
      created_response email s3 (profile_item email), st1\<lparr>st_users := (st_users st1)(email \<mapsto> profile_item email)\<rparr>)"
    using assms(1,2) reg by (simp add: profile_lambda_handler_def)
  have e: "fst (snd (profile_lambda_handler a event st)) = fst (snd (profile_lambda_handler a event empty_store))"
    using profile_handler_ignores_store [of a event st empty_store] by simp
  from assms(4) h have r: "r = created_response email s3 (profile_item email)"
    and s: "st' = st1\<lparr>st_users := (st_users st1)(email \<mapsto> profile_item email)\<rparr>" by simp_all
  have "r = fst (snd (profile_lambda_handler a event empty_store))"
    using e assms(4) by simp
  with r s u1 show ?thesis by simp
qed

theorem profile_duplicate_overwrites_witness:
  "body_email example_aws (PDict [(asc ''body'', PStr (asc ''{}''))]) = Inr (asc ''a@b.co'') \<and>
   validate_email (asc ''a@b.co'') \<and> aws_ddb_error example_aws = None \<and>
   st_users example_registered (asc ''a@b.co'') = Some (profile_item (asc ''a@b.co'')) \<and>
   ar_status (fst (snd (profile_lambda_handler example_aws (PDict [(asc ''body'', PStr (asc ''{}''))]) example_registered))) = 200 \<and>
   st_users (snd (snd (profile_lambda_handler example_aws (PDict [(asc ''body'', PStr (asc ''{}''))]) example_registered))) =
     (st_users example_registered)(asc ''a@b.co'' \<mapsto> profile_item (asc ''a@b.co''))"
proof -
  have r: "st_users example_registered (asc ''a@b.co'') = Some (profile_item (asc ''a@b.co''))"
    by (simp add: example_registered_def)
  obtain tr r st' where p: "profile_lambda_handler example_aws (PDict [(asc ''body'', PStr (asc ''{}''))])
      example_registered = (tr, r, st')"
    by (metis prod_cases3)
  have "ar_status r = 200 \<and> st_users st' = (st_users example_registered)(asc ''a@b.co'' \<mapsto> profile_item (asc ''a@b.co''))"
    using profile_duplicate_overwrites [OF body_email_example validate_example example_aws_fields(2) p] by blast
  then have "ar_status (fst (snd (profile_lambda_handler example_aws (PDict [(asc ''body'', PStr (asc ''{}''))]) example_registered))) = 200 \<and>
   st_users (snd (snd (profile_lambda_handler example_aws (PDict [(asc ''body'', PStr (asc ''{}''))]) example_registered))) =
     (st_users example_registered)(asc ''a@b.co'' \<mapsto> profile_item (asc ''a@b.co''))"
    by (simp add: p)
  then show ?thesis
    using body_email_example validate_example example_aws_fields(2) r by simp
qed

text \<open>C33: For a Cognito trigger event the handler either returns the event or raises; it
  never returns an API Gateway response, which Cognito would reject.\<close>

theorem cognito_trigger_never_responds:
  assumes "has_key ev (asc ''triggerSource'')"
  shows "fst (snd (cognito_lambda_handler a ev st)) = ReturnEvent \<or>
         (\<exists>e. fst (snd (cognito_lambda_handler a ev st)) = Raise e)"
proof -
  have "cognito_error True e = ReturnEvent \<or> (\<exists>e'. cognito_error True e = Raise e')" for e
    by (cases e) auto
  then show ?thesis using assms unfolding cognito_lambda_handler_def Let_def
    by (auto split: sum.splits prod.splits)
qed

theorem cognito_trigger_never_responds_witness:
  "has_key example_trigger (asc ''triggerSource'') \<and>
   (fst (snd (cognito_lambda_handler example_aws example_trigger empty_store)) = ReturnEvent \<or>
    (\<exists>e. fst (snd (cognito_lambda_handler example_aws example_trigger empty_store)) = Raise e))"
proof -
  have h: "has_key example_trigger (asc ''triggerSource'')"
    by (simp add: has_key_def example_trigger_def)
  show ?thesis using cognito_trigger_never_responds [OF h, of example_aws empty_store] h by blast
qed

end
