(* ===== verification/Foods.thy ===== *)
theory Foods
  imports Pyfloat
begin

text \<open>
  The nutrition import script \<open>src/scripts/import_mext_foods.py\<close>: \<open>clean_value\<close>,
  \<open>build_nutrients\<close>, \<open>format_food_id\<close> and the loop of \<open>import_to_dynamodb\<close> over the
  downloaded food list. \<open>Decimal(s)\<close> is a parameter \<open>dec\<close> of type \<open>pystr \<Rightarrow> 'd option\<close>
  (\<open>None\<close> is the \<open>InvalidOperation\<close> it raises on a malformed string); the table is a map
  from \<open>food_id\<close> to items, written by \<open>put_item\<close>, whose refusal of an item is a parameter.
  The download and the verification scan are I/O and not modelled.
\<close>

subsection \<open>Values\<close>

text \<open>The exceptions of the loop body: a Python exception of the model, \<open>InvalidOperation\<close>
  of \<open>Decimal\<close>, the \<open>NameError\<close> raised while evaluating an \<open>except\<close> clause that names
  the module \<open>decimal\<close>, which the script never imports.\<close>

datatype food_exc = FoodPyError py_exc | InvalidOperation | NameError pystr

text \<open>\<open>s.endswith(p)\<close>.\<close>

definition py_endswith :: "pystr \<Rightarrow> pystr \<Rightarrow> bool" where
  "py_endswith s p \<longleftrightarrow> suffix p s"

definition missing_marks :: "pystr list" where
  "missing_marks = [asc ''Tr'', asc ''-'', [], asc ''(Tr)'', [0x2015]]"

text \<open>\<open>clean_value\<close>: \<open>None\<close> stays \<open>None\<close>; a string is stripped; trace marks give
  \<open>Decimal('0')\<close> and the other marks \<open>None\<close>; a parenthesised estimate is parsed without its
  parentheses, and a malformed one reaches \<open>except (ValueError, decimal.InvalidOperation)\<close>,
  whose evaluation raises \<open>NameError\<close>; anything else is \<open>Decimal(str(val))\<close>, \<open>None\<close> when
  malformed.\<close>

definition clean_value :: "ucd \<Rightarrow> (pystr \<Rightarrow> 'd option) \<Rightarrow> pyval \<Rightarrow> food_exc + 'd option" where
  "clean_value db dec v =
     (case v of
        PNone \<Rightarrow> Inr None
      | PStr s \<Rightarrow>
          (let t = py_strip s in
           if t \<in> set missing_marks then Inr (if t = asc ''Tr'' \<or> t = asc ''(Tr)'' then dec (asc ''0'') else None)
           else if py_startswith t (asc ''('') \<and> py_endswith t (asc '')'') then
             (case dec (take (length t - 2) (drop 1 t)) of
                Some d \<Rightarrow> Inr (Some d)
              | None \<Rightarrow> Inl (NameError (asc ''decimal'')))
           else Inr (dec t))
      | _ \<Rightarrow> Inr (dec (py_str db v)))"

text \<open>The nineteen nutrients, in the order of \<open>fields\<close>: the key written and the key read.\<close>

definition nutrient_fields :: "(pystr \<times> pystr) list" where
  "nutrient_fields =
     [(asc ''enerc_kcal'', asc ''enercKcal''), (asc ''water'', asc ''water''), (asc ''protein'', asc ''prot''),
      (asc ''fat'', asc ''fat''), (asc ''carbs'', asc ''choavldf''), (asc ''fiber'', asc ''fib''),
      (asc ''na'', asc ''na''), (asc ''k'', asc ''k''), (asc ''ca'', asc ''ca''), (asc ''mg'', asc ''mg''),
      (asc ''p'', asc ''p''), (asc ''fe'', asc ''fe''), (asc ''zn'', asc ''zn''), (asc ''cu'', asc ''cu''),
      (asc ''mn'', asc ''mn''), (asc ''vitb1'', asc ''thia''), (asc ''vitb2'', asc ''ribf''),
      (asc ''vitc'', asc ''vitc''), (asc ''chole'', asc ''chole'')]"

text \<open>\<open>build_nutrients\<close>: every field cleaned in order (an exception stops the loop), the
  \<open>None\<close> ones left out.\<close>

definition build_nutrients ::
  "ucd \<Rightarrow> (pystr \<Rightarrow> 'd option) \<Rightarrow> (pystr \<times> pyval) list \<Rightarrow> food_exc + (pystr \<times> 'd) list" where
  "build_nutrients db dec food =
     (case emap (\<lambda>(key, src). case clean_value db dec (dict_get food src PNone) of
                   Inl e \<Rightarrow> Inl e | Inr v \<Rightarrow> Inr (key, v)) nutrient_fields of
        Inl e \<Rightarrow> Inl e
      | Inr kvs \<Rightarrow> Inr [(k, d). (k, Some d) \<leftarrow> kvs])"

text \<open>\<open>format(v, '0Nd')\<close>: the sign, then the digits padded with zeros to the width less the
  sign; floats and strings have no \<open>d\<close> code, other values no format at all.\<close>

fun py_format_zpad :: "nat \<Rightarrow> pyval \<Rightarrow> py_exc + pystr" where
  "py_format_zpad w (PInt i) =
     (let sgn = (if i < 0 then [45] else []); ds = dec_digits (nat \<bar>i\<bar>)
      in Inr (sgn @ replicate (w - length sgn - length ds) 48 @ ds))"
| "py_format_zpad w (PBool b) = Inr (replicate (w - 1) 48 @ [if b then 49 else 48])"
| "py_format_zpad w (PFloat m e) =
     Inl (ValueError (asc ''Unknown format code '' @ quoted ''d'' @ asc '' for object of type '' @ quoted ''float''))"
| "py_format_zpad w (PStr s) =
     Inl (ValueError (asc ''Unknown format code '' @ quoted ''d'' @ asc '' for object of type '' @ quoted ''str''))"
| "py_format_zpad w v = Inl TypeError"

definition format_food_id :: "pyval \<Rightarrow> pyval \<Rightarrow> py_exc + pystr" where
  "format_food_id group_id food_id =
     ebind (py_format_zpad 2 group_id) (\<lambda>g. ebind (py_format_zpad 3 food_id) (\<lambda>f. Inr (g @ f)))"

subsection \<open>The import loop\<close>

record 'd food_item =
  fi_food_id :: pystr
  fi_group_id :: pyval
  fi_index_id :: pyval
  fi_food_name :: pyval
  fi_refuse :: 'd
  fi_nutrients :: "(pystr \<times> 'd) list"
  fi_created_at :: pystr

text \<open>\<open>'groupId' not in food\<close> and \<open>food[k]\<close> for the food as \<open>json\<close> gives it: membership
  of keys, elements or substrings; subscripting anything but a dictionary is a \<open>TypeError\<close>.\<close>

fun py_contains :: "pyval \<Rightarrow> pystr \<Rightarrow> py_exc + bool" where
  "py_contains (PDict d) k = Inr (map_of d k \<noteq> None)"
| "py_contains (PList xs) k = Inr (PStr k \<in> set xs)"
| "py_contains (PStr s) k = Inr (sublist k s)"
| "py_contains v k = Inl TypeError"

definition py_exc_lift :: "py_exc + 'a \<Rightarrow> food_exc + 'a" where
  "py_exc_lift r = (case r of Inl e \<Rightarrow> Inl (FoodPyError e) | Inr a \<Rightarrow> Inr a)"

definition missing_ids_msg :: pystr where
  "missing_ids_msg = asc ''Missing groupId or foodId''"

text \<open>The body of the \<open>try\<close>: the checks, the item in the order of its dictionary, and the
  write.\<close>

definition food_item :: "ucd \<Rightarrow> (pystr \<Rightarrow> 'd option) \<Rightarrow> pystr \<Rightarrow> pyval \<Rightarrow> food_exc + 'd food_item" where
  "food_item db dec timestamp food =
     (case (py_exc_lift (py_contains food (asc ''groupId'')), py_exc_lift (py_contains food (asc ''foodId''))) of
        (Inr hg, Inr hf) \<Rightarrow>
          if \<not> hg then Inl (FoodPyError (ValueError missing_ids_msg))
          else if \<not> hf then Inl (FoodPyError (ValueError missing_ids_msg))
          else (case food of
                  PDict d \<Rightarrow>
                    (let g = dict_get d (asc ''groupId'') PNone; f = dict_get d (asc ''foodId'') PNone in
                     case py_exc_lift (format_food_id g f) of
                       Inl e \<Rightarrow> Inl e
                     | Inr fid \<Rightarrow>
                         (case dec (py_str db (py_or (dict_get d (asc ''refuse'') (PInt 0)) (PInt 0))) of
                            None \<Rightarrow> Inl InvalidOperation
                          | Some refuse \<Rightarrow>
                              (case build_nutrients db dec d of
                                 Inl e \<Rightarrow> Inl e
                               | Inr ns \<Rightarrow>
                                   Inr \<lparr>fi_food_id = fid, fi_group_id = g, fi_index_id = dict_get d (asc ''indexId'') f,
                                        fi_food_name = dict_get d (asc ''foodName'') (PStr []), fi_refuse = refuse,
                                        fi_nutrients = ns, fi_created_at = timestamp\<rparr>)))
                | _ \<Rightarrow> Inl (FoodPyError TypeError))
      | (Inl e, _) \<Rightarrow> Inl e
      | (Inr hg, Inl e) \<Rightarrow> if \<not> hg then Inl (FoodPyError (ValueError missing_ids_msg)) else Inl e)"

text \<open>The loop: a successful write counts a success and replaces any item with the same
  \<open>food_id\<close>; an exception counts an error, after \<open>food.get('foodName', 'unknown')\<close> in the
  handler, which raises \<open>AttributeError\<close> for a food that is not a dictionary and ends the
  whole import. The result is the two counts and the table, or that escaping exception.\<close>

fun import_loop ::
  "ucd \<Rightarrow> (pystr \<Rightarrow> 'd option) \<Rightarrow> ('d food_item \<Rightarrow> bool) \<Rightarrow> pystr \<Rightarrow> pyval list \<Rightarrow>
   nat \<times> nat \<times> (pystr \<rightharpoonup> 'd food_item) \<Rightarrow> py_exc + nat \<times> nat \<times> (pystr \<rightharpoonup> 'd food_item)" where
  "import_loop db dec rejects ts [] acc = Inr acc"
| "import_loop db dec rejects ts (food # foods) (s, e, tbl) =
     (case food_item db dec ts food of
        Inr item \<Rightarrow>
          if rejects item then
            (case food of PDict d \<Rightarrow> import_loop db dec rejects ts foods (s, Suc e, tbl) | _ \<Rightarrow> Inl AttributeError)
          else import_loop db dec rejects ts foods (Suc s, e, tbl(fi_food_id item \<mapsto> item))
      | Inl x \<Rightarrow>
          (case food of PDict d \<Rightarrow> import_loop db dec rejects ts foods (s, Suc e, tbl) | _ \<Rightarrow> Inl AttributeError))"

definition import_to_dynamodb ::
  "ucd \<Rightarrow> (pystr \<Rightarrow> 'd option) \<Rightarrow> ('d food_item \<Rightarrow> bool) \<Rightarrow> pystr \<Rightarrow> pyval list \<Rightarrow> (pystr \<rightharpoonup> 'd food_item) \<Rightarrow>
   py_exc + nat \<times> nat \<times> (pystr \<rightharpoonup> 'd food_item)" where
  "import_to_dynamodb db dec rejects ts foods tbl = import_loop db dec rejects ts foods (0, 0, tbl)"

subsection \<open>Examples\<close>

text \<open>A character table, and a \<open>Decimal\<close> that accepts plain digit strings.\<close>

definition example_ucd :: ucd where
  "example_ucd = \<lparr>ucd_word = (\<lambda>c. False), ucd_digit = (\<lambda>c. 48 \<le> c \<and> c \<le> 57),
     ucd_printable = (\<lambda>c. True), ucd_casevar = (\<lambda>c. [])\<rparr>"

definition example_dec :: "pystr \<Rightarrow> nat option" where
  "example_dec s = (if s \<noteq> [] \<and> list_all (\<lambda>c. 48 \<le> c \<and> c \<le> 57) s
                    then Some (foldl (\<lambda>n c. 10 * n + (c - 48)) 0 s) else None)"

subsection \<open>Properties\<close>

lemma food_item_non_dict: "\<not> is_dict food \<Longrightarrow> \<exists>x. food_item db dec ts food = Inl x"
  by (cases food) (auto simp: food_item_def py_exc_lift_def split: if_splits)

lemma import_loop_abort:
  "\<not> is_dict food \<Longrightarrow> import_loop db dec rej ts (food # foods) acc = Inl AttributeError"
  using food_item_non_dict [of food db dec ts]
  by (cases acc; cases food) (auto split: sum.splits if_splits)

lemma import_loop_prefix:
  "list_all is_dict pre \<Longrightarrow> \<exists>acc'. import_loop db dec rej ts (pre @ rest) acc = import_loop db dec rej ts rest acc'"
proof (induction pre arbitrary: acc)
  case Nil then show ?case by (cases acc) auto
next
  case (Cons f pre)
  then obtain d where f: "f = PDict d" by (cases f) auto
  obtain s e tbl where acc: "acc = (s, e, tbl)" by (cases acc)
  from Cons show ?case
    by (auto simp: f acc split: sum.splits if_splits)
qed

lemma import_loop_total:
  "list_all is_dict foods \<Longrightarrow>
   \<exists>s' e' t. import_loop db dec rej ts foods (s, e, tbl) = Inr (s', e', t) \<and> s' + e' = s + e + length foods \<and>
     (\<forall>k v. t k = Some v \<longrightarrow> tbl k = Some v \<or> fi_food_id v = k)"
proof (induction foods arbitrary: s e tbl)
  case Nil then show ?case by simp
next
  case (Cons f foods)
  then obtain d where f: "f = PDict d" by (cases f) auto
  from Cons.prems have ih: "\<And>s e tbl. \<exists>s' e' t. import_loop db dec rej ts foods (s, e, tbl) = Inr (s', e', t) \<and>
     s' + e' = s + e + length foods \<and> (\<forall>k v. t k = Some v \<longrightarrow> tbl k = Some v \<or> fi_food_id v = k)"
    using Cons.IH by simp
  show ?case
  proof (cases "food_item db dec ts f")
    case (Inl x)
    with ih [of s "Suc e" tbl] show ?thesis by (simp add: f)
  next
    case (Inr item)
    show ?thesis
    proof (cases "rej item")
      case True
      with Inr ih [of s "Suc e" tbl] show ?thesis by (simp add: f)
    next
      case False
      from ih [of "Suc s" e "tbl(fi_food_id item \<mapsto> item)"] obtain s' e' t where
        r: "import_loop db dec rej ts foods (Suc s, e, tbl(fi_food_id item \<mapsto> item)) = Inr (s', e', t)"
        and c: "s' + e' = Suc s + e + length foods"
        and k: "\<forall>k v. t k = Some v \<longrightarrow> (tbl(fi_food_id item \<mapsto> item)) k = Some v \<or> fi_food_id v = k" by blast
      have "\<forall>k v. t k = Some v \<longrightarrow> tbl k = Some v \<or> fi_food_id v = k"
        using k by (auto split: if_splits)
      with Inr False r c show ?thesis by (simp add: f)
    qed
  qed
qed

lemma emap_Inl: "x \<in> set xs \<Longrightarrow> f x = Inl e \<Longrightarrow> \<exists>e'. emap f xs = Inl e'"
proof (induction xs)
  case (Cons y ys)
  show ?case
  proof (cases "f y")
    case (Inl a) then show ?thesis by simp
  next
    case (Inr b)
    with Cons have "x \<in> set ys" by auto
    with Cons.IH Cons.prems(2) obtain e' where "emap f ys = Inl e'" by blast
    with Inr show ?thesis by simp
  qed
qed simp

lemma clean_value_paren_dash:
  "dec (asc ''-'') = None \<Longrightarrow> clean_value db dec (PStr (asc ''(-)'')) = Inl (NameError (asc ''decimal''))"
  by (simp add: clean_value_def missing_marks_def py_startswith_def py_endswith_def asc_def pystr_simps Let_def suffix_to_prefix)

lemma build_nutrients_name_error:
  assumes "map_of d (asc ''fat'') = Some (PStr (asc ''(-)''))" and "dec (asc ''-'') = None"
  shows "\<exists>x. build_nutrients db dec d = Inl x"
proof -
  have mem: "(asc ''fat'', asc ''fat'') \<in> set nutrient_fields"
    unfolding nutrient_fields_def by (simp only: list.set insert_iff simp_thms)
  have dg: "dict_get d (asc ''fat'') PNone = PStr (asc ''(-)'')" using assms(1) by (simp add: dict_get_def)
  define f where "f = (\<lambda>(key, src). case clean_value db dec (dict_get d src PNone) of
                   Inl e \<Rightarrow> Inl e | Inr v \<Rightarrow> (Inr (key, v) :: food_exc + pystr \<times> _))"
  have "f (asc ''fat'', asc ''fat'') = Inl (NameError (asc ''decimal''))"
    using clean_value_paren_dash [of dec db, OF assms(2)] dg by (simp add: f_def)
  then obtain e where "emap f nutrient_fields = Inl e" using emap_Inl [OF mem, of f] by blast
  then show ?thesis by (simp add: build_nutrients_def f_def)
qed

text \<open>C35: A single entry of the food list that is not a JSON object aborts the whole import
  with \<open>AttributeError\<close> (raised by \<open>food.get\<close> inside the \<open>except\<close> clause), discarding the
  counts of the foods before it, although the loop means to count it as one error.\<close>

theorem import_aborts_on_non_object:
  assumes "list_all is_dict pre" and "\<not> is_dict food"
  shows "import_to_dynamodb db dec rej ts (pre @ food # post) tbl = Inl AttributeError"
  using import_loop_prefix [OF assms(1), of db dec rej ts "food # post" "(0, 0, tbl)"] import_loop_abort [OF assms(2)]
  unfolding import_to_dynamodb_def by auto


theorem import_aborts_on_non_object_witness:
  "import_to_dynamodb example_ucd example_dec (\<lambda>i. False) (asc ''T'') ([] @ PStr (asc ''x'') # []) Map.empty =
     Inl AttributeError"
  by (rule import_aborts_on_non_object) simp_all

text \<open>C36: When every entry is an object the import finishes, each food counted once as a
  success or an error, and every item it writes is stored under its own \<open>food_id\<close>.\<close>

theorem import_counts:
  assumes "list_all is_dict foods"
  shows "\<exists>s e t. import_to_dynamodb db dec rej ts foods tbl = Inr (s, e, t) \<and> s + e = length foods \<and>
           (\<forall>k v. t k = Some v \<longrightarrow> tbl k = Some v \<or> fi_food_id v = k)"
  using import_loop_total [OF assms, of db dec rej ts 0 0 tbl] unfolding import_to_dynamodb_def by simp

theorem import_counts_witness:
  "\<exists>s e t. import_to_dynamodb example_ucd example_dec (\<lambda>i. False) (asc ''T'')
     [PDict [(asc ''groupId'', PInt 1), (asc ''foodId'', PInt 88)]] Map.empty = Inr (s, e, t) \<and> s + e = 1"
  using import_counts [of "[PDict [(asc ''groupId'', PInt 1), (asc ''foodId'', PInt 88)]]" example_ucd example_dec
      "\<lambda>i. False" "asc ''T''" Map.empty]
  by auto

text \<open>C34: A nutrient value \<open>"(-)"\<close> is not one of the missing-value marks, so it is parsed
  as an estimate; \<open>Decimal('-')\<close> raises, the handler \<open>except (ValueError,
  decimal.InvalidOperation)\<close> raises \<open>NameError\<close> (the module is not imported), and the whole
  food is counted as an error and not written, instead of the value being dropped.\<close>

theorem malformed_estimate_not_imported:
  assumes "map_of d (asc ''fat'') = Some (PStr (asc ''(-)''))" and "dec (asc ''-'') = None"
  shows "import_to_dynamodb db dec rej ts [PDict d] tbl = Inr (0, 1, tbl)"
proof -
  obtain x where "build_nutrients db dec d = Inl x" using build_nutrients_name_error [of d dec db, OF assms] by blast
  then have "\<exists>y. food_item db dec ts (PDict d) = Inl y"
    unfolding food_item_def py_exc_lift_def
    by (simp only: py_contains.simps sum.case prod.case) (auto simp: Let_def split: sum.split option.split)
  then obtain y where "food_item db dec ts (PDict d) = Inl y" by blast
  then show ?thesis by (simp add: import_to_dynamodb_def)
qed

theorem malformed_estimate_not_imported_witness:
  "import_to_dynamodb example_ucd example_dec (\<lambda>i. False) (asc ''T'')
     [PDict [(asc ''groupId'', PInt 1), (asc ''foodId'', PInt 88), (asc ''fat'', PStr (asc ''(-)''))]] Map.empty =
   Inr (0, 1, Map.empty)"
  by (rule malformed_estimate_not_imported) (simp_all add: example_dec_def asc_def)

end
