(* ===== verification/Passwords.thy ===== *)
theory Passwords
  imports Py_Prelude "HOL-Library.State_Monad" "HOL-Library.Multiset"
begin

text \<open>
  \<open>generate_temp_password\<close>, line for line the same in
  \<open>src/lambda_cognito_trigger/bulk_register_lambda.py\<close> and
  \<open>src/lambda_cognito_trigger/bulk_register_users.py\<close>. The random source of \<open>secrets\<close>
  is an infinite sequence of draws (a function from positions to numbers, the first draw at
  position 0) threaded through the generator by the state monad of
  \<open>HOL-Library.State_Monad\<close>: \<open>randbelow n\<close> takes the next draw modulo \<open>n\<close>, so every value
  below \<open>n\<close> is the outcome of some sequence and every sequence gives one. \<open>secrets.choice\<close> and
  \<open>SystemRandom().shuffle\<close> are written as CPython's \<open>random.py\<close> writes them on top of
  \<open>_randbelow\<close>. The theorems hold for every sequence, i.e. for every outcome of the draws.
\<close>

type_synonym rng = "nat \<Rightarrow> nat"
type_synonym 'a rand = "(rng, 'a) state"

subsection \<open>Draws\<close>

definition randbelow :: "nat \<Rightarrow> nat rand" where
  "randbelow n = State (\<lambda>s. (s 0 mod n, \<lambda>k. s (Suc k)))"

text \<open>\<open>choice(seq)\<close>: \<open>seq[self._randbelow(len(seq))]\<close>.\<close>

definition choice :: "'a list \<Rightarrow> 'a rand" where
  "choice seq = do { i \<leftarrow> randbelow (length seq); State_Monad.return (seq ! i) }"

text \<open>\<open>shuffle(x)\<close>: \<open>for i in reversed(range(1, len(x))): j = randbelow(i + 1);
  x[i], x[j] = x[j], x[i]\<close>. \<open>shuffle_loop i\<close> runs the iterations \<open>i, i - 1, ..., 1\<close>.\<close>

fun shuffle_loop :: "nat \<Rightarrow> 'a list \<Rightarrow> 'a list rand" where
  "shuffle_loop 0 xs = State_Monad.return xs"
| "shuffle_loop (Suc i) xs =
     do { j \<leftarrow> randbelow (Suc i + 1); shuffle_loop i (xs[Suc i := xs ! j, j := xs ! Suc i]) }"

definition shuffle :: "'a list \<Rightarrow> 'a list rand" where
  "shuffle xs = shuffle_loop (length xs - 1) xs"

subsection \<open>The generator\<close>

definition ascii_uppercase :: pystr where
  "ascii_uppercase = asc ''ABCDEFGHIJKLMNOPQRSTUVWXYZ''"

definition ascii_lowercase :: pystr where
  "ascii_lowercase = asc ''abcdefghijklmnopqrstuvwxyz''"

definition ascii_digits :: pystr where
  "ascii_digits = asc ''0123456789''"

definition pw_symbols :: pystr where
  "pw_symbols = asc ''!@#$%^&*''"

text \<open>\<open>string.ascii_letters + string.digits + "!@#$%^&*"\<close>.\<close>

definition all_chars :: pystr where
  "all_chars = ascii_lowercase @ ascii_uppercase @ ascii_digits @ pw_symbols"

text \<open>One character of each class, \<open>length - 4\<close> characters of the whole alphabet
  (\<open>range\<close> of a negative number is empty, as \<open>-\<close> on \<open>nat\<close> is), then the shuffle.\<close>

definition generate_temp_password :: "nat \<Rightarrow> pystr rand" where
  "generate_temp_password len = do {
     u \<leftarrow> choice ascii_uppercase;
     l \<leftarrow> choice ascii_lowercase;
     d \<leftarrow> choice ascii_digits;
     p \<leftarrow> choice pw_symbols;
     rest \<leftarrow> traverse_list (\<lambda>_. choice all_chars) [0..<len - 4];
     shuffle ([u, l, d, p] @ rest)
   }"

text \<open>The password policy of the user pool that the generator is written for (its comment:
  at least 8 characters, an upper-case letter, a lower-case letter, a digit and a symbol).\<close>

definition cognito_policy_ok :: "pystr \<Rightarrow> bool" where
  "cognito_policy_ok pw \<longleftrightarrow>
     8 \<le> length pw \<and> set pw \<inter> set ascii_uppercase \<noteq> {} \<and> set pw \<inter> set ascii_lowercase \<noteq> {} \<and>
     set pw \<inter> set ascii_digits \<noteq> {} \<and> set pw \<inter> set pw_symbols \<noteq> {}"

subsection \<open>Lemmas\<close>

lemma run_randbelow [simp]: "run_state (randbelow n) s = (s 0 mod n, \<lambda>k. s (Suc k))"
  by (simp add: randbelow_def)

lemma run_choice [simp]: "run_state (choice xs) s = (xs ! (s 0 mod length xs), \<lambda>k. s (Suc k))"
  by (simp add: choice_def)

lemma choice_in: "xs \<noteq> [] \<Longrightarrow> fst (run_state (choice xs) s) \<in> set xs"
  by simp

lemma traverse_choice:
  assumes "xs \<noteq> []"
  shows "length (fst (run_state (traverse_list (\<lambda>_. choice xs) ns) s)) = length ns \<and>
         set (fst (run_state (traverse_list (\<lambda>_. choice xs) ns) s)) \<subseteq> set xs"
proof (induction ns arbitrary: s)
  case Nil
  then show ?case by simp
next
  case (Cons n ns)
  then show ?case
    using assms by (auto simp: split_beta)
qed

text \<open>The Fisher-Yates loop only swaps: it keeps the multiset of the elements.\<close>

lemma run_shuffle_loop_Suc:
  "run_state (shuffle_loop (Suc i) xs) s =
     (let j = s 0 mod (Suc i + 1) in run_state (shuffle_loop i (xs[Suc i := xs ! j, j := xs ! Suc i])) (\<lambda>k. s (Suc k)))"
  by (simp add: Let_def)

lemma shuffle_loop_mset:
  "i = 0 \<or> i < length xs \<Longrightarrow> mset (fst (run_state (shuffle_loop i xs) s)) = mset xs"
proof (induction i arbitrary: xs s)
  case 0
  then show ?case by simp
next
  case (Suc i)
  define j where "j = s 0 mod (Suc i + 1)"
  define ys where "ys = xs[Suc i := xs ! j, j := xs ! Suc i]"
  have "j < Suc i + 1"
    unfolding j_def by (rule mod_less_divisor) simp
  then have j: "j < length xs"
    using Suc.prems by linarith
  have "mset ys = mset xs"
    unfolding ys_def using Suc.prems j by (intro mset_swap) auto
  moreover have "i = 0 \<or> i < length ys"
    using Suc.prems by (simp add: ys_def)
  ultimately show ?case
    using Suc.IH[of ys "\<lambda>k. s (Suc k)"]
    by (simp only: run_shuffle_loop_Suc Let_def flip: j_def ys_def)
qed

lemma shuffle_mset: "mset (fst (run_state (shuffle xs) s)) = mset xs"
  unfolding shuffle_def by (rule shuffle_loop_mset) auto

lemma shuffle_set_length:
  "set (fst (run_state (shuffle xs) s)) = set xs \<and> length (fst (run_state (shuffle xs) s)) = length xs"
  by (metis shuffle_mset set_mset_mset size_mset)

lemma classes_ne [simp]:
  "ascii_uppercase \<noteq> []" "ascii_lowercase \<noteq> []" "ascii_digits \<noteq> []" "pw_symbols \<noteq> []"
  "all_chars \<noteq> []"
  by (simp_all add: ascii_uppercase_def ascii_lowercase_def ascii_digits_def pw_symbols_def
      all_chars_def asc_def)

text \<open>The generated password, as the four class characters and the rest before the shuffle.\<close>

lemma generate_temp_password_parts:
  obtains u l d p rest s' where
    "u \<in> set ascii_uppercase" "l \<in> set ascii_lowercase" "d \<in> set ascii_digits" "p \<in> set pw_symbols"
    "length rest = len - 4" "set rest \<subseteq> set all_chars"
    "fst (run_state (generate_temp_password len) s) = fst (run_state (shuffle ([u, l, d, p] @ rest)) s')"
proof -
  let ?s4 = "\<lambda>k. s (Suc (Suc (Suc (Suc k))))"
  let ?r = "run_state (traverse_list (\<lambda>_. choice all_chars) [0..<len - 4]) ?s4"
  have "length (fst ?r) = len - 4 \<and> set (fst ?r) \<subseteq> set all_chars"
    using traverse_choice[of all_chars "[0..<len - 4]" ?s4] by simp
  then show ?thesis
    by (intro that[of _ _ _ _ "fst ?r" "snd ?r"])
       (auto simp: generate_temp_password_def split_beta)
qed

text \<open>For every outcome of the draws, a password of \<open>len \<ge> 4\<close> characters has that length,
  uses only the alphabet and has a character of each class.\<close>

lemma generate_temp_password_classes:
  assumes "pw = fst (run_state (generate_temp_password len) s)" and "4 \<le> len"
  shows "length pw = len \<and> set pw \<subseteq> set all_chars \<and>
         set pw \<inter> set ascii_uppercase \<noteq> {} \<and> set pw \<inter> set ascii_lowercase \<noteq> {} \<and>
         set pw \<inter> set ascii_digits \<noteq> {} \<and> set pw \<inter> set pw_symbols \<noteq> {}"
proof -
  obtain u l d p rest s' where
    cls: "u \<in> set ascii_uppercase" "l \<in> set ascii_lowercase" "d \<in> set ascii_digits" "p \<in> set pw_symbols"
    and rest: "length rest = len - 4" "set rest \<subseteq> set all_chars"
    and pw: "pw = fst (run_state (shuffle ([u, l, d, p] @ rest)) s')"
    using generate_temp_password_parts assms(1) by metis
  have sl: "set pw = {u, l, d, p} \<union> set rest" "length pw = len"
    using shuffle_set_length[of "[u, l, d, p] @ rest" s'] pw rest(1) assms(2) by auto
  have "{u, l, d, p} \<subseteq> set all_chars"
    using cls by (auto simp: all_chars_def)
  then show ?thesis
    using sl cls rest(2) by blast
qed

text \<open>C20: For every outcome of the random draws, the temporary password the generator returns
  has 12 characters, all from the alphabet, and meets the user pool's policy: at least 8
  characters with an upper-case letter, a lower-case letter, a digit and a symbol.\<close>

theorem generate_temp_password_policy:
  "let pw = fst (run_state (generate_temp_password 12) s) in
     length pw = 12 \<and> set pw \<subseteq> set all_chars \<and> cognito_policy_ok pw"
  using generate_temp_password_classes[of _ 12 s] by (simp add: cognito_policy_ok_def Let_def)

end
