(* ===== verification/BulkCommon.thy ===== *)
theory BulkCommon
  imports Profiles Passwords
begin

text \<open>
  What the two bulk-registration programs share: the Lambda
  \<open>src/lambda_cognito_trigger/bulk_register_lambda.py\<close> and the command-line script
  \<open>src/lambda_cognito_trigger/bulk_register_users.py\<close>. The world they change is the account
  store of \<open>Profiles\<close> (S3 objects, the table \<open>Users\<close>) extended by the Cognito user pool,
  a map from user name to the temporary password it was created with. What AWS does on a
  request beyond that (a failure of a call, the body of a response, the text \<open>str(e)\<close> of an
  exception), the clocks, \<open>unquote_plus\<close>, \<open>json.dumps\<close> and the rows the \<open>csv\<close> module
  reads from a text are fields of the environment \<open>bulk_env\<close>. \<open>csv.DictReader\<close> and the
  \<open>csv.DictWriter\<close> of the credentials file are written as \<open>csv.py\<close> writes them.
\<close>

subsection \<open>World and environment\<close>

record bulk_world = store +
  st_pool :: "pystr \<rightharpoonup> pystr"

record bulk_env =
  be_cognito_error :: "pystr \<Rightarrow> lambda_exc option"
  be_cognito_resp :: "pystr \<Rightarrow> pyval"
  be_ddb_error :: "pystr \<Rightarrow> lambda_exc option"
  be_s3_error :: "pystr \<Rightarrow> lambda_exc option"
  be_exc_str :: "lambda_exc \<Rightarrow> pystr"
  be_lower :: "uchar \<Rightarrow> pystr"
  be_now :: pystr
  be_clock :: pystr
  be_stamp :: pystr
  be_unquote :: "pystr \<Rightarrow> pystr"
  be_read :: "pyval \<Rightarrow> pystr \<Rightarrow> lambda_exc + pystr"
  be_csv :: "pystr \<Rightarrow> pystr list list"
  be_dumps :: "pyval \<Rightarrow> pystr"

text \<open>The services. \<open>admin_create_user\<close> refuses a user name already in the pool with
  \<open>UsernameExistsException\<close>, fails as the environment says, or adds the user with its
  temporary password; \<open>put_item\<close> writes the item under its \<open>id\<close> without a condition;
  \<open>put_object\<close> writes the body under the key.\<close>

definition username_exists :: pystr where
  "username_exists = asc ''UsernameExistsException''"

definition admin_create_user ::
  "bulk_env \<Rightarrow> pystr \<Rightarrow> pystr \<Rightarrow> bulk_world \<Rightarrow> (lambda_exc + pyval) \<times> bulk_world" where
  "admin_create_user env name pw w =
     (if name \<in> dom (st_pool w)
      then (Inl (ClientError username_exists (asc ''User account already exists'')), w)
      else case be_cognito_error env name of
             Some e \<Rightarrow> (Inl e, w)
           | None \<Rightarrow> (Inr (be_cognito_resp env name), w\<lparr>st_pool := (st_pool w)(name \<mapsto> pw)\<rparr>))"

definition item_id :: "(pystr \<times> pyval) list \<Rightarrow> pystr" where
  "item_id item = (case dict_get item (asc ''id'') PNone of PStr k \<Rightarrow> k | _ \<Rightarrow> [])"

definition ddb_put :: "bulk_env \<Rightarrow> (pystr \<times> pyval) list \<Rightarrow> bulk_world \<Rightarrow> (lambda_exc + unit) \<times> bulk_world" where
  "ddb_put env item w =
     (case be_ddb_error env (item_id item) of
        Some e \<Rightarrow> (Inl e, w)
      | None \<Rightarrow> (Inr (), w\<lparr>st_users := (st_users w)(item_id item \<mapsto> item)\<rparr>))"

definition s3_put :: "bulk_env \<Rightarrow> pystr \<Rightarrow> pystr \<Rightarrow> bulk_world \<Rightarrow> (lambda_exc + unit) \<times> bulk_world" where
  "s3_put env key body w =
     (case be_s3_error env key of
        Some e \<Rightarrow> (Inl e, w)
      | None \<Rightarrow> (Inr (), w\<lparr>st_objects := (st_objects w)(key \<mapsto> body)\<rparr>))"

subsection \<open>The CSV rows\<close>

text \<open>\<open>CSV_COLUMNS\<close>, identical in both files.\<close>

definition col_submission_id :: pystr where "col_submission_id = asc ''Submission ID''"
definition col_respondent_id :: pystr where "col_respondent_id = asc ''Respondent ID''"
definition col_submitted_at :: pystr where "col_submitted_at = asc ''Submitted at''"
definition col_last_name :: pystr where
  "col_last_name = [0x304A, 0x540D, 0x524D, 0xFF08, 0x59D3, 0x3000, 0x6F22, 0x5B57, 0xFF09]"
definition col_first_name :: pystr where
  "col_first_name = [0x304A, 0x540D, 0x524D, 0xFF08, 0x540D, 0x3000, 0x6F22, 0x5B57, 0xFF09]"
definition col_last_name_kana :: pystr where
  "col_last_name_kana = [0x304A, 0x540D, 0x524D, 0xFF08, 0x59D3, 0x3000, 0x30AB, 0x30BF, 0x30AB, 0x30CA, 0xFF09]"
definition col_first_name_kana :: pystr where
  "col_first_name_kana = [0x304A, 0x540D, 0x524D, 0xFF08, 0x540D, 0x3000, 0x30AB, 0x30BF, 0x30AB, 0x30CA, 0xFF09]"
definition col_birth_date :: pystr where "col_birth_date = [0x751F, 0x5E74, 0x6708, 0x65E5]"
definition col_gender :: pystr where "col_gender = [0x6027, 0x5225]"
definition col_email :: pystr where "col_email = [0x30E1, 0x30FC, 0x30EB, 0x30A2, 0x30C9, 0x30EC, 0x30B9]"

text \<open>\<open>DictReader.__next__\<close>: \<open>dict(zip(fieldnames, row))\<close>, a later duplicate name
  overwriting an earlier one; the names beyond a short row get the \<open>restval\<close> \<open>None\<close>. The
  cells beyond a long row go under the key \<open>None\<close> (\<open>restkey\<close>), which no lookup of the
  programs (all by a column name) can reach; that entry is left out.\<close>

definition csv_row_dict :: "pystr list \<Rightarrow> pystr list \<Rightarrow> (pystr \<times> pyval) list" where
  "csv_row_dict fieldnames row =
     foldl (\<lambda>d k. dict_set d k PNone)
       (foldl (\<lambda>d (k, v). dict_set d k (PStr v)) [] (zip fieldnames row))
       (drop (length row) fieldnames)"

text \<open>The first row is the field names; the blank rows (\<open>row == []\<close>) are skipped.\<close>

fun dict_reader :: "pystr list list \<Rightarrow> (pystr \<times> pyval) list list" where
  "dict_reader [] = []"
| "dict_reader (fieldnames # rows) = map (csv_row_dict fieldnames) (filter (\<lambda>r. r \<noteq> []) rows)"

text \<open>\<open>row.get(CSV_COLUMNS[...], "")\<close>.\<close>

definition cell :: "(pystr \<times> pyval) list \<Rightarrow> pystr \<Rightarrow> pyval" where
  "cell row col = dict_get row col (PStr [])"

subsection \<open>Results and the credentials file\<close>

text \<open>The loop state: the world, the random draws still to come, the counters and list of
  \<open>results\<close>, and \<open>credentials\<close> as (email, name, password).\<close>

record bulk_state =
  bs_world :: bulk_world
  bs_rng :: rng
  bs_total :: nat
  bs_success :: nat
  bs_failed :: nat
  bs_skipped :: nat
  bs_users :: "pyval list"
  bs_creds :: "(pystr \<times> pyval \<times> pystr) list"

definition init_state :: "bulk_world \<Rightarrow> rng \<Rightarrow> bulk_state" where
  "init_state w r =
     \<lparr>bs_world = w, bs_rng = r, bs_total = 0, bs_success = 0, bs_failed = 0, bs_skipped = 0,
      bs_users = [], bs_creds = []\<rparr>"

definition bulk_exists_msg :: pystr where
  "bulk_exists_msg = [0x30E6, 0x30FC, 0x30B6, 0x30FC, 0x306F, 0x65E2, 0x306B, 0x5B58, 0x5728, 0x3057, 0x307E, 0x3059]"

definition email_empty_msg :: pystr where
  "email_empty_msg = [0x30E1, 0x30FC, 0x30EB, 0x30A2, 0x30C9, 0x30EC, 0x30B9, 0x304C, 0x7A7A]"

definition cognito_exists_msg :: pystr where
  "cognito_exists_msg = asc ''Cognito'' @ [0x306B, 0x65E2, 0x5B58, 0x30E6, 0x30FC, 0x30B6, 0x30FC]"

definition status_dict :: "pystr \<Rightarrow> (pystr \<times> pyval) list" where
  "status_dict s = [(asc ''status'', PStr s)]"

definition exists_result :: pyval where
  "exists_result = PDict (status_dict (asc ''exists'') @ [(asc ''message'', PStr bulk_exists_msg)])"

text \<open>\<open>cognito_result["status"] == "exists"\<close> on the dictionaries the creators return.\<close>

definition is_exists :: "pyval \<Rightarrow> bool" where
  "is_exists v \<longleftrightarrow> (case v of PDict d \<Rightarrow> dict_get d (asc ''status'') PNone = PStr (asc ''exists'') | _ \<Rightarrow> False)"

text \<open>The row of an e-mail that is empty after \<open>lower().strip()\<close>.\<close>

definition skip_empty :: "bulk_state \<Rightarrow> bulk_state" where
  "skip_empty st =
     st\<lparr>bs_skipped := Suc (bs_skipped st),
        bs_users := bs_users st @ [PDict [(asc ''row'', PInt (int (bs_total st))),
                                          (asc ''status'', PStr (asc ''skipped'')),
                                          (asc ''reason'', PStr email_empty_msg)]]\<rparr>"

text \<open>The profile item of a registered row, the same dictionary literal in both files.\<close>

definition dynamo_data ::
  "bulk_env \<Rightarrow> pystr \<Rightarrow> pystr \<Rightarrow> (pystr \<times> pyval) list \<Rightarrow> pyval \<Rightarrow> pyval \<Rightarrow> pyval \<Rightarrow> pyval \<Rightarrow> (pystr \<times> pyval) list" where
  "dynamo_data env email pw row ln fn lnk fnk =
     [(asc ''id'', PStr email), (asc ''submission_id'', cell row col_submission_id),
      (asc ''respondent_id'', cell row col_respondent_id), (asc ''submitted_at'', cell row col_submitted_at),
      (asc ''last_name'', ln), (asc ''first_name'', fn), (asc ''last_name_kana'', lnk),
      (asc ''first_name_kana'', fnk), (asc ''birth_date'', cell row col_birth_date),
      (asc ''gender'', cell row col_gender), (asc ''temp_password'', PStr pw),
      (asc ''created_at'', PStr (be_now env)), (asc ''registration_source'', PStr (asc ''bulk_import''))]"

text \<open>The two ends of a row after the password is drawn, also the same in both files: the
  \<open>except Exception\<close> of the registration and the user that Cognito already has. The keys
  added to \<open>user_result\<close> are new to it, so \<open>d[k] = v\<close> appends.\<close>

definition row_failed :: "bulk_env \<Rightarrow> lambda_exc \<Rightarrow> (pystr \<times> pyval) list \<Rightarrow> bulk_state \<Rightarrow> bulk_state" where
  "row_failed env e ur st =
     st\<lparr>bs_failed := Suc (bs_failed st),
        bs_users := bs_users st @ [PDict (ur @ [(asc ''status'', PStr (asc ''failed'')),
                                               (asc ''error'', PStr (be_exc_str env e))])]\<rparr>"

definition row_exists :: "(pystr \<times> pyval) list \<Rightarrow> bulk_state \<Rightarrow> bulk_state" where
  "row_exists ur st =
     st\<lparr>bs_skipped := Suc (bs_skipped st),
        bs_users := bs_users st @ [PDict (ur @ [(asc ''status'', PStr (asc ''skipped'')),
                                               (asc ''reason'', PStr cognito_exists_msg)])]\<rparr>"

text \<open>\<open>{k: v for k, v in d.items() if v}\<close>.\<close>

definition clean_item :: "(pystr \<times> pyval) list \<Rightarrow> (pystr \<times> pyval) list" where
  "clean_item d = filter (\<lambda>(k, v). py_truthy v) d"

text \<open>\<open>f"{last_name}{first_name}" if first_name else last_name\<close>.\<close>

definition display_name :: "ucd \<Rightarrow> pyval \<Rightarrow> pyval \<Rightarrow> pyval" where
  "display_name db ln fn = (if py_truthy fn then PStr (py_str db ln @ py_str db fn) else ln)"

text \<open>\<open>csv.DictWriter\<close> with the \<open>excel\<close> dialect: a field holding the delimiter, the quote
  character or a line break is quoted with its quotes doubled; \<open>None\<close> is the empty field;
  every line ends with \<open>\r\n\<close>.\<close>

definition csv_field :: "pystr \<Rightarrow> pystr" where
  "csv_field s =
     (if list_ex (\<lambda>c. c = 44 \<or> c = 34 \<or> c = 13 \<or> c = 10) s
      then 34 # concat (map (\<lambda>c. if c = 34 then [34, 34] else [c]) s) @ [34] else s)"

definition csv_line :: "pystr list \<Rightarrow> pystr" where
  "csv_line fs = py_join [44] (map csv_field fs) @ [13, 10]"

definition csv_cell :: "ucd \<Rightarrow> pyval \<Rightarrow> pystr" where
  "csv_cell db v = (case v of PNone \<Rightarrow> [] | _ \<Rightarrow> py_str db v)"

definition credentials_csv :: "ucd \<Rightarrow> (pystr \<times> pyval \<times> pystr) list \<Rightarrow> pystr" where
  "credentials_csv db creds =
     csv_line [asc ''email'', asc ''name'', asc ''temp_password''] @
     concat (map (\<lambda>(e, n, p). csv_line [e, csv_cell db n, p]) creds)"

end
