(* ===== verification/BulkLambda.thy ===== *)
theory BulkLambda
  imports BulkCommon
begin

text \<open>
  The S3-triggered Lambda \<open>src/lambda_cognito_trigger/bulk_register_lambda.py\<close>: for a CSV
  uploaded under \<open>bulk-import/\<close> it reads the object, creates each row's user in Cognito
  (with a generated temporary password and no e-mail), its profile in \<open>Users\<close> and its
  S3 folders, and saves a JSON report and a credentials CSV back to the bucket. A row is a
  step of \<open>bulk_state\<close>; an exception that escapes a row (only \<open>lower()\<close> on the \<open>None\<close> of a
  short row can) stops the loop with the world as it is, as it stops the Lambda.
\<close>

subsection \<open>Helpers\<close>

text \<open>\<open>create_cognito_user\<close>: the user's name and status read from the response (a missing
  key raises \<open>KeyError\<close> after the user was created); \<open>UsernameExistsException\<close> is the
  result \<open>exists\<close>, every other exception is raised again.\<close>

definition cognito_success :: "pyval \<Rightarrow> lambda_exc + pyval" where
  "cognito_success resp =
     lambda_bind (py_getitem resp (asc ''User'')) (\<lambda>u.
     lambda_bind (py_getitem u (asc ''Username'')) (\<lambda>name.
     lambda_bind (py_getitem u (asc ''UserStatus'')) (\<lambda>ust.
       Inr (PDict (status_dict (asc ''success'') @ [(asc ''username'', name), (asc ''user_status'', ust)])))))"

definition create_cognito_user :: "bulk_env \<Rightarrow> pystr \<Rightarrow> pystr \<Rightarrow> bulk_world \<Rightarrow> (lambda_exc + pyval) \<times> bulk_world" where
  "create_cognito_user env email pw w =
     (case admin_create_user env email pw w of
        (Inr resp, w') \<Rightarrow> (cognito_success resp, w')
      | (Inl (ClientError c m), w') \<Rightarrow>
          (if c = username_exists then Inr exists_result else Inl (ClientError c m), w')
      | (Inl e, w') \<Rightarrow> (Inl e, w'))"

text \<open>\<open>create_dynamodb_user\<close>: the falsy values removed, the item put; the
  \<open>ConditionalCheckFailedException\<close> branch is kept as written, though the put has no
  condition.\<close>

definition create_dynamodb_user :: "bulk_env \<Rightarrow> (pystr \<times> pyval) list \<Rightarrow> bulk_world \<Rightarrow> (lambda_exc + pyval) \<times> bulk_world" where
  "create_dynamodb_user env user_data w =
     (case ddb_put env (clean_item user_data) w of
        (Inr _, w') \<Rightarrow> (Inr (PDict (status_dict (asc ''success''))), w')
      | (Inl (ClientError c m), w') \<Rightarrow>
          (if c = conditional_check_failed then Inr exists_result else Inl (ClientError c m), w')
      | (Inl e, w') \<Rightarrow> (Inl e, w'))"

definition bulk_folders :: "pystr \<Rightarrow> pystr list" where
  "bulk_folders email = [asc ''raw-gene/'' @ email @ asc ''/'', asc ''raw-blood/'' @ email @ asc ''/'']"

text \<open>One folder of \<open>create_s3_folders\<close>: a failure is recorded with \<open>str(e)\<close>.\<close>

definition folder_put :: "bulk_env \<Rightarrow> pystr \<Rightarrow> bulk_world \<Rightarrow> pyval \<times> bulk_world" where
  "folder_put env folder w =
     (case s3_put env folder [] w of
        (Inr _, w') \<Rightarrow> (PDict [(asc ''path'', PStr folder), (asc ''status'', PStr (asc ''created''))], w')
      | (Inl e, w') \<Rightarrow>
          (PDict [(asc ''path'', PStr folder), (asc ''status'', PStr (asc ''failed'')),
                  (asc ''error'', PStr (be_exc_str env e))], w'))"

fun folders_put :: "bulk_env \<Rightarrow> pystr list \<Rightarrow> bulk_world \<Rightarrow> pyval list \<times> bulk_world" where
  "folders_put env [] w = ([], w)"
| "folders_put env (f # fs) w =
     (case folder_put env f w of (r, w1) \<Rightarrow> case folders_put env fs w1 of (rs, w2) \<Rightarrow> (r # rs, w2))"

definition bulk_readme_tail :: pystr where
  "bulk_readme_tail = [10, 10] @ asc ''## '' @ [0x30D5, 0x30A9, 0x30EB, 0x30C0, 0x69CB, 0x6210, 10] @
     asc ''- raw-gene/: '' @ [0x907A, 0x4F1D, 0x5B50, 0x30C7, 0x30FC, 0x30BF, 0x3092, 0x30A2, 0x30C3,
     0x30D7, 0x30ED, 0x30FC, 0x30C9, 10] @ asc ''- raw-blood/: '' @ [0x8840, 0x6DB2, 0x691C, 0x67FB,
     0x30C7, 0x30FC, 0x30BF, 0x3092, 0x30A2, 0x30C3, 0x30D7, 0x30ED, 0x30FC, 0x30C9, 10]"

definition bulk_readme :: "pystr \<Rightarrow> pystr \<Rightarrow> pystr" where
  "bulk_readme email clock = readme_head @ email @ readme_mid @ clock @ bulk_readme_tail"

text \<open>\<open>create_s3_folders\<close>: the two folders, then the README, whose failure is only printed.
  It never raises.\<close>

definition create_s3_folders :: "bulk_env \<Rightarrow> pystr \<Rightarrow> bulk_world \<Rightarrow> pyval \<times> bulk_world" where
  "create_s3_folders env email w =
     (case folders_put env (bulk_folders email) w of
        (rs, w1) \<Rightarrow>
          (case s3_put env (readme_key email) (bulk_readme email (be_clock env)) w1 of
             (r, w2) \<Rightarrow>
               (PDict (status_dict (asc ''success'') @
                  [(asc ''folders'', PList (rs @ (case r of
                     Inr _ \<Rightarrow> [PDict [(asc ''path'', PStr (readme_key email)), (asc ''status'', PStr (asc ''created''))]]
                   | Inl e \<Rightarrow> [])))]), w2)))"

text \<open>\<open>save_results_to_s3\<close>: the report, then the credentials when there are any. Its
  exceptions are not caught.\<close>

definition results_dict :: "bulk_env \<Rightarrow> pystr \<Rightarrow> bulk_state \<Rightarrow> pyval" where
  "results_dict env key st =
     PDict [(asc ''timestamp'', PStr (be_now env)), (asc ''csv_file'', PStr key),
            (asc ''total'', PInt (int (bs_total st))), (asc ''success'', PInt (int (bs_success st))),
            (asc ''failed'', PInt (int (bs_failed st))), (asc ''skipped'', PInt (int (bs_skipped st))),
            (asc ''users'', PList (bs_users st))]"

definition report_key :: "bulk_env \<Rightarrow> pystr" where
  "report_key env = asc ''bulk-import/results/report_'' @ be_stamp env @ asc ''.json''"

definition creds_key :: "bulk_env \<Rightarrow> pystr" where
  "creds_key env = asc ''bulk-import/results/credentials_'' @ be_stamp env @ asc ''.csv''"

definition save_results_to_s3 :: "bulk_env \<Rightarrow> ucd \<Rightarrow> pystr \<Rightarrow> bulk_state \<Rightarrow> lambda_exc option \<times> bulk_world" where
  "save_results_to_s3 env db key st =
     (case s3_put env (report_key env) (be_dumps env (results_dict env key st)) (bs_world st) of
        (Inl e, w) \<Rightarrow> (Some e, w)
      | (Inr _, w) \<Rightarrow>
          (if bs_creds st = [] then (None, w)
           else case s3_put env (creds_key env) (credentials_csv db (bs_creds st)) w of
                  (Inl e, w') \<Rightarrow> (Some e, w')
                | (Inr _, w') \<Rightarrow> (None, w')))"

subsection \<open>The loop\<close>

text \<open>The \<open>try\<close> block of a row and its \<open>except Exception\<close>: Cognito, then (unless the
  user exists) the profile and the folders; \<open>ur\<close> is \<open>user_result\<close> so far.\<close>

definition lambda_register ::
  "bulk_env \<Rightarrow> ucd \<Rightarrow> (pystr \<times> pyval) list \<Rightarrow> pystr \<Rightarrow> pystr \<Rightarrow> (pystr \<times> pyval) list \<Rightarrow> bulk_state \<Rightarrow> bulk_state" where
  "lambda_register env db row email pw ur st =
     (case create_cognito_user env email pw (bs_world st) of
        (Inl e, w1) \<Rightarrow> row_failed env e ur (st\<lparr>bs_world := w1\<rparr>)
      | (Inr c, w1) \<Rightarrow>
          (let ur1 = ur @ [(asc ''cognito'', c)]; st1 = st\<lparr>bs_world := w1\<rparr> in
           if is_exists c then row_exists ur1 st1
           else
             (let ln = cell row col_last_name; fn = cell row col_first_name;
                  lnk = cell row col_last_name_kana; fnk = cell row col_first_name_kana in
              case create_dynamodb_user env (dynamo_data env email pw row ln fn lnk fnk) w1 of
                (Inl e, w2) \<Rightarrow> row_failed env e ur1 (st1\<lparr>bs_world := w2\<rparr>)
              | (Inr d, w2) \<Rightarrow>
                  (case create_s3_folders env email w2 of
                     (s, w3) \<Rightarrow>
                       st1\<lparr>bs_world := w3, bs_success := Suc (bs_success st1),
                           bs_users := bs_users st1 @
                             [PDict (ur1 @ [(asc ''dynamodb'', d), (asc ''s3'', s),
                                            (asc ''status'', PStr (asc ''success'')),
                                            (asc ''temp_password'', PStr pw)])],
                           bs_creds := bs_creds st1 @ [(email, display_name db ln fn, pw)]\<rparr>))))"

text \<open>One row of \<open>for row in reader\<close>: the count, the e-mail (\<open>lower()\<close> raises on the
  \<open>None\<close> of a short row, outside the \<open>try\<close>), the skip of an empty e-mail, the password
  draw and \<open>user_result\<close>, then the \<open>try\<close> block.\<close>

definition lambda_row :: "bulk_env \<Rightarrow> ucd \<Rightarrow> (pystr \<times> pyval) list \<Rightarrow> bulk_state \<Rightarrow> lambda_exc option \<times> bulk_state" where
  "lambda_row env db row st0 =
     (let st1 = st0\<lparr>bs_total := Suc (bs_total st0)\<rparr> in
      case normalize_email (be_lower env) (cell row col_email) of
        Inl e \<Rightarrow> (Some e, st1)
      | Inr email \<Rightarrow>
          if email = [] then (None, skip_empty st1)
          else
            (case run_state (generate_temp_password 12) (bs_rng st1) of
               (pw, r) \<Rightarrow>
                 (None, lambda_register env db row email pw
                          [(asc ''row'', PInt (int (bs_total st1))), (asc ''email'', PStr email)]
                          (st1\<lparr>bs_rng := r\<rparr>))))"

fun lambda_rows :: "bulk_env \<Rightarrow> ucd \<Rightarrow> (pystr \<times> pyval) list list \<Rightarrow> bulk_state \<Rightarrow> lambda_exc option \<times> bulk_state" where
  "lambda_rows env db [] st = (None, st)"
| "lambda_rows env db (row # rows) st =
     (case lambda_row env db row st of
        (None, st') \<Rightarrow> lambda_rows env db rows st'
      | (Some e, st') \<Rightarrow> (Some e, st'))"

subsection \<open>The handler\<close>

text \<open>The event's \<open>event["Records"][0]\<close>, \<open>["s3"]["bucket"]["name"]\<close> and
  \<open>["s3"]["object"]["key"]\<close>: \<open>KeyError\<close> and \<open>IndexError\<close> are answered 400, a
  \<open>TypeError\<close> (indexing a value that is not a dictionary or a list) is not caught.\<close>

datatype event_exc = EvKeyError | EvIndexError | EvTypeError

fun ev_item :: "pyval \<Rightarrow> pystr \<Rightarrow> event_exc + pyval" where
  "ev_item (PDict d) k = (case map_of d k of Some v \<Rightarrow> Inr v | None \<Rightarrow> Inl EvKeyError)"
| "ev_item v k = Inl EvTypeError"

fun ev_first :: "pyval \<Rightarrow> event_exc + pyval" where
  "ev_first (PList xs) = (case xs of [] \<Rightarrow> Inl EvIndexError | x # _ \<Rightarrow> Inr x)"
| "ev_first (PStr s) = (case s of [] \<Rightarrow> Inl EvIndexError | c # _ \<Rightarrow> Inr (PStr [c]))"
| "ev_first (PDict d) = Inl EvKeyError"
| "ev_first v = Inl EvTypeError"

definition s3_event_object :: "pyval \<Rightarrow> event_exc + (pyval \<times> pyval)" where
  "s3_event_object event =
     ebind (ev_item event (asc ''Records'')) (\<lambda>rs. ebind (ev_first rs) (\<lambda>record.
     ebind (ev_item record (asc ''s3'')) (\<lambda>s3. ebind (ev_item s3 (asc ''bucket'')) (\<lambda>b.
     ebind (ev_item b (asc ''name'')) (\<lambda>bucket. ebind (ev_item s3 (asc ''object'')) (\<lambda>obj.
     ebind (ev_item obj (asc ''key'')) (\<lambda>k. Inr (bucket, k))))))))"

text \<open>The handler's results: \<open>{"statusCode": n, "body": b}\<close> with a text body or the
  \<open>json.dumps\<close> of a value, or an exception that escapes to the Lambda runtime.\<close>

datatype bulk_body = TextBody pystr | JsonBody pyval

datatype bulk_outcome = BulkReturn nat bulk_body | BulkRaise lambda_exc

definition summary_body :: "bulk_state \<Rightarrow> pyval" where
  "summary_body st =
     PDict [(asc ''message'', PStr (asc ''Bulk registration completed'')),
            (asc ''total'', PInt (int (bs_total st))), (asc ''success'', PInt (int (bs_success st))),
            (asc ''skipped'', PInt (int (bs_skipped st))), (asc ''failed'', PInt (int (bs_failed st)))]"

definition bulk_lambda_handler :: "bulk_env \<Rightarrow> ucd \<Rightarrow> pyval \<Rightarrow> rng \<Rightarrow> bulk_world \<Rightarrow> bulk_outcome \<times> bulk_world" where
  "bulk_lambda_handler env db event r w =
     (case s3_event_object event of
        Inl ex \<Rightarrow>
          (if ex = EvTypeError then (BulkRaise (PyError TypeError), w)
           else (BulkReturn 400 (TextBody (asc ''Invalid event format'')), w))
      | Inr (bucket, raw_key) \<Rightarrow>
          (case raw_key of
             PStr k \<Rightarrow>
               (let key = be_unquote env k in
                case be_read env bucket key of
                  Inl e \<Rightarrow> (BulkReturn 500 (TextBody (asc ''Failed to read CSV: '' @ be_exc_str env e)), w)
                | Inr text \<Rightarrow>
                    (case lambda_rows env db (dict_reader (be_csv env text)) (init_state w r) of
                       (Some e, st) \<Rightarrow> (BulkRaise e, bs_world st)
                     | (None, st) \<Rightarrow>
                         (case save_results_to_s3 env db key st of
                            (Some e, w') \<Rightarrow> (BulkRaise e, w')
                          | (None, w') \<Rightarrow> (BulkReturn 200 (JsonBody (summary_body st)), w'))))
           | _ \<Rightarrow> (BulkRaise (PyError AttributeError), w)))"

subsection \<open>Predicates of the proofs and example inputs\<close>

definition counts_ok :: "bulk_state \<Rightarrow> bool" where
  "counts_ok st \<longleftrightarrow>
     bs_total st = bs_success st + bs_failed st + bs_skipped st \<and> length (bs_users st) = bs_total st \<and>
     length (bs_creds st) = bs_success st"

text \<open>Between the count of a row and its entry in the results.\<close>

definition counts_pending :: "bulk_state \<Rightarrow> bool" where
  "counts_pending st \<longleftrightarrow>
     bs_total st = Suc (bs_success st + bs_failed st + bs_skipped st) \<and>
     length (bs_users st) = bs_success st + bs_failed st + bs_skipped st \<and> length (bs_creds st) = bs_success st"

definition user_has_pw :: "((pystr \<times> pyval) list) option \<Rightarrow> pystr \<Rightarrow> bool" where
  "user_has_pw m p \<longleftrightarrow> (case m of Some item \<Rightarrow> map_of item (asc ''temp_password'') = Some (PStr p) | None \<Rightarrow> False)"

definition creds_ok :: "bulk_state \<Rightarrow> bool" where
  "creds_ok st \<longleftrightarrow>
     list_all (\<lambda>(e, n, p). st_pool (bs_world st) e = Some p \<and> user_has_pw (st_users (bs_world st) e) p) (bs_creds st)"

definition ddb_unconditional :: "bulk_env \<Rightarrow> bool" where
  "ddb_unconditional env \<longleftrightarrow>
     (\<forall>k. case be_ddb_error env k of Some (ClientError c m) \<Rightarrow> c \<noteq> conditional_check_failed | _ \<Rightarrow> True)"

text \<open>What the \<open>try\<close> block does to the pool, the table and the credentials: either the
  credentials stay and the pool only grows, or a fresh user is created with the password,
  its profile written with it and one credential added.\<close>

definition register_effect :: "pystr \<Rightarrow> pystr \<Rightarrow> bulk_state \<Rightarrow> bulk_state \<Rightarrow> bool" where
  "register_effect email pw st st' \<longleftrightarrow>
     (bs_creds st' = bs_creds st \<and> st_pool (bs_world st) \<subseteq>\<^sub>m st_pool (bs_world st') \<and>
      st_users (bs_world st') = st_users (bs_world st)) \<or>
     (email \<notin> dom (st_pool (bs_world st)) \<and> st_pool (bs_world st') = (st_pool (bs_world st))(email \<mapsto> pw) \<and>
      (\<exists>item. st_users (bs_world st') = (st_users (bs_world st))(email \<mapsto> item) \<and>
              map_of item (asc ''temp_password'') = Some (PStr pw)) \<and>
      (\<exists>n. bs_creds st' = bs_creds st @ [(email, n, pw)]))"

definition resp_has_user :: "pyval \<Rightarrow> bool" where
  "resp_has_user v \<longleftrightarrow>
     (case v of
        PDict d \<Rightarrow> (case map_of d (asc ''User'') of
                     Some (PDict u) \<Rightarrow> map_of u (asc ''Username'') \<noteq> None \<and> map_of u (asc ''UserStatus'') \<noteq> None
                   | _ \<Rightarrow> False)
      | _ \<Rightarrow> False)"

text \<open>AWS answering every call: Cognito creates fresh users and answers with the user's name
  and status, DynamoDB accepts every item.\<close>

definition aws_healthy :: "bulk_env \<Rightarrow> bool" where
  "aws_healthy env \<longleftrightarrow>
     (\<forall>k. be_cognito_error env k = None \<and> resp_has_user (be_cognito_resp env k) \<and> be_ddb_error env k = None)"

definition is_pstr :: "pyval \<Rightarrow> bool" where
  "is_pstr v \<longleftrightarrow> (case v of PStr s \<Rightarrow> True | _ \<Rightarrow> False)"

text \<open>The rows write S3 objects only under \<open>raw-\<close>.\<close>

definition raw_key :: "pystr \<Rightarrow> bool" where
  "raw_key k \<longleftrightarrow> prefix (asc ''raw-'') k"

definition example_db :: ucd where
  "example_db = \<lparr>ucd_word = (\<lambda>c. False), ucd_digit = (\<lambda>c. False), ucd_printable = (\<lambda>c. True),
                  ucd_casevar = (\<lambda>c. [c])\<rparr>"

definition example_csv :: "pystr list list" where
  "example_csv =
     [[col_email, col_last_name, col_first_name],
      [asc ''Taro@Example.jp '', [0x5C71, 0x7530], [0x592A, 0x90CE]],
      [],
      [asc ''hanako@example.jp'', [0x9234, 0x6728]]]"

definition example_bulk_env :: bulk_env where
  "example_bulk_env =
     \<lparr>be_cognito_error = (\<lambda>_. None),
      be_cognito_resp = (\<lambda>n. PDict [(asc ''User'', PDict [(asc ''Username'', PStr n),
                                     (asc ''UserStatus'', PStr (asc ''FORCE_CHANGE_PASSWORD''))])]),
      be_ddb_error = (\<lambda>_. None), be_s3_error = (\<lambda>_. None), be_exc_str = (\<lambda>_. []),
      be_lower = (\<lambda>c. [py_lower_char c]), be_now = asc ''2025-04-01T09:00:00'',
      be_clock = asc ''2025-04-01 09:00:00'', be_stamp = asc ''20250401_090000'', be_unquote = id,
      be_read = (\<lambda>b k. Inr []), be_csv = (\<lambda>_. example_csv), be_dumps = (\<lambda>_. [])\<rparr>"

definition example_world :: bulk_world where
  "example_world = \<lparr>st_objects = Map.empty, st_users = Map.empty, st_pool = Map.empty\<rparr>"

definition example_s3_event :: pyval where
  "example_s3_event =
     PDict [(asc ''Records'', PList [PDict [(asc ''s3'', PDict [
              (asc ''bucket'', PDict [(asc ''name'', PStr (asc ''tuunapp-gene-data-a7x9k3''))]),
              (asc ''object'', PDict [(asc ''key'', PStr (asc ''bulk-import/users.csv''))])])]])]"

definition example_failing_env :: bulk_env where
  "example_failing_env =
     example_bulk_env\<lparr>be_ddb_error := (\<lambda>_. Some (ClientError (asc ''ProvisionedThroughputExceededException'')
                                                          (asc ''Rate exceeded'')))\<rparr>"

definition example_short_env :: bulk_env where
  "example_short_env = example_bulk_env\<lparr>be_csv := (\<lambda>_. [[col_last_name, col_email], [[0x5C71, 0x7530]]])\<rparr>"


subsection \<open>Lemmas\<close>

lemma bulk_state_step_simps [simp]:
  "bs_total (skip_empty st) = bs_total st" "bs_success (skip_empty st) = bs_success st"
  "bs_failed (skip_empty st) = bs_failed st" "bs_skipped (skip_empty st) = Suc (bs_skipped st)"
  "length (bs_users (skip_empty st)) = Suc (length (bs_users st))" "bs_creds (skip_empty st) = bs_creds st"
  "bs_world (skip_empty st) = bs_world st"
  "bs_total (row_failed env e ur st) = bs_total st" "bs_success (row_failed env e ur st) = bs_success st"
  "bs_failed (row_failed env e ur st) = Suc (bs_failed st)" "bs_skipped (row_failed env e ur st) = bs_skipped st"
  "length (bs_users (row_failed env e ur st)) = Suc (length (bs_users st))"
  "bs_creds (row_failed env e ur st) = bs_creds st" "bs_world (row_failed env e ur st) = bs_world st"
  "bs_total (row_exists ur st) = bs_total st" "bs_success (row_exists ur st) = bs_success st"
  "bs_failed (row_exists ur st) = bs_failed st" "bs_skipped (row_exists ur st) = Suc (bs_skipped st)"
  "length (bs_users (row_exists ur st)) = Suc (length (bs_users st))"
  "bs_creds (row_exists ur st) = bs_creds st" "bs_world (row_exists ur st) = bs_world st"
  by (simp_all add: skip_empty_def row_failed_def row_exists_def)

lemma lambda_register_counts [intro]:
  "counts_pending st \<Longrightarrow> counts_ok (lambda_register env db row email pw ur st)"
  by (auto simp: lambda_register_def counts_ok_def counts_pending_def Let_def split: sum.splits prod.splits)

lemma lambda_register_total [simp]: "bs_total (lambda_register env db row email pw ur st) = bs_total st"
  by (auto simp: lambda_register_def Let_def split: sum.splits prod.splits)


lemma is_exists_success [simp]:
  "\<not> is_exists (PDict (status_dict (asc ''success'') @ xs))"
  by (simp add: is_exists_def status_dict_def dict_get_def asc_def)

lemma is_exists_exists_result [simp]: "is_exists exists_result"
  by (simp add: is_exists_def exists_result_def status_dict_def dict_get_def)

text \<open>\<open>create_cognito_user\<close> by the state of the pool and the failure of the call.\<close>

lemma create_cognito_user_eq:
  "create_cognito_user env email pw w =
     (if email \<in> dom (st_pool w) then (Inr exists_result, w)
      else case be_cognito_error env email of
             None \<Rightarrow> (cognito_success (be_cognito_resp env email), w\<lparr>st_pool := (st_pool w)(email \<mapsto> pw)\<rparr>)
           | Some (ClientError c m) \<Rightarrow>
               (if c = username_exists then Inr exists_result else Inl (ClientError c m), w)
           | Some e \<Rightarrow> (Inl e, w))"
  by (simp add: create_cognito_user_def admin_create_user_def split: option.split lambda_exc.split)

lemma cognito_success_not_exists: "cognito_success resp = Inr c \<Longrightarrow> \<not> is_exists c"
  by (auto simp: cognito_success_def lambda_bind_def split: sum.splits)

lemma create_cognito_user_world:
  assumes "create_cognito_user env email pw w = (r, w1)"
  shows "st_users w1 = st_users w \<and> st_objects w1 = st_objects w \<and>
         (st_pool w1 = st_pool w \<or> email \<notin> dom (st_pool w) \<and> st_pool w1 = (st_pool w)(email \<mapsto> pw))"
  using assms unfolding create_cognito_user_eq
  by (auto split: if_splits option.splits lambda_exc.splits)

lemma create_cognito_user_created:
  assumes "create_cognito_user env email pw w = (Inr c, w1)" "\<not> is_exists c"
  shows "email \<notin> dom (st_pool w) \<and> st_pool w1 = (st_pool w)(email \<mapsto> pw)"
  using assms unfolding create_cognito_user_eq
  by (auto split: if_splits option.splits lambda_exc.splits)

lemma create_dynamodb_user_eq:
  "create_dynamodb_user env item w =
     (case be_ddb_error env (item_id (clean_item item)) of
        None \<Rightarrow> (Inr (PDict (status_dict (asc ''success''))),
                 w\<lparr>st_users := (st_users w)(item_id (clean_item item) \<mapsto> clean_item item)\<rparr>)
      | Some (ClientError c m) \<Rightarrow>
          (if c = conditional_check_failed then Inr exists_result else Inl (ClientError c m), w)
      | Some e \<Rightarrow> (Inl e, w))"
  by (cases "be_ddb_error env (item_id (clean_item item))")
     (simp_all add: create_dynamodb_user_def ddb_put_def split: lambda_exc.split)

lemma create_dynamodb_user_world:
  assumes "create_dynamodb_user env item w = (r, w1)"
  shows "st_pool w1 = st_pool w \<and> st_objects w1 = st_objects w \<and>
         (w1 = w \<or> st_users w1 = (st_users w)(item_id (clean_item item) \<mapsto> clean_item item))"
proof (cases "be_ddb_error env (item_id (clean_item item))")
  case None
  then show ?thesis using assms by (auto simp: create_dynamodb_user_eq)
next
  case (Some e)
  then show ?thesis using assms by (cases e) (simp_all add: create_dynamodb_user_eq)
qed

lemma folders_put_world: "folders_put env fs w = (rs, w1) \<Longrightarrow> st_pool w1 = st_pool w \<and> st_users w1 = st_users w"
proof (induction fs arbitrary: w rs)
  case Nil
  then show ?case by simp
next
  case (Cons f fs)
  then show ?case
    by (cases "be_s3_error env f") (auto simp: folder_put_def s3_put_def split: prod.splits)
qed

lemma s3_put_world: "s3_put env key body w = (r, w1) \<Longrightarrow> st_pool w1 = st_pool w \<and> st_users w1 = st_users w"
  by (cases "be_s3_error env key") (auto simp: s3_put_def)

lemma create_s3_folders_world:
  assumes "create_s3_folders env email w = (s, w1)"
  shows "st_pool w1 = st_pool w \<and> st_users w1 = st_users w"
proof -
  obtain rs wa where f: "folders_put env (bulk_folders email) w = (rs, wa)"
    by (metis surj_pair)
  obtain r wb where g: "s3_put env (readme_key email) (bulk_readme email (be_clock env)) wa = (r, wb)"
    by (metis surj_pair)
  have "w1 = wb"
    using assms f g by (simp add: create_s3_folders_def)
  then show ?thesis
    using folders_put_world[OF f] s3_put_world[OF g] by simp
qed


lemma create_dynamodb_user_Inl: "create_dynamodb_user env item w = (Inl e, w1) \<Longrightarrow> w1 = w"
  by (auto simp: create_dynamodb_user_eq split: option.splits lambda_exc.splits if_splits)

lemma create_dynamodb_user_Inr:
  assumes "ddb_unconditional env" "create_dynamodb_user env item w = (Inr d, w1)"
  shows "w1 = w\<lparr>st_users := (st_users w)(item_id (clean_item item) \<mapsto> clean_item item)\<rparr>"
proof (cases "be_ddb_error env (item_id (clean_item item))")
  case None
  then show ?thesis using assms(2) by (simp add: create_dynamodb_user_eq)
next
  case (Some e)
  then show ?thesis
    using assms unfolding ddb_unconditional_def
    by (cases e) (auto simp: create_dynamodb_user_eq split: if_splits dest: spec[of _ "item_id (clean_item item)"])
qed

lemma map_of_clean_item:
  "distinct (map fst xs) \<Longrightarrow>
     map_of (clean_item xs) k = (case map_of xs k of Some v \<Rightarrow> if py_truthy v then Some v else None | None \<Rightarrow> None)"
  by (induction xs) (force simp: clean_item_def split: option.splits)+

lemma dynamo_data_keys: "distinct (map fst (dynamo_data env email pw row ln fn lnk fnk))"
  by (simp add: dynamo_data_def asc_def)

lemma dynamo_data_lookup:
  "map_of (dynamo_data env email pw row ln fn lnk fnk) (asc ''id'') = Some (PStr email)"
  "map_of (dynamo_data env email pw row ln fn lnk fnk) (asc ''temp_password'') = Some (PStr pw)"
  by (simp_all add: dynamo_data_def asc_def)

lemma dynamo_item_id: "email \<noteq> [] \<Longrightarrow> item_id (clean_item (dynamo_data env email pw row ln fn lnk fnk)) = email"
  by (simp add: item_id_def dict_get_def map_of_clean_item[OF dynamo_data_keys] dynamo_data_lookup)

lemma dynamo_item_pw:
  "pw \<noteq> [] \<Longrightarrow> map_of (clean_item (dynamo_data env email pw row ln fn lnk fnk)) (asc ''temp_password'') = Some (PStr pw)"
  by (simp add: map_of_clean_item[OF dynamo_data_keys] dynamo_data_lookup)

lemma generate_temp_password_ne: "fst (run_state (generate_temp_password 12) r) \<noteq> []"
  using generate_temp_password_classes[OF refl, of 12 r] by auto

lemma map_le_upd_fresh: "k \<notin> dom m \<Longrightarrow> m \<subseteq>\<^sub>m m(k \<mapsto> v)"
  by (auto simp: map_le_def)

lemma create_cognito_user_pool_le:
  "create_cognito_user env email pw w = (r, w1) \<Longrightarrow> st_pool w \<subseteq>\<^sub>m st_pool w1 \<and> st_users w1 = st_users w"
  using create_cognito_user_world map_le_upd_fresh by (metis map_le_refl)

lemma lambda_register_effect:
  assumes "ddb_unconditional env" "email \<noteq> []" "pw \<noteq> []"
  shows "register_effect email pw st (lambda_register env db row email pw ur st)"
proof (cases "create_cognito_user env email pw (bs_world st)")
  case (Pair r w1)
  note c = this
  have le: "st_pool (bs_world st) \<subseteq>\<^sub>m st_pool w1" "st_users w1 = st_users (bs_world st)"
    using create_cognito_user_pool_le[OF c] by auto
  show ?thesis
  proof (cases "\<exists>c'. r = Inr c' \<and> \<not> is_exists c'")
    case False
    then show ?thesis
      using c le by (cases r) (auto simp: lambda_register_def register_effect_def)
  next
    case True
    then obtain c' where r: "r = Inr c'" "\<not> is_exists c'" by blast
    have new: "email \<notin> dom (st_pool (bs_world st))" "st_pool w1 = (st_pool (bs_world st))(email \<mapsto> pw)"
      using create_cognito_user_created[of env email pw "bs_world st" c' w1] c r by auto
    let ?item = "dynamo_data env email pw row (cell row col_last_name) (cell row col_first_name)
                   (cell row col_last_name_kana) (cell row col_first_name_kana)"
    obtain d w2 where dd: "create_dynamodb_user env ?item w1 = (d, w2)" by (metis surj_pair)
    obtain s w3 where ss: "create_s3_folders env email w2 = (s, w3)" by (metis surj_pair)
    show ?thesis
    proof (cases d)
      case (Inl e)
      then have "w2 = w1" using dd create_dynamodb_user_Inl by blast
      then show ?thesis
        using c r dd Inl le new map_le_upd_fresh
        by (auto simp: lambda_register_def register_effect_def Let_def)
    next
      case (Inr dv)
      then have w2: "w2 = w1\<lparr>st_users := (st_users w1)(email \<mapsto> clean_item ?item)\<rparr>"
        using dd create_dynamodb_user_Inr[OF assms(1)] dynamo_item_id[OF assms(2)] by metis
      have w3: "st_pool w3 = st_pool w2 \<and> st_users w3 = st_users w2"
        using create_s3_folders_world[OF ss] .
      show ?thesis
        using c r dd Inr ss w2 w3 le new dynamo_item_pw[OF assms(3)]
        by (auto simp: lambda_register_def register_effect_def Let_def)
    qed
  qed
qed

lemma register_effect_creds_ok:
  assumes "creds_ok st" "register_effect email pw st st'"
  shows "creds_ok st'"
  using assms(2) unfolding register_effect_def
proof (elim disjE conjE exE)
  assume "bs_creds st' = bs_creds st" "st_pool (bs_world st) \<subseteq>\<^sub>m st_pool (bs_world st')"
    "st_users (bs_world st') = st_users (bs_world st)"
  then show "creds_ok st'"
    using assms(1) by (auto simp: creds_ok_def list_all_iff map_le_def dom_def)
next
  fix item n
  assume fresh: "email \<notin> dom (st_pool (bs_world st))"
    and p: "st_pool (bs_world st') = (st_pool (bs_world st))(email \<mapsto> pw)"
    and u: "st_users (bs_world st') = (st_users (bs_world st))(email \<mapsto> item)"
    and i: "map_of item (asc ''temp_password'') = Some (PStr pw)"
    and c: "bs_creds st' = bs_creds st @ [(email, n, pw)]"
  have "e \<noteq> email" if "(e, n', p') \<in> set (bs_creds st)" for e n' p'
    using assms(1) that fresh by (auto simp: creds_ok_def list_all_iff)
  then show "creds_ok st'"
    using assms(1) p u i c by (auto simp: creds_ok_def list_all_iff user_has_pw_def)
qed

lemma creds_ok_unchanged:
  "creds_ok st \<Longrightarrow> bs_creds st' = bs_creds st \<Longrightarrow> bs_world st' = bs_world st \<Longrightarrow> creds_ok st'"
  by (simp add: creds_ok_def list_all_iff)

lemma creds_ok_skip_empty [simp]: "creds_ok (skip_empty st) = creds_ok st"
  by (simp add: creds_ok_def list_all_iff skip_empty_def)

lemma lambda_row_creds_ok:
  assumes "ddb_unconditional env" "creds_ok st" "lambda_row env db row st = (x, st')"
  shows "creds_ok st'"
proof -
  have base: "creds_ok (st\<lparr>bs_total := Suc (bs_total st), bs_rng := r\<rparr>)" "creds_ok (st\<lparr>bs_total := Suc (bs_total st)\<rparr>)" for r
    using assms(2) by (simp_all add: creds_ok_def list_all_iff)
  have reg: "creds_ok (lambda_register env db row email pw ur (st\<lparr>bs_total := Suc (bs_total st), bs_rng := r'\<rparr>))"
    if "email \<noteq> []" "run_state (generate_temp_password 12) (bs_rng st) = (pw, r')" for email pw r' ur
  proof -
    have "pw \<noteq> []"
      using generate_temp_password_ne[of "bs_rng st"] that(2) by simp
    then show ?thesis
      using register_effect_creds_ok[OF base(1) lambda_register_effect[OF assms(1) that(1)]] by blast
  qed
  show ?thesis
    using assms(3) base(2) reg
    by (auto simp: lambda_row_def Let_def split: sum.splits prod.splits if_splits)
qed

lemma lambda_rows_creds_ok:
  "ddb_unconditional env \<Longrightarrow> creds_ok st \<Longrightarrow> creds_ok (snd (lambda_rows env db rows st))"
proof (induction rows arbitrary: st)
  case Nil
  then show ?case by simp
next
  case (Cons row rows)
  obtain x st1 where r: "lambda_row env db row st = (x, st1)" by (metis surj_pair)
  have "creds_ok st1" using lambda_row_creds_ok[OF Cons.prems r] .
  then show ?case
    using Cons.IH[OF Cons.prems(1)] r by (cases x) auto
qed

lemma resp_has_userE:
  assumes "resp_has_user resp"
  obtains d u n s where "resp = PDict d" "map_of d (asc ''User'') = Some (PDict u)"
    "map_of u (asc ''Username'') = Some n" "map_of u (asc ''UserStatus'') = Some s"
proof -
  obtain d where d: "resp = PDict d"
    using assms by (cases resp) (auto simp: resp_has_user_def)
  obtain u where u: "map_of d (asc ''User'') = Some (PDict u)"
    using assms d by (auto simp: resp_has_user_def split: option.splits pyval.splits)
  show ?thesis
    using assms d u that by (auto simp: resp_has_user_def)
qed

lemma cognito_success_ok: "resp_has_user resp \<Longrightarrow> \<exists>c. cognito_success resp = Inr c \<and> \<not> is_exists c"
  by (erule resp_has_userE) (simp add: cognito_success_def lambda_bind_def)

lemma aws_healthy_unconditional: "aws_healthy env \<Longrightarrow> ddb_unconditional env"
  by (simp add: aws_healthy_def ddb_unconditional_def)

lemma lambda_register_healthy:
  assumes "aws_healthy env" "email \<noteq> []" "pw \<noteq> []" "email \<notin> dom (st_pool (bs_world st))"
    and st': "st' = lambda_register env db row email pw ur st"
  shows "(\<exists>n. bs_creds st' = bs_creds st @ [(email, n, pw)]) \<and> bs_success st' = Suc (bs_success st) \<and>
         st_pool (bs_world st') = (st_pool (bs_world st))(email \<mapsto> pw) \<and>
         (\<exists>item. st_users (bs_world st') = (st_users (bs_world st))(email \<mapsto> item))"
proof -
  obtain c where c: "cognito_success (be_cognito_resp env email) = Inr c" "\<not> is_exists c"
    using cognito_success_ok assms(1) unfolding aws_healthy_def by blast
  let ?w1 = "(bs_world st)\<lparr>st_pool := (st_pool (bs_world st))(email \<mapsto> pw)\<rparr>"
  have cog: "create_cognito_user env email pw (bs_world st) = (Inr c, ?w1)"
    using assms(1,4) c(1) by (simp add: create_cognito_user_eq aws_healthy_def)
  let ?item = "dynamo_data env email pw row (cell row col_last_name) (cell row col_first_name)
                 (cell row col_last_name_kana) (cell row col_first_name_kana)"
  let ?w2 = "?w1\<lparr>st_users := (st_users ?w1)(email \<mapsto> clean_item ?item)\<rparr>"
  have dd: "create_dynamodb_user env ?item ?w1 = (Inr (PDict (status_dict (asc ''success''))), ?w2)"
    using assms(1) dynamo_item_id[OF assms(2)] by (simp add: create_dynamodb_user_eq aws_healthy_def)
  obtain s w3 where ss: "create_s3_folders env email ?w2 = (s, w3)" by (metis surj_pair)
  have "st_pool w3 = st_pool ?w2 \<and> st_users w3 = st_users ?w2"
    using create_s3_folders_world[OF ss] .
  then show ?thesis
    using cog c(2) dd ss by (simp add: st' lambda_register_def Let_def) blast
qed

lemma lambda_row_healthy:
  assumes "aws_healthy env" "normalize_email (be_lower env) (cell row col_email) = Inr e" "e \<noteq> []"
    "e \<notin> dom (st_pool (bs_world st))"
  obtains st' pw n item where "lambda_row env db row st = (None, st')" "bs_creds st' = bs_creds st @ [(e, n, pw)]"
    "bs_success st' = Suc (bs_success st)" "st_pool (bs_world st') = (st_pool (bs_world st))(e \<mapsto> pw)"
    "st_users (bs_world st') = (st_users (bs_world st))(e \<mapsto> item)"
proof -
  obtain pw r where g: "run_state (generate_temp_password 12) (bs_rng st) = (pw, r)" by (metis surj_pair)
  have "pw \<noteq> []" using generate_temp_password_ne[of "bs_rng st"] g by simp
  let ?ur = "[(asc ''row'', PInt (int (Suc (bs_total st)))), (asc ''email'', PStr e)]"
  let ?st1 = "st\<lparr>bs_total := Suc (bs_total st), bs_rng := r\<rparr>"
  have row: "lambda_row env db row st = (None, lambda_register env db row e pw ?ur ?st1)"
    using assms(2,3) g by (simp add: lambda_row_def Let_def)
  have fresh: "e \<notin> dom (st_pool (bs_world ?st1))" using assms(4) by simp
  obtain n item where
    "bs_creds (lambda_register env db row e pw ?ur ?st1) = bs_creds ?st1 @ [(e, n, pw)]"
    "bs_success (lambda_register env db row e pw ?ur ?st1) = Suc (bs_success ?st1)"
    "st_pool (bs_world (lambda_register env db row e pw ?ur ?st1)) = (st_pool (bs_world ?st1))(e \<mapsto> pw)"
    "st_users (bs_world (lambda_register env db row e pw ?ur ?st1)) = (st_users (bs_world ?st1))(e \<mapsto> item)"
    using lambda_register_healthy[OF assms(1,3) \<open>pw \<noteq> []\<close> fresh refl] by blast
  then show ?thesis
    using that[OF row] by simp
qed

lemma lambda_rows_healthy:
  assumes "aws_healthy env" "map (\<lambda>row. normalize_email (be_lower env) (cell row col_email)) rows = map Inr es"
    "distinct es" "\<forall>e\<in>set es. e \<noteq> [] \<and> e \<notin> dom (st_pool (bs_world st))"
  shows "fst (lambda_rows env db rows st) = None \<and>
         map fst (bs_creds (snd (lambda_rows env db rows st))) = map fst (bs_creds st) @ es \<and>
         bs_success (snd (lambda_rows env db rows st)) = bs_success st + length rows \<and>
         dom (st_pool (bs_world st)) \<union> set es \<subseteq> dom (st_pool (bs_world (snd (lambda_rows env db rows st)))) \<and>
         dom (st_users (bs_world st)) \<union> set es \<subseteq> dom (st_users (bs_world (snd (lambda_rows env db rows st))))"
  using assms(2-4)
proof (induction rows arbitrary: es st)
  case Nil
  then show ?case by simp
next
  case (Cons row rows)
  obtain e es' where es1: "es = e # es'"
    using Cons.prems(1) by (cases es) auto
  have es: "es = e # es'" "normalize_email (be_lower env) (cell row col_email) = Inr e"
    "map (\<lambda>row. normalize_email (be_lower env) (cell row col_email)) rows = map Inr es'"
    using Cons.prems(1) unfolding es1 by simp_all
  have e: "e \<noteq> []" "e \<notin> dom (st_pool (bs_world st))"
    using Cons.prems(3) unfolding es(1) by simp_all
  obtain st' pw n item where r: "lambda_row env db row st = (None, st')" "bs_creds st' = bs_creds st @ [(e, n, pw)]"
    "bs_success st' = Suc (bs_success st)" "st_pool (bs_world st') = (st_pool (bs_world st))(e \<mapsto> pw)"
    "st_users (bs_world st') = (st_users (bs_world st))(e \<mapsto> item)"
    by (rule lambda_row_healthy[OF assms(1) es(2) e])
  have "\<forall>e'\<in>set es'. e' \<noteq> [] \<and> e' \<notin> dom (st_pool (bs_world st'))"
    using Cons.prems(2,3) unfolding es(1) r(4) by auto
  moreover have "distinct es'" using Cons.prems(2) es(1) by simp
  ultimately have ih: "fst (lambda_rows env db rows st') = None \<and>
         map fst (bs_creds (snd (lambda_rows env db rows st'))) = map fst (bs_creds st') @ es' \<and>
         bs_success (snd (lambda_rows env db rows st')) = bs_success st' + length rows \<and>
         dom (st_pool (bs_world st')) \<union> set es' \<subseteq> dom (st_pool (bs_world (snd (lambda_rows env db rows st')))) \<and>
         dom (st_users (bs_world st')) \<union> set es' \<subseteq> dom (st_users (bs_world (snd (lambda_rows env db rows st'))))"
    using Cons.IH[OF es(3)] by blast
  have step: "lambda_rows env db (row # rows) st = lambda_rows env db rows st'"
    using r(1) by simp
  show ?case
    unfolding step using ih r(2-5) es(1) by auto
qed

lemma lambda_row_exists:
  assumes "normalize_email (be_lower env) (cell row col_email) = Inr e" "e \<noteq> []" "e \<in> dom (st_pool (bs_world st))"
  shows "\<exists>ur. lambda_row env db row st =
           (None, row_exists ur (st\<lparr>bs_total := Suc (bs_total st), bs_rng := snd (run_state (generate_temp_password 12) (bs_rng st))\<rparr>))"
  using assms by (auto simp: lambda_row_def lambda_register_def create_cognito_user_eq Let_def split: prod.split)

lemma lambda_row_ddb_fails:
  assumes "normalize_email (be_lower env) (cell row col_email) = Inr e" "e \<noteq> []" "e \<notin> dom (st_pool (bs_world st))"
    "be_cognito_error env e = None" "resp_has_user (be_cognito_resp env e)" "be_ddb_error env e = Some x"
    "ddb_unconditional env"
  obtains pw ur e' where "lambda_row env db row st =
     (None, row_failed env e' ur (st\<lparr>bs_total := Suc (bs_total st), bs_rng := snd (run_state (generate_temp_password 12) (bs_rng st)),
                                     bs_world := (bs_world st)\<lparr>st_pool := (st_pool (bs_world st))(e \<mapsto> pw)\<rparr>\<rparr>))"
proof -
  obtain c where c: "cognito_success (be_cognito_resp env e) = Inr c" "\<not> is_exists c"
    using cognito_success_ok[OF assms(5)] by blast
  obtain pw r where g: "run_state (generate_temp_password 12) (bs_rng st) = (pw, r)" by (metis surj_pair)
  let ?item = "dynamo_data env e pw row (cell row col_last_name) (cell row col_first_name)
                 (cell row col_last_name_kana) (cell row col_first_name_kana)"
  let ?w1 = "(bs_world st)\<lparr>st_pool := (st_pool (bs_world st))(e \<mapsto> pw)\<rparr>"
  obtain e' where dd: "create_dynamodb_user env ?item ?w1 = (Inl e', ?w1)"
  proof (cases x)
    case (ClientError cd m)
    have "case be_ddb_error env e of Some (ClientError c m) \<Rightarrow> c \<noteq> conditional_check_failed | _ \<Rightarrow> True"
      using assms(7) unfolding ddb_unconditional_def by blast
    then have "cd \<noteq> conditional_check_failed"
      using assms(6) ClientError by simp
    then show ?thesis
      using that assms(6) ClientError dynamo_item_id[OF assms(2)] by (simp add: create_dynamodb_user_eq)
  next
    case (PyError p)
    then show ?thesis
      using that assms(6) dynamo_item_id[OF assms(2)] by (simp add: create_dynamodb_user_eq)
  qed
  show ?thesis
    using assms(1-4) c g dd that[where pw = pw and e' = e']
    by (simp add: lambda_row_def lambda_register_def create_cognito_user_eq Let_def)
qed

text \<open>C22: A user whose profile write fails after Cognito created it is left in the pool
  with a temporary password that no credential records and without a profile; running the
  same CSV again, even with DynamoDB working, skips the row as an existing Cognito user and
  repairs nothing.\<close>

theorem orphan_never_repaired:
  assumes "normalize_email (be_lower env) (cell row col_email) = Inr e" "e \<noteq> []" "e \<notin> dom (st_pool w)"
    "st_users w e = None" "be_cognito_error env e = None" "resp_has_user (be_cognito_resp env e)"
    "be_ddb_error env e = Some x" "ddb_unconditional env" "be_lower env' = be_lower env"
  shows "let st1 = snd (lambda_rows env db [row] (init_state w r));
             st2 = snd (lambda_rows env' db [row] (init_state (bs_world st1) r'))
         in bs_failed st1 = 1 \<and> bs_creds st1 = [] \<and> e \<in> dom (st_pool (bs_world st1)) \<and>
            st_users (bs_world st1) e = None \<and>
            bs_skipped st2 = 1 \<and> bs_creds st2 = [] \<and> bs_world st2 = bs_world st1"
proof -
  let ?st0 = "init_state w r"
  have fresh: "e \<notin> dom (st_pool (bs_world ?st0))" using assms(3) by (simp add: init_state_def)
  obtain pw ur e' where r1: "lambda_row env db row ?st0 =
     (None, row_failed env e' ur (?st0\<lparr>bs_total := Suc (bs_total ?st0),
        bs_rng := snd (run_state (generate_temp_password 12) (bs_rng ?st0)),
        bs_world := (bs_world ?st0)\<lparr>st_pool := (st_pool (bs_world ?st0))(e \<mapsto> pw)\<rparr>\<rparr>))"
    by (rule lambda_row_ddb_fails[OF assms(1,2) fresh assms(5-8)])
  let ?st1 = "snd (lambda_rows env db [row] ?st0)"
  have st1: "bs_failed ?st1 = 1" "bs_creds ?st1 = []" "bs_world ?st1 = w\<lparr>st_pool := (st_pool w)(e \<mapsto> pw)\<rparr>"
    using r1 by (simp_all add: init_state_def)
  have n2: "normalize_email (be_lower env') (cell row col_email) = Inr e"
    using assms(1,9) by simp
  let ?st0' = "init_state (bs_world ?st1) r'"
  have old: "e \<in> dom (st_pool (bs_world ?st0'))" using st1(3) by (simp add: init_state_def)
  obtain ur2 where r2: "lambda_row env' db row ?st0' =
     (None, row_exists ur2 (?st0'\<lparr>bs_total := Suc (bs_total ?st0'),
                                 bs_rng := snd (run_state (generate_temp_password 12) (bs_rng ?st0'))\<rparr>))"
    using lambda_row_exists[OF n2 assms(2) old] by blast
  show ?thesis
    using st1 r2 assms(4) by (simp add: init_state_def Let_def)
qed



lemma lambda_row_None: "is_pstr (cell row col_email) \<Longrightarrow> fst (lambda_row env db row st) = None"
  by (auto simp: lambda_row_def Let_def is_pstr_def split: pyval.splits prod.split)

lemma lambda_row_raises:
  "\<not> is_pstr (cell row col_email) \<Longrightarrow> fst (lambda_row env db row st) = Some (PyError AttributeError)"
  by (cases "cell row col_email") (simp_all add: lambda_row_def is_pstr_def)

lemma lambda_rows_raises:
  assumes "list_all (\<lambda>r. is_pstr (cell r col_email)) rows1" "\<not> is_pstr (cell row col_email)"
  shows "fst (lambda_rows env db (rows1 @ row # rows2) st) = Some (PyError AttributeError)"
  using assms(1)
proof (induction rows1 arbitrary: st)
  case Nil
  then show ?case
    using lambda_row_raises[OF assms(2), of env db st] by (auto split: prod.split option.split)
next
  case (Cons r1 rows1)
  then show ?case
    using lambda_row_None[of r1 env db st] by (auto split: prod.split option.split)
qed

lemma s3_put_other: "s3_put env key body w = (r, w1) \<Longrightarrow> k \<noteq> key \<Longrightarrow> st_objects w1 k = st_objects w k"
  by (cases "be_s3_error env key") (auto simp: s3_put_def)

lemma folders_put_objects:
  "folders_put env fs w = (rs, w1) \<Longrightarrow> k \<notin> set fs \<Longrightarrow> st_objects w1 k = st_objects w k"
proof (induction fs arbitrary: w rs)
  case Nil
  then show ?case by simp
next
  case (Cons f fs)
  obtain r wa where f: "folder_put env f w = (r, wa)" by (metis surj_pair)
  obtain rs' wb where g: "folders_put env fs wa = (rs', wb)" by (metis surj_pair)
  have "st_objects wa k = st_objects w k"
    using f Cons.prems(2) s3_put_other[of env f "[]" w] by (auto simp: folder_put_def split: prod.splits sum.splits)
  then show ?case
    using Cons f g by simp
qed

lemma bulk_keys_raw: "\<forall>f\<in>set (bulk_folders email). raw_key f" "raw_key (readme_key email)"
  by (simp_all add: bulk_folders_def readme_key_def raw_key_def asc_def)

lemma create_s3_folders_objects:
  assumes "create_s3_folders env email w = (s, w1)" "\<not> raw_key k"
  shows "st_objects w1 k = st_objects w k"
proof -
  obtain rs wa where f: "folders_put env (bulk_folders email) w = (rs, wa)" by (metis surj_pair)
  obtain r wb where g: "s3_put env (readme_key email) (bulk_readme email (be_clock env)) wa = (r, wb)"
    by (metis surj_pair)
  have "w1 = wb" using assms(1) f g by (simp add: create_s3_folders_def)
  moreover have "k \<notin> set (bulk_folders email)" "k \<noteq> readme_key email"
    using bulk_keys_raw assms(2) by auto
  ultimately show ?thesis
    using folders_put_objects[OF f] s3_put_other[OF g] by simp
qed

lemma lambda_register_objects:
  assumes "\<not> raw_key k"
  shows "st_objects (bs_world (lambda_register env db row email pw ur st)) k = st_objects (bs_world st) k"
proof -
  obtain r w1 where c: "create_cognito_user env email pw (bs_world st) = (r, w1)" by (metis surj_pair)
  have o1: "st_objects w1 = st_objects (bs_world st)" using create_cognito_user_world[OF c] by simp
  let ?item = "dynamo_data env email pw row (cell row col_last_name) (cell row col_first_name)
                 (cell row col_last_name_kana) (cell row col_first_name_kana)"
  obtain d w2 where dd: "create_dynamodb_user env ?item w1 = (d, w2)" by (metis surj_pair)
  have o2: "st_objects w2 = st_objects w1" using create_dynamodb_user_world[OF dd] by simp
  obtain s w3 where ss: "create_s3_folders env email w2 = (s, w3)" by (metis surj_pair)
  have o3: "st_objects w3 k = st_objects w2 k" using create_s3_folders_objects[OF ss assms] .
  show ?thesis
    using c dd ss o1 o2 o3
    by (auto simp: lambda_register_def Let_def row_failed_def row_exists_def split: sum.splits)
qed

lemma lambda_rows_objects:
  "\<not> raw_key k \<Longrightarrow> st_objects (bs_world (snd (lambda_rows env db rows st))) k = st_objects (bs_world st) k"
proof (induction rows arbitrary: st)
  case Nil
  then show ?case by simp
next
  case (Cons row rows)
  obtain x st1 where r: "lambda_row env db row st = (x, st1)" by (metis surj_pair)
  have "st_objects (bs_world st1) k = st_objects (bs_world st) k"
    using r lambda_register_objects[OF Cons.prems]
    by (auto simp: lambda_row_def Let_def skip_empty_def split: sum.splits if_splits prod.splits)
  then show ?case
    using Cons r by (cases x) auto
qed

lemma result_keys_not_raw: "\<not> raw_key (report_key env)" "\<not> raw_key (creds_key env)"
  by (simp_all add: raw_key_def report_key_def creds_key_def asc_def)

text \<open>C24: A data row shorter than the header that lacks the e-mail column (whose value
  \<open>DictReader\<close> fills with \<open>None\<close>) makes \<open>lower()\<close> raise outside the \<open>try\<close>: the Lambda fails
  with \<open>AttributeError\<close> after registering the rows before it, and neither the report nor the
  credentials CSV is written.\<close>

theorem short_row_aborts_unsaved:
  assumes "s3_event_object event = Inr (bucket, PStr k)" "be_read env bucket (be_unquote env k) = Inr csv_text"
    "dict_reader (be_csv env csv_text) = done_rows @ row # rest_rows"
    "list_all (\<lambda>r. is_pstr (cell r col_email)) done_rows" "\<not> is_pstr (cell row col_email)"
  shows "fst (bulk_lambda_handler env db event r w) = BulkRaise (PyError AttributeError) \<and>
         st_objects (snd (bulk_lambda_handler env db event r w)) (report_key env) = st_objects w (report_key env) \<and>
         st_objects (snd (bulk_lambda_handler env db event r w)) (creds_key env) = st_objects w (creds_key env)"
proof -
  obtain st where rows: "lambda_rows env db (done_rows @ row # rest_rows) (init_state w r) = (Some (PyError AttributeError), st)"
    using lambda_rows_raises[OF assms(4,5), of env db rest_rows "init_state w r"] by (metis prod.collapse)
  have h: "bulk_lambda_handler env db event r w = (BulkRaise (PyError AttributeError), bs_world st)"
    using assms(1-3) rows by (simp add: bulk_lambda_handler_def)
  have "st_objects (bs_world st) k' = st_objects w k'" if "\<not> raw_key k'" for k'
    using lambda_rows_objects[OF that, of env db "done_rows @ row # rest_rows" "init_state w r"] rows
    by (simp add: init_state_def)
  then show ?thesis
    using h result_keys_not_raw by simp
qed

lemma example_env_fields [simp]:
  "be_cognito_error example_bulk_env = (\<lambda>_. None)"
  "be_cognito_resp example_bulk_env = (\<lambda>n. PDict [(asc ''User'', PDict [(asc ''Username'', PStr n),
                                     (asc ''UserStatus'', PStr (asc ''FORCE_CHANGE_PASSWORD''))])])"
  "be_ddb_error example_bulk_env = (\<lambda>_. None)" "be_s3_error example_bulk_env = (\<lambda>_. None)"
  "be_lower example_bulk_env = (\<lambda>c. [py_lower_char c])" "be_csv example_bulk_env = (\<lambda>_. example_csv)"
  "be_read example_bulk_env = (\<lambda>b k. Inr [])" "be_unquote example_bulk_env = id"
  by (simp_all add: example_bulk_env_def)

lemma example_rows:
  "dict_reader example_csv =
     [[(col_email, PStr (asc ''Taro@Example.jp '')), (col_last_name, PStr [0x5C71, 0x7530]),
       (col_first_name, PStr [0x592A, 0x90CE])],
      [(col_email, PStr (asc ''hanako@example.jp'')), (col_last_name, PStr [0x9234, 0x6728]),
       (col_first_name, PNone)]]"
  by (simp add: example_csv_def csv_row_dict_def col_email_def col_last_name_def col_first_name_def asc_def)

lemma example_emails:
  "map (\<lambda>row. normalize_email (be_lower example_bulk_env) (cell row col_email)) (dict_reader example_csv) =
     map Inr [asc ''taro@example.jp'', asc ''hanako@example.jp'']"
  unfolding example_rows
  by (simp add: cell_def dict_get_def col_email_def col_last_name_def col_first_name_def asc_def
      py_strip_def py_lstrip_def py_rstrip_def py_isspace_def py_lower_char_def)

lemma example_healthy: "aws_healthy example_bulk_env"
  by (simp add: aws_healthy_def resp_has_user_def asc_def)


lemma example_first_email:
  "normalize_email (\<lambda>c. [py_lower_char c]) (cell (hd (dict_reader example_csv)) col_email) = Inr (asc ''taro@example.jp'')"
  unfolding example_rows
  by (simp add: cell_def dict_get_def col_email_def asc_def py_strip_def py_lstrip_def py_rstrip_def
      py_isspace_def py_lower_char_def)

lemma example_event_object:
  "s3_event_object example_s3_event = Inr (PStr (asc ''tuunapp-gene-data-a7x9k3''), PStr (asc ''bulk-import/users.csv''))"
  by (simp add: example_s3_event_def s3_event_object_def ebind_def asc_def)

subsection \<open>Properties of the Lambda\<close>

text \<open>C11: Every credential the Lambda records for the operators' CSV is the temporary
  password Cognito holds for that e-mail and the one stored in the user's profile in
  \<open>Users\<close>, whatever rows, draws and AWS failures occur (DynamoDB never failing a condition
  the put does not state).\<close>

theorem bulk_credentials_match_accounts:
  "ddb_unconditional env \<Longrightarrow> creds_ok (snd (lambda_rows env db rows (init_state w r)))"
  by (rule lambda_rows_creds_ok) (simp_all add: creds_ok_def init_state_def)

theorem bulk_credentials_match_accounts_witness:
  "creds_ok (snd (lambda_rows example_bulk_env example_db (dict_reader example_csv) (init_state example_world (\<lambda>k. k))))"
  by (rule bulk_credentials_match_accounts) (simp add: ddb_unconditional_def)

text \<open>C13: When AWS answers every call, a CSV whose rows carry distinct, non-empty e-mails
  unknown to the pool is registered completely: no row raises, every e-mail gets a credential
  in row order, every row counts as a success, and every e-mail ends in the pool and in
  \<open>Users\<close>.\<close>

theorem bulk_registers_every_fresh_row:
  assumes "aws_healthy env" "map (\<lambda>row. normalize_email (be_lower env) (cell row col_email)) rows = map Inr es"
    "distinct es" "\<forall>e\<in>set es. e \<noteq> [] \<and> e \<notin> dom (st_pool w)"
  shows "fst (lambda_rows env db rows (init_state w r)) = None \<and>
         map fst (bs_creds (snd (lambda_rows env db rows (init_state w r)))) = es \<and>
         bs_success (snd (lambda_rows env db rows (init_state w r))) = length rows \<and>
         set es \<subseteq> dom (st_pool (bs_world (snd (lambda_rows env db rows (init_state w r))))) \<and>
         set es \<subseteq> dom (st_users (bs_world (snd (lambda_rows env db rows (init_state w r)))))"
  using lambda_rows_healthy[OF assms(1-3), where db = db and st = "init_state w r"] assms(4)
  by (simp add: init_state_def)

theorem bulk_registers_every_fresh_row_witness:
  "fst (lambda_rows example_bulk_env example_db (dict_reader example_csv) (init_state example_world (\<lambda>k. k))) = None \<and>
   map fst (bs_creds (snd (lambda_rows example_bulk_env example_db (dict_reader example_csv) (init_state example_world (\<lambda>k. k))))) =
     [asc ''taro@example.jp'', asc ''hanako@example.jp''] \<and>
   bs_success (snd (lambda_rows example_bulk_env example_db (dict_reader example_csv) (init_state example_world (\<lambda>k. k)))) =
     length (dict_reader example_csv) \<and>
   set [asc ''taro@example.jp'', asc ''hanako@example.jp''] \<subseteq>
     dom (st_pool (bs_world (snd (lambda_rows example_bulk_env example_db (dict_reader example_csv) (init_state example_world (\<lambda>k. k)))))) \<and>
   set [asc ''taro@example.jp'', asc ''hanako@example.jp''] \<subseteq>
     dom (st_users (bs_world (snd (lambda_rows example_bulk_env example_db (dict_reader example_csv) (init_state example_world (\<lambda>k. k))))))"
  by (rule bulk_registers_every_fresh_row[OF example_healthy example_emails]) (simp_all add: example_world_def asc_def)


theorem orphan_never_repaired_witness:
  "let st1 = snd (lambda_rows example_failing_env example_db [hd (dict_reader example_csv)] (init_state example_world (\<lambda>k. k)));
       st2 = snd (lambda_rows example_bulk_env example_db [hd (dict_reader example_csv)] (init_state (bs_world st1) (\<lambda>k. k)))
   in bs_failed st1 = 1 \<and> bs_creds st1 = [] \<and> asc ''taro@example.jp'' \<in> dom (st_pool (bs_world st1)) \<and>
      st_users (bs_world st1) (asc ''taro@example.jp'') = None \<and>
      bs_skipped st2 = 1 \<and> bs_creds st2 = [] \<and> bs_world st2 = bs_world st1"
  by (rule orphan_never_repaired)
     (simp_all add: example_failing_env_def example_first_email example_world_def ddb_unconditional_def
       resp_has_user_def asc_def conditional_check_failed_def)

theorem short_row_aborts_unsaved_witness:
  "fst (bulk_lambda_handler example_short_env example_db example_s3_event (\<lambda>k. k) example_world) = BulkRaise (PyError AttributeError) \<and>
   st_objects (snd (bulk_lambda_handler example_short_env example_db example_s3_event (\<lambda>k. k) example_world)) (report_key example_short_env) =
     st_objects example_world (report_key example_short_env) \<and>
   st_objects (snd (bulk_lambda_handler example_short_env example_db example_s3_event (\<lambda>k. k) example_world)) (creds_key example_short_env) =
     st_objects example_world (creds_key example_short_env)"
  by (rule short_row_aborts_unsaved[where done_rows = "[]" and rest_rows = "[]"
        and row = "[(col_last_name, PStr [0x5C71, 0x7530]), (col_email, PNone)]", OF example_event_object])
     (simp_all add: example_short_env_def csv_row_dict_def cell_def dict_get_def is_pstr_def
        col_email_def col_last_name_def)

end
