(* ===== verification/BulkScript.thy ===== *)
theory BulkScript
  imports BulkLambda
begin

text \<open>
  The command-line script \<open>src/lambda_cognito_trigger/bulk_register_users.py\<close>:
  \<open>process_csv\<close> over the rows the \<open>csv\<close> module reads from the file, with the dry run
  threaded through the three creators, and \<open>save_results\<close> as the files it writes. It shares
  the world, the password generator, the row dictionaries and the report helpers with the
  Lambda (\<open>BulkCommon\<close>, \<open>BulkLambda\<close>); the theorems compare the two programs.
\<close>

subsection \<open>Creators with the dry run\<close>

definition dry_run_result :: "pystr \<Rightarrow> pyval" where
  "dry_run_result m = PDict (status_dict (asc ''dry_run'') @ [(asc ''message'', PStr m)])"

definition dry_msg_cognito :: pystr where
  "dry_msg_cognito = [0x30C9, 0x30E9, 0x30A4, 0x30E9, 0x30F3] @ asc '' - Cognito'' @
     [0x30E6, 0x30FC, 0x30B6, 0x30FC, 0x4F5C, 0x6210, 0x30B9, 0x30AD, 0x30C3, 0x30D7]"

definition dry_msg_dynamodb :: pystr where
  "dry_msg_dynamodb = [0x30C9, 0x30E9, 0x30A4, 0x30E9, 0x30F3] @ asc '' - DynamoDB'' @
     [0x767B, 0x9332, 0x30B9, 0x30AD, 0x30C3, 0x30D7]"

definition dry_msg_s3 :: pystr where
  "dry_msg_s3 = [0x30C9, 0x30E9, 0x30A4, 0x30E9, 0x30F3] @ asc '' - S3'' @
     [0x30D5, 0x30A9, 0x30EB, 0x30C0, 0x4F5C, 0x6210, 0x30B9, 0x30AD, 0x30C3, 0x30D7]"

text \<open>\<open>create_cognito_user\<close> of the script: only the user name is read from the response.\<close>

definition script_cognito_success :: "pyval \<Rightarrow> lambda_exc + pyval" where
  "script_cognito_success resp =
     lambda_bind (py_getitem resp (asc ''User'')) (\<lambda>u.
     lambda_bind (py_getitem u (asc ''Username'')) (\<lambda>name.
       Inr (PDict (status_dict (asc ''success'') @ [(asc ''user'', name)]))))"

definition script_create_cognito_user ::
  "bulk_env \<Rightarrow> pystr \<Rightarrow> pystr \<Rightarrow> bool \<Rightarrow> bulk_world \<Rightarrow> (lambda_exc + pyval) \<times> bulk_world" where
  "script_create_cognito_user env email pw dry w =
     (if dry then (Inr (dry_run_result dry_msg_cognito), w)
      else case admin_create_user env email pw w of
        (Inr resp, w') \<Rightarrow> (script_cognito_success resp, w')
      | (Inl (ClientError c m), w') \<Rightarrow>
          (if c = username_exists then Inr exists_result else Inl (ClientError c m), w')
      | (Inl e, w') \<Rightarrow> (Inl e, w'))"

text \<open>\<open>create_dynamodb_user\<close> of the script puts the item it is given (the caller has
  removed the falsy values).\<close>

definition script_create_dynamodb_user ::
  "bulk_env \<Rightarrow> (pystr \<times> pyval) list \<Rightarrow> bool \<Rightarrow> bulk_world \<Rightarrow> (lambda_exc + pyval) \<times> bulk_world" where
  "script_create_dynamodb_user env user_data dry w =
     (if dry then (Inr (dry_run_result dry_msg_dynamodb), w)
      else case ddb_put env user_data w of
        (Inr _, w') \<Rightarrow> (Inr (PDict (status_dict (asc ''success''))), w')
      | (Inl (ClientError c m), w') \<Rightarrow>
          (if c = conditional_check_failed then Inr exists_result else Inl (ClientError c m), w')
      | (Inl e, w') \<Rightarrow> (Inl e, w'))"

text \<open>\<open>create_s3_folders\<close> of the script: the two folders, no README.\<close>

definition script_create_s3_folders :: "bulk_env \<Rightarrow> pystr \<Rightarrow> bool \<Rightarrow> bulk_world \<Rightarrow> pyval \<times> bulk_world" where
  "script_create_s3_folders env email dry w =
     (if dry then (dry_run_result dry_msg_s3, w)
      else case folders_put env (bulk_folders email) w of
             (rs, w1) \<Rightarrow> (PDict (status_dict (asc ''success'') @ [(asc ''folders'', PList rs)]), w1))"

subsection \<open>The loop of \<open>process_csv\<close>\<close>

text \<open>\<open>if last_name and not first_name: full_name = last_name; last_name = full_name;
  first_name = ""\<close>, and the same for the kana.\<close>

definition split_names :: "pyval \<Rightarrow> pyval \<Rightarrow> pyval \<times> pyval" where
  "split_names ln fn = (if py_truthy ln \<and> \<not> py_truthy fn then (ln, PStr []) else (ln, fn))"

definition script_register ::
  "bulk_env \<Rightarrow> ucd \<Rightarrow> bool \<Rightarrow> (pystr \<times> pyval) list \<Rightarrow> pystr \<Rightarrow> pystr \<Rightarrow> (pystr \<times> pyval) list \<Rightarrow> bulk_state \<Rightarrow> bulk_state" where
  "script_register env db dry row email pw ur st =
     (case script_create_cognito_user env email pw dry (bs_world st) of
        (Inl e, w1) \<Rightarrow> row_failed env e ur (st\<lparr>bs_world := w1\<rparr>)
      | (Inr c, w1) \<Rightarrow>
          (let ur1 = ur @ [(asc ''cognito'', c)]; st1 = st\<lparr>bs_world := w1\<rparr> in
           if is_exists c then row_exists ur1 st1
           else
             (case split_names (cell row col_last_name) (cell row col_first_name) of
                (ln, fn) \<Rightarrow>
                  (case split_names (cell row col_last_name_kana) (cell row col_first_name_kana) of
                     (lnk, fnk) \<Rightarrow>
                       (case script_create_dynamodb_user env (clean_item (dynamo_data env email pw row ln fn lnk fnk)) dry w1 of
                          (Inl e, w2) \<Rightarrow> row_failed env e ur1 (st1\<lparr>bs_world := w2\<rparr>)
                        | (Inr d, w2) \<Rightarrow>
                            (case script_create_s3_folders env email dry w2 of
                               (s, w3) \<Rightarrow>
                                 st1\<lparr>bs_world := w3, bs_success := Suc (bs_success st1),
                                     bs_users := bs_users st1 @
                                       [PDict (ur1 @ [(asc ''dynamodb'', d), (asc ''s3'', s),
                                                      (asc ''status'', PStr (asc ''success''))])],
                                     bs_creds := bs_creds st1 @ [(email, display_name db ln fn, pw)]\<rparr>))))))"

definition script_row ::
  "bulk_env \<Rightarrow> ucd \<Rightarrow> bool \<Rightarrow> (pystr \<times> pyval) list \<Rightarrow> bulk_state \<Rightarrow> lambda_exc option \<times> bulk_state" where
  "script_row env db dry row st0 =
     (let st1 = st0\<lparr>bs_total := Suc (bs_total st0)\<rparr> in
      case normalize_email (be_lower env) (cell row col_email) of
        Inl e \<Rightarrow> (Some e, st1)
      | Inr email \<Rightarrow>
          if email = [] then (None, skip_empty st1)
          else
            (case run_state (generate_temp_password 12) (bs_rng st1) of
               (pw, r) \<Rightarrow>
                 (None, script_register env db dry row email pw
                          [(asc ''row'', PInt (int (bs_total st1))), (asc ''email'', PStr email),
                           (asc ''temp_password'', PStr (if dry then asc ''****'' else pw))]
                          (st1\<lparr>bs_rng := r\<rparr>))))"

fun script_rows ::
  "bulk_env \<Rightarrow> ucd \<Rightarrow> bool \<Rightarrow> (pystr \<times> pyval) list list \<Rightarrow> bulk_state \<Rightarrow> lambda_exc option \<times> bulk_state" where
  "script_rows env db dry [] st = (None, st)"
| "script_rows env db dry (row # rows) st =
     (case script_row env db dry row st of
        (None, st') \<Rightarrow> script_rows env db dry rows st'
      | (Some e, st') \<Rightarrow> (Some e, st'))"

text \<open>\<open>process_csv\<close>: the rows the \<open>csv\<close> module reads from the file, the loop, and the
  results with the credentials; an exception of the loop leaves the function.\<close>

definition script_results :: "bulk_env \<Rightarrow> pystr \<Rightarrow> bool \<Rightarrow> bulk_state \<Rightarrow> pyval" where
  "script_results env csv_path dry st =
     PDict [(asc ''timestamp'', PStr (be_now env)), (asc ''csv_path'', PStr csv_path),
            (asc ''dry_run'', PBool dry), (asc ''total'', PInt (int (bs_total st))),
            (asc ''success'', PInt (int (bs_success st))), (asc ''failed'', PInt (int (bs_failed st))),
            (asc ''skipped'', PInt (int (bs_skipped st))), (asc ''users'', PList (bs_users st))]"

definition process_csv ::
  "bulk_env \<Rightarrow> ucd \<Rightarrow> pystr \<Rightarrow> pystr list list \<Rightarrow> bool \<Rightarrow> rng \<Rightarrow> bulk_world \<Rightarrow>
     (lambda_exc + pyval \<times> (pystr \<times> pyval \<times> pystr) list) \<times> bulk_world" where
  "process_csv env db csv_path csv_rows dry r w =
     (case script_rows env db dry (dict_reader csv_rows) (init_state w r) of
        (Some e, st) \<Rightarrow> (Inl e, bs_world st)
      | (None, st) \<Rightarrow> (Inr (script_results env csv_path dry st, bs_creds st), bs_world st))"

text \<open>\<open>save_results\<close>: the files written, by name, with their contents.\<close>

definition save_results ::
  "bulk_env \<Rightarrow> ucd \<Rightarrow> pyval \<Rightarrow> (pystr \<times> pyval \<times> pystr) list \<Rightarrow> (pystr \<times> pystr) list" where
  "save_results env db results creds =
     [(asc ''registration_report_'' @ be_stamp env @ asc ''.json'', be_dumps env results)] @
     (if creds = [] then []
      else [(asc ''user_credentials_'' @ be_stamp env @ asc ''.csv'', credentials_csv db creds)])"

subsection \<open>Lemmas\<close>

text \<open>The part of the loop state that registration produces: the pool, the table, the
  draws, the counters and the credentials (not the S3 objects and the report entries).\<close>

definition acct_view :: "bulk_state \<Rightarrow> _" where
  "acct_view st =
     (st_pool (bs_world st), st_users (bs_world st), bs_rng st, bs_total st, bs_success st, bs_failed st,
      bs_skipped st, bs_creds st)"

text \<open>With a complete response, the two \<open>create_cognito_user\<close> change the pool alike and
  agree on raising, on the exception raised and on \<open>exists\<close>.\<close>

definition agree :: "lambda_exc + pyval \<Rightarrow> lambda_exc + pyval \<Rightarrow> bool" where
  "agree r1 r2 \<longleftrightarrow>
     (case r1 of Inl e \<Rightarrow> r2 = Inl e | Inr c \<Rightarrow> (\<exists>c'. r2 = Inr c' \<and> is_exists c' = is_exists c))"

definition same_truth :: "pyval \<Rightarrow> pyval \<Rightarrow> bool" where
  "same_truth a b \<longleftrightarrow> (py_truthy a \<or> py_truthy b \<longrightarrow> a = b)"

lemma acct_view_simps [simp]:
  "acct_view (row_failed env e ur st) = acct_view (st\<lparr>bs_failed := Suc (bs_failed st)\<rparr>)"
  "acct_view (row_exists ur st) = acct_view (st\<lparr>bs_skipped := Suc (bs_skipped st)\<rparr>)"
  "acct_view (skip_empty st) = acct_view (st\<lparr>bs_skipped := Suc (bs_skipped st)\<rparr>)"
  by (simp_all add: acct_view_def row_failed_def row_exists_def skip_empty_def)

lemma script_create_cognito_user_eq:
  "script_create_cognito_user env email pw False w =
     (if email \<in> dom (st_pool w) then (Inr exists_result, w)
      else case be_cognito_error env email of
             None \<Rightarrow> (script_cognito_success (be_cognito_resp env email), w\<lparr>st_pool := (st_pool w)(email \<mapsto> pw)\<rparr>)
           | Some (ClientError c m) \<Rightarrow>
               (if c = username_exists then Inr exists_result else Inl (ClientError c m), w)
           | Some e \<Rightarrow> (Inl e, w))"
  by (simp add: script_create_cognito_user_def admin_create_user_def split: option.split lambda_exc.split)

lemma script_success_ok:
  "resp_has_user resp \<Longrightarrow> \<exists>c. script_cognito_success resp = Inr c \<and> \<not> is_exists c"
  by (erule resp_has_userE) (simp add: script_cognito_success_def lambda_bind_def)

lemma cognito_agree:
  assumes "resp_has_user (be_cognito_resp env email)" "st_pool w1 = st_pool w2"
    "create_cognito_user env email pw w1 = (r1, w1')" "script_create_cognito_user env email pw False w2 = (r2, w2')"
  shows "agree r1 r2 \<and> st_pool w1' = st_pool w2' \<and> st_users w1' = st_users w1 \<and> st_users w2' = st_users w2"
proof (cases "email \<in> dom (st_pool w1)")
  case True
  then show ?thesis
    using assms(2-4) by (auto simp: create_cognito_user_eq script_create_cognito_user_eq agree_def)
next
  case False
  obtain c1 where c1: "cognito_success (be_cognito_resp env email) = Inr c1" "\<not> is_exists c1"
    using cognito_success_ok[OF assms(1)] by blast
  obtain c2 where c2: "script_cognito_success (be_cognito_resp env email) = Inr c2" "\<not> is_exists c2"
    using script_success_ok[OF assms(1)] by blast
  show ?thesis
  proof (cases "be_cognito_error env email")
    case None
    have cu1: "create_cognito_user env email pw w1 = (Inr c1, w1\<lparr>st_pool := (st_pool w1)(email \<mapsto> pw)\<rparr>)"
      using False None c1(1) by (simp add: create_cognito_user_eq)
    have cu2: "script_create_cognito_user env email pw False w2 = (Inr c2, w2\<lparr>st_pool := (st_pool w2)(email \<mapsto> pw)\<rparr>)"
      using False None c2(1) assms(2) by (simp add: script_create_cognito_user_eq)
    show ?thesis
      using cu1 cu2 assms(2-4) c1(2) c2(2) by (auto simp: agree_def)
  next
    case (Some e)
    then show ?thesis
      using False assms(2-4)
      by (cases e) (auto simp: create_cognito_user_eq script_create_cognito_user_eq agree_def split: if_splits)
  qed
qed

lemma clean_item_cong:
  "list_all2 (\<lambda>a b. fst a = fst b \<and> (py_truthy (snd a) \<or> py_truthy (snd b) \<longrightarrow> a = b)) xs ys \<Longrightarrow>
     clean_item xs = clean_item ys"
  by (induction rule: list_all2_induct) (auto simp: clean_item_def)

lemma split_names_same_truth:
  "fst (split_names ln fn) = ln" "same_truth fn (snd (split_names ln fn))"
  by (auto simp: split_names_def same_truth_def)

lemma dynamo_data_clean_cong:
  assumes "same_truth fn fn'" "same_truth fnk fnk'"
  shows "clean_item (dynamo_data env email pw row ln fn lnk fnk) = clean_item (dynamo_data env email pw row ln fn' lnk fnk')"
proof (rule clean_item_cong)
  show "list_all2 (\<lambda>a b. fst a = fst b \<and> (py_truthy (snd a) \<or> py_truthy (snd b) \<longrightarrow> a = b))
          (dynamo_data env email pw row ln fn lnk fnk) (dynamo_data env email pw row ln fn' lnk fnk')"
    using assms unfolding same_truth_def dynamo_data_def
    by (simp only: list_all2_Cons list_all2_Nil fst_conv snd_conv prod.inject simp_thms)
qed

lemma display_name_cong:
  assumes "same_truth fn fn'"
  shows "display_name db ln fn = display_name db ln fn'"
proof (cases "py_truthy fn \<or> py_truthy fn'")
  case True
  then have "fn = fn'" using assms by (simp add: same_truth_def)
  then show ?thesis by simp
next
  case False
  then show ?thesis by (simp add: display_name_def)
qed

lemma script_create_dynamodb_user_eq:
  "script_create_dynamodb_user env item False w =
     (case be_ddb_error env (item_id item) of
        None \<Rightarrow> (Inr (PDict (status_dict (asc ''success''))), w\<lparr>st_users := (st_users w)(item_id item \<mapsto> item)\<rparr>)
      | Some (ClientError c m) \<Rightarrow>
          (if c = conditional_check_failed then Inr exists_result else Inl (ClientError c m), w)
      | Some e \<Rightarrow> (Inl e, w))"
  by (cases "be_ddb_error env (item_id item)")
     (simp_all add: script_create_dynamodb_user_def ddb_put_def split: lambda_exc.split)

lemma ddb_agree:
  assumes "st_users w1 = st_users w2" "create_dynamodb_user env item w1 = (r1, w1')"
    "script_create_dynamodb_user env (clean_item item) False w2 = (r2, w2')"
  shows "agree r1 r2 \<and> st_users w1' = st_users w2' \<and> st_pool w1' = st_pool w1 \<and> st_pool w2' = st_pool w2"
proof (cases "be_ddb_error env (item_id (clean_item item))")
  case None
  then have "r1 = Inr (PDict (status_dict (asc ''success'')))" "r2 = Inr (PDict (status_dict (asc ''success'')))"
    "w1' = w1\<lparr>st_users := (st_users w1)(item_id (clean_item item) \<mapsto> clean_item item)\<rparr>"
    "w2' = w2\<lparr>st_users := (st_users w2)(item_id (clean_item item) \<mapsto> clean_item item)\<rparr>"
    using assms(2,3) by (simp_all add: create_dynamodb_user_eq script_create_dynamodb_user_eq)
  then show ?thesis using assms(1) by (simp add: agree_def)
next
  case (Some e)
  then have "r1 = r2" "w1' = w1" "w2' = w2"
    using assms(2,3)
    by (cases e; simp add: create_dynamodb_user_eq script_create_dynamodb_user_eq split: if_splits)+
  then show ?thesis
    using assms(1) by (cases r1) (auto simp: agree_def)
qed

lemma script_create_s3_folders_world:
  assumes "script_create_s3_folders env email dry w = (s, w1)"
  shows "st_pool w1 = st_pool w \<and> st_users w1 = st_users w"
proof (cases dry)
  case True
  then show ?thesis using assms by (simp add: script_create_s3_folders_def)
next
  case False
  obtain rs wa where f: "folders_put env (bulk_folders email) w = (rs, wa)" by (metis surj_pair)
  then show ?thesis
    using assms False folders_put_world[OF f] by (simp add: script_create_s3_folders_def)
qed

lemma bulk_state_rng_simps [simp]:
  "bs_rng (row_failed env e ur st) = bs_rng st" "bs_rng (row_exists ur st) = bs_rng st"
  "bs_rng (skip_empty st) = bs_rng st"
  by (simp_all add: row_failed_def row_exists_def skip_empty_def)

lemma register_agree:
  assumes "resp_has_user (be_cognito_resp env email)" "acct_view st1 = acct_view st2"
  shows "acct_view (lambda_register env db row email pw ur1 st1) = acct_view (script_register env db False row email pw ur2 st2)"
proof -
  have eq: "st_pool (bs_world st1) = st_pool (bs_world st2)" "st_users (bs_world st1) = st_users (bs_world st2)"
    "bs_rng st1 = bs_rng st2" "bs_total st1 = bs_total st2" "bs_success st1 = bs_success st2"
    "bs_failed st1 = bs_failed st2" "bs_skipped st1 = bs_skipped st2" "bs_creds st1 = bs_creds st2"
    using assms(2) by (simp_all add: acct_view_def)
  obtain r1 w1 where c1: "create_cognito_user env email pw (bs_world st1) = (r1, w1)" by (metis surj_pair)
  obtain r2 w2 where c2: "script_create_cognito_user env email pw False (bs_world st2) = (r2, w2)" by (metis surj_pair)
  have ag: "agree r1 r2" "st_pool w1 = st_pool w2" "st_users w1 = st_users w2"
    using cognito_agree[OF assms(1) eq(1) c1 c2] eq(2) by auto
  show ?thesis
  proof (cases r1)
    case (Inl e)
    then have "r2 = Inl e" using ag(1) by (simp add: agree_def)
    then show ?thesis
      using Inl c1 c2 ag eq by (simp add: lambda_register_def script_register_def acct_view_def)
  next
    case (Inr c)
    then obtain c' where c': "r2 = Inr c'" "is_exists c' = is_exists c" using ag(1) by (auto simp: agree_def)
    show ?thesis
    proof (cases "is_exists c")
      case True
      then show ?thesis
        using Inr c' c1 c2 ag eq by (simp add: lambda_register_def script_register_def acct_view_def Let_def)
    next
      case False
      let ?ln = "cell row col_last_name" and ?fn = "cell row col_first_name"
      let ?lnk = "cell row col_last_name_kana" and ?fnk = "cell row col_first_name_kana"
      obtain fn' where sn1: "split_names ?ln ?fn = (?ln, fn')" "same_truth ?fn fn'"
        using split_names_same_truth[where ln = ?ln and fn = ?fn] by (metis prod.collapse)
      obtain fnk' where sn2: "split_names ?lnk ?fnk = (?lnk, fnk')" "same_truth ?fnk fnk'"
        using split_names_same_truth[where ln = ?lnk and fn = ?fnk] by (metis prod.collapse)
      let ?item = "dynamo_data env email pw row ?ln ?fn ?lnk ?fnk"
      have ci: "clean_item (dynamo_data env email pw row ?ln fn' ?lnk fnk') = clean_item ?item"
        using dynamo_data_clean_cong[OF sn1(2) sn2(2)] by simp
      have dn: "display_name db ?ln fn' = display_name db ?ln ?fn"
        using display_name_cong[OF sn1(2)] by simp
      obtain d1 v1 where d1: "create_dynamodb_user env ?item w1 = (d1, v1)" by (metis surj_pair)
      obtain d2 v2 where d2: "script_create_dynamodb_user env (clean_item ?item) False w2 = (d2, v2)"
        by (metis surj_pair)
      have dag: "agree d1 d2" "st_users v1 = st_users v2" "st_pool v1 = st_pool w1" "st_pool v2 = st_pool w2"
        using ddb_agree[OF ag(3) d1 d2] by auto
      obtain s1 x1 where s1: "create_s3_folders env email v1 = (s1, x1)" by (metis surj_pair)
      obtain s2 x2 where s2: "script_create_s3_folders env email False v2 = (s2, x2)" by (metis surj_pair)
      have sw: "st_pool x1 = st_pool v1" "st_users x1 = st_users v1" "st_pool x2 = st_pool v2" "st_users x2 = st_users v2"
        using create_s3_folders_world[OF s1] script_create_s3_folders_world[OF s2] by auto
      show ?thesis
      proof (cases d1)
        case (Inl e)
        then have "d2 = Inl e" using dag(1) by (simp add: agree_def)
        then show ?thesis
          using Inr c' False c1 c2 ag eq sn1(1) sn2(1) ci d1 d2 Inl dag
          by (simp add: lambda_register_def script_register_def acct_view_def Let_def)
      next
        case (Inr dv)
        then obtain dv' where "d2 = Inr dv'" using dag(1) by (auto simp: agree_def)
        then show ?thesis
          using \<open>r1 = Inr c\<close> c' False c1 c2 ag eq sn1(1) sn2(1) ci dn d1 d2 Inr dag s1 s2 sw
          by (simp add: lambda_register_def script_register_def acct_view_def Let_def)
      qed
    qed
  qed
qed

lemma row_agree:
  assumes "\<forall>k. resp_has_user (be_cognito_resp env k)" "acct_view st1 = acct_view st2"
  shows "fst (lambda_row env db row st1) = fst (script_row env db False row st2) \<and>
         acct_view (snd (lambda_row env db row st1)) = acct_view (snd (script_row env db False row st2))"
proof -
  have eq: "bs_rng st1 = bs_rng st2" "bs_total st1 = bs_total st2"
    using assms(2) by (simp_all add: acct_view_def)
  let ?t1 = "st1\<lparr>bs_total := Suc (bs_total st1)\<rparr>" and ?t2 = "st2\<lparr>bs_total := Suc (bs_total st2)\<rparr>"
  have t: "acct_view ?t1 = acct_view ?t2" "acct_view (skip_empty ?t1) = acct_view (skip_empty ?t2)"
    "acct_view (?t1\<lparr>bs_rng := r\<rparr>) = acct_view (?t2\<lparr>bs_rng := r\<rparr>)" for r
    using assms(2) by (simp_all add: acct_view_def)
  have reg: "acct_view (lambda_register env db row email pw ur1 (?t1\<lparr>bs_rng := r\<rparr>)) =
             acct_view (script_register env db False row email pw ur2 (?t2\<lparr>bs_rng := r\<rparr>))" for email pw ur1 ur2 r
    using register_agree[OF spec[OF assms(1)] t(3)] .
  show ?thesis
    using t reg eq by (simp add: lambda_row_def script_row_def Let_def split: sum.split prod.split)
qed

lemma rows_agree:
  assumes "\<forall>k. resp_has_user (be_cognito_resp env k)"
  shows "acct_view st1 = acct_view st2 \<Longrightarrow>
     fst (lambda_rows env db rows st1) = fst (script_rows env db False rows st2) \<and>
     acct_view (snd (lambda_rows env db rows st1)) = acct_view (snd (script_rows env db False rows st2))"
proof (induction rows arbitrary: st1 st2)
  case Nil
  then show ?case by simp
next
  case (Cons row rows)
  obtain x1 u1 where l: "lambda_row env db row st1 = (x1, u1)" by (metis surj_pair)
  obtain x2 u2 where s: "script_row env db False row st2 = (x2, u2)" by (metis surj_pair)
  have "x1 = x2" "acct_view u1 = acct_view u2"
    using row_agree[OF assms Cons.prems, of db row] l s by simp_all
  then show ?case
    using Cons.IH[of u1 u2] l s by (cases x2) simp_all
qed

lemma is_exists_dry_run [simp]: "\<not> is_exists (dry_run_result m)"
  by (simp add: is_exists_def dry_run_result_def status_dict_def dict_get_def asc_def)

lemma script_register_dry:
  "bs_world (script_register env db True row email pw ur st) = bs_world st \<and>
   bs_failed (script_register env db True row email pw ur st) = bs_failed st"
  by (simp add: script_register_def script_create_cognito_user_def script_create_dynamodb_user_def
      script_create_s3_folders_def Let_def split: prod.split)

lemma script_row_dry:
  "bs_world (snd (script_row env db True row st)) = bs_world st \<and>
   bs_failed (snd (script_row env db True row st)) = bs_failed st"
  using script_register_dry
  by (simp add: script_row_def Let_def skip_empty_def split: sum.split prod.split)

subsection \<open>Properties of the script\<close>

text \<open>C30: A dry run (\<open>--dry-run\<close>) changes nothing in Cognito, DynamoDB or S3 and fails no
  row, whatever the rows; every row with an e-mail is counted as a success and its generated
  password still goes to the credentials file.\<close>

theorem dry_run_changes_nothing:
  "bs_world (snd (script_rows env db True rows st)) = bs_world st \<and>
   bs_failed (snd (script_rows env db True rows st)) = bs_failed st"
proof (induction rows arbitrary: st)
  case Nil
  then show ?case by simp
next
  case (Cons row rows)
  obtain x st1 where r: "script_row env db True row st = (x, st1)" by (metis surj_pair)
  have "bs_world st1 = bs_world st \<and> bs_failed st1 = bs_failed st"
    using script_row_dry[of env db row st] r by simp
  then show ?case
    using Cons.IH[of st1] r by (cases x) auto
qed

text \<open>C12: The command-line script (not a dry run) and the Lambda, given the same rows,
  draws and AWS behaviour (responses naming the user and its status), raise at the same row
  and create the same Cognito users with the same passwords, the same \<open>Users\<close> items, the
  same counts and the same credentials: the script's name handling only turns a missing
  first name into an empty one, which both drop from the item.\<close>

theorem script_matches_lambda:
  "\<forall>k. resp_has_user (be_cognito_resp env k) \<Longrightarrow>
     fst (lambda_rows env db rows (init_state w r)) = fst (script_rows env db False rows (init_state w r)) \<and>
     acct_view (snd (lambda_rows env db rows (init_state w r))) =
       acct_view (snd (script_rows env db False rows (init_state w r)))"
  by (rule rows_agree) simp_all

theorem script_matches_lambda_witness:
  "fst (lambda_rows example_bulk_env example_db (dict_reader example_csv) (init_state example_world (\<lambda>k. k))) =
     fst (script_rows example_bulk_env example_db False (dict_reader example_csv) (init_state example_world (\<lambda>k. k))) \<and>
   acct_view (snd (lambda_rows example_bulk_env example_db (dict_reader example_csv) (init_state example_world (\<lambda>k. k)))) =
     acct_view (snd (script_rows example_bulk_env example_db False (dict_reader example_csv) (init_state example_world (\<lambda>k. k))))"
  by (rule script_matches_lambda) (simp add: resp_has_user_def asc_def)

end
