(* ===== verification/Spec2Isabelle.thy ===== *)
theory Spec2Isabelle
  imports Segmenter Invoker Sanitizer Handler Profiles Foods BulkScript
begin

text \<open>
  \<^bold>\<open>A verification development for the FUUD health-advice chat backend.\<close>

  The program (\<open>src/lambda_deployment/temp_v17/\<close>) answers a chat request in four stages,
  composed in \<open>lambda_handler\<close> of \<open>lambda_function.py\<close>: the PII sanitizer
  (\<open>pii_sanitizer.py\<close>, class \<open>PIISanitizer\<close>) pseudonymizes the user id and redacts the
  free text, the blood, gene and vital data and the conversation history; the context builder
  (\<open>build_chat_messages\<close> and the \<open>build_*_context\<close> functions) assembles the role-tagged
  message list; the invoker (\<open>call_openai\<close>) sends it to the generation service with retries on
  rate limits; the segmenter (\<open>split_response_into_chunks\<close>) cuts the answer into display
  chunks. No state outlives a request. Beside it, the account Lambdas create a user's profile
  and S3 folders, two bulk-registration programs create users from a CSV (in Cognito, the
  \<open>Users\<close> table and S3), and a script imports the nutrition database.

  \<^bold>\<open>Layout.\<close>
  \<^item> \<open>Py_Prelude\<close>: Python 3 strings as lists of code points (\<open>pystr = nat list\<close>), and the
    \<open>str\<close> methods the program calls: \<open>strip\<close> (with Python's exact whitespace set),
    \<open>lower\<close>, \<open>split\<close>, \<open>join\<close>, \<open>startswith\<close>, \<open>in\<close>. Lemmas: \<open>strip\<close> is idempotent
    and characterised by its ends, \<open>join (split s) = s\<close>, \<open>split (join xs) = xs\<close> when no piece
    meets the separator, split pieces never contain the separator.
  \<^item> \<open>Segmenter\<close>: \<open>split_response_into_chunks\<close> and its helpers, with the round trip,
    totality, non-emptiness and delimiter-freeness of the chunks, and the fallback (which keeps
    the delimiters when every piece is blank or a label line).
  \<^item> \<open>Invoker\<close>: \<open>call_openai\<close> as a loop over the attempt number, parametric in the message type
    (the interface to the context builder) and in the service, a function from message list and
    attempt number to what the call returns or raises. A \<open>function\<close> with the measure
    \<open>max_retries - attempt\<close>. Theorems: the retry bound and the exact effect trace on
    exhaustion, fatal error and success.

  \<^item> \<open>Pyval\<close>: Python values as \<open>json.loads\<close> produces them (\<open>None\<close>, bool, int,
    float as a decimal \<open>m * 10 ^ e\<close>, str, list, dict as an association list), with
    truthiness, \<open>dict.get\<close>, \<open>or\<close>, comparison, \<open>str\<close>/\<open>repr\<close>, and Python's
    exceptions as the values of \<open>py_exc\<close>.
  \<^item> \<open>Regex\<close>: the part of Python's \<open>re\<close> that \<open>PII_PATTERNS\<close> needs: \<open>\b\<close> and
    greedy repetitions of character classes, matched over a character table \<open>ucd\<close> (word
    characters, digits, case variants: the Unicode data \<open>re\<close> consults), \<open>rx_ends\<close> listing
    match lengths in CPython's backtracking order and \<open>re_sub\<close> scanning left to right.
    Lemmas: \<open>rx_ends\<close> agrees with a declarative acceptance relation; a scan decomposes at its
    first match; a match in the output of a substitution whose replacement is a bracketed
    token of capitals comes from a match of the input at a position the scan did not replace.
  \<^item> \<open>Redaction\<close>: \<open>PII_PATTERNS\<close> and \<open>PIISanitizer.sanitize_text\<close> of
    \<open>pii_sanitizer.py\<close>. Theorems: no output of \<open>sanitize_text\<close> contains a match of any of
    the five patterns and redaction is idempotent; two evaluations document the specification's
    scenario and the finding that a phone number glued to Japanese text is not redacted. The proofs assume only
    \<open>ucd_ok\<close> of the table: the brackets are neither word characters nor digits and have no
    case variants, and no capital letter is a digit or a case variant of \<open>@\<close> (all true of
    Unicode); the examples use the tables \<open>ascii_ucd\<close> and \<open>cjk_ucd\<close>.

  \<^item> \<open>Sanitizer\<close>: the rest of \<open>PIISanitizer\<close> and \<open>sanitize_for_openai\<close>: the salt from
    the environment (\<open>get_salt\<close>), \<open>anonymize_user_id\<close> (SHA-256 and \<open>os.environ\<close> are fields
    of the record \<open>runtime\<close>), the blood, gene and vital allowlists, the history and
    \<open>sanitize_request\<close>. Theorems: shape of the sanitized request, its message and history
    texts free of the patterns, the allowlists (only the listed fields influence the output),
    token shape, the salt error, the topic copied verbatim (unredacted) into every sanitized
    request, and lemmas for the other findings (the salt and hash are never read for a falsy
    id, marker titles copied unredacted, \<open>TypeError\<close> on a string \<open>vo2Max\<close>, surrogates).
  \<^item> \<open>Pyfloat\<close>: IEEE doubles for the f-string formats of the context builder: \<open>float()\<close>
    of a JSON number rounds to nearest-even (subnormals and overflow included), \<open>'.Nf'\<close> rounds
    the double's exact value, \<open>'+d'\<close> prints a signed integer. Lemma: an integer below
    \<open>2 ^ 53\<close> formats as its digits and \<open>N\<close> zeros.
  \<^item> \<open>ContextBuilder\<close>: \<open>detect_symptoms_consultation\<close>, the blood, gene, vital and category
    renderers, \<open>build_initial_context\<close> and \<open>build_chat_messages\<close>, every Japanese literal a
    constant of code points generated from the source. Theorems: the structure of the message
    list; the blood context lists every item exactly once, grouped abnormal, caution, normal in
    data order (normal items in full: the count-only \<open>build_initial_context\<close> is never
    called); the no-data message for empty gene categories; the printing of integer vital
    metrics.
  \<^item> \<open>Handler\<close>: \<open>lambda_handler\<close>, \<open>get_openai_api_key\<close> and \<open>cors_headers\<close>. The external
    services are fields of \<open>handler_env\<close> (Secrets Manager result, client constructor,
    \<open>json.loads\<close>, the runtime, the sanitizer flag, the system prompt, the clock); the handler
    returns its effect trace (\<open>FetchSecret\<close>, then the invoker's requests and sleeps) and the
    response record with the CORS headers and a body per JSON shape. The phases are
    \<open>parse_body\<close>, \<open>read_fields\<close>, \<open>log_request\<close> (the \<open>len\<close> and \<open>get\<close> calls of the log
    lines, which can raise), validation, \<open>sanitize_step\<close> and message building in \<open>prepare\<close>,
    then \<open>call_openai\<close> with the default of three attempts and the segmenter. Theorems, across
    components: every message sent to the provider is a system message or PII-free and the last
    is the user's sanitized message; rejections never reach the provider but follow the secret
    fetch; every \<open>ValueError\<close> of the sanitizer (a lone surrogate included) is reported as a
    missing salt; a non-object body is an internal error; the empty-categories branch of the log
    lines is dead; blood lines built from sanitized data have empty names.

  \<^item> \<open>Profiles\<close>: the account Lambdas \<open>src/lambda_function.py\<close> (profile creation behind
    API Gateway) and \<open>src/lambda_cognito_trigger/lambda_function.py\<close> (the same as the Cognito
    PostConfirmation trigger), whose helpers \<open>validate_email\<close>, \<open>create_user_folders\<close>,
    \<open>create_user_profile\<close> and \<open>create_response\<close> are identical and modelled once. S3 and the
    \<open>Users\<close> table are an explicit \<open>store\<close>; each AWS call's outcome is a field of \<open>aws\<close>.
    Each request is a step of the store, and \<open>reachable\<close> is the inductive set of stores any
    sequence of requests produces. Theorems: by rule induction every table item is the profile
    of a valid address; a registration of an already registered address is answered 200 like
    a first one and overwrites the profile (the 409 branch is dead); a Cognito trigger is never
    answered with an API response.

  \<^item> \<open>Passwords\<close>: \<open>generate_temp_password\<close>, the same in both bulk files, in the state
    monad of \<open>HOL-Library.State_Monad\<close> over a sequence of random draws (a function
    \<open>nat \<Rightarrow> nat\<close>, the next draw at 0): \<open>secrets.choice\<close> and
    \<open>SystemRandom().shuffle\<close> (Fisher-Yates, as CPython's \<open>random.py\<close> writes it) over
    \<open>_randbelow\<close>, the draw modulo the bound. Theorem, for every sequence of draws: 12
    characters of the alphabet meeting the user pool's policy (the shuffle keeps the multiset).
  \<^item> \<open>BulkCommon\<close>, \<open>BulkLambda\<close>, \<open>BulkScript\<close>: bulk user registration from a CSV, by the
    S3-triggered Lambda \<open>src/lambda_cognito_trigger/bulk_register_lambda.py\<close> and by the
    command-line script \<open>bulk_register_users.py\<close> beside it. The world extends the account
    \<open>store\<close> by the Cognito pool (user name to temporary password); AWS failures and
    responses, the clocks, \<open>unquote_plus\<close>, the reading of the object, the \<open>csv\<close> module's
    rows and \<open>json.dumps\<close> are fields of \<open>bulk_env\<close>. \<open>csv.DictReader\<close> (restval
    \<open>None\<close> for short rows) and the \<open>csv.DictWriter\<close> of the credentials are written out. A
    row is a step of \<open>bulk_state\<close> (world, draws, counters, report entries, credentials); an
    exception that escapes a row (\<open>lower()\<close> on the \<open>None\<close> of a short row) ends the loop with
    the world as it is. Theorems: every credential is the password Cognito holds and the one in
    the user's profile (invariant over any rows and AWS failures); with AWS healthy, rows with
    distinct fresh e-mails are all registered (liveness); the summary's counters add up; a
    profile failure leaves an orphan account that a rerun skips; a short row aborts the Lambda
    before the report and credentials are saved; a dry run of the script changes nothing; and
    the script and the Lambda agree on the pool, the table, the counters and the credentials
    (equivalence through the agreement relation \<open>acct_view\<close>).

  \<^item> \<open>Foods\<close>: the import script \<open>src/scripts/import_mext_foods.py\<close>: \<open>clean_value\<close>,
    \<open>build_nutrients\<close>, \<open>format_food_id\<close> and the loop of \<open>import_to_dynamodb\<close>, with
    \<open>Decimal\<close> parsing and the refusal of \<open>put_item\<close> as parameters and the table as a map.
    Theorems: when every entry is an object the import finishes with one count per food and
    each item under its \<open>food_id\<close>; one non-object entry aborts the import from inside the
    \<open>except\<close> clause; a value \<open>"(-)"\<close> raises \<open>NameError\<close> (the \<open>except\<close> clause names the
    unimported module \<open>decimal\<close>) and loses the whole food.

  \<^bold>\<open>Bounds.\<close> No fuel is used: every loop of the program is over a finite input (the retry
  loop over \<open>max_retries - attempt\<close>, proved terminating; the row loops and the shuffle by
  structural recursion). The handler fixes \<open>max_retries = 3\<close> as the code's default argument
  does; the password length is the default 12.

  \<^bold>\<open>Not modelled.\<close> The AWS clients (Secrets Manager, S3, DynamoDB, Cognito) beyond the
  values they return, \<open>print\<close> output and \<open>json.dumps\<close> of the event in the log lines, the
  wall clock of \<open>time.sleep\<close> (a sleep is an effect in the trace), and the text of the system
  prompt (\<open>build_system_prompt\<close> returns a constant of about 570 lines with no logic; it is
  the parameter \<open>he_prompt\<close>). A completion whose content is \<open>None\<close> (then
  \<open>len(response)\<close> at line 208 raises \<open>TypeError\<close>, answered \<open>INTERNAL_ERROR\<close>): the
  model's completion always carries a string. The download, verification and \<open>main\<close> of the import script
  (HTTP, table scans, printing). Of bulk registration: the \<open>csv\<close> module's parsing of the
  text into rows and the UTF-8 decoding (fields of \<open>bulk_env\<close>), the script's \<open>main\<close>
  (argparse, printing) and its file writes (\<open>save_results\<close> returns the files it would
  write), and the uniform distribution of \<open>secrets\<close> (the theorems hold for every draw).
\<close>

end
